(* ===== verification/Kestara_Prelude.thy ===== *)
theory Kestara_Prelude
  imports Main "HOL-Library.Word" "HOL-Library.AList"
begin

unbundle bit_operations_syntax

text \<open>
  The vocabulary every component shares: Rust's machine integers, \<open>Result<_, String>\<close>
  with the operator \<open>?\<close>, the checked conversions \<open>try_from\<close>, byte order conversions,
  \<open>Duration\<close>, the decimal \<open>Display\<close> of an unsigned integer, UTF-8 validation and
  \<open>HashMap\<close> as an association list with distinct keys.
  The targets of the crate are 64-bit, so \<open>usize\<close> is a 64-bit word.
\<close>

named_theorems result_simps \<open>unfolding rules of the Result combinators\<close>
named_theorems bytes_simps \<open>byte order conversions and their lengths\<close>

subsection \<open>Machine integers\<close>

type_synonym u8 = "8 word"
type_synonym u16 = "16 word"
type_synonym u32 = "32 word"
type_synonym u64 = "64 word"
type_synonym usize = "64 word"
type_synonym i32 = "32 word"
type_synonym i64 = "64 word"
type_synonym bytes = "u8 list"

text \<open>
  \<open>T::try_from(value)\<close> for a signed \<open>value\<close> and an unsigned \<open>T\<close>: the value is kept when
  it lies in the range of \<open>T\<close>, and is refused otherwise. The last function converts an
  unsigned value to a signed type.
\<close>

definition try_unsigned :: "'a::len word \<Rightarrow> 'b::len word option" where
  "try_unsigned v =
     (if 0 \<le> sint v \<and> sint v < 2 ^ LENGTH('b) then Some (word_of_int (sint v)) else None)"

definition try_signed :: "'a::len word \<Rightarrow> 'b::len word option" where
  "try_signed v =
     (if uint v < 2 ^ (LENGTH('b) - 1) then Some (word_of_int (uint v)) else None)"

definition try_narrow_signed :: "'a::len word \<Rightarrow> 'b::len word option" where
  "try_narrow_signed v =
     (if - (2 ^ (LENGTH('b) - 1)) \<le> sint v \<and> sint v < 2 ^ (LENGTH('b) - 1)
      then Some (word_of_int (sint v)) else None)"

lemma uint_word_of_sint:
  assumes "0 \<le> sint v" and "sint v < 2 ^ LENGTH('b)"
  shows "uint (word_of_int (sint v) :: 'b::len word) = sint (v :: 'a::len word)"
proof -
  have "uint (word_of_int (sint v) :: 'b word) = take_bit LENGTH('b) (sint v)"
    by (rule uint_word_of_int_eq)
  also have "\<dots> = sint v" using assms by (rule take_bit_int_eq_self)
  finally show ?thesis .
qed

lemma try_unsigned_Some_iff:
  "(try_unsigned v :: 'b::len word option) = Some w \<longleftrightarrow> 0 \<le> sint v \<and> uint w = sint v"
  for v :: "'a::len word"
proof
  assume "(try_unsigned v :: 'b word option) = Some w"
  then have h: "0 \<le> sint v" "sint v < 2 ^ LENGTH('b)" "word_of_int (sint v) = w"
    unfolding try_unsigned_def by (metis option.inject option.distinct(1))+
  show "0 \<le> sint v \<and> uint w = sint v"
    using uint_word_of_sint [OF h(1,2)] h(1) unfolding h(3) by simp
next
  assume h: "0 \<le> sint v \<and> uint w = sint v"
  then have "sint v < 2 ^ LENGTH('b)" by (metis uint_lt2p)
  moreover have "word_of_int (sint v) = w" using h by (metis word_of_int_uint)
  ultimately show "(try_unsigned v :: 'b word option) = Some w"
    unfolding try_unsigned_def using h by metis
qed

lemma try_unsigned_None_iff:
  "(try_unsigned v :: 'b::len word option) = None \<longleftrightarrow> sint v < 0 \<or> 2 ^ LENGTH('b) \<le> sint v"
  by (auto simp: try_unsigned_def)

lemma sint_less_power_length: "sint v < 2 ^ LENGTH('a)" for v :: "'a::len word"
proof -
  have "sint v < 2 ^ (LENGTH('a) - 1)" by (rule sint_lt)
  also have "(2::int) ^ (LENGTH('a) - 1) \<le> 2 ^ LENGTH('a)" by simp
  finally show ?thesis .
qed

lemma try_unsigned_same [simp]:
  "(try_unsigned v :: 'a::len word option) = (if sint v < 0 then None else Some v)"
  for v :: "'a::len word"
  using sint_less_power_length [of v] by (simp add: try_unsigned_def)

lemma uint_half_iff_sint_nonneg: "uint v < 2 ^ (LENGTH('a) - 1) \<longleftrightarrow> 0 \<le> sint v"
  for v :: "'a::len word"
proof
  assume h: "uint v < 2 ^ (LENGTH('a) - 1)"
  have "sint v = signed_take_bit (LENGTH('a) - Suc 0) (uint v)" by (rule sint_uint)
  also have "\<dots> = uint v"
  proof (rule signed_take_bit_int_eq_self)
    show "- (2 ^ (LENGTH('a) - Suc 0)) \<le> uint v" by (rule order_trans [of _ 0]) simp_all
    show "uint v < 2 ^ (LENGTH('a) - Suc 0)" using h by simp
  qed
  finally show "0 \<le> sint v" by simp
next
  assume h: "0 \<le> sint v"
  have "uint v = take_bit LENGTH('a) (sint v)" by (rule uint_sint)
  also have "\<dots> = sint v" by (rule take_bit_int_eq_self [OF h sint_less_power_length])
  finally show "uint v < 2 ^ (LENGTH('a) - 1)" using sint_lt [of v] by simp
qed

lemma uint_eq_sint: "0 \<le> sint v \<Longrightarrow> uint v = sint v" for v :: "'a::len word"
  using try_unsigned_Some_iff [of v v] by simp

lemma sint_eq_0_iff: "sint v = 0 \<longleftrightarrow> v = 0" for v :: "'a::len word"
  by (metis signed_0 signed_word_eqI)

lemma sint_eq_m1_iff: "sint v = - 1 \<longleftrightarrow> v = - 1" for v :: "'a::len word"
  by (metis signed_word_eqI sint_n1)

text \<open>A checked conversion between the signed and the unsigned type of one width keeps the bits
  and refuses exactly the words whose top bit is set.\<close>

lemma try_signed_same:
  "(try_signed v :: 'a::len word option) = (if sint v < 0 then None else Some v)"
  for v :: "'a::len word"
  using uint_half_iff_sint_nonneg [of v] by (auto simp: try_signed_def)

subsection \<open>Result, the operator ? and map\_err\<close>

type_synonym 'a result = "string + 'a"

definition and_then :: "'e + 'a \<Rightarrow> ('a \<Rightarrow> 'e + 'b) \<Rightarrow> 'e + 'b" where
  "and_then r f = (case r of Inl e \<Rightarrow> Inl e | Inr x \<Rightarrow> f x)"

definition map_err :: "('e \<Rightarrow> 'f) \<Rightarrow> 'e + 'a \<Rightarrow> 'f + 'a" where
  "map_err f r = (case r of Inl e \<Rightarrow> Inl (f e) | Inr x \<Rightarrow> Inr x)"

definition map_ok :: "('a \<Rightarrow> 'b) \<Rightarrow> 'e + 'a \<Rightarrow> 'e + 'b" where
  "map_ok f r = (case r of Inl e \<Rightarrow> Inl e | Inr x \<Rightarrow> Inr (f x))"

definition ok_or :: "'e \<Rightarrow> 'a option \<Rightarrow> 'e + 'a" where
  "ok_or e v = (case v of None \<Rightarrow> Inl e | Some x \<Rightarrow> Inr x)"

definition unwrap_or :: "'a \<Rightarrow> 'e + 'a \<Rightarrow> 'a" where
  "unwrap_or d r = (case r of Inl _ \<Rightarrow> d | Inr x \<Rightarrow> x)"

lemma result_eqs [simp, result_simps]:
  "and_then (Inl e) f = Inl e" "and_then (Inr x) f = f x"
  "map_err g (Inl e) = Inl (g e)" "map_err g (Inr x) = Inr x"
  "map_ok h (Inl e) = Inl e" "map_ok h (Inr x) = Inr (h x)"
  "ok_or e None = Inl e" "ok_or e (Some x) = Inr x"
  "unwrap_or d (Inl e) = d" "unwrap_or d (Inr x) = x"
  by (simp_all add: and_then_def map_err_def map_ok_def ok_or_def unwrap_or_def)

lemma and_then_Inr_iff [result_simps]:
  "and_then r f = Inr y \<longleftrightarrow> (\<exists>x. r = Inr x \<and> f x = Inr y)"
  by (cases r) auto

lemma and_then_Inl_iff [result_simps]:
  "and_then r f = Inl e \<longleftrightarrow> r = Inl e \<or> (\<exists>x. r = Inr x \<and> f x = Inl e)"
  by (cases r) auto

lemma map_err_Inr_iff [simp, result_simps]: "map_err g r = Inr x \<longleftrightarrow> r = Inr x"
  by (cases r) auto

lemma map_err_Inl_iff [result_simps]: "map_err g r = Inl f \<longleftrightarrow> (\<exists>e. r = Inl e \<and> f = g e)"
  by (cases r) auto

lemma map_ok_Inr_iff [simp, result_simps]: "map_ok h r = Inr y \<longleftrightarrow> (\<exists>x. r = Inr x \<and> y = h x)"
  by (cases r) auto

lemma ok_or_Inr_iff [simp, result_simps]: "ok_or e v = Inr x \<longleftrightarrow> v = Some x"
  by (cases v) auto

lemma map_ok_Inl_iff [result_simps]: "map_ok h r = Inl e \<longleftrightarrow> r = Inl e"
  by (cases r) auto

lemma ok_or_Inl_iff [simp, result_simps]: "ok_or e v = Inl f \<longleftrightarrow> v = None \<and> f = e"
  by (cases v) auto

text \<open>\<open>iter().map(f).collect::<Result<Vec<_>, _>>()\<close>: the first error stops the traversal.\<close>

fun collect_results :: "('a \<Rightarrow> 'e + 'b) \<Rightarrow> 'a list \<Rightarrow> 'e + 'b list" where
  "collect_results f [] = Inr []"
| "collect_results f (x # xs) =
     and_then (f x) (\<lambda>y. and_then (collect_results f xs) (\<lambda>ys. Inr (y # ys)))"

lemma collect_results_Inr_iff:
  "collect_results f xs = Inr ys \<longleftrightarrow> list_all2 (\<lambda>x y. f x = Inr y) xs ys"
proof (induction xs arbitrary: ys)
  case Nil
  then show ?case by auto
next
  case (Cons x xs)
  then show ?case by (cases ys) (auto simp: result_simps)
qed

lemma collect_results_Inl:
  "collect_results f xs = Inl e \<Longrightarrow> \<exists>x\<in>set xs. f x = Inl e"
  by (induction xs) (auto simp: result_simps)

subsection \<open>Byte order\<close>

text \<open>
  \<open>to_le_bytes\<close> and \<open>to_be_bytes\<close> of an integer of \<open>n\<close> bytes, and the value a byte list
  denotes in each order.
\<close>

fun to_le_bytes :: "nat \<Rightarrow> 'a::len word \<Rightarrow> bytes" where
  "to_le_bytes 0 w = []"
| "to_le_bytes (Suc n) w = ucast w # to_le_bytes n (drop_bit 8 w)"

definition to_be_bytes :: "nat \<Rightarrow> 'a::len word \<Rightarrow> bytes" where
  "to_be_bytes n w = rev (to_le_bytes n w)"

fun from_le_bytes :: "bytes \<Rightarrow> 'a::len word" where
  "from_le_bytes [] = 0"
| "from_le_bytes (b # bs) = ucast b OR push_bit 8 (from_le_bytes bs)"

definition from_be_bytes :: "bytes \<Rightarrow> 'a::len word" where
  "from_be_bytes bs = from_le_bytes (rev bs)"

lemma length_to_le_bytes [simp, bytes_simps]: "length (to_le_bytes n w) = n"
  by (induction n arbitrary: w) auto

lemma length_to_be_bytes [simp, bytes_simps]: "length (to_be_bytes n w) = n"
  by (simp add: to_be_bytes_def)

lemma from_to_le_bytes [bytes_simps]:
  "from_le_bytes (to_le_bytes n w) = take_bit (8 * n) w" for w :: "'a::len word"
proof (induction n arbitrary: w)
  case 0
  then show ?case by simp
next
  case (Suc n)
  have "ucast (ucast w :: u8) OR push_bit 8 (take_bit (8 * n) (drop_bit 8 w))
        = take_bit (8 * Suc n) w"
    by (rule bit_word_eqI)
      (auto simp: bit_or_iff bit_push_bit_iff bit_take_bit_iff bit_drop_bit_eq bit_ucast_iff)
  with Suc show ?case by simp
qed

lemma from_to_le_bytes_full:
  "LENGTH('a) \<le> 8 * n \<Longrightarrow> from_le_bytes (to_le_bytes n w) = w" for w :: "'a::len word"
  by (simp add: from_to_le_bytes take_bit_word_eq_self)

lemma from_to_be_bytes_full:
  "LENGTH('a) \<le> 8 * n \<Longrightarrow> from_be_bytes (to_be_bytes n w) = w" for w :: "'a::len word"
  by (simp add: from_be_bytes_def to_be_bytes_def from_to_le_bytes_full)

lemma from_be_bytes_foldl:
  "from_be_bytes bs = (foldl (\<lambda>r b. push_bit 8 r OR ucast b) 0 bs :: 'a::len word)"
proof -
  have "(from_le_bytes cs :: 'a word) = foldr (\<lambda>b r. push_bit 8 r OR ucast b) cs 0" for cs :: bytes
    by (induction cs) (simp_all add: or.commute)
  then show ?thesis by (simp add: from_be_bytes_def foldr_conv_foldl)
qed

text \<open>Kotlin's \<open>b.toInt() and 0xff\<close>: the unsigned value of a byte.\<close>

lemma ucast_and_ff [simp]: "ucast b AND 0xff = (ucast b :: 'a::len word)" for b :: u8
proof (rule bit_word_eqI)
  fix k assume "k < LENGTH('a)"
  have m: "(0xff :: 'a word) = mask 8" by (simp add: mask_eq_exp_minus_1)
  show "bit (ucast b AND 0xff :: 'a word) k \<longleftrightarrow> bit (ucast b :: 'a word) k"
    unfolding m bit_and_iff bit_mask_iff bit_ucast_iff
    using bit_imp_le_length [of b k] by auto
qed

subsection \<open>Duration\<close>

text \<open>A \<open>std::time::Duration\<close> in nanoseconds. Division by an integer rounds down to a whole
  nanosecond and \<open>saturating_sub\<close> stops at zero, as on \<open>nat\<close>.\<close>

type_synonym duration = nat

definition from_millis :: "u64 \<Rightarrow> duration" where
  "from_millis ms = unat ms * 10 ^ 6"

definition from_secs :: "u64 \<Rightarrow> duration" where
  "from_secs s = unat s * 10 ^ 9"

lemma from_millis_inject [simp]: "from_millis a = from_millis b \<longleftrightarrow> a = b"
  by (simp add: from_millis_def word_unat_eq_iff)

subsection \<open>HashMap\<close>

text \<open>
  A \<open>HashMap\<close> is an association list with distinct keys: \<open>insert\<close> is \<^const>\<open>AList.update\<close>,
  \<open>get\<close> is \<^const>\<open>map_of\<close>, \<open>remove\<close> is \<^const>\<open>AList.delete\<close>, \<open>retain\<close> is \<^const>\<open>filter\<close>.
  The order of the list stands for the unspecified iteration order.
\<close>

type_synonym ('k, 'v) hash_map = "('k \<times> 'v) list"

abbreviation keys :: "('k, 'v) hash_map \<Rightarrow> 'k set" where
  "keys m \<equiv> fst ` set m"

definition hash_map_ok :: "('k, 'v) hash_map \<Rightarrow> bool" where
  "hash_map_ok m \<longleftrightarrow> distinct (map fst m)"

definition retain :: "('k \<Rightarrow> 'v \<Rightarrow> bool) \<Rightarrow> ('k, 'v) hash_map \<Rightarrow> ('k, 'v) hash_map" where
  "retain P m = filter (\<lambda>(k, v). P k v) m"

lemma hash_map_ok_Nil [simp]: "hash_map_ok []"
  by (simp add: hash_map_ok_def)

lemma hash_map_ok_update [simp]: "hash_map_ok m \<Longrightarrow> hash_map_ok (AList.update k v m)"
  by (simp add: hash_map_ok_def distinct_update)

lemma hash_map_ok_delete [simp]: "hash_map_ok m \<Longrightarrow> hash_map_ok (AList.delete k m)"
  by (simp add: hash_map_ok_def distinct_delete)

lemma hash_map_ok_retain [simp]: "hash_map_ok m \<Longrightarrow> hash_map_ok (retain P m)"
  unfolding hash_map_ok_def retain_def by (rule distinct_map_filter)

lemma keys_map_of: "k \<in> keys m \<longleftrightarrow> map_of m k \<noteq> None"
  by (simp add: map_of_eq_None_iff)

lemma keys_update [simp]: "keys (AList.update k v m) = insert k (keys m)"
  by (metis dom_map_of_conv_image_fst fun_upd_def dom_fun_upd update_conv' option.distinct(1))

lemma set_delete: "set (AList.delete k m) = {e \<in> set m. fst e \<noteq> k}"
  by (auto simp: AList.delete_eq)

lemma keys_delete [simp]: "keys (AList.delete k m) = keys m - {k}"
  by (auto simp: set_delete)

lemma set_retain: "set (retain P m) = {(k, v) \<in> set m. P k v}"
  by (auto simp: retain_def)

lemma map_of_retain:
  assumes "hash_map_ok m"
  shows "map_of (retain P m) k =
    (case map_of m k of None \<Rightarrow> None | Some v \<Rightarrow> if P k v then Some v else None)"
  using assms
proof (induction m)
  case Nil
  then show ?case by (simp add: retain_def)
next
  case (Cons e m)
  obtain j w where e: "e = (j, w)" by (cases e)
  with Cons.prems have j: "map_of m j = None" and m: "hash_map_ok m"
    by (auto simp: hash_map_ok_def map_of_eq_None_iff)
  show ?case
    using Cons.IH [OF m] j by (auto simp: e retain_def)
qed

lemma in_update_iff:
  assumes "hash_map_ok m"
  shows "(j, w) \<in> set (AList.update k v m) \<longleftrightarrow> (if j = k then w = v else (j, w) \<in> set m)"
proof -
  have "(j, w) \<in> set (AList.update k v m) \<longleftrightarrow> map_of (AList.update k v m) j = Some w"
    using assms by (simp add: hash_map_ok_def distinct_update)
  also have "\<dots> \<longleftrightarrow> (if j = k then w = v else map_of m j = Some w)"
    by (auto simp: update_conv')
  also have "\<dots> \<longleftrightarrow> (if j = k then w = v else (j, w) \<in> set m)"
    using assms by (simp add: hash_map_ok_def)
  finally show ?thesis .
qed

lemma update_fresh: "k \<notin> keys m \<Longrightarrow> AList.update k v m = m @ [(k, v)]"
  by (induction m) auto

end
