(* ===== verification/Rust_Strings.thy ===== *)
theory Rust_Strings
  imports Kestara_Prelude
begin

text \<open>
  What the crate uses of \<open>String\<close> and \<open>str\<close>. A Rust string is its UTF-8 bytes, so a HOL
  \<open>string\<close> holds one \<open>char\<close> per byte and \<open>len()\<close> is \<open>length\<close>. The theory holds the
  conversions to bytes, UTF-8 validation and the lossy decoder (each a translation of the
  standard library's tables), the decimal display of integers, and the text searches.
\<close>

subsection \<open>Strings and bytes\<close>

definition byte_of_char :: "char \<Rightarrow> u8" where
  "byte_of_char c = word_of_nat (of_char c)"

definition char_of_byte :: "u8 \<Rightarrow> char" where
  "char_of_byte b = char_of (unat b)"

definition into_bytes :: "string \<Rightarrow> bytes" where
  "into_bytes s = map byte_of_char s"

definition of_bytes :: "bytes \<Rightarrow> string" where
  "of_bytes bs = map char_of_byte bs"

lemma of_char_less: "(of_char c :: nat) < 256"
  by (metis of_char_mod_256 mod_less_divisor zero_less_numeral)

lemma char_of_byte_of_char [simp]: "char_of_byte (byte_of_char c) = c"
  using of_char_less [of c]
  by (simp add: char_of_byte_def byte_of_char_def unat_of_nat)

lemma byte_of_char_of_byte [simp]: "byte_of_char (char_of_byte b) = b"
proof -
  have "unat b < 2 ^ LENGTH(8)" by (rule unsigned_less)
  then have "unat b mod 256 = unat b" by simp
  then show ?thesis by (simp add: char_of_byte_def byte_of_char_def)
qed

lemma of_bytes_into_bytes [simp]: "of_bytes (into_bytes s) = s"
  by (simp add: of_bytes_def into_bytes_def comp_def)

lemma into_bytes_of_bytes [simp]: "into_bytes (of_bytes bs) = bs"
  by (simp add: of_bytes_def into_bytes_def comp_def)

lemma length_into_bytes [simp]: "length (into_bytes s) = length s"
  by (simp add: into_bytes_def)

lemma length_of_bytes [simp]: "length (of_bytes bs) = length bs"
  by (simp add: of_bytes_def)

lemma into_bytes_eq_Nil [simp]: "into_bytes s = [] \<longleftrightarrow> s = []"
  by (simp add: into_bytes_def)

subsection \<open>UTF-8\<close>

definition continuation :: "u8 \<Rightarrow> bool" where
  "continuation b \<longleftrightarrow> 0x80 \<le> b \<and> b \<le> 0xBF"

text \<open>The second byte a lead byte of a three- or four-byte sequence admits.\<close>

definition second3 :: "u8 \<Rightarrow> u8 \<Rightarrow> bool" where
  "second3 a b \<longleftrightarrow>
     (if a = 0xE0 then 0xA0 \<le> b \<and> b \<le> 0xBF
      else if a = 0xED then 0x80 \<le> b \<and> b \<le> 0x9F
      else continuation b)"

definition second4 :: "u8 \<Rightarrow> u8 \<Rightarrow> bool" where
  "second4 a b \<longleftrightarrow>
     (if a = 0xF0 then 0x90 \<le> b \<and> b \<le> 0xBF
      else if a = 0xF4 then 0x80 \<le> b \<and> b \<le> 0x8F
      else continuation b)"

text \<open>
  The first sequence of a nonempty input: \<open>(True, n)\<close> for a well-formed one of \<open>n\<close> bytes,
  \<open>(False, n)\<close> for a maximal ill-formed prefix of \<open>n\<close> bytes.
\<close>

definition utf8_head :: "bytes \<Rightarrow> bool \<times> nat" where
  "utf8_head bs =
    (let a = bs ! 0;
         has = (\<lambda>i P. i < length bs \<and> P (bs ! i))
     in if a < 0x80 then (True, 1)
        else if 0xC2 \<le> a \<and> a \<le> 0xDF then
          (if has 1 continuation then (True, 2) else (False, 1))
        else if 0xE0 \<le> a \<and> a \<le> 0xEF then
          (if \<not> has 1 (second3 a) then (False, 1)
           else if \<not> has 2 continuation then (False, 2)
           else (True, 3))
        else if 0xF0 \<le> a \<and> a \<le> 0xF4 then
          (if \<not> has 1 (second4 a) then (False, 1)
           else if \<not> has 2 continuation then (False, 2)
           else if \<not> has 3 continuation then (False, 3)
           else (True, 4))
        else (False, 1))"

lemma utf8_head_pos: "0 < snd (utf8_head bs)"
  by (simp add: utf8_head_def Let_def)

function utf8_valid :: "bytes \<Rightarrow> bool" where
  "utf8_valid bs =
     (if bs = [] then True
      else fst (utf8_head bs) \<and> utf8_valid (drop (snd (utf8_head bs)) bs))"
  by pat_completeness auto
termination
  by (relation "measure length") (auto simp: utf8_head_pos)

declare utf8_valid.simps [simp del]

definition replacement :: bytes where
  "replacement = [0xEF, 0xBF, 0xBD]"

function utf8_lossy :: "bytes \<Rightarrow> bytes" where
  "utf8_lossy bs =
     (if bs = [] then []
      else (if fst (utf8_head bs) then take (snd (utf8_head bs)) bs else replacement)
           @ utf8_lossy (drop (snd (utf8_head bs)) bs))"
  by pat_completeness auto
termination
  by (relation "measure length") (auto simp: utf8_head_pos)

declare utf8_lossy.simps [simp del]

lemma utf8_valid_Nil [simp]: "utf8_valid []"
  by (simp add: utf8_valid.simps)

lemma utf8_lossy_Nil [simp]: "utf8_lossy [] = []"
  by (simp add: utf8_lossy.simps)

text \<open>On well-formed input the lossy decoder changes nothing.\<close>

lemma utf8_lossy_valid: "utf8_valid bs \<Longrightarrow> utf8_lossy bs = bs"
proof (induction bs rule: utf8_valid.induct)
  case (1 bs)
  show ?case
  proof (cases "bs = []")
    case False
    with 1 have "fst (utf8_head bs)"
      and "utf8_lossy (drop (snd (utf8_head bs)) bs) = drop (snd (utf8_head bs)) bs"
      by (auto simp: utf8_valid.simps [of bs])
    with False show ?thesis by (simp add: utf8_lossy.simps [of bs])
  qed simp
qed

text \<open>
  \<open>String::from_utf8\<close> refuses ill-formed bytes (the message is \<open>Utf8Error\<close>'s and is a
  parameter), and \<open>String::from_utf8_lossy\<close> replaces them.
\<close>

definition from_utf8 :: "(bytes \<Rightarrow> string) \<Rightarrow> bytes \<Rightarrow> string result" where
  "from_utf8 utf8_error bs = (if utf8_valid bs then Inr (of_bytes bs) else Inl (utf8_error bs))"

definition from_utf8_lossy :: "bytes \<Rightarrow> string" where
  "from_utf8_lossy bs = of_bytes (utf8_lossy bs)"

text \<open>The strings of the program are well-formed UTF-8.\<close>

definition rust_string :: "string \<Rightarrow> bool" where
  "rust_string s \<longleftrightarrow> utf8_valid (into_bytes s)"

lemma from_utf8_into_bytes: "rust_string s \<Longrightarrow> from_utf8 err (into_bytes s) = Inr s"
  by (simp add: from_utf8_def rust_string_def)

lemma from_utf8_lossy_into_bytes: "rust_string s \<Longrightarrow> from_utf8_lossy (into_bytes s) = s"
  by (simp add: from_utf8_lossy_def rust_string_def utf8_lossy_valid)

lemma from_utf8_rust_string: "from_utf8 err bs = Inr s \<Longrightarrow> rust_string s \<and> into_bytes s = bs"
  by (auto simp: from_utf8_def rust_string_def split: if_splits)

text \<open>ASCII text is well-formed, so every message literal of the crate is a Rust string.\<close>

lemma utf8_valid_ascii: "(\<forall>b\<in>set bs. b < 0x80) \<Longrightarrow> utf8_valid bs"
proof (induction bs)
  case (Cons b bs)
  then have "utf8_head (b # bs) = (True, 1)" by (simp add: utf8_head_def)
  with Cons show ?case by (simp add: utf8_valid.simps [of "b # bs"])
qed simp

subsection \<open>Decimal display\<close>

fun show_nat :: "nat \<Rightarrow> string" where
  "show_nat n =
     (if n < 10 then [char_of (48 + n)] else show_nat (n div 10) @ [char_of (48 + n mod 10)])"

declare show_nat.simps [simp del]

definition show_unsigned :: "'a::len word \<Rightarrow> string" where
  "show_unsigned w = show_nat (unat w)"

definition show_signed :: "'a::len word \<Rightarrow> string" where
  "show_signed w =
     (if sint w < 0 then ''-'' @ show_nat (nat (- sint w)) else show_nat (nat (sint w)))"

definition show_bool :: "bool \<Rightarrow> string" where
  "show_bool b = (if b then ''true'' else ''false'')"

text \<open>The value of a digit string, and that display loses nothing.\<close>

definition read_nat :: "string \<Rightarrow> nat" where
  "read_nat s = foldl (\<lambda>n c. 10 * n + (of_char c - 48)) 0 s"

lemma read_show_nat [simp]: "read_nat (show_nat n) = n"
proof (induction n rule: show_nat.induct)
  case (1 n)
  show ?case
  proof (cases "n < 10")
    case True
    then show ?thesis by (simp add: show_nat.simps [of n] read_nat_def)
  next
    case False
    with 1 have "foldl (\<lambda>n c. 10 * n + (of_char c - 48)) 0 (show_nat (n div 10)) = n div 10"
      by (simp add: read_nat_def)
    with False show ?thesis by (simp add: show_nat.simps [of n] read_nat_def)
  qed
qed

lemma show_nat_inject [simp]: "show_nat m = show_nat n \<longleftrightarrow> m = n"
  by (metis read_show_nat)

lemma show_unsigned_inject [simp]: "show_unsigned v = show_unsigned w \<longleftrightarrow> v = w"
  by (simp add: show_unsigned_def word_unat_eq_iff)

subsection \<open>Searching\<close>

definition ends_with :: "string \<Rightarrow> string \<Rightarrow> bool" where
  "ends_with s t \<longleftrightarrow> length t \<le> length s \<and> drop (length s - length t) s = t"

fun contains :: "string \<Rightarrow> string \<Rightarrow> bool" where
  "contains [] t = (t = [])"
| "contains (c # s) t = (take (length t) (c # s) = t \<or> contains s t)"

lemma contains_iff: "contains s t \<longleftrightarrow> (\<exists>u v. s = u @ t @ v)"
proof (induction s)
  case (Cons c s)
  have split: "take (length t) (c # s) = t \<longleftrightarrow> (\<exists>v. c # s = t @ v)"
    by (metis append_eq_conv_conj append_take_drop_id)
  show ?case
  proof
    assume "contains (c # s) t"
    then show "\<exists>u v. c # s = u @ t @ v"
      using split Cons by (metis append_Cons append_Nil contains.simps(2))
  next
    assume "\<exists>u v. c # s = u @ t @ v"
    then obtain u v where uv: "c # s = u @ t @ v" by blast
    then show "contains (c # s) t"
    proof (cases u)
      case Nil
      with uv have "\<exists>v. c # s = t @ v" by auto
      then have "take (length t) (c # s) = t" using split by blast
      then show ?thesis by (subst contains.simps) blast
    next
      case (Cons d u')
      with uv have "s = u' @ t @ v" by simp
      with Cons.IH show ?thesis by auto
    qed
  qed
qed auto

lemma ends_with_iff: "ends_with s t \<longleftrightarrow> (\<exists>u. s = u @ t)"
  unfolding ends_with_def
  by (metis append_take_drop_id append_eq_conv_conj diff_diff_cancel diff_le_self length_append
      add_diff_cancel_right' le_add2)

end
