(* ===== verification/Codec.thy ===== *)
theory Codec
  imports Rust_Strings
begin

text \<open>
  The interface between the Rust writers and the Kotlin readers of the two binary formats. A
  writer appends the bytes of a value to its output; a reader takes a value from the front of its
  input and leaves the rest, or fails with the message of the exception it throws. The locale
  \<open>codec\<close> states what a pair of them promises; unique decodability and the law for a counted
  sequence are proved from it once.
\<close>

named_theorems reader_simps \<open>stepping rules of the readers\<close>

type_synonym 'a reader = "bytes \<Rightarrow> ('a \<times> bytes) result"

definition read_then :: "'a reader \<Rightarrow> ('a \<Rightarrow> 'b reader) \<Rightarrow> 'b reader" where
  "read_then r f = (\<lambda>bs. and_then (r bs) (\<lambda>(x, rest). f x rest))"

definition read_return :: "'a \<Rightarrow> 'a reader" where
  "read_return x = (\<lambda>bs. Inr (x, bs))"

text \<open>\<open>require(cond) { message }\<close> between two reads.\<close>

definition read_require :: "bool \<Rightarrow> string \<Rightarrow> 'a reader \<Rightarrow> 'a reader" where
  "read_require cond message r = (\<lambda>bs. if cond then r bs else Inl message)"

text \<open>\<open>if (input.readBoolean()) ... else null\<close>, and \<open>List(n) { ... }\<close>.\<close>

definition read_optional :: "bool \<Rightarrow> 'a reader \<Rightarrow> 'a option reader" where
  "read_optional present r =
     (if present then read_then r (\<lambda>x. read_return (Some x)) else read_return None)"

fun read_list :: "nat \<Rightarrow> 'a reader \<Rightarrow> 'a list reader" where
  "read_list 0 r = read_return []"
| "read_list (Suc n) r = read_then r (\<lambda>x. read_then (read_list n r) (\<lambda>xs. read_return (x # xs)))"

lemma read_return_eq [simp, reader_simps]: "read_return x bs = Inr (x, bs)"
  by (simp add: read_return_def)

lemma read_then_Inr [reader_simps]: "r bs = Inr (x, rest) \<Longrightarrow> read_then r f bs = f x rest"
  by (simp add: read_then_def)

lemma read_then_Inl: "r bs = Inl e \<Longrightarrow> read_then r f bs = Inl e"
  by (simp add: read_then_def)

lemma read_require_True [simp, reader_simps]: "cond \<Longrightarrow> read_require cond m r bs = r bs"
  by (simp add: read_require_def)

lemma read_require_False [simp]: "\<not> cond \<Longrightarrow> read_require cond m r bs = Inl m"
  by (simp add: read_require_def)

lemma read_optional_False [simp, reader_simps]: "read_optional False r bs = Inr (None, bs)"
  by (simp add: read_optional_def)

text \<open>
  A reader is stable when bytes after the ones it needs do not change what it returns. Every
  reader of the two formats is, which is why a truncated message is never mistaken for a whole one.
\<close>

definition stable_reader :: "'a reader \<Rightarrow> bool" where
  "stable_reader r \<longleftrightarrow>
     (\<forall>bs x rest more. r bs = Inr (x, rest) \<longrightarrow> r (bs @ more) = Inr (x, rest @ more))"

lemma stable_readerD:
  "stable_reader r \<Longrightarrow> r bs = Inr (x, rest) \<Longrightarrow> r (bs @ more) = Inr (x, rest @ more)"
  by (simp add: stable_reader_def)

lemma stable_read_return [intro]: "stable_reader (read_return x)"
  by (simp add: stable_reader_def)

lemma stable_read_fail [intro]: "stable_reader (\<lambda>bs. Inl e)"
  by (simp add: stable_reader_def)

lemma stable_read_then [intro]:
  "stable_reader r \<Longrightarrow> (\<And>x. stable_reader (f x)) \<Longrightarrow> stable_reader (read_then r f)"
  unfolding stable_reader_def read_then_def by (auto simp: and_then_Inr_iff)

lemma stable_read_require [intro]: "stable_reader r \<Longrightarrow> stable_reader (read_require cond m r)"
  by (simp add: stable_reader_def read_require_def)

lemma stable_if [intro]:
  "stable_reader r \<Longrightarrow> stable_reader s \<Longrightarrow> stable_reader (if b then r else s)"
  by simp

lemma stable_read_optional [intro]: "stable_reader r \<Longrightarrow> stable_reader (read_optional b r)"
  by (auto simp: read_optional_def)

lemma stable_read_list [intro]: "stable_reader r \<Longrightarrow> stable_reader (read_list n r)"
  by (induction n) auto

text \<open>A decoder that wants its input consumed refuses every proper prefix of what it accepts.\<close>

lemma stable_reader_prefix:
  assumes "stable_reader r" and "r (bs @ more) = Inr (x, [])" and "more \<noteq> []"
  shows "r bs \<noteq> Inr (y, [])"
proof
  assume "r bs = Inr (y, [])"
  from stable_readerD [OF assms(1) this, of more] assms(2,3) show False by simp
qed

locale codec =
  fixes enc :: "'a \<Rightarrow> bytes"
    and dec :: "'a reader"
    and admissible :: "'a \<Rightarrow> bool"
  assumes dec_enc: "admissible x \<Longrightarrow> dec (enc x @ rest) = Inr (x, rest)"
begin

lemma dec_enc_then:
  "admissible x \<Longrightarrow> read_then dec f (enc x @ rest) = f x rest"
  by (simp add: read_then_def dec_enc)

lemma uniquely_decodable:
  assumes "admissible x" and "admissible y" and "enc x @ r = enc y @ s"
  shows "x = y \<and> r = s"
proof -
  have "Inr (x, r) = dec (enc x @ r)" using assms(1) by (simp add: dec_enc)
  also have "\<dots> = Inr (y, s)" using assms(2,3) by (simp add: dec_enc)
  finally show ?thesis by simp
qed

lemma read_list_enc:
  "list_all admissible xs \<Longrightarrow>
   read_list (length xs) dec (concat (map enc xs) @ rest) = Inr (xs, rest)"
proof (induction xs)
  case (Cons x xs)
  then show ?case by (simp add: dec_enc_then read_then_Inr)
qed simp

lemma read_optional_enc:
  "(\<forall>x. v = Some x \<longrightarrow> admissible x) \<Longrightarrow>
   read_optional (v \<noteq> None) dec ((case v of None \<Rightarrow> [] | Some x \<Rightarrow> enc x) @ rest) = Inr (v, rest)"
  by (cases v) (simp_all add: read_optional_def dec_enc_then)

end

end
