(* ===== verification/Events.thy ===== *)
theory Events
  imports Rust_Strings
begin

text \<open>
  \<open>native/src/events.rs\<close>: the event kinds, \<open>NativeEvent\<close> with its constructors,
  \<open>OperationValue\<close>, and the two operations on the event queue, \<open>poll\<close> and \<open>wake\<close>. The queue
  is an unbounded FIFO channel, here the list of the events sent and not yet received.
  \<open>handleOperationCompletion\<close> is the Kotlin reader of a completion event
  (\<open>WebRtcRuntime.kt\<close>).
\<close>

subsection \<open>Event kinds\<close>

definition WAKE :: i32 where "WAKE = 0"
definition LOCAL_CANDIDATE :: i32 where "LOCAL_CANDIDATE = 1"
definition PEER_STATE :: i32 where "PEER_STATE = 2"
definition ICE_CONNECTION_STATE :: i32 where "ICE_CONNECTION_STATE = 3"
definition ICE_GATHERING_STATE :: i32 where "ICE_GATHERING_STATE = 4"
definition DATA_CHANNEL :: i32 where "DATA_CHANNEL = 5"
definition DATA_CHANNEL_OPEN :: i32 where "DATA_CHANNEL_OPEN = 6"
definition DATA_CHANNEL_CLOSING :: i32 where "DATA_CHANNEL_CLOSING = 7"
definition DATA_CHANNEL_CLOSED :: i32 where "DATA_CHANNEL_CLOSED = 8"
definition DATA_CHANNEL_ERROR :: i32 where "DATA_CHANNEL_ERROR = 9"
definition DATA_CHANNEL_TEXT :: i32 where "DATA_CHANNEL_TEXT = 10"
definition DATA_CHANNEL_BINARY :: i32 where "DATA_CHANNEL_BINARY = 11"
definition OPERATION_COMPLETE :: i32 where "OPERATION_COMPLETE = 12"
definition DATA_CHANNEL_BUFFERED_AMOUNT_LOW :: i32 where "DATA_CHANNEL_BUFFERED_AMOUNT_LOW = 13"
definition DATA_CHANNEL_BUFFERED_AMOUNT_HIGH :: i32 where "DATA_CHANNEL_BUFFERED_AMOUNT_HIGH = 14"
definition NEGOTIATION_NEEDED :: i32 where "NEGOTIATION_NEEDED = 15"
definition SIGNALING_STATE :: i32 where "SIGNALING_STATE = 16"

lemmas kind_defs =
  WAKE_def LOCAL_CANDIDATE_def PEER_STATE_def ICE_CONNECTION_STATE_def ICE_GATHERING_STATE_def
  DATA_CHANNEL_def DATA_CHANNEL_OPEN_def DATA_CHANNEL_CLOSING_def DATA_CHANNEL_CLOSED_def
  DATA_CHANNEL_ERROR_def DATA_CHANNEL_TEXT_def DATA_CHANNEL_BINARY_def OPERATION_COMPLETE_def
  DATA_CHANNEL_BUFFERED_AMOUNT_LOW_def DATA_CHANNEL_BUFFERED_AMOUNT_HIGH_def
  NEGOTIATION_NEEDED_def SIGNALING_STATE_def

subsection \<open>Events\<close>

text \<open>
  An \<open>OwnedSemaphorePermit\<close> is represented by the identity of the delivery semaphore it came from:
  each channel has one semaphore, created by \<open>register_channel\<close>.
\<close>

record native_event =
  ev_kind :: i32
  ev_peer_handle :: u64
  ev_channel_handle :: u64
  ev_operation_handle :: u64
  ev_text :: "string option"
  ev_secondary_text :: "string option"
  ev_number :: i32
  ev_data :: "bytes option"
  ev_delivery_permit :: "nat option"

record operation_value =
  val_peer_handle :: u64
  val_channel_handle :: u64
  val_text :: "string option"
  val_data :: "bytes option"

definition default_value :: operation_value where
  "default_value = \<lparr>val_peer_handle = 0, val_channel_handle = 0, val_text = None, val_data = None\<rparr>"

definition event_peer :: "i32 \<Rightarrow> u64 \<Rightarrow> i32 \<Rightarrow> native_event" where
  "event_peer kind peer_handle number =
     \<lparr>ev_kind = kind, ev_peer_handle = peer_handle, ev_channel_handle = 0,
      ev_operation_handle = 0, ev_text = None, ev_secondary_text = None,
      ev_number = number, ev_data = None, ev_delivery_permit = None\<rparr>"

definition event_channel :: "i32 \<Rightarrow> u64 \<Rightarrow> u64 \<Rightarrow> native_event" where
  "event_channel kind peer_handle channel_handle =
     \<lparr>ev_kind = kind, ev_peer_handle = peer_handle, ev_channel_handle = channel_handle,
      ev_operation_handle = 0, ev_text = None, ev_secondary_text = None,
      ev_number = 0, ev_data = None, ev_delivery_permit = None\<rparr>"

definition event_operation :: "u64 \<Rightarrow> operation_value result \<Rightarrow> native_event" where
  "event_operation operation_handle result =
     (case result of
        Inr value \<Rightarrow>
          \<lparr>ev_kind = OPERATION_COMPLETE, ev_peer_handle = val_peer_handle value,
           ev_channel_handle = val_channel_handle value, ev_operation_handle = operation_handle,
           ev_text = val_text value, ev_secondary_text = None, ev_number = 0,
           ev_data = val_data value, ev_delivery_permit = None\<rparr>
      | Inl error \<Rightarrow>
          \<lparr>ev_kind = OPERATION_COMPLETE, ev_peer_handle = 0, ev_channel_handle = 0,
           ev_operation_handle = operation_handle, ev_text = None,
           ev_secondary_text = Some error, ev_number = 1, ev_data = None,
           ev_delivery_permit = None\<rparr>)"

lemma event_operation_simps [simp]:
  "ev_kind (event_operation h r) = OPERATION_COMPLETE"
  "ev_operation_handle (event_operation h r) = h"
  "ev_delivery_permit (event_operation h r) = None"
  by (simp_all add: event_operation_def split: sum.split)

lemma event_peer_simps [simp]:
  "ev_kind (event_peer k p n) = k" "ev_peer_handle (event_peer k p n) = p"
  "ev_number (event_peer k p n) = n" "ev_delivery_permit (event_peer k p n) = None"
  by (simp_all add: event_peer_def)

lemma event_channel_simps [simp]:
  "ev_kind (event_channel k p c) = k" "ev_peer_handle (event_channel k p c) = p"
  "ev_channel_handle (event_channel k p c) = c" "ev_delivery_permit (event_channel k p c) = None"
  by (simp_all add: event_channel_def)

subsection \<open>The event queue\<close>

datatype recv_timeout_error = Timeout | Disconnected

text \<open>
  \<open>recv_timeout\<close> takes the oldest event; on an empty queue it fails with \<open>Timeout\<close>, or with
  \<open>Disconnected\<close> once no sender is left.
\<close>

definition recv_timeout :: "bool \<Rightarrow> 'a list \<Rightarrow> (recv_timeout_error + 'a) \<times> 'a list" where
  "recv_timeout connected q =
     (case q of
        [] \<Rightarrow> (Inl (if connected then Timeout else Disconnected), [])
      | e # q' \<Rightarrow> (Inr e, q'))"

definition poll :: "bool \<Rightarrow> native_event list \<Rightarrow> native_event option \<times> native_event list" where
  "poll connected receiver =
     (case recv_timeout connected receiver of
        (Inr event, q) \<Rightarrow> (if ev_kind event \<noteq> WAKE then Some event else None, q)
      | (Inl Timeout, q) \<Rightarrow> (None, q)
      | (Inl Disconnected, q) \<Rightarrow> (None, q))"

definition wake :: "native_event list \<Rightarrow> native_event list" where
  "wake sender = sender @ [event_peer WAKE 0 0]"

lemma poll_Nil [simp]: "poll c [] = (None, [])"
  by (simp add: poll_def recv_timeout_def)

lemma poll_Cons [simp]: "poll c (e # q) = (if ev_kind e \<noteq> WAKE then Some e else None, q)"
  by (simp add: poll_def recv_timeout_def)

lemma poll_Some_kind: "poll c q = (Some e, q') \<Longrightarrow> ev_kind e \<noteq> WAKE \<and> q = e # q'"
  by (cases q) (auto split: if_splits)

text \<open>
  What a sequence of calls of \<open>poll\<close> returns, and the queue they leave; the flag of a call says whether
  a sender is left at the time.
\<close>

fun poll_times :: "bool list \<Rightarrow> native_event list \<Rightarrow> native_event list \<times> native_event list" where
  "poll_times [] q = ([], q)"
| "poll_times (connected # cs) q =
     (case poll connected q of
        (None, q') \<Rightarrow> poll_times cs q'
      | (Some e, q') \<Rightarrow> (case poll_times cs q' of (es, q'') \<Rightarrow> (e # es, q'')))"

lemma poll_times_eq:
  "poll_times cs q = (filter (\<lambda>e. ev_kind e \<noteq> WAKE) (take (length cs) q), drop (length cs) q)"
proof (induction cs arbitrary: q)
  case (Cons c cs)
  then show ?case by (cases q) auto
qed simp

text \<open>
  C1: the consumer receives every event exactly once, in the order it was sent, and never a
  wake-up, also after the last sender is gone. After any sequence of polls the events returned,
  followed by the real events still queued, are the events sent, and each poll has taken one entry of the
  queue; a wake-up at the end of the queue adds nothing to what they return. On an empty queue a poll
  returns no event, whether it has timed out or the channel is disconnected.
\<close>

theorem poll_fifo:
  "fst (poll_times cs q) @ filter (\<lambda>e. ev_kind e \<noteq> WAKE) (snd (poll_times cs q))
     = filter (\<lambda>e. ev_kind e \<noteq> WAKE) q
   \<and> snd (poll_times cs q) = drop (length cs) q
   \<and> fst (poll_times cs (wake q)) = fst (poll_times cs q)
   \<and> poll True [] = (None, []) \<and> poll False [] = (None, [])"
proof -
  have "filter P (take n q) @ filter P (drop n q) = filter P q" for P :: "native_event \<Rightarrow> bool" and n
    by (metis append_take_drop_id filter_append)
  moreover have "filter (\<lambda>e. ev_kind e \<noteq> WAKE) (take n (wake q)) = filter (\<lambda>e. ev_kind e \<noteq> WAKE) (take n q)" for n
    by (cases "n - length q") (simp_all add: wake_def)
  ultimately show ?thesis by (simp add: poll_times_eq)
qed

subsection \<open>Completion events\<close>

datatype 'a completion = Complete 'a | CompleteExceptionally string

text \<open>
  The map of the pending operations, from their handles to their \<open>CompletableDeferred\<close>. The result is
  the deferred that is completed, if any, with its completion, and the map that is left.
\<close>

type_synonym 'd operations = "u64 \<Rightarrow> 'd option"

definition handleOperationCompletion ::
  "native_event \<Rightarrow> 'd operations \<Rightarrow> ('d \<times> native_event completion) option \<times> 'd operations" where
  "handleOperationCompletion event operations =
     (case operations (ev_operation_handle event) of
        None \<Rightarrow> (None, operations)
      | Some operation \<Rightarrow>
          (Some (operation,
             if ev_number event = 0 then Complete event
             else CompleteExceptionally
                    (case ev_secondary_text event of
                       None \<Rightarrow> ''WebRTC operation failed'' | Some message \<Rightarrow> message)),
           operations(ev_operation_handle event := None)))"

text \<open>The handler on a sequence of events: the completions in their order, and the operations left.\<close>

fun handle_completions ::
  "native_event list \<Rightarrow> 'd operations \<Rightarrow> ('d \<times> native_event completion) list \<times> 'd operations" where
  "handle_completions [] operations = ([], operations)"
| "handle_completions (e # es) operations =
     (case handleOperationCompletion e operations of
        (c, operations) \<Rightarrow> (case handle_completions es operations of
          (cs, operations) \<Rightarrow> ((case c of None \<Rightarrow> [] | Some c \<Rightarrow> [c]) @ cs, operations)))"

text \<open>What the caller of an operation is to be given for its result.\<close>

definition operation_outcome :: "u64 \<Rightarrow> operation_value result \<Rightarrow> native_event completion" where
  "operation_outcome h r =
     (case r of
        Inl message \<Rightarrow> CompleteExceptionally message
      | Inr v \<Rightarrow> Complete
          \<lparr>ev_kind = OPERATION_COMPLETE, ev_peer_handle = val_peer_handle v,
           ev_channel_handle = val_channel_handle v, ev_operation_handle = h, ev_text = val_text v,
           ev_secondary_text = None, ev_number = 0, ev_data = val_data v, ev_delivery_permit = None\<rparr>)"

lemma handle_event_operation:
  "handleOperationCompletion (event_operation h r) operations =
     (case operations h of
        None \<Rightarrow> (None, operations)
      | Some d \<Rightarrow> (Some (d, operation_outcome h r), operations(h := None)))"
  by (auto simp: handleOperationCompletion_def event_operation_def operation_outcome_def
      split: sum.split option.split)

lemma filter_clearjunk_forget:
  "filter (\<lambda>(h, r). (operations(k := None)) h \<noteq> None) (AList.clearjunk rs)
     = filter (\<lambda>(h, r). operations h \<noteq> None) (AList.clearjunk (AList.delete k rs))"
  unfolding clearjunk_delete unfolding AList.delete_eq filter_filter
  by (rule filter_cong) (auto split: if_split_asm)

text \<open>
  C2: every pending operation is completed by its own answer, at most once. Whatever results the engine
  sends, in whatever order, also for operations that nobody waits for and more than once for the same
  operation: the handler completes, in the order of the answers, exactly the operations that are pending,
  each with the first of its answers, with all fields of the \<open>OperationValue\<close> on success and with the
  error message of the engine on failure; the pending operations that got no answer stay pending.
\<close>

theorem operation_event_outcome:
  "handle_completions (map (\<lambda>(h, r). event_operation h r) answers) operations =
     (map (\<lambda>(h, r). (the (operations h), operation_outcome h r))
        (filter (\<lambda>(h, r). operations h \<noteq> None) (AList.clearjunk answers)),
      \<lambda>h. if h \<in> fst ` set answers then None else operations h)"
proof (induction answers arbitrary: operations)
  case (Cons a rs)
  obtain h r where a: "a = (h, r)" by fastforce
  show ?case
  proof (cases "operations h")
    case None
    have "filter (\<lambda>(h, r). operations h \<noteq> None) (AList.clearjunk rs)
        = filter (\<lambda>(h, r). operations h \<noteq> None) (AList.clearjunk (AList.delete h rs))"
      using filter_clearjunk_forget [of operations h rs] None by (simp add: fun_upd_idem)
    then show ?thesis
      using None by (auto simp: a Cons.IH handle_event_operation fun_eq_iff)
  next
    case (Some d)
    have "map (\<lambda>(h', r). (the ((operations(h := None)) h'), operation_outcome h' r))
          (filter (\<lambda>(h', r). (operations(h := None)) h' \<noteq> None) (AList.clearjunk rs))
        = map (\<lambda>(h', r). (the (operations h'), operation_outcome h' r))
          (filter (\<lambda>(h', r). (operations(h := None)) h' \<noteq> None) (AList.clearjunk rs))"
      by (rule map_cong) (auto split: if_split_asm)
    with Some filter_clearjunk_forget [of operations h rs] show ?thesis
      by (auto simp: a Cons.IH handle_event_operation fun_eq_iff)
  qed
qed simp

end
