(* ===== verification/Event_Wire.thy ===== *)
theory Event_Wire
  imports Codec Events
begin

text \<open>
  The binary form of an event on the C boundary: \<open>encode_event\<close> and \<open>encode_optional\<close> of
  \<open>native/src/c_bridge.rs\<close>, and the reader of the Kotlin/Native side, \<open>NativeEventDecoder.kt\<close>.
  A Kotlin \<open>Int\<close> is a 32-bit word and a \<open>Long\<close> a 64-bit word; a Kotlin \<open>String\<close> is
  represented by its UTF-8 bytes, so \<open>decodeToString\<close> is the lossy UTF-8 decoder.
\<close>

subsection \<open>The Rust writer\<close>

text \<open>\<open>i32::try_from(value.len()).unwrap_or(i32::MAX)\<close>\<close>

definition clamped_length :: "'a list \<Rightarrow> i32" where
  "clamped_length value = (if length value < 2 ^ 31 then word_of_nat (length value) else 0x7FFFFFFF)"

definition encode_optional :: "bytes \<Rightarrow> bytes option \<Rightarrow> bytes" where
  "encode_optional output value =
     (case value of
        Some value \<Rightarrow>
          (let len = clamped_length value;
               n = (case try_unsigned len :: usize option of None \<Rightarrow> 0 | Some n \<Rightarrow> n)
           in output @ to_le_bytes 4 len @ take (unat n) value)
      | None \<Rightarrow> output @ to_le_bytes 4 (- 1 :: i32))"

definition encode_event :: "native_event \<Rightarrow> bytes" where
  "encode_event event =
     (let output = [1] @ to_le_bytes 4 (ev_kind event) @ to_le_bytes 8 (ev_peer_handle event)
                   @ to_le_bytes 8 (ev_channel_handle event)
                   @ to_le_bytes 8 (ev_operation_handle event)
                   @ to_le_bytes 4 (ev_number event);
          output = encode_optional output (map_option into_bytes (ev_text event));
          output = encode_optional output (map_option into_bytes (ev_secondary_text event))
      in encode_optional output (ev_data event))"

subsection \<open>The Kotlin reader\<close>

definition requireAvailable :: "nat \<Rightarrow> 'a reader \<Rightarrow> 'a reader" where
  "requireAvailable count r =
     (\<lambda>bs. if count \<le> length bs then r bs else Inl ''Native event ended unexpectedly'')"

definition le_byte :: "i32 reader" where
  "le_byte = requireAvailable 1 (\<lambda>bs. Inr (ucast (bs ! 0) AND 0xff, drop 1 bs))"

text \<open>\<open>repeat(n) { index -> result = result or ((data[offset++] and 0xff) shl (index * 8)) }\<close>\<close>

fun le_loop :: "nat \<Rightarrow> nat \<Rightarrow> 'a::len word \<Rightarrow> bytes \<Rightarrow> 'a word \<times> bytes" where
  "le_loop 0 index result bs = (result, bs)"
| "le_loop (Suc n) index result bs =
     le_loop n (Suc index) (result OR push_bit (index * 8) (ucast (bs ! 0) AND 0xff)) (drop 1 bs)"

definition le_int :: "i32 reader" where
  "le_int = requireAvailable 4 (\<lambda>bs. Inr (le_loop 4 0 0 bs))"

definition le_long :: "i64 reader" where
  "le_long = requireAvailable 8 (\<lambda>bs. Inr (le_loop 8 0 0 bs))"

definition optionalBytes :: "bytes option reader" where
  "optionalBytes =
     read_then le_int (\<lambda>len.
       if len = - 1 then read_return None
       else read_require (0 \<le> sint len) ''Invalid native event payload length''
         (requireAvailable (nat (sint len))
           (\<lambda>bs. Inr (Some (take (nat (sint len)) bs), drop (nat (sint len)) bs))))"

definition optionalText :: "string option reader" where
  "optionalText = read_then optionalBytes (\<lambda>v. read_return (map_option from_utf8_lossy v))"

definition read_event :: "native_event reader" where
  "read_event =
     read_then le_byte (\<lambda>version.
       if version \<noteq> 1
       then (\<lambda>bs. Inl (''Unsupported native event format: '' @ show_signed version))
       else read_then le_int (\<lambda>kind.
            read_then le_long (\<lambda>peerHandle.
            read_then le_long (\<lambda>channelHandle.
            read_then le_long (\<lambda>operationHandle.
            read_then le_int (\<lambda>number.
            read_then optionalText (\<lambda>text.
            read_then optionalText (\<lambda>secondaryText.
            read_then optionalBytes (\<lambda>data.
            read_return
              \<lparr>ev_kind = kind, ev_peer_handle = peerHandle, ev_channel_handle = channelHandle,
               ev_operation_handle = operationHandle, ev_text = text,
               ev_secondary_text = secondaryText, ev_number = number, ev_data = data,
               ev_delivery_permit = None\<rparr>)))))))))"

definition decode_event :: "bytes \<Rightarrow> native_event result" where
  "decode_event data =
     and_then (read_event data) (\<lambda>(event, remaining).
       if remaining \<noteq> [] then Inl ''Native event contains trailing data'' else Inr event)"

subsection \<open>The primitive codecs\<close>

lemma le_loop_eq:
  "n \<le> length bs \<Longrightarrow>
   le_loop n i acc bs = (acc OR push_bit (8 * i) (from_le_bytes (take n bs)), drop n bs)"
proof (induction n arbitrary: i acc bs)
  case (Suc n)
  then obtain b cs where bs: "bs = b # cs" by (cases bs) auto
  have "push_bit (8 * Suc i) w = push_bit (8 * i) (push_bit 8 w)" for w :: "'a word"
    by (simp add: push_bit_push_bit add.commute)
  with Suc show ?case
    by (simp add: bs push_bit_or or.assoc mult.commute)
qed simp

interpretation le_int_codec: codec "to_le_bytes 4 :: i32 \<Rightarrow> bytes" le_int "\<lambda>_. True"
  by unfold_locales
    (simp add: le_int_def requireAvailable_def le_loop_eq from_to_le_bytes_full)

interpretation le_long_codec: codec "to_le_bytes 8 :: u64 \<Rightarrow> bytes" le_long "\<lambda>_. True"
  by unfold_locales
    (simp add: le_long_def requireAvailable_def le_loop_eq from_to_le_bytes_full)

text \<open>The optional payloads: a payload shorter than \<open>2 ^ 31\<close> bytes is written in full.\<close>

definition payload_ok :: "'a list option \<Rightarrow> bool" where
  "payload_ok v \<longleftrightarrow> (\<forall>x. v = Some x \<longrightarrow> length x < 2 ^ 31)"

lemma encode_optional_append: "encode_optional out v = out @ encode_optional [] v"
  by (simp add: encode_optional_def Let_def split: option.split)

lemma clamped_length_small:
  assumes "length x < 2 ^ 31"
  shows "uint (clamped_length x) = int (length x)" and "sint (clamped_length x) = int (length x)"
proof -
  have u: "uint (clamped_length x) = int (length x)"
    using assms by (simp add: clamped_length_def unsigned_of_nat take_bit_nat_eq_self_iff
        take_bit_int_eq_self_iff)
  then show "uint (clamped_length x) = int (length x)" .
  have "0 \<le> sint (clamped_length x)"
    using u assms uint_half_iff_sint_nonneg [of "clamped_length x"] by simp
  then have "(try_unsigned (clamped_length x) :: i32 option) = Some (clamped_length x)" by simp
  then show "sint (clamped_length x) = int (length x)"
    using u by (simp only: try_unsigned_Some_iff)
qed

lemma encode_optional_Some:
  assumes "length x < 2 ^ 31"
  shows "encode_optional [] (Some x) = to_le_bytes 4 (clamped_length x) @ x"
proof -
  have len: "sint (clamped_length x) = int (length x)" by (rule clamped_length_small [OF assms])
  obtain n :: usize where n: "try_unsigned (clamped_length x) = Some n"
    using len assms by (cases "try_unsigned (clamped_length x) :: usize option")
      (auto simp: try_unsigned_None_iff)
  then have "uint n = int (length x)" using len by (simp add: try_unsigned_Some_iff)
  then have "unat n = length x" by (metis nat_int unat_eq_nat_uint)
  then show ?thesis by (simp add: encode_optional_def Let_def n)
qed

lemma optionalBytes_encode:
  assumes "payload_ok v"
  shows "optionalBytes (encode_optional [] v @ rest) = Inr (v, rest)"
proof (cases v)
  case None
  have "encode_optional [] None = to_le_bytes 4 (- 1 :: i32)" by (simp add: encode_optional_def)
  then show ?thesis
    by (simp add: None optionalBytes_def le_int_codec.dec_enc_then)
next
  case (Some x)
  with assms have x: "length x < 2 ^ 31" by (simp add: payload_ok_def)
  have len: "sint (clamped_length x) = int (length x)" by (rule clamped_length_small [OF x])
  then have "clamped_length x \<noteq> - 1" by auto
  with len show ?thesis
    by (simp add: Some optionalBytes_def encode_optional_Some [OF x] le_int_codec.dec_enc_then
        requireAvailable_def)
qed

interpretation optional_codec: codec "encode_optional []" optionalBytes payload_ok
  by unfold_locales (rule optionalBytes_encode)

definition text_ok :: "string option \<Rightarrow> bool" where
  "text_ok v \<longleftrightarrow> payload_ok v \<and> (\<forall>s. v = Some s \<longrightarrow> rust_string s)"

interpretation text_codec: codec "\<lambda>v. encode_optional [] (map_option into_bytes v)"
    optionalText text_ok
proof unfold_locales
  fix v :: "string option" and rest
  assume ok: "text_ok v"
  then have p: "payload_ok (map_option into_bytes v)" by (auto simp: text_ok_def payload_ok_def)
  have "map_option from_utf8_lossy (map_option into_bytes v) = v"
    using ok by (cases v) (auto simp: text_ok_def from_utf8_lossy_into_bytes)
  then show "optionalText (encode_optional [] (map_option into_bytes v) @ rest) = Inr (v, rest)"
    by (simp add: optionalText_def optional_codec.dec_enc_then [OF p])
qed

subsection \<open>The event codec\<close>

lemma encode_event_eq:
  "encode_event e =
     1 # to_le_bytes 4 (ev_kind e) @ to_le_bytes 8 (ev_peer_handle e)
       @ to_le_bytes 8 (ev_channel_handle e) @ to_le_bytes 8 (ev_operation_handle e)
       @ to_le_bytes 4 (ev_number e)
       @ encode_optional [] (map_option into_bytes (ev_text e))
       @ encode_optional [] (map_option into_bytes (ev_secondary_text e))
       @ encode_optional [] (ev_data e)"
  unfolding encode_event_def Let_def
  by (subst (1 2 3) encode_optional_append) simp

lemma encode_optional_length_payload:
  "length (encode_optional [] v) < 2 ^ 31 \<Longrightarrow> payload_ok v"
proof (rule ccontr)
  assume l: "length (encode_optional [] v) < 2 ^ 31" and "\<not> payload_ok v"
  then obtain x where v: "v = Some x" and x: "2 ^ 31 \<le> length x"
    by (auto simp: payload_ok_def)
  have "clamped_length x = 0x7FFFFFFF" using x by (simp add: clamped_length_def)
  then have "encode_optional [] v =
      to_le_bytes 4 (0x7FFFFFFF :: i32) @ take 2147483647 x"
    by (simp add: v encode_optional_def try_unsigned_def)
  with l x show False by simp
qed

lemma le_byte_version: "read_then le_byte f (1 # bs) = f 1 bs"
  by (simp add: le_byte_def requireAvailable_def read_then_def)

lemma text_and_payload_ok:
  assumes "\<forall>s. ev_text e = Some s \<longrightarrow> rust_string s"
    and "\<forall>s. ev_secondary_text e = Some s \<longrightarrow> rust_string s"
    and "length (encode_event e) < 2 ^ 31"
  shows "text_ok (ev_text e)" and "text_ok (ev_secondary_text e)" and "payload_ok (ev_data e)"
  using assms encode_optional_length_payload [of "map_option into_bytes (ev_text e)"]
    encode_optional_length_payload [of "map_option into_bytes (ev_secondary_text e)"]
    encode_optional_length_payload [of "ev_data e"]
  by (auto simp: encode_event_eq text_ok_def payload_ok_def)

lemma read_encode_event:
  assumes "text_ok (ev_text e)" and "text_ok (ev_secondary_text e)" and "payload_ok (ev_data e)"
  shows "read_event (encode_event e @ rest) = Inr (e\<lparr>ev_delivery_permit := None\<rparr>, rest)"
  by (simp add: encode_event_eq read_event_def le_byte_version
      le_int_codec.dec_enc_then le_long_codec.dec_enc_then
      text_codec.dec_enc_then [OF assms(1)] text_codec.dec_enc_then [OF assms(2)]
      optional_codec.dec_enc_then [OF assms(3)])

lemma stable_le_loop:
  "n \<le> length bs \<Longrightarrow> le_loop n i acc (bs @ extra) = map_prod id (\<lambda>rest. rest @ extra) (le_loop n i acc bs)"
  by (simp add: le_loop_eq)

lemma stable_requireAvailable:
  assumes "\<And>bs x rest extra. n \<le> length bs \<Longrightarrow> r bs = Inr (x, rest) \<Longrightarrow>
    r (bs @ extra) = Inr (x, rest @ extra)"
  shows "stable_reader (requireAvailable n r)"
  using assms by (auto simp: stable_reader_def requireAvailable_def split: if_splits)

lemma stable_event_readers [intro]:
  "stable_reader le_byte" "stable_reader le_int" "stable_reader le_long"
  unfolding le_byte_def le_int_def le_long_def
  by (rule stable_requireAvailable; fastforce simp: stable_le_loop nth_append)+

lemma stable_optionalBytes [intro]: "stable_reader optionalBytes"
  unfolding optionalBytes_def
  by (intro stable_read_then stable_event_readers stable_if stable_read_return stable_read_require
      stable_requireAvailable) auto

lemma stable_optionalText [intro]: "stable_reader optionalText"
  unfolding optionalText_def by auto

lemma stable_read_event: "stable_reader read_event"
  unfolding read_event_def by (intro stable_read_then stable_if) auto

text \<open>
  C3: what the Rust side encodes, the Kotlin side decodes: for every event whose texts are
  well-formed UTF-8 and whose encoding fits a Kotlin \<open>ByteArray\<close> (fewer than \<open>2 ^ 31\<close> bytes), the
  decoder returns every field unchanged. Only the delivery permit does not cross the boundary.
\<close>

theorem decode_encode_event:
  assumes "\<forall>s. ev_text e = Some s \<longrightarrow> rust_string s"
    and "\<forall>s. ev_secondary_text e = Some s \<longrightarrow> rust_string s"
    and "length (encode_event e) < 2 ^ 31"
  shows "decode_event (encode_event e) = Inr (e\<lparr>ev_delivery_permit := None\<rparr>)"
  using read_encode_event [OF text_and_payload_ok [OF assms], where rest = "[]"]
  by (simp add: decode_event_def)

definition sample_event :: native_event where
  "sample_event =
     \<lparr>ev_kind = DATA_CHANNEL_TEXT, ev_peer_handle = 1, ev_channel_handle = 2,
      ev_operation_handle = 0, ev_text = Some ''hi'', ev_secondary_text = None, ev_number = - 1,
      ev_data = Some [0, 255], ev_delivery_permit = Some 2\<rparr>"

theorem decode_encode_event_witness:
  "decode_event (encode_event sample_event) = Inr (sample_event\<lparr>ev_delivery_permit := None\<rparr>)"
proof (rule decode_encode_event)
  have "rust_string ''hi''"
    unfolding rust_string_def by (rule utf8_valid_ascii) (simp add: into_bytes_def byte_of_char_def)
  then show "\<forall>s. ev_text sample_event = Some s \<longrightarrow> rust_string s"
    by (simp add: sample_event_def)
  show "\<forall>s. ev_secondary_text sample_event = Some s \<longrightarrow> rust_string s"
    by (simp add: sample_event_def)
  show "length (encode_event sample_event) < 2 ^ 31"
    by (simp add: encode_event_eq sample_event_def encode_optional_Some)
      (simp add: encode_optional_def)
qed

text \<open>
  C4: a truncated event is refused: the decoder accepts no proper prefix of the encoding of an
  event (with well-formed texts, and an encoding that fits a Kotlin \<open>ByteArray\<close>), and it refuses
  the encoding followed by anything.
\<close>

theorem decode_event_truncated:
  assumes "\<forall>s. ev_text e = Some s \<longrightarrow> rust_string s"
    and "\<forall>s. ev_secondary_text e = Some s \<longrightarrow> rust_string s"
    and "length (encode_event e) < 2 ^ 31"
    and "n < length (encode_event e)" and "extra \<noteq> []"
  shows "(\<exists>message. decode_event (take n (encode_event e)) = Inl message)
    \<and> decode_event (encode_event e @ extra) = Inl ''Native event contains trailing data''"
proof
  have whole: "read_event (encode_event e @ rest) = Inr (e\<lparr>ev_delivery_permit := None\<rparr>, rest)"
    for rest by (rule read_encode_event [OF text_and_payload_ok [OF assms(1-3)]])
  have "read_event (take n (encode_event e) @ drop n (encode_event e))
      = Inr (e\<lparr>ev_delivery_permit := None\<rparr>, [])"
    using whole [of "[]"] by simp
  from stable_reader_prefix [OF stable_read_event this]
  have "read_event (take n (encode_event e)) \<noteq> Inr (y, [])" for y
    using assms(4) by simp
  then show "\<exists>message. decode_event (take n (encode_event e)) = Inl message"
    by (cases "read_event (take n (encode_event e))") (auto simp: decode_event_def)
  show "decode_event (encode_event e @ extra) = Inl ''Native event contains trailing data''"
    using whole [of extra] assms(5) by (simp add: decode_event_def)
qed

theorem decode_event_truncated_witness:
  "(\<exists>message. decode_event (take 3 (encode_event (event_peer PEER_STATE 1 2))) = Inl message)
   \<and> decode_event (encode_event (event_peer PEER_STATE 1 2) @ [0]) =
       Inl ''Native event contains trailing data''"
  by (rule decode_event_truncated)
    (simp_all add: event_peer_def encode_event_eq encode_optional_def)

end
