(* ===== verification/Stats_Wire.thy ===== *)
theory Stats_Wire
  imports Codec
begin

text \<open>
  The binary statistics report: \<open>encode_stats\<close> and its writers (\<open>native/src/registry.rs\<close>) and the
  reader \<open>StatsDecoder.kt\<close>. The report comes from the rtc crate and is represented by what the
  encoder observes of it: the two distinguished entries, the lookup by id and the iteration. A
  field that the code prints with \<open>{:?}\<close> holds the printed text; a double is its IEEE bit pattern.
\<close>

subsection \<open>What the encoder reads\<close>

record peer_connection_stats =
  data_channels_opened :: u32
  data_channels_closed :: u32

record transport_stats =
  tr_packets_sent :: u64
  tr_packets_received :: u64
  tr_bytes_sent :: u64
  tr_bytes_received :: u64
  tr_ice_role :: string
  tr_ice_state :: string
  tr_dtls_role :: string
  tr_dtls_state :: string
  tr_tls_version :: string
  tr_dtls_cipher :: string
  tr_selected_candidate_pair_changes :: u32
  tr_selected_candidate_pair_id :: string

record ice_candidate_stats =
  cand_id :: string
  cand_address :: "string option"
  cand_port :: u16
  cand_protocol :: string
  cand_candidate_type :: string
  cand_priority :: u32
  cand_url :: string
  cand_relay_protocol :: string
  cand_foundation :: string
  cand_related_address :: string
  cand_related_port :: u16
  cand_username_fragment :: string
  cand_tcp_type :: string

record ice_candidate_pair_stats =
  pair_id :: string
  pair_local_candidate_id :: string
  pair_remote_candidate_id :: string
  pair_packets_sent :: u64
  pair_packets_received :: u64
  pair_bytes_sent :: u64
  pair_bytes_received :: u64
  pair_current_round_trip_time :: u64
  pair_total_round_trip_time :: u64
  pair_requests_sent :: u64
  pair_requests_received :: u64
  pair_responses_sent :: u64
  pair_responses_received :: u64
  pair_state :: string
  pair_nominated :: bool

record data_channel_stats =
  dc_identifier :: u16
  dc_label :: string
  dc_protocol :: string
  dc_state :: string
  dc_messages_sent :: u32
  dc_bytes_sent :: u64
  dc_messages_received :: u32
  dc_bytes_received :: u64

datatype stats_entry =
    IceCandidatePair ice_candidate_pair_stats
  | LocalCandidate ice_candidate_stats
  | RemoteCandidate ice_candidate_stats
  | DataChannelEntry data_channel_stats
  | OtherEntry

record stats_report =
  report_peer_connection :: "peer_connection_stats option"
  report_transport :: "transport_stats option"
  report_get :: "string \<Rightarrow> stats_entry option"
  report_iter :: "stats_entry list"

subsection \<open>The Rust writers\<close>

definition write_u32 :: "bytes \<Rightarrow> u32 \<Rightarrow> bytes" where
  "write_u32 output value = output @ to_be_bytes 4 value"

definition write_u64 :: "bytes \<Rightarrow> u64 \<Rightarrow> bytes" where
  "write_u64 output value = output @ to_be_bytes 8 value"

definition write_f64 :: "bytes \<Rightarrow> u64 \<Rightarrow> bytes" where
  "write_f64 output bits = output @ to_be_bytes 8 bits"

definition write_string :: "bytes \<Rightarrow> string \<Rightarrow> bytes result" where
  "write_string output value =
     (if length value < 2 ^ 32
      then Inr (write_u32 output (word_of_nat (length value)) @ into_bytes value)
      else Inl ''Native stats string is too large'')"

definition push_bool :: "bytes \<Rightarrow> bool \<Rightarrow> bytes" where
  "push_bool output b = output @ [if b then 1 else 0]"

definition write_candidate :: "bytes \<Rightarrow> ice_candidate_stats \<Rightarrow> bytes result" where
  "write_candidate output c =
     and_then (write_string output (cand_id c)) (\<lambda>output.
     and_then (write_string output (case cand_address c of None \<Rightarrow> '''' | Some a \<Rightarrow> a)) (\<lambda>output.
     let output = output @ to_be_bytes 2 (cand_port c) in
     and_then (write_string output (cand_protocol c)) (\<lambda>output.
     and_then (write_string output (cand_candidate_type c)) (\<lambda>output.
     let output = write_u32 output (cand_priority c) in
     and_then (write_string output (cand_url c)) (\<lambda>output.
     and_then (write_string output (cand_relay_protocol c)) (\<lambda>output.
     and_then (write_string output (cand_foundation c)) (\<lambda>output.
     and_then (write_string output (cand_related_address c)) (\<lambda>output.
     let output = output @ to_be_bytes 2 (cand_related_port c) in
     and_then (write_string output (cand_username_fragment c)) (\<lambda>output.
     write_string output (cand_tcp_type c))))))))))"

definition write_optional_candidate :: "bytes \<Rightarrow> ice_candidate_stats option \<Rightarrow> bytes result" where
  "write_optional_candidate output candidate =
     (let output = push_bool output (candidate \<noteq> None) in
      case candidate of
        Some candidate \<Rightarrow> write_candidate output candidate
      | None \<Rightarrow> Inr output)"

text \<open>The candidate an id names: the entry with that id, or the first whose id ends with it.\<close>

fun find_candidate :: "string \<Rightarrow> stats_entry list \<Rightarrow> ice_candidate_stats option" where
  "find_candidate ident [] = None"
| "find_candidate ident (LocalCandidate c # es) =
     (if ends_with (cand_id c) ident then Some c else find_candidate ident es)"
| "find_candidate ident (RemoteCandidate c # es) =
     (if ends_with (cand_id c) ident then Some c else find_candidate ident es)"
| "find_candidate ident (IceCandidatePair p # es) = find_candidate ident es"
| "find_candidate ident (DataChannelEntry d # es) = find_candidate ident es"
| "find_candidate ident (OtherEntry # es) = find_candidate ident es"

definition candidate :: "stats_report \<Rightarrow> string \<Rightarrow> ice_candidate_stats option" where
  "candidate report ident =
     (case report_get report ident of
        Some (LocalCandidate c) \<Rightarrow> Some c
      | Some (RemoteCandidate c) \<Rightarrow> Some c
      | _ \<Rightarrow> find_candidate ident (report_iter report))"

definition write_pair :: "bytes \<Rightarrow> stats_report \<Rightarrow> ice_candidate_pair_stats \<Rightarrow> bytes result" where
  "write_pair output report pair =
     (let local_cand = candidate report (pair_local_candidate_id pair);
          remote_cand = candidate report (pair_remote_candidate_id pair);
          output = output @ [1]
      in
      and_then (write_string output (pair_id pair)) (\<lambda>output.
      and_then (write_string output (pair_local_candidate_id pair)) (\<lambda>output.
      and_then (write_string output (pair_remote_candidate_id pair)) (\<lambda>output.
      and_then (write_optional_candidate output local_cand) (\<lambda>output.
      and_then (write_optional_candidate output remote_cand) (\<lambda>output.
      let output = write_u64 output (pair_packets_sent pair);
          output = write_u64 output (pair_packets_received pair);
          output = write_u64 output (pair_bytes_sent pair);
          output = write_u64 output (pair_bytes_received pair);
          output = write_f64 output (pair_current_round_trip_time pair);
          output = write_f64 output (pair_total_round_trip_time pair);
          output = write_u64 output (pair_requests_sent pair);
          output = write_u64 output (pair_requests_received pair);
          output = write_u64 output (pair_responses_sent pair);
          output = write_u64 output (pair_responses_received pair)
      in
      and_then (write_string output (pair_state pair)) (\<lambda>output.
      Inr (push_bool output (pair_nominated pair)))))))))"

fun data_channels :: "stats_entry list \<Rightarrow> data_channel_stats list" where
  "data_channels [] = []"
| "data_channels (DataChannelEntry d # es) = d # data_channels es"
| "data_channels (_ # es) = data_channels es"

definition write_channel :: "bytes \<Rightarrow> data_channel_stats \<Rightarrow> bytes result" where
  "write_channel output d =
     (let output = output @ to_be_bytes 2 (dc_identifier d) in
      and_then (write_string output (dc_label d)) (\<lambda>output.
      and_then (write_string output (dc_protocol d)) (\<lambda>output.
      and_then (write_string output (dc_state d)) (\<lambda>output.
      let output = write_u32 output (dc_messages_sent d);
          output = write_u64 output (dc_bytes_sent d);
          output = write_u32 output (dc_messages_received d)
      in Inr (write_u64 output (dc_bytes_received d))))))"

fun write_channels :: "bytes \<Rightarrow> data_channel_stats list \<Rightarrow> bytes result" where
  "write_channels output [] = Inr output"
| "write_channels output (d # ds) = and_then (write_channel output d) (\<lambda>output. write_channels output ds)"

text \<open>
  \<open>clock\<close> is \<open>SystemTime::now().duration_since(UNIX_EPOCH)\<close> in milliseconds, or the message of the
  error when the clock is before the epoch.
\<close>

definition encode_stats :: "nat result \<Rightarrow> stats_report \<Rightarrow> bytes result" where
  "encode_stats clock report =
     and_then (ok_or ''The native stats report has no peer connection entry''
                 (report_peer_connection report)) (\<lambda>peer.
     and_then (ok_or ''The native stats report has no transport entry''
                 (report_transport report)) (\<lambda>transport.
     let output = write_u32 [] 2 in
     and_then (map_err (\<lambda>error. ''The system clock is before the Unix epoch: '' @ error) clock)
       (\<lambda>timestamp.
     let output = write_u64 output (if timestamp < 2 ^ 64 then word_of_nat timestamp else - 1);
         output = write_u64 output (ucast (data_channels_opened peer));
         output = write_u64 output (ucast (data_channels_closed peer));
         output = write_u64 output (tr_packets_sent transport);
         output = write_u64 output (tr_packets_received transport);
         output = write_u64 output (tr_bytes_sent transport);
         output = write_u64 output (tr_bytes_received transport)
     in
     and_then (write_string output (tr_ice_role transport)) (\<lambda>output.
     and_then (write_string output (tr_ice_state transport)) (\<lambda>output.
     and_then (write_string output (tr_dtls_role transport)) (\<lambda>output.
     and_then (write_string output (tr_dtls_state transport)) (\<lambda>output.
     and_then (write_string output (tr_tls_version transport)) (\<lambda>output.
     and_then (write_string output (tr_dtls_cipher transport)) (\<lambda>output.
     let output = write_u32 output (tr_selected_candidate_pair_changes transport) in
     and_then
       (case report_get report (tr_selected_candidate_pair_id transport) of
          Some (IceCandidatePair pair) \<Rightarrow> write_pair output report pair
        | _ \<Rightarrow> Inr (output @ [0])) (\<lambda>output.
     let channels = data_channels (report_iter report) in
     if length channels < 2 ^ 32
     then write_channels (write_u32 output (word_of_nat (length channels))) channels
     else Inl ''Too many DataChannel stats entries''))))))))))"

subsection \<open>The Kotlin reader\<close>

text \<open>
  \<open>IceCandidatePairStats\<close>, \<open>TransportStats\<close> and \<open>PeerConnectionStats\<close> of \<open>Models.kt\<close>. The scalar
  fields of a pair, the fields of a candidate and those of a channel are the same on both sides,
  so those records are shared; a decoded candidate always has an address.
\<close>

record kotlin_pair =
  kp_pair :: ice_candidate_pair_stats
  kp_localCandidate :: "ice_candidate_stats option"
  kp_remoteCandidate :: "ice_candidate_stats option"

record kotlin_transport =
  kt_packetsSent :: u64
  kt_packetsReceived :: u64
  kt_bytesSent :: u64
  kt_bytesReceived :: u64
  kt_iceRole :: string
  kt_iceState :: string
  kt_dtlsRole :: string
  kt_dtlsState :: string
  kt_tlsVersion :: string
  kt_dtlsCipher :: string
  kt_selectedCandidatePairChanges :: u32
  kt_selectedCandidatePair :: "kotlin_pair option"

record kotlin_stats =
  ks_timestamp :: u64
  ks_opened :: u64
  ks_closed :: u64
  ks_transport :: kotlin_transport
  ks_channels :: "data_channel_stats list"

definition requireRemaining :: "nat \<Rightarrow> 'a reader \<Rightarrow> 'a reader" where
  "requireRemaining count r =
     (\<lambda>bs. if count \<le> length bs then r bs else Inl ''Native stats ended unexpectedly'')"

text \<open>\<open>repeat(n) { result = (result shl 8) or (data[offset++] and 0xff) }\<close>\<close>

fun be_loop :: "nat \<Rightarrow> 'a::len word \<Rightarrow> bytes \<Rightarrow> 'a word \<times> bytes" where
  "be_loop 0 result bs = (result, bs)"
| "be_loop (Suc n) result bs = be_loop n (push_bit 8 result OR (ucast (bs ! 0) AND 0xff)) (drop 1 bs)"

definition readByte :: "u8 reader" where
  "readByte = requireRemaining 1 (\<lambda>bs. Inr (bs ! 0, drop 1 bs))"

definition readBoolean :: "bool reader" where
  "readBoolean = read_then readByte (\<lambda>b. read_return (b \<noteq> 0))"

definition readShort :: "u16 reader" where
  "readShort =
     requireRemaining 2 (\<lambda>bs.
       Inr (push_bit 8 (ucast (bs ! 0) AND 0xff) OR (ucast (bs ! 1) AND 0xff), drop 2 bs))"

definition readInt :: "i32 reader" where
  "readInt = requireRemaining 4 (\<lambda>bs. Inr (be_loop 4 0 bs))"

definition readLong :: "u64 reader" where
  "readLong = requireRemaining 8 (\<lambda>bs. Inr (be_loop 8 0 bs))"

definition readString :: "string reader" where
  "readString =
     read_then readInt (\<lambda>size bs.
       if 0 \<le> sint size \<and> nat (sint size) \<le> length bs
       then Inr (from_utf8_lossy (take (nat (sint size)) bs), drop (nat (sint size)) bs)
       else Inl ''Invalid native stats string length'')"

definition readCandidate :: "ice_candidate_stats reader" where
  "readCandidate =
     read_then readString (\<lambda>ident.
     read_then readString (\<lambda>address.
     read_then readShort (\<lambda>port.
     read_then readString (\<lambda>protocol.
     read_then readString (\<lambda>candidateType.
     read_then readInt (\<lambda>priority.
     read_then readString (\<lambda>url.
     read_then readString (\<lambda>relayProtocol.
     read_then readString (\<lambda>foundation.
     read_then readString (\<lambda>relatedAddress.
     read_then readShort (\<lambda>relatedPort.
     read_then readString (\<lambda>usernameFragment.
     read_then readString (\<lambda>tcpType.
     read_return
       \<lparr>cand_id = ident, cand_address = Some address, cand_port = port, cand_protocol = protocol,
        cand_candidate_type = candidateType, cand_priority = priority, cand_url = url,
        cand_relay_protocol = relayProtocol, cand_foundation = foundation,
        cand_related_address = relatedAddress, cand_related_port = relatedPort,
        cand_username_fragment = usernameFragment, cand_tcp_type = tcpType\<rparr>)))))))))))))"

definition readPair :: "kotlin_pair reader" where
  "readPair =
     read_then readString (\<lambda>ident.
     read_then readString (\<lambda>localCandidateId.
     read_then readString (\<lambda>remoteCandidateId.
     read_then readBoolean (\<lambda>hasLocal.
     read_then (read_optional hasLocal readCandidate) (\<lambda>localCandidate.
     read_then readBoolean (\<lambda>hasRemote.
     read_then (read_optional hasRemote readCandidate) (\<lambda>remoteCandidate.
     read_then readLong (\<lambda>packetsSent.
     read_then readLong (\<lambda>packetsReceived.
     read_then readLong (\<lambda>bytesSent.
     read_then readLong (\<lambda>bytesReceived.
     read_then readLong (\<lambda>currentRoundTripTimeSeconds.
     read_then readLong (\<lambda>totalRoundTripTimeSeconds.
     read_then readLong (\<lambda>requestsSent.
     read_then readLong (\<lambda>requestsReceived.
     read_then readLong (\<lambda>responsesSent.
     read_then readLong (\<lambda>responsesReceived.
     read_then readString (\<lambda>state.
     read_then readBoolean (\<lambda>nominated.
     read_return
       \<lparr>kp_pair =
          \<lparr>pair_id = ident, pair_local_candidate_id = localCandidateId,
           pair_remote_candidate_id = remoteCandidateId, pair_packets_sent = packetsSent,
           pair_packets_received = packetsReceived, pair_bytes_sent = bytesSent,
           pair_bytes_received = bytesReceived,
           pair_current_round_trip_time = currentRoundTripTimeSeconds,
           pair_total_round_trip_time = totalRoundTripTimeSeconds,
           pair_requests_sent = requestsSent, pair_requests_received = requestsReceived,
           pair_responses_sent = responsesSent, pair_responses_received = responsesReceived,
           pair_state = state, pair_nominated = nominated\<rparr>,
        kp_localCandidate = localCandidate,
        kp_remoteCandidate = remoteCandidate\<rparr>)))))))))))))))))))"

definition readChannel :: "data_channel_stats reader" where
  "readChannel =
     read_then readShort (\<lambda>identifier.
     read_then readString (\<lambda>label.
     read_then readString (\<lambda>protocol.
     read_then readString (\<lambda>state.
     read_then readInt (\<lambda>messagesSent.
     read_then readLong (\<lambda>bytesSent.
     read_then readInt (\<lambda>messagesReceived.
     read_then readLong (\<lambda>bytesReceived.
     read_return
       \<lparr>dc_identifier = identifier, dc_label = label, dc_protocol = protocol, dc_state = state,
        dc_messages_sent = messagesSent, dc_bytes_sent = bytesSent,
        dc_messages_received = messagesReceived, dc_bytes_received = bytesReceived\<rparr>))))))))"

definition read_transport :: "kotlin_transport reader" where
  "read_transport =
     read_then readLong (\<lambda>packetsSent.
     read_then readLong (\<lambda>packetsReceived.
     read_then readLong (\<lambda>bytesSent.
     read_then readLong (\<lambda>bytesReceived.
     read_then readString (\<lambda>iceRole.
     read_then readString (\<lambda>iceState.
     read_then readString (\<lambda>dtlsRole.
     read_then readString (\<lambda>dtlsState.
     read_then readString (\<lambda>tlsVersion.
     read_then readString (\<lambda>dtlsCipher.
     read_then readInt (\<lambda>selectedCandidatePairChanges.
     read_then readBoolean (\<lambda>hasPair.
     read_then (read_optional hasPair readPair) (\<lambda>selectedCandidatePair.
     read_return
       \<lparr>kt_packetsSent = packetsSent, kt_packetsReceived = packetsReceived,
        kt_bytesSent = bytesSent, kt_bytesReceived = bytesReceived, kt_iceRole = iceRole,
        kt_iceState = iceState, kt_dtlsRole = dtlsRole, kt_dtlsState = dtlsState,
        kt_tlsVersion = tlsVersion, kt_dtlsCipher = dtlsCipher,
        kt_selectedCandidatePairChanges = selectedCandidatePairChanges,
        kt_selectedCandidatePair = selectedCandidatePair\<rparr>)))))))))))))"

definition read_stats_body :: "kotlin_stats reader" where
  "read_stats_body =
     read_then readLong (\<lambda>timestamp.
     read_then readLong (\<lambda>opened.
     read_then readLong (\<lambda>closed.
     read_then read_transport (\<lambda>transport.
     read_then readInt (\<lambda>channelCount.
     read_require (0 \<le> sint channelCount \<and> sint channelCount \<le> 65535)
       ''Invalid native DataChannel stats count''
     (read_then (read_list (nat (sint channelCount)) readChannel) (\<lambda>channels.
     \<lambda>bs. if bs \<noteq> [] then Inl ''Native stats contain trailing data''
      else Inr (\<lparr>ks_timestamp = timestamp, ks_opened = opened, ks_closed = closed,
                 ks_transport = transport, ks_channels = channels\<rparr>, bs))))))))"

text \<open>
  Only the version check throws a \<open>WebRtcException\<close> of its own; every other failure is caught and
  rethrown with one message.
\<close>

definition rethrown :: "'a result \<Rightarrow> 'a result" where
  "rethrown = map_err (\<lambda>_. ''Failed to decode native WebRTC stats'')"

definition decode_stats :: "bytes \<Rightarrow> kotlin_stats result" where
  "decode_stats data =
     and_then (rethrown (readInt data)) (\<lambda>(version, rest).
       if version \<noteq> 2 then Inl (''Unsupported native stats format: '' @ show_signed version)
       else map_ok fst (rethrown (read_stats_body rest)))"

end
