(* ===== verification/Stats_Roundtrip.thy ===== *)
theory Stats_Roundtrip
  imports Stats_Wire
begin

text \<open>
  The statistics report survives the boundary: the writers of \<open>registry.rs\<close> and the readers of
  \<open>StatsDecoder.kt\<close> are codecs in the sense of \<open>Codec\<close>, from the integers up to a whole report.
\<close>

subsection \<open>Integers and strings\<close>







definition enc_bool :: "bool \<Rightarrow> bytes" where
  "enc_bool b = [if b then 1 else 0]"


definition enc_string :: "string \<Rightarrow> bytes" where
  "enc_string s = to_be_bytes 4 (word_of_nat (length s) :: u32) @ into_bytes s"




lemma write_string_iff [simp]:
  "write_string output s = Inr out \<longleftrightarrow> length s < 2 ^ 32 \<and> out = output @ enc_string s"
  by (auto simp: write_string_def write_u32_def enc_string_def)

lemma length_enc_string [simp]: "length (enc_string s) = 4 + length s"
  by (simp add: enc_string_def)

subsection \<open>Candidates\<close>

definition candidate_texts :: "ice_candidate_stats \<Rightarrow> string list" where
  "candidate_texts c =
     [cand_id c, (case cand_address c of None \<Rightarrow> '''' | Some a \<Rightarrow> a), cand_protocol c,
      cand_candidate_type c, cand_url c, cand_relay_protocol c, cand_foundation c,
      cand_related_address c, cand_username_fragment c, cand_tcp_type c]"

definition enc_candidate :: "ice_candidate_stats \<Rightarrow> bytes" where
  "enc_candidate c =
     enc_string (cand_id c) @ enc_string (case cand_address c of None \<Rightarrow> '''' | Some a \<Rightarrow> a)
     @ to_be_bytes 2 (cand_port c) @ enc_string (cand_protocol c)
     @ enc_string (cand_candidate_type c) @ to_be_bytes 4 (cand_priority c)
     @ enc_string (cand_url c) @ enc_string (cand_relay_protocol c)
     @ enc_string (cand_foundation c) @ enc_string (cand_related_address c)
     @ to_be_bytes 2 (cand_related_port c) @ enc_string (cand_username_fragment c)
     @ enc_string (cand_tcp_type c)"

lemma write_candidate_iff:
  "write_candidate output c = Inr out \<longleftrightarrow>
     list_all (\<lambda>s. length s < 2 ^ 32) (candidate_texts c) \<and> out = output @ enc_candidate c"
  by (auto simp: write_candidate_def Let_def and_then_Inr_iff write_u32_def candidate_texts_def
      enc_candidate_def)



text \<open>What Kotlin sees of a candidate: a missing address is the empty text.\<close>

definition candidate_view :: "ice_candidate_stats \<Rightarrow> ice_candidate_stats" where
  "candidate_view c =
     c\<lparr>cand_address := Some (case cand_address c of None \<Rightarrow> '''' | Some a \<Rightarrow> a)\<rparr>"

lemma enc_candidate_view [simp]: "enc_candidate (candidate_view c) = enc_candidate c"
  by (simp add: enc_candidate_def candidate_view_def)


definition enc_optional :: "ice_candidate_stats option \<Rightarrow> bytes" where
  "enc_optional v = enc_bool (v \<noteq> None) @ (case v of None \<Rightarrow> [] | Some c \<Rightarrow> enc_candidate c)"

lemma write_optional_candidate_iff:
  "write_optional_candidate output v = Inr out \<longleftrightarrow>
     (\<forall>c. v = Some c \<longrightarrow> list_all (\<lambda>s. length s < 2 ^ 32) (candidate_texts c))
     \<and> out = output @ enc_optional v"
  by (cases v)
    (auto simp: write_optional_candidate_def write_candidate_iff push_bool_def enc_optional_def
      enc_bool_def)


subsection \<open>Pairs and channels\<close>

definition option_texts :: "ice_candidate_stats option \<Rightarrow> string list" where
  "option_texts v = (case v of None \<Rightarrow> [] | Some c \<Rightarrow> candidate_texts c)"

lemma list_all_option_texts:
  "list_all P (option_texts v) \<longleftrightarrow> (\<forall>c. v = Some c \<longrightarrow> list_all P (candidate_texts c))"
  by (cases v) (simp_all add: option_texts_def)

definition pair_texts :: "stats_report \<Rightarrow> ice_candidate_pair_stats \<Rightarrow> string list" where
  "pair_texts report p =
     [pair_id p, pair_local_candidate_id p, pair_remote_candidate_id p, pair_state p]
     @ option_texts (candidate report (pair_local_candidate_id p))
     @ option_texts (candidate report (pair_remote_candidate_id p))"

definition enc_pair :: "stats_report \<Rightarrow> ice_candidate_pair_stats \<Rightarrow> bytes" where
  "enc_pair report p =
     enc_string (pair_id p) @ enc_string (pair_local_candidate_id p)
     @ enc_string (pair_remote_candidate_id p)
     @ enc_optional (candidate report (pair_local_candidate_id p))
     @ enc_optional (candidate report (pair_remote_candidate_id p))
     @ to_be_bytes 8 (pair_packets_sent p) @ to_be_bytes 8 (pair_packets_received p)
     @ to_be_bytes 8 (pair_bytes_sent p) @ to_be_bytes 8 (pair_bytes_received p)
     @ to_be_bytes 8 (pair_current_round_trip_time p) @ to_be_bytes 8 (pair_total_round_trip_time p)
     @ to_be_bytes 8 (pair_requests_sent p) @ to_be_bytes 8 (pair_requests_received p)
     @ to_be_bytes 8 (pair_responses_sent p) @ to_be_bytes 8 (pair_responses_received p)
     @ enc_string (pair_state p) @ enc_bool (pair_nominated p)"


lemma write_pair_iff:
  "write_pair output report p = Inr out \<longleftrightarrow>
     list_all (\<lambda>s. length s < 2 ^ 32) (pair_texts report p) \<and> out = output @ enc_bool True @ enc_pair report p"
  by (auto simp: write_pair_def Let_def and_then_Inr_iff write_optional_candidate_iff
      write_u64_def write_f64_def push_bool_def pair_texts_def enc_pair_def enc_bool_def
      list_all_option_texts)


definition channel_texts :: "data_channel_stats \<Rightarrow> string list" where
  "channel_texts d = [dc_label d, dc_protocol d, dc_state d]"

definition enc_channel :: "data_channel_stats \<Rightarrow> bytes" where
  "enc_channel d =
     to_be_bytes 2 (dc_identifier d) @ enc_string (dc_label d) @ enc_string (dc_protocol d)
     @ enc_string (dc_state d) @ to_be_bytes 4 (dc_messages_sent d)
     @ to_be_bytes 8 (dc_bytes_sent d) @ to_be_bytes 4 (dc_messages_received d)
     @ to_be_bytes 8 (dc_bytes_received d)"

lemma write_channel_iff:
  "write_channel output d = Inr out \<longleftrightarrow>
     list_all (\<lambda>s. length s < 2 ^ 32) (channel_texts d) \<and> out = output @ enc_channel d"
  by (auto simp: write_channel_def Let_def and_then_Inr_iff write_u32_def write_u64_def
      channel_texts_def enc_channel_def)

lemma write_channels_iff:
  "write_channels acc ds = Inr out \<longleftrightarrow>
     list_all (\<lambda>s. length s < 2 ^ 32) (concat (map channel_texts ds))
     \<and> out = acc @ concat (map enc_channel ds)"
  by (induction ds arbitrary: acc) (auto simp: and_then_Inr_iff write_channel_iff)


subsection \<open>The whole report\<close>

definition selected_pair :: "stats_report \<Rightarrow> transport_stats \<Rightarrow> ice_candidate_pair_stats option" where
  "selected_pair report t =
     (case report_get report (tr_selected_candidate_pair_id t) of
        Some (IceCandidatePair p) \<Rightarrow> Some p | _ \<Rightarrow> None)"


definition clock_millis :: "nat \<Rightarrow> u64" where
  "clock_millis ms = (if ms < 2 ^ 64 then word_of_nat ms else - 1)"

definition enc_selected :: "stats_report \<Rightarrow> transport_stats \<Rightarrow> bytes" where
  "enc_selected report t =
     (case selected_pair report t of
        None \<Rightarrow> enc_bool False | Some p \<Rightarrow> enc_bool True @ enc_pair report p)"

definition enc_transport :: "stats_report \<Rightarrow> transport_stats \<Rightarrow> bytes" where
  "enc_transport report t =
     to_be_bytes 8 (tr_packets_sent t) @ to_be_bytes 8 (tr_packets_received t)
     @ to_be_bytes 8 (tr_bytes_sent t) @ to_be_bytes 8 (tr_bytes_received t)
     @ enc_string (tr_ice_role t) @ enc_string (tr_ice_state t) @ enc_string (tr_dtls_role t)
     @ enc_string (tr_dtls_state t) @ enc_string (tr_tls_version t) @ enc_string (tr_dtls_cipher t)
     @ to_be_bytes 4 (tr_selected_candidate_pair_changes t) @ enc_selected report t"

definition enc_stats ::
  "nat \<Rightarrow> peer_connection_stats \<Rightarrow> transport_stats \<Rightarrow> stats_report \<Rightarrow> bytes" where
  "enc_stats ms peer t report =
     to_be_bytes 4 (2 :: u32) @ to_be_bytes 8 (clock_millis ms)
     @ to_be_bytes 8 (ucast (data_channels_opened peer) :: u64)
     @ to_be_bytes 8 (ucast (data_channels_closed peer) :: u64)
     @ enc_transport report t
     @ to_be_bytes 4 (word_of_nat (length (data_channels (report_iter report))) :: u32)
     @ concat (map enc_channel (data_channels (report_iter report)))"



lemma write_selected_pair_iff:
  "(case report_get report (tr_selected_candidate_pair_id t) of
      Some (IceCandidatePair pair) \<Rightarrow> write_pair output report pair
    | _ \<Rightarrow> Inr (output @ [0])) = Inr out \<longleftrightarrow>
   list_all (\<lambda>s. length s < 2 ^ 32)
     (case selected_pair report t of None \<Rightarrow> [] | Some p \<Rightarrow> pair_texts report p)
   \<and> out = output @ enc_selected report t"
  by (auto simp: selected_pair_def write_pair_iff enc_bool_def enc_selected_def
      split: option.splits stats_entry.splits)















text \<open>The only error of the writers of texts.\<close>

abbreviation too_large :: string where
  "too_large \<equiv> ''Native stats string is too large''"

definition text_errors :: "'a result \<Rightarrow> bool" where
  "text_errors r \<longleftrightarrow> (\<forall>e. r = Inl e \<longrightarrow> e = too_large)"

lemma text_errors_rules:
  "text_errors (Inr x)" "text_errors (write_string output v)"
  "text_errors r \<Longrightarrow> (\<And>x. text_errors (f x)) \<Longrightarrow> text_errors (and_then r f)"
  by (auto simp: text_errors_def write_string_def and_then_Inl_iff)

lemma text_errors_candidate: "text_errors (write_candidate output c)"
  unfolding write_candidate_def Let_def by (intro text_errors_rules)

lemma text_errors_optional: "text_errors (write_optional_candidate output c)"
  by (cases c) (simp_all add: write_optional_candidate_def text_errors_candidate text_errors_rules)

lemma text_errors_pair: "text_errors (write_pair output report p)"
  unfolding write_pair_def Let_def by (intro text_errors_rules text_errors_optional)

lemma text_errors_channels: "text_errors (write_channels acc ds)"
proof (induction ds arbitrary: acc)
  case (Cons d ds)
  have "text_errors (write_channel acc d)"
    unfolding write_channel_def Let_def by (intro text_errors_rules)
  with Cons show ?case by (simp add: text_errors_rules)
qed (simp add: text_errors_rules)

lemma text_errors_selected:
  "text_errors (case report_get report (tr_selected_candidate_pair_id t) of
      Some (IceCandidatePair pair) \<Rightarrow> write_pair output report pair
    | _ \<Rightarrow> Inr (output @ [0]))"
  by (auto simp: text_errors_pair text_errors_rules split: option.split stats_entry.split)

lemma text_errors_eq:
  assumes "text_errors r" and "\<And>out. r = Inr out \<longleftrightarrow> P \<and> out = x"
  shows "r = (if P then Inr x else Inl too_large)"
  using assms by (cases r) (auto simp: text_errors_def)

lemmas writers_eq =
  text_errors_eq [OF text_errors_selected write_selected_pair_iff]
  text_errors_eq [OF text_errors_channels write_channels_iff]

text \<open>
  C6: what \<open>encode_stats\<close> returns for every report. It fails for a report without its peer connection entry,
  without its transport entry, for a clock before the epoch, for a text of the transport or its selected
  pair of \<open>2 ^ 32\<close> bytes or more, for \<open>2 ^ 32\<close> channels or more, and for such a text of a channel, in this
  order and each with its message; otherwise it returns the fields in the order of the reference encoding.
\<close>

theorem encode_stats_success:
  "encode_stats clock report =
     (case report_peer_connection report of
        None \<Rightarrow> Inl ''The native stats report has no peer connection entry''
      | Some peer \<Rightarrow>
     (case report_transport report of
        None \<Rightarrow> Inl ''The native stats report has no transport entry''
      | Some t \<Rightarrow>
     (case clock of
        Inl error \<Rightarrow> Inl (''The system clock is before the Unix epoch: '' @ error)
      | Inr ms \<Rightarrow>
          if list_all (\<lambda>s. length s < 2 ^ 32)
               ([tr_ice_role t, tr_ice_state t, tr_dtls_role t, tr_dtls_state t, tr_tls_version t,
                 tr_dtls_cipher t]
                @ (case selected_pair report t of None \<Rightarrow> [] | Some p \<Rightarrow> pair_texts report p))
          then if length (data_channels (report_iter report)) < 2 ^ 32
            then if list_all (\<lambda>s. length s < 2 ^ 32)
                      (concat (map channel_texts (data_channels (report_iter report))))
              then Inr (enc_stats ms peer t report)
              else Inl ''Native stats string is too large''
            else Inl ''Too many DataChannel stats entries''
          else Inl ''Native stats string is too large'')))"
proof (cases "report_peer_connection report"; cases "report_transport report"; cases clock)
  fix peer t ms
  assume a: "report_peer_connection report = Some peer" "report_transport report = Some t" "clock = Inr ms"
  have w: "write_string acc v = (if length v < 2 ^ 32 then Inr (acc @ enc_string v) else Inl too_large)"
    for acc v
    by (rule text_errors_eq [OF text_errors_rules(2)]) simp
  show ?thesis
    unfolding encode_stats_def a Let_def
    by (simp add: w writers_eq write_u32_def write_u64_def enc_stats_def enc_transport_def clock_millis_def)
qed (simp_all add: encode_stats_def)

end
