(* ===== verification/Rust_Net.thy ===== *)
theory Rust_Net
  imports Rust_Strings
begin

text \<open>
  \<open>str::parse::<IpAddr>\<close> of the standard library, which the transport configuration uses to tell
  an IPv4 address, an IPv6 address and any other text apart. A parser takes a value from the front
  of its input or fails and consumes nothing (\<open>read_atomically\<close>).
\<close>

datatype ip_addr = V4 "nat list" | V6 "nat list"

definition to_digit :: "nat \<Rightarrow> char \<Rightarrow> nat option" where
  "to_digit radix c =
     (let n = of_char c :: nat;
          d = (if 48 \<le> n \<and> n \<le> 57 then Some (n - 48)
               else if 97 \<le> n \<and> n \<le> 122 then Some (n - 87)
               else if 65 \<le> n \<and> n \<le> 90 then Some (n - 55) else None)
      in case d of None \<Rightarrow> None | Some v \<Rightarrow> if v < radix then Some v else None)"

text \<open>The leading digits of the input, their value and what follows them.\<close>

fun read_digits :: "nat \<Rightarrow> nat \<Rightarrow> nat \<Rightarrow> string \<Rightarrow> nat \<times> nat \<times> string" where
  "read_digits radix result count [] = (result, count, [])"
| "read_digits radix result count (c # s) =
     (case to_digit radix c of
        None \<Rightarrow> (result, count, c # s)
      | Some d \<Rightarrow> read_digits radix (result * radix + d) (count + 1) s)"

definition read_number :: "nat \<Rightarrow> nat \<Rightarrow> bool \<Rightarrow> nat \<Rightarrow> string \<Rightarrow> (nat \<times> string) option" where
  "read_number radix max_digits allow_zero_prefix bound s =
     (let has_leading_zero = (s \<noteq> [] \<and> hd s = CHR ''0'');
          (result, count, rest) = read_digits radix 0 0 s
      in if count > max_digits \<or> count = 0 then None
         else if \<not> allow_zero_prefix \<and> has_leading_zero \<and> count > 1 then None
         else if result < bound then Some (result, rest) else None)"

definition read_given_char :: "char \<Rightarrow> string \<Rightarrow> string option" where
  "read_given_char c s = (case s of [] \<Rightarrow> None | d # s' \<Rightarrow> if c = d then Some s' else None)"

text \<open>\<open>read_separator\<close>: from the second element on, the separator comes first.\<close>

definition read_separator ::
  "char \<Rightarrow> nat \<Rightarrow> (string \<Rightarrow> ('a \<times> string) option) \<Rightarrow> string \<Rightarrow> ('a \<times> string) option" where
  "read_separator sep index inner s =
     (if index > 0
      then (case read_given_char sep s of None \<Rightarrow> None | Some s' \<Rightarrow> inner s')
      else inner s)"

fun read_octets :: "nat \<Rightarrow> nat \<Rightarrow> string \<Rightarrow> (nat list \<times> string) option" where
  "read_octets 0 i s = Some ([], s)"
| "read_octets (Suc n) i s =
     (case read_separator CHR ''.'' i (read_number 10 3 False 256) s of
        None \<Rightarrow> None
      | Some (g, s') \<Rightarrow>
          (case read_octets n (i + 1) s' of
             None \<Rightarrow> None | Some (gs, s'') \<Rightarrow> Some (g # gs, s'')))"

definition read_ipv4_addr :: "string \<Rightarrow> (nat list \<times> string) option" where
  "read_ipv4_addr s = read_octets 4 0 s"

text \<open>
  \<open>read_groups\<close>: up to \<open>limit\<close> hexadecimal groups, the last two of which may be an embedded IPv4
  address; the groups read, whether they end in an IPv4 address, and the rest of the input.
\<close>

fun read_groups :: "nat \<Rightarrow> nat \<Rightarrow> nat \<Rightarrow> string \<Rightarrow> nat list \<times> bool \<times> string" where
  "read_groups 0 i limit s = ([], False, s)"
| "read_groups (Suc n) i limit s =
     (case (if i + 1 < limit then read_separator CHR '':'' i read_ipv4_addr s else None) of
        Some (v4, s') \<Rightarrow>
          ([v4 ! 0 * 256 + v4 ! 1, v4 ! 2 * 256 + v4 ! 3], True, s')
      | None \<Rightarrow>
          (case read_separator CHR '':'' i (read_number 16 4 True 65536) s of
             None \<Rightarrow> ([], False, s)
           | Some (g, s') \<Rightarrow>
               (case read_groups n (i + 1) limit s' of (gs, v4, s'') \<Rightarrow> (g # gs, v4, s''))))"

definition read_ipv6_addr :: "string \<Rightarrow> (nat list \<times> string) option" where
  "read_ipv6_addr s =
     (case read_groups 8 0 8 s of (head, head_ipv4, s') \<Rightarrow>
        if length head = 8 then Some (head, s')
        else if head_ipv4 then None
        else (case Option.bind (read_given_char CHR '':'' s') (read_given_char CHR '':'') of
                None \<Rightarrow> None
              | Some s'' \<Rightarrow>
                  (let limit = 8 - (length head + 1) in
                   case read_groups limit 0 limit s'' of (tail, _, s3) \<Rightarrow>
                     Some (head @ replicate (8 - length head - length tail) 0 @ tail, s3))))"

definition parse_ip_addr :: "string \<Rightarrow> ip_addr result" where
  "parse_ip_addr s =
     (case (case read_ipv4_addr s of
              Some (gs, rest) \<Rightarrow> Some (V4 gs, rest)
            | None \<Rightarrow> map_option (\<lambda>(gs, rest). (V6 gs, rest)) (read_ipv6_addr s)) of
        Some (addr, []) \<Rightarrow> Inr addr
      | _ \<Rightarrow> Inl ''invalid IP address syntax'')"

text \<open>
  \<open>str::parse::<SocketAddr>\<close> for addresses without a scope: an IPv4 address and a port, or an IPv6 address
  in brackets and a port. This is how a bind address is read.
\<close>

definition read_port :: "string \<Rightarrow> (nat \<times> string) option" where
  "read_port s =
     (case read_given_char CHR '':'' s of
        None \<Rightarrow> None
      | Some s' \<Rightarrow> (case read_digits 10 0 0 s' of
          (n, count, rest) \<Rightarrow> if count = 0 \<or> 2 ^ 16 \<le> n then None else Some (n, rest)))"

definition read_socket_addr_v6 :: "string \<Rightarrow> (nat list \<times> string) option" where
  "read_socket_addr_v6 s =
     Option.bind (read_given_char CHR ''['' s) (\<lambda>s.
     Option.bind (read_ipv6_addr s) (\<lambda>(ip, s).
     map_option (\<lambda>s. (ip, s)) (read_given_char CHR '']'' s)))"

definition parse_socket_addr :: "string \<Rightarrow> (ip_addr \<times> nat) option" where
  "parse_socket_addr s =
     Option.bind
       (case read_ipv4_addr s of
          Some (ip, s) \<Rightarrow> Some (V4 ip, s)
        | None \<Rightarrow> map_option (\<lambda>(ip, s). (V6 ip, s)) (read_socket_addr_v6 s)) (\<lambda>(ip, s).
     case read_port s of Some (port, []) \<Rightarrow> Some (ip, port) | _ \<Rightarrow> None)"

subsection \<open>Reading on\<close>

text \<open>
  A parser that stops before \<open>rest\<close> reads the same in front of it: \<open>rest\<close> starts with a character that
  is neither a digit nor a separator of the parser.
\<close>

definition stops :: "nat \<Rightarrow> char set \<Rightarrow> string \<Rightarrow> bool" where
  "stops radix seps rest \<longleftrightarrow> rest \<noteq> [] \<and> to_digit radix (hd rest) = None \<and> hd rest \<notin> seps"

definition reads_on :: "string \<Rightarrow> (string \<Rightarrow> ('a \<times> string) option) \<Rightarrow> bool" where
  "reads_on rest q \<longleftrightarrow> (\<forall>s. q (s @ rest) = map_option (map_prod id (\<lambda>s. s @ rest)) (q s))"

lemma to_digit_zero: "to_digit radix c = None \<Longrightarrow> 0 < radix \<Longrightarrow> c \<noteq> CHR ''0''"
  by (auto simp: to_digit_def)

lemma read_digits_on:
  "stops radix seps rest \<Longrightarrow> read_digits radix n k (s @ rest) =
     (case read_digits radix n k s of (n, k, s) \<Rightarrow> (n, k, s @ rest))"
proof (induction s arbitrary: n k)
  case Nil
  then show ?case by (cases rest) (simp_all add: stops_def)
qed (simp split: option.split)

lemma reads_on_number:
  assumes "stops radix seps rest" and "0 < radix"
  shows "reads_on rest (read_number radix m z b)"
proof -
  have "(s @ rest \<noteq> [] \<and> hd (s @ rest) = CHR ''0'') = (s \<noteq> [] \<and> hd s = CHR ''0'')" for s
    using assms to_digit_zero [of radix "hd rest"] by (auto simp: stops_def hd_append)
  then show ?thesis
    by (simp add: reads_on_def read_number_def read_digits_on [OF assms(1)] Let_def case_prod_unfold)
qed

lemma read_given_char_on:
  "stops radix seps rest \<Longrightarrow> c \<in> seps \<Longrightarrow>
     read_given_char c (s @ rest) = map_option (\<lambda>s. s @ rest) (read_given_char c s)"
  by (cases s; cases rest) (auto simp: read_given_char_def stops_def)

lemma reads_on_separator:
  assumes "stops radix seps rest" and "c \<in> seps" and "reads_on rest q"
  shows "reads_on rest (read_separator c i q)"
  using assms(3)
  by (simp add: reads_on_def read_separator_def read_given_char_on [OF assms(1,2)] split: option.split)

lemma reads_on_octets:
  assumes "stops 10 seps rest" and "CHR ''.'' \<in> seps"
  shows "reads_on rest (read_octets n i)"
proof (induction n arbitrary: i)
  case (Suc n)
  have "reads_on rest (read_separator CHR ''.'' i (read_number 10 3 False 256))"
    using assms by (intro reads_on_separator reads_on_number) simp_all
  with Suc show ?case by (simp add: reads_on_def split: option.split)
qed (simp add: reads_on_def)

lemma reads_on_ipv4: "stops 10 seps rest \<Longrightarrow> CHR ''.'' \<in> seps \<Longrightarrow> reads_on rest read_ipv4_addr"
  unfolding read_ipv4_addr_def by (rule reads_on_octets)

lemma stops_decimal: "stops 16 seps rest \<Longrightarrow> stops 10 seps rest"
  by (auto simp: stops_def to_digit_def Let_def split: if_splits)

lemma read_groups_on:
  assumes "stops 16 {CHR ''.'', CHR '':''} rest"
  shows "read_groups n i limit (s @ rest) =
    (case read_groups n i limit s of (gs, v4, s) \<Rightarrow> (gs, v4, s @ rest))"
proof (induction n arbitrary: i s)
  case (Suc n)
  have "reads_on rest (read_separator CHR '':'' i read_ipv4_addr)"
    by (rule reads_on_separator [OF assms], simp, rule reads_on_ipv4 [OF stops_decimal [OF assms]], simp)
  moreover have "reads_on rest (read_separator CHR '':'' i (read_number 16 4 True 65536))"
    by (rule reads_on_separator [OF assms], simp, rule reads_on_number [OF assms], simp)
  ultimately show ?case by (simp add: reads_on_def Suc split: option.split prod.split)
qed simp

lemma reads_on_ipv6:
  assumes "stops 16 {CHR ''.'', CHR '':''} rest"
  shows "reads_on rest read_ipv6_addr"
  unfolding reads_on_def read_ipv6_addr_def
  by (simp add: read_groups_on [OF assms] read_given_char_on [OF assms] Let_def bind_map_option comp_def
      option.map_comp split: prod.split option.split bind_splits)

text \<open>The decimal display of a port is read back.\<close>

lemma to_digit_decimal: "d < 10 \<Longrightarrow> to_digit 10 (char_of (48 + d)) = Some d"
  by (simp add: to_digit_def)

lemma read_digits_append:
  "read_digits radix n k s = (n', k', []) \<Longrightarrow> read_digits radix n k (s @ t) = read_digits radix n' k' t"
  by (induction s arbitrary: n k) (auto split: option.split_asm)

lemma read_digits_show: "read_digits 10 0 0 (show_nat n) = (n, length (show_nat n), [])"
proof (induction n rule: show_nat.induct)
  case (1 n)
  show ?case
  proof (cases "n < 10")
    case True
    then show ?thesis by (simp add: show_nat.simps [of n] to_digit_decimal)
  next
    case False
    with 1 have "read_digits 10 0 0 (show_nat (n div 10)) = (n div 10, length (show_nat (n div 10)), [])"
      by simp
    from read_digits_append [OF this] False show ?thesis
      by (simp add: show_nat.simps [of n] to_digit_decimal)
  qed
qed

lemma show_nat_not_Nil: "show_nat n \<noteq> []"
  by (simp add: show_nat.simps [of n])

lemma read_port_show: "read_port ('':'' @ show_unsigned p) = Some (unat p, [])" for p :: u16
proof -
  have "unat p < 2 ^ 16" using unsigned_less [of p] by simp
  then show ?thesis
    by (simp add: read_port_def read_given_char_def show_unsigned_def read_digits_show show_nat_not_Nil)
qed

text \<open>An IP address with a port appended is read as that address and that port.\<close>

lemma parse_socket_addr_v4:
  fixes p :: u16
  assumes "parse_ip_addr a = Inr (V4 ip)"
  shows "parse_socket_addr (a @ '':'' @ show_unsigned p) = Some (V4 ip, unat p)"
proof -
  have v4: "read_ipv4_addr a = Some (ip, [])"
    using assms by (auto simp: parse_ip_addr_def split: option.split_asm prod.split_asm list.split_asm)
  have "stops 10 {CHR ''.''} ('':'' @ show_unsigned p)" by (simp add: stops_def to_digit_def)
  from reads_on_ipv4 [OF this] v4
  have "read_ipv4_addr (a @ '':'' @ show_unsigned p) = Some (ip, '':'' @ show_unsigned p)"
    by (simp add: reads_on_def)
  then show ?thesis using read_port_show [of p] by (simp add: parse_socket_addr_def)
qed

lemma parse_socket_addr_v6:
  fixes p :: u16
  assumes "parse_ip_addr a = Inr (V6 ip)"
  shows "parse_socket_addr (''['' @ a @ '']:'' @ show_unsigned p) = Some (V6 ip, unat p)"
proof -
  have v6: "read_ipv6_addr a = Some (ip, [])"
    using assms by (auto simp: parse_ip_addr_def split: option.split_asm prod.split_asm list.split_asm)
  have "stops 16 {CHR ''.'', CHR '':''} ('']:'' @ show_unsigned p)" by (simp add: stops_def to_digit_def)
  from reads_on_ipv6 [OF this] v6
  have "read_ipv6_addr (a @ '']:'' @ show_unsigned p) = Some (ip, '']:'' @ show_unsigned p)"
    by (simp add: reads_on_def)
  moreover have "read_ipv4_addr (''['' @ s) = None" for s
    by (simp add: read_ipv4_addr_def eval_nat_numeral read_separator_def read_number_def to_digit_def)
  ultimately show ?thesis
    using read_port_show [of p] by (simp add: parse_socket_addr_def read_socket_addr_v6_def read_given_char_def)
qed

end
