(* ===== verification/Configuration.thy ===== *)
theory Configuration
  imports Rust_Net
begin

text \<open>
  The configuration records of \<open>native/src/registry.rs\<close> and the types of the webrtc, rtc and ice
  crates they hold, with the constructors the sources name; then \<open>bind_addresses\<close> and
  \<open>setting_engine\<close>.
\<close>

datatype network_type = Unspecified | Udp4 | Udp6 | Tcp4 | Tcp6
datatype multicast_dns_mode = Disabled | QueryOnly | QueryAndGather
datatype dtls_role = DtlsClient | DtlsServer
datatype candidate_type = Host | Srflx
datatype ice_transport_policy = PolicyAll | PolicyRelay

datatype cipher_suite_id =
    Tls_Ecdhe_Ecdsa_With_Aes_128_Ccm
  | Tls_Ecdhe_Ecdsa_With_Aes_128_Ccm_8
  | Tls_Ecdhe_Ecdsa_With_Aes_128_Gcm_Sha256
  | Tls_Ecdhe_Rsa_With_Aes_128_Gcm_Sha256
  | Tls_Ecdhe_Ecdsa_With_Aes_256_Cbc_Sha
  | Tls_Ecdhe_Rsa_With_Aes_256_Cbc_Sha
  | Tls_Ecdhe_Rsa_With_ChaCha20_Poly1305_Sha256
  | Tls_Ecdhe_Ecdsa_With_ChaCha20_Poly1305_Sha256

record ice_server =
  srv_urls :: "string list"
  srv_username :: string
  srv_credential :: string

definition default_ice_server :: ice_server where
  "default_ice_server = \<lparr>srv_urls = [], srv_username = [], srv_credential = []\<rparr>"

record ice_configuration =
  disconnected_timeout :: "duration option"
  failed_timeout :: "duration option"
  keep_alive_interval :: "duration option"
  check_interval :: "duration option"
  max_binding_requests :: "u16 option"
  host_acceptance_min_wait :: "duration option"
  server_reflexive_acceptance_min_wait :: "duration option"
  peer_reflexive_acceptance_min_wait :: "duration option"
  relay_acceptance_min_wait :: "duration option"
  ice_network_types :: "network_type list"
  mdns_mode :: multicast_dns_mode
  mdns_query_timeout :: "duration option"
  lite :: bool
  nat_mapping :: "(string list \<times> candidate_type) option"
  discard_local_candidates_on_restart :: bool
  candidate_pool_size :: u8
  include_loopback_candidate :: bool
  mdns_local_name :: "string option"
  mdns_local_address :: "ip_addr option"
  ice_credentials :: "(string \<times> string) option"

record dtls_configuration =
  answering_role :: "dtls_role option"
  media_level_fingerprints :: bool
  replay_protection_window :: usize
  dtls_cipher_suites :: "cipher_suite_id list"

record transport_configuration =
  udp_bind_addresses :: "string list"
  tcp_bind_addresses :: "string list"
  receive_mtu :: usize

record sctp_configuration =
  send_buffer_limit :: usize
  receive_buffer_size :: u32
  maximum_message_size :: u32
  receive_queue_capacity :: usize

record peer_configuration =
  cfg_ice_servers :: "ice_server list"
  min_port :: u16
  max_port :: u16
  relay_only :: bool
  cfg_ice :: ice_configuration
  cfg_sctp :: sctp_configuration
  cfg_dtls :: dtls_configuration
  cfg_transport :: transport_configuration

record data_channel_configuration =
  chan_label :: string
  chan_ordered :: bool
  chan_max_packet_life_time :: "u16 option"
  chan_max_retransmits :: "u16 option"
  chan_protocol :: string
  chan_negotiated_id :: "u16 option"

subsection \<open>Bind addresses\<close>

definition push_new :: "'a \<Rightarrow> 'a list \<Rightarrow> 'a list" where
  "push_new x xs = (if x \<in> set xs then xs else xs @ [x])"

fun default_binds :: "u16 \<Rightarrow> network_type list \<Rightarrow> string list \<times> string list \<Rightarrow> string list \<times> string list" where
  "default_binds port [] (udp, tcp) = (udp, tcp)"
| "default_binds port (t # ts) (udp, tcp) =
     default_binds port ts
       (case t of
          Unspecified \<Rightarrow> (udp, tcp)
        | Udp4 \<Rightarrow> (push_new (''0.0.0.0:'' @ show_unsigned port) udp, tcp)
        | Udp6 \<Rightarrow> (push_new (''[::]:'' @ show_unsigned port) udp, tcp)
        | Tcp4 \<Rightarrow> (udp, push_new (''0.0.0.0:'' @ show_unsigned port) tcp)
        | Tcp6 \<Rightarrow> (udp, push_new (''[::]:'' @ show_unsigned port) tcp))"

definition append_port :: "u16 \<Rightarrow> string \<Rightarrow> string" where
  "append_port port address =
     (case parse_ip_addr address of
        Inr (V4 _) \<Rightarrow> address @ '':'' @ show_unsigned port
      | Inr (V6 _) \<Rightarrow> ''['' @ address @ '']:'' @ show_unsigned port
      | Inl _ \<Rightarrow> address)"

definition bind_addresses ::
  "transport_configuration \<Rightarrow> network_type list \<Rightarrow> u16 \<Rightarrow> string list \<times> string list" where
  "bind_addresses configuration network_types port =
     (if udp_bind_addresses configuration = [] \<and> tcp_bind_addresses configuration = []
      then default_binds port network_types ([], [])
      else (map (append_port port) (udp_bind_addresses configuration),
            map (append_port port) (tcp_bind_addresses configuration)))"

text \<open>
  What the default binding is to be: one wildcard socket per selected protocol and address family,
  each family at most once, IPv4 and IPv6 in the order of their first mention.
\<close>

definition wildcard :: "u16 \<Rightarrow> bool \<Rightarrow> string" where
  "wildcard port v6 = (if v6 then ''[::]:'' else ''0.0.0.0:'') @ show_unsigned port"

lemma wildcard_inject [simp]: "wildcard port a = wildcard port b \<longleftrightarrow> a = b"
  by (simp add: wildcard_def)

lemma default_binds_set:
  assumes "default_binds port ts (udp, tcp) = (udp', tcp')"
  shows "set udp' = set udp \<union> wildcard port ` {v6. (if v6 then Udp6 else Udp4) \<in> set ts}
     \<and> set tcp' = set tcp \<union> wildcard port ` {v6. (if v6 then Tcp6 else Tcp4) \<in> set ts}"
  using assms
proof (induction ts arbitrary: udp tcp)
  case Nil
  then show ?case by auto
next
  case (Cons t ts)
  then show ?case
    by (cases t) (fastforce simp: push_new_def wildcard_def split: if_splits)+
qed

lemma default_binds_distinct:
  assumes "default_binds port ts (udp, tcp) = (udp', tcp')" and "distinct udp" and "distinct tcp"
  shows "distinct udp' \<and> distinct tcp'"
  using assms
  by (induction ts arbitrary: udp tcp)
    (auto simp: push_new_def split: network_type.splits if_splits)

lemma append_port_read:
  "case parse_ip_addr a of
     Inr ip \<Rightarrow> parse_socket_addr (append_port port a) = Some (ip, unat port)
   | Inl _ \<Rightarrow> append_port port a = a"
  using parse_socket_addr_v4 [of a _ port] parse_socket_addr_v6 [of a _ port]
  by (simp add: append_port_def split: sum.split ip_addr.split)

text \<open>
  C7: with no configured bind address, the sockets bound for a port are exactly the wildcard
  addresses of the selected network types, without a duplicate; UDP types never open a TCP
  listener nor TCP types a UDP socket, and \<open>Unspecified\<close> opens none. With configured addresses
  every one of them is bound, in order: an address that is an IP literal, of either family, becomes a
  socket address that is read as that IP address with the port, and any other text is taken as it is.
\<close>

theorem bind_addresses_correct:
  "(if udp_bind_addresses c = [] \<and> tcp_bind_addresses c = []
    then set (fst (bind_addresses c ts port)) =
           wildcard port ` {v6. (if v6 then Udp6 else Udp4) \<in> set ts}
         \<and> set (snd (bind_addresses c ts port)) =
           wildcard port ` {v6. (if v6 then Tcp6 else Tcp4) \<in> set ts}
         \<and> distinct (fst (bind_addresses c ts port)) \<and> distinct (snd (bind_addresses c ts port))
    else list_all2 (\<lambda>address bound. case parse_ip_addr address of
             Inr ip \<Rightarrow> parse_socket_addr bound = Some (ip, unat port) | Inl _ \<Rightarrow> bound = address)
           (udp_bind_addresses c) (fst (bind_addresses c ts port))
         \<and> list_all2 (\<lambda>address bound. case parse_ip_addr address of
             Inr ip \<Rightarrow> parse_socket_addr bound = Some (ip, unat port) | Inl _ \<Rightarrow> bound = address)
           (tcp_bind_addresses c) (snd (bind_addresses c ts port)))"
proof (cases "udp_bind_addresses c = [] \<and> tcp_bind_addresses c = []")
  case True
  then have e: "default_binds port ts ([], []) =
      (fst (bind_addresses c ts port), snd (bind_addresses c ts port))"
    by (simp add: bind_addresses_def)
  from default_binds_set [OF e] default_binds_distinct [OF e] True show ?thesis by simp
next
  case False
  have "bind_addresses c ts port =
      (map (append_port port) (udp_bind_addresses c), map (append_port port) (tcp_bind_addresses c))"
    by (simp only: bind_addresses_def if_not_P [OF False])
  then show ?thesis
    unfolding if_not_P [OF False] by (simp add: list.rel_map list.rel_refl append_port_read)
qed

subsection \<open>The setting engine\<close>

text \<open>
  A \<open>SettingEngine\<close> is a value of the rtc crate that is only written through its setters, so
  \<open>setting_engine\<close> is the sequence of the calls it makes on \<open>SettingEngine::default()\<close>.
\<close>

datatype engine_call =
    set_dtls_cipher_suites "cipher_suite_id list"
  | set_answering_dtls_role dtls_role
  | set_sdp_media_level_fingerprints bool
  | set_dtls_replay_protection_window usize
  | set_receive_mtu usize
  | set_ice_timeouts "duration option" "duration option" "duration option"
  | set_ice_connection_attempts "duration option" "u16 option"
  | set_host_acceptance_min_wait "duration option"
  | set_srflx_acceptance_min_wait "duration option"
  | set_prflx_acceptance_min_wait "duration option"
  | set_relay_acceptance_min_wait "duration option"
  | set_network_types "network_type list"
  | set_multicast_dns_mode multicast_dns_mode
  | set_include_loopback_candidate bool
  | set_multicast_dns_local_name string
  | set_multicast_dns_local_ip "ip_addr option"
  | set_ice_credentials string string
  | set_multicast_dns_timeout "duration option"
  | set_lite bool
  | set_discard_local_candidates_during_ice_restart bool
  | set_nat_1to1_ips "string list" candidate_type
  | set_sctp_max_message_size u32
  | set_sctp_max_receive_buffer_size u32

definition setting_engine :: "peer_configuration \<Rightarrow> engine_call list" where
  "setting_engine configuration =
     (let ice = cfg_ice configuration; dtls = cfg_dtls configuration;
          sctp = cfg_sctp configuration; transport = cfg_transport configuration
      in [set_dtls_cipher_suites (dtls_cipher_suites dtls)]
       @ (case answering_role dtls of Some role \<Rightarrow> [set_answering_dtls_role role] | None \<Rightarrow> [])
       @ [set_sdp_media_level_fingerprints (media_level_fingerprints dtls),
          set_dtls_replay_protection_window (replay_protection_window dtls),
          set_receive_mtu (receive_mtu transport),
          set_ice_timeouts (disconnected_timeout ice) (failed_timeout ice) (keep_alive_interval ice),
          set_ice_connection_attempts (check_interval ice) (max_binding_requests ice),
          set_host_acceptance_min_wait (host_acceptance_min_wait ice),
          set_srflx_acceptance_min_wait (server_reflexive_acceptance_min_wait ice),
          set_prflx_acceptance_min_wait (peer_reflexive_acceptance_min_wait ice),
          set_relay_acceptance_min_wait (relay_acceptance_min_wait ice),
          set_network_types (ice_network_types ice),
          set_multicast_dns_mode (mdns_mode ice),
          set_include_loopback_candidate (include_loopback_candidate ice)]
       @ (case mdns_local_name ice of
            Some name \<Rightarrow> [set_multicast_dns_local_name name] | None \<Rightarrow> [])
       @ [set_multicast_dns_local_ip (mdns_local_address ice)]
       @ (case ice_credentials ice of
            Some (username_fragment, password) \<Rightarrow> [set_ice_credentials username_fragment password]
          | None \<Rightarrow> [])
       @ (if mdns_query_timeout ice \<noteq> None
          then [set_multicast_dns_timeout (mdns_query_timeout ice)] else [])
       @ [set_lite (lite ice),
          set_discard_local_candidates_during_ice_restart (discard_local_candidates_on_restart ice)]
       @ (case nat_mapping ice of
            Some (addresses, kind) \<Rightarrow> [set_nat_1to1_ips addresses kind] | None \<Rightarrow> [])
       @ [set_sctp_max_message_size (maximum_message_size sctp),
          set_sctp_max_receive_buffer_size (receive_buffer_size sctp)])"

text \<open>The optional settings of the engine, as the configuration gives them.\<close>

definition optional_calls :: "peer_configuration \<Rightarrow> engine_call set" where
  "optional_calls configuration =
     {set_answering_dtls_role r |r. answering_role (cfg_dtls configuration) = Some r}
     \<union> {set_multicast_dns_local_name n |n. mdns_local_name (cfg_ice configuration) = Some n}
     \<union> {set_ice_credentials u p |u p. ice_credentials (cfg_ice configuration) = Some (u, p)}
     \<union> {set_multicast_dns_timeout (Some d) |d. mdns_query_timeout (cfg_ice configuration) = Some d}
     \<union> {set_nat_1to1_ips a k |a k. nat_mapping (cfg_ice configuration) = Some (a, k)}"

definition is_optional_call :: "engine_call \<Rightarrow> bool" where
  "is_optional_call c =
     (case c of
        set_answering_dtls_role _ \<Rightarrow> True | set_multicast_dns_local_name _ \<Rightarrow> True
      | set_ice_credentials _ _ \<Rightarrow> True | set_multicast_dns_timeout _ \<Rightarrow> True
      | set_nat_1to1_ips _ _ \<Rightarrow> True | _ \<Rightarrow> False)"

lemma setting_engine_optional:
  "{c \<in> set (setting_engine configuration). is_optional_call c} = optional_calls configuration"
  unfolding setting_engine_def optional_calls_def is_optional_call_def Let_def
  by (auto split: option.splits)

end
