(* ===== verification/Validation.thy ===== *)
theory Validation
  imports Configuration
begin

text \<open>
  The argument checks of \<open>native/src/bridge.rs\<close> that both boundaries share: timeouts, ports,
  optional values with \<open>-1\<close> for "none", bit masks, session descriptions and handles. The masks
  are built on the Kotlin side by folding the ordinals of a set (\<open>JvmNativeBridge.kt\<close>,
  \<open>NativeWire.kt\<close>).
\<close>

subsection \<open>Session descriptions\<close>

datatype sdp_type = Offer | Answer | Pranswer | Rollback

record session_description =
  sd_type :: sdp_type
  sd_sdp :: string

text \<open>The four constructors of \<open>RTCSessionDescription\<close>; they belong to the rtc crate.\<close>

record sdp_parsers =
  sdp_offer :: "string \<Rightarrow> session_description result"
  sdp_answer :: "string \<Rightarrow> session_description result"
  sdp_pranswer :: "string \<Rightarrow> session_description result"
  sdp_rollback :: "string option \<Rightarrow> session_description result"

definition parse_description :: "sdp_parsers \<Rightarrow> string \<Rightarrow> i32 \<Rightarrow> session_description result" where
  "parse_description p sdp description_type =
     (let wrap = map_err (\<lambda>error. ''Invalid session description: '' @ error) in
      if description_type = 0 then wrap (sdp_offer p sdp)
      else if description_type = 1 then wrap (sdp_answer p sdp)
      else if description_type = 2 then wrap (sdp_pranswer p sdp)
      else if description_type = 3 then wrap (sdp_rollback p (Some sdp))
      else Inl (''Unknown session description type: '' @ show_signed description_type))"

subsection \<open>Numbers\<close>

definition timeout :: "i64 \<Rightarrow> duration result" where
  "timeout millis =
     and_then (ok_or ''Operation timeout must not be negative'' (try_unsigned millis :: u64 option))
       (\<lambda>millis. Inr (from_millis millis))"

definition optional_duration :: "i64 \<Rightarrow> string \<Rightarrow> duration option result" where
  "optional_duration millis name =
     (if millis = - 1 then Inr None
      else map_ok Some (map_ok from_millis
             (ok_or (''The '' @ name @ '' must not be negative'') (try_unsigned millis :: u64 option))))"

definition positive_u32 :: "i32 \<Rightarrow> string \<Rightarrow> u32 result" where
  "positive_u32 value name =
     and_then (ok_or (''The '' @ name @ '' must be positive'') (try_unsigned value :: u32 option))
       (\<lambda>value. if value = 0 then Inl (''The '' @ name @ '' must be positive'') else Inr value)"

definition port :: "i32 \<Rightarrow> string \<Rightarrow> u16 result" where
  "port value name =
     ok_or (''The '' @ name @ '' port must be between 0 and 65535'') (try_unsigned value)"

definition optional_u16 :: "i32 \<Rightarrow> string \<Rightarrow> u16 option result" where
  "optional_u16 value name =
     (if value = - 1 then Inr None
      else map_ok Some (ok_or (''The '' @ name @ '' must be between 0 and 65535'') (try_unsigned value)))"

definition handle_from_jlong :: "i64 \<Rightarrow> u64 result" where
  "handle_from_jlong value = ok_or ''Native handle must not be negative'' (try_unsigned value)"

definition handle_to_jlong :: "u64 \<Rightarrow> i64 result" where
  "handle_to_jlong value = ok_or ''Native handle range is exhausted'' (try_signed value)"

subsection \<open>Masks\<close>

definition network_types :: "i32 \<Rightarrow> network_type list result" where
  "network_types msk =
     (if sint msk \<le> 0 \<or> msk AND NOT 0xF \<noteq> 0 then Inl ''Invalid ICE network type mask''
      else Inr ((if msk AND 1 \<noteq> 0 then [Udp4] else [])
             @ (if msk AND 2 \<noteq> 0 then [Udp6] else [])
             @ (if msk AND 4 \<noteq> 0 then [Tcp4] else [])
             @ (if msk AND 8 \<noteq> 0 then [Tcp6] else [])))"

definition all_cipher_suites :: "cipher_suite_id list" where
  "all_cipher_suites =
     [Tls_Ecdhe_Ecdsa_With_Aes_128_Ccm,
      Tls_Ecdhe_Ecdsa_With_Aes_128_Ccm_8,
      Tls_Ecdhe_Ecdsa_With_Aes_128_Gcm_Sha256,
      Tls_Ecdhe_Rsa_With_Aes_128_Gcm_Sha256,
      Tls_Ecdhe_Ecdsa_With_Aes_256_Cbc_Sha,
      Tls_Ecdhe_Rsa_With_Aes_256_Cbc_Sha,
      Tls_Ecdhe_Rsa_With_ChaCha20_Poly1305_Sha256,
      Tls_Ecdhe_Ecdsa_With_ChaCha20_Poly1305_Sha256]"

definition cipher_suites :: "i32 \<Rightarrow> cipher_suite_id list result" where
  "cipher_suites msk =
     (if sint msk \<le> 0 \<or> msk AND NOT 0xff \<noteq> 0 then Inl ''Invalid DTLS cipher suite mask''
      else Inr (List.map_filter
                  (\<lambda>(index, suite). if msk AND push_bit index 1 \<noteq> 0 then Some suite else None)
                  (enumerate 0 all_cipher_suites)))"

text \<open>
  The enums of \<open>Models.kt\<close> with the ordinals of their constants, their positions in the declaration.
\<close>

datatype IceNetworkType = UDP4 | UDP6 | TCP4 | TCP6

fun IceNetworkType_ordinal :: "IceNetworkType \<Rightarrow> nat" where
  "IceNetworkType_ordinal UDP4 = 0"
| "IceNetworkType_ordinal UDP6 = 1"
| "IceNetworkType_ordinal TCP4 = 2"
| "IceNetworkType_ordinal TCP6 = 3"

datatype DtlsCipherSuite =
    ECDHE_ECDSA_AES_128_CCM
  | ECDHE_ECDSA_AES_128_CCM_8
  | ECDHE_ECDSA_AES_128_GCM_SHA256
  | ECDHE_RSA_AES_128_GCM_SHA256
  | ECDHE_ECDSA_AES_256_CBC_SHA
  | ECDHE_RSA_AES_256_CBC_SHA
  | ECDHE_RSA_CHACHA20_POLY1305_SHA256
  | ECDHE_ECDSA_CHACHA20_POLY1305_SHA256

fun DtlsCipherSuite_ordinal :: "DtlsCipherSuite \<Rightarrow> nat" where
  "DtlsCipherSuite_ordinal ECDHE_ECDSA_AES_128_CCM = 0"
| "DtlsCipherSuite_ordinal ECDHE_ECDSA_AES_128_CCM_8 = 1"
| "DtlsCipherSuite_ordinal ECDHE_ECDSA_AES_128_GCM_SHA256 = 2"
| "DtlsCipherSuite_ordinal ECDHE_RSA_AES_128_GCM_SHA256 = 3"
| "DtlsCipherSuite_ordinal ECDHE_ECDSA_AES_256_CBC_SHA = 4"
| "DtlsCipherSuite_ordinal ECDHE_RSA_AES_256_CBC_SHA = 5"
| "DtlsCipherSuite_ordinal ECDHE_RSA_CHACHA20_POLY1305_SHA256 = 6"
| "DtlsCipherSuite_ordinal ECDHE_ECDSA_CHACHA20_POLY1305_SHA256 = 7"

text \<open>\<open>set.fold(0) { mask, value -> mask or (1 shl value.ordinal) }\<close>\<close>

definition ordinal_mask :: "nat list \<Rightarrow> i32" where
  "ordinal_mask ordinals = foldl (\<lambda>msk i. msk OR push_bit i 1) 0 ordinals"

subsection \<open>Ranges of the numeric checks\<close>

lemma timeout_Inr_iff:
  "timeout ms = Inr d \<longleftrightarrow> 0 \<le> sint ms \<and> d = nat (sint ms) * 10 ^ 6"
proof -
  have "unat ms = nat (sint ms)" if "0 \<le> sint ms"
    using that try_unsigned_Some_iff [of ms ms] by (simp add: unat_eq_nat_uint)
  then show ?thesis by (auto simp: timeout_def from_millis_def)
qed

lemma port_Inr_iff: "port v name = Inr p \<longleftrightarrow> 0 \<le> sint v \<and> uint p = sint v"
  by (simp add: port_def try_unsigned_Some_iff)

lemma optional_u16_Inr_iff:
  "optional_u16 v name = Inr r \<longleftrightarrow>
     (v = - 1 \<and> r = None) \<or> (\<exists>w. r = Some w \<and> 0 \<le> sint v \<and> uint w = sint v)"
  by (auto simp: optional_u16_def try_unsigned_Some_iff)

lemma positive_u32_Inr_iff:
  "positive_u32 v name = Inr w \<longleftrightarrow> 0 < sint v \<and> w = v"
  using sint_eq_0_iff [of v] by (auto simp: positive_u32_def and_then_Inr_iff)

text \<open>
  C8: the numeric checks accept exactly the documented ranges and keep the value: ports and
  optional 16-bit values lie in 0..65535 (with \<open>-1\<close> as "none"), timeouts are not negative, sizes
  are positive. Outside its range each check fails with its own message, in which all but the one of
  the timeout name the argument.
\<close>

theorem numeric_checks:
  "(port v name = Inr p \<longleftrightarrow> sint v = uint p)
   \<and> (port v name = Inl e \<longleftrightarrow>
        e = ''The '' @ name @ '' port must be between 0 and 65535'' \<and> (sint v < 0 \<or> 65535 < sint v))
   \<and> (optional_u16 v name = Inr r \<longleftrightarrow> sint v = (case r of None \<Rightarrow> - 1 | Some w \<Rightarrow> uint w))
   \<and> (optional_u16 v name = Inl e \<longleftrightarrow>
        e = ''The '' @ name @ '' must be between 0 and 65535'' \<and> (sint v < - 1 \<or> 65535 < sint v))
   \<and> (positive_u32 v name = Inr s \<longleftrightarrow> 0 < sint v \<and> uint s = sint v)
   \<and> (positive_u32 v name = Inl e \<longleftrightarrow> e = ''The '' @ name @ '' must be positive'' \<and> sint v \<le> 0)
   \<and> (timeout ms = Inr d \<longleftrightarrow> 0 \<le> sint ms \<and> d = nat (sint ms) * 10 ^ 6)
   \<and> (timeout ms = Inl e \<longleftrightarrow> e = ''Operation timeout must not be negative'' \<and> sint ms < 0)
   \<and> (optional_duration ms name = Inr od \<longleftrightarrow>
        (case od of None \<Rightarrow> sint ms = - 1 | Some d \<Rightarrow> 0 \<le> sint ms \<and> d = nat (sint ms) * 10 ^ 6))
   \<and> (optional_duration ms name = Inl e \<longleftrightarrow>
        e = ''The '' @ name @ '' must not be negative'' \<and> sint ms < - 1)"
proof (intro conjI)
  show "port v name = Inr p \<longleftrightarrow> sint v = uint p"
    by (auto simp: port_Inr_iff)
  show "port v name = Inl e \<longleftrightarrow>
      e = ''The '' @ name @ '' port must be between 0 and 65535'' \<and> (sint v < 0 \<or> 65535 < sint v)"
    by (auto simp: port_def ok_or_Inl_iff try_unsigned_None_iff)
  show "optional_u16 v name = Inr r \<longleftrightarrow> sint v = (case r of None \<Rightarrow> - 1 | Some w \<Rightarrow> uint w)"
    by (cases r) (auto simp: optional_u16_Inr_iff sint_eq_m1_iff)
  show "optional_u16 v name = Inl e \<longleftrightarrow>
      e = ''The '' @ name @ '' must be between 0 and 65535'' \<and> (sint v < - 1 \<or> 65535 < sint v)"
    using sint_eq_m1_iff [of v]
    by (auto simp: optional_u16_def map_ok_Inl_iff ok_or_Inl_iff try_unsigned_None_iff)
  show "positive_u32 v name = Inr s \<longleftrightarrow> 0 < sint v \<and> uint s = sint v"
    using uint_eq_sint [of v] by (auto simp: positive_u32_Inr_iff word_uint_eq_iff)
  show "positive_u32 v name = Inl e \<longleftrightarrow> e = ''The '' @ name @ '' must be positive'' \<and> sint v \<le> 0"
    using positive_u32_Inr_iff [of v name v]
    by (cases "positive_u32 v name")
      (auto simp: positive_u32_def and_then_Inl_iff ok_or_Inl_iff split: if_split_asm)
  show "timeout ms = Inr d \<longleftrightarrow> 0 \<le> sint ms \<and> d = nat (sint ms) * 10 ^ 6"
    by (rule timeout_Inr_iff)
  show "timeout ms = Inl e \<longleftrightarrow> e = ''Operation timeout must not be negative'' \<and> sint ms < 0"
    using sint_less [of ms]
    by (auto simp: timeout_def and_then_Inl_iff ok_or_Inl_iff try_unsigned_None_iff)
  have dur: "optional_duration ms name = Inr (Some d) \<longleftrightarrow> timeout ms = Inr d \<and> ms \<noteq> - 1" for d
    by (auto simp: optional_duration_def timeout_def and_then_Inr_iff)
  have none: "optional_duration ms name = Inr None \<longleftrightarrow> ms = - 1"
    by (auto simp: optional_duration_def)
  show "optional_duration ms name = Inr od \<longleftrightarrow>
        (case od of None \<Rightarrow> sint ms = - 1 | Some d \<Rightarrow> 0 \<le> sint ms \<and> d = nat (sint ms) * 10 ^ 6)"
    using sint_eq_m1_iff [of ms]
    by (cases od) (auto simp: dur none timeout_Inr_iff)
  show "optional_duration ms name = Inl e \<longleftrightarrow>
      e = ''The '' @ name @ '' must not be negative'' \<and> sint ms < - 1"
    using sint_eq_m1_iff [of ms] sint_less [of ms]
    by (auto simp: optional_duration_def map_ok_Inl_iff ok_or_Inl_iff try_unsigned_None_iff)
qed

text \<open>
  C9: a handle that crosses to the JVM as a \<open>long\<close> comes back unchanged, and the conversion fails
  exactly for the handles of \<open>2 ^ 63\<close> and above.
\<close>

theorem handle_roundtrip:
  "(case handle_to_jlong h of
      Inr j \<Rightarrow> handle_from_jlong j = Inr h \<and> uint h < 2 ^ 63
    | Inl message \<Rightarrow> 2 ^ 63 \<le> uint h)
   \<and> (case handle_from_jlong j of
      Inr h' \<Rightarrow> handle_to_jlong h' = Inr j \<and> 0 \<le> sint j
    | Inl message \<Rightarrow> sint j < 0)"
proof -
  have "uint w < 2 ^ 63 \<longleftrightarrow> 0 \<le> sint w" for w :: u64
    using uint_half_iff_sint_nonneg [of w] by simp
  note half = this
  have "2 ^ 63 \<le> uint h \<longleftrightarrow> sint h < 0" using half [of h] by linarith
  with half [of h] show ?thesis
    by (simp add: handle_to_jlong_def handle_from_jlong_def try_signed_same not_less)
qed

subsection \<open>What a mask selects\<close>

lemma bit_flag: "bit (push_bit i 1 :: i32) k \<longleftrightarrow> k = i \<and> k < 32"
  by (auto simp: bit_exp_iff)

lemma and_flag_iff: "m AND 2 ^ i \<noteq> 0 \<longleftrightarrow> bit m i" for m :: i32
  using bit_iff_and_push_bit_not_eq_0 [of m i] by simp

lemma bit_ordinal_mask: "bit (ordinal_mask is) k \<longleftrightarrow> k \<in> set is \<and> k < 32"
proof -
  have "bit (foldl (\<lambda>m i. m OR push_bit i 1) acc is :: i32) k \<longleftrightarrow> bit acc k \<or> (k \<in> set is \<and> k < 32)"
    for acc
  proof (induction "is" arbitrary: acc)
    case (Cons i "is")
    show ?case
      unfolding foldl_Cons Cons.IH bit_or_iff bit_flag by auto
  qed simp
  then show ?thesis by (simp add: ordinal_mask_def)
qed

lemma mask_in_range:
  fixes m :: i32
  assumes "n < 32" and "m \<noteq> 0" and "\<And>k. bit m k \<Longrightarrow> k < n"
  shows "0 < sint m" and "m AND NOT (mask n) = 0"
proof -
  have "\<not> bit m (LENGTH(32) - Suc 0)" using assms(1) assms(3) [of 31] by auto
  then have "0 \<le> sint m" using bit_last_iff [of m] by (simp add: not_less)
  moreover have "sint m \<noteq> 0" using assms(2) by (simp add: sint_eq_0_iff)
  ultimately show "0 < sint m" by simp
  show "m AND NOT (mask n) = 0"
    by (rule bit_word_eqI) (auto simp: bit_and_iff bit_not_iff bit_mask_iff dest: assms(3))
qed

lemma mask_literals:
  "(0xF :: i32) = mask 4" "(0xff :: i32) = mask 8"
  by (simp_all add: mask_eq_exp_minus_1)

lemma network_types_bits:
  "0 < sint m \<Longrightarrow> m AND NOT (mask 4) = 0 \<Longrightarrow>
   network_types m = Inr ((if bit m 0 then [Udp4] else []) @ (if bit m 1 then [Udp6] else [])
     @ (if bit m 2 then [Tcp4] else []) @ (if bit m 3 then [Tcp6] else []))"
  using bit_iff_and_push_bit_not_eq_0 [of m 0] bit_iff_and_push_bit_not_eq_0 [of m 1]
    bit_iff_and_push_bit_not_eq_0 [of m 2] bit_iff_and_push_bit_not_eq_0 [of m 3]
  unfolding network_types_def mask_literals by (simp only: push_bit_of_1) simp

lemma cipher_suites_bits:
  "0 < sint m \<Longrightarrow> m AND NOT (mask 8) = 0 \<Longrightarrow>
   cipher_suites m = Inr (map snd (filter (\<lambda>(i, s). bit m i) (enumerate 0 all_cipher_suites)))"
  unfolding cipher_suites_def mask_literals
  by (auto simp: map_filter_def comp_def case_prod_unfold and_flag_iff intro!: map_cong)

lemma set_enumerate_selected:
  "set (map snd (filter (\<lambda>(i, s). i \<in> A) (enumerate 0 xs))) = (\<lambda>i. xs ! i) ` {i. i < length xs \<and> i \<in> A}"
proof -
  have "(i, s) \<in> set (enumerate 0 xs) \<longleftrightarrow> i < length xs \<and> s = xs ! i" for i s
    by (auto simp: in_set_enumerate_eq)
  then show ?thesis by (auto simp: image_iff)
qed

lemma distinct_selected: "distinct xs \<Longrightarrow> distinct (map snd (filter P (enumerate n xs)))"
  by (rule distinct_map_filter) simp

lemma all_cipher_suites_facts: "length all_cipher_suites = 8" "distinct all_cipher_suites"
  by (simp_all add: all_cipher_suites_def)

text \<open>What a constant of the Kotlin enums stands for, by its name.\<close>

fun network_type_named :: "IceNetworkType \<Rightarrow> network_type" where
  "network_type_named UDP4 = Udp4"
| "network_type_named UDP6 = Udp6"
| "network_type_named TCP4 = Tcp4"
| "network_type_named TCP6 = Tcp6"

fun suite_named :: "DtlsCipherSuite \<Rightarrow> cipher_suite_id" where
  "suite_named ECDHE_ECDSA_AES_128_CCM = Tls_Ecdhe_Ecdsa_With_Aes_128_Ccm"
| "suite_named ECDHE_ECDSA_AES_128_CCM_8 = Tls_Ecdhe_Ecdsa_With_Aes_128_Ccm_8"
| "suite_named ECDHE_ECDSA_AES_128_GCM_SHA256 = Tls_Ecdhe_Ecdsa_With_Aes_128_Gcm_Sha256"
| "suite_named ECDHE_RSA_AES_128_GCM_SHA256 = Tls_Ecdhe_Rsa_With_Aes_128_Gcm_Sha256"
| "suite_named ECDHE_ECDSA_AES_256_CBC_SHA = Tls_Ecdhe_Ecdsa_With_Aes_256_Cbc_Sha"
| "suite_named ECDHE_RSA_AES_256_CBC_SHA = Tls_Ecdhe_Rsa_With_Aes_256_Cbc_Sha"
| "suite_named ECDHE_RSA_CHACHA20_POLY1305_SHA256 = Tls_Ecdhe_Rsa_With_ChaCha20_Poly1305_Sha256"
| "suite_named ECDHE_ECDSA_CHACHA20_POLY1305_SHA256 = Tls_Ecdhe_Ecdsa_With_ChaCha20_Poly1305_Sha256"

lemma network_type_at: "[Udp4, Udp6, Tcp4, Tcp6] ! IceNetworkType_ordinal t = network_type_named t"
  "IceNetworkType_ordinal t < 4"
  by (cases t; simp)+

lemma suite_at: "all_cipher_suites ! DtlsCipherSuite_ordinal c = suite_named c"
  "DtlsCipherSuite_ordinal c < 8"
  by (cases c; simp add: all_cipher_suites_def)+

lemma masks_select:
  assumes "ns \<noteq> []" and "\<forall>i\<in>set ns. i < 4" and "cs \<noteq> []" and "\<forall>i\<in>set cs. i < 8"
  shows "\<exists>ts. network_types (ordinal_mask ns) = Inr ts \<and> distinct ts
           \<and> set ts = (\<lambda>i. [Udp4, Udp6, Tcp4, Tcp6] ! i) ` set ns"
    and "\<exists>ss. cipher_suites (ordinal_mask cs) = Inr ss \<and> distinct ss
           \<and> set ss = (\<lambda>i. all_cipher_suites ! i) ` set cs"
proof -
  have nz: "ordinal_mask is \<noteq> 0" if "is \<noteq> []" "\<forall>i\<in>set is. i < n" "n \<le> 32" for "is" n
  proof -
    have "hd is < 32" using that hd_in_set [OF that(1)] by (meson less_le_trans)
    then have "bit (ordinal_mask is) (hd is)" using that(1) by (simp add: bit_ordinal_mask)
    then show ?thesis by auto
  qed
  have n: "0 < sint (ordinal_mask ns)" "ordinal_mask ns AND NOT (mask 4) = 0"
    using mask_in_range [of 4 "ordinal_mask ns"] nz [OF assms(1,2)] assms(2)
    by (simp_all add: bit_ordinal_mask)
  have c: "0 < sint (ordinal_mask cs)" "ordinal_mask cs AND NOT (mask 8) = 0"
    using mask_in_range [of 8 "ordinal_mask cs"] nz [OF assms(3,4)] assms(4)
    by (simp_all add: bit_ordinal_mask)
  let ?ts = "map snd (filter (\<lambda>(i, s). i \<in> set ns) (enumerate 0 [Udp4, Udp6, Tcp4, Tcp6]))"
  have "set ?ts = (\<lambda>i. [Udp4, Udp6, Tcp4, Tcp6] ! i) ` {i. i < 4 \<and> i \<in> set ns}"
    by (subst set_enumerate_selected) (simp add: numeral_eq_Suc)
  also have "{i. i < 4 \<and> i \<in> set ns} = set ns" using assms(2) by auto
  finally show "\<exists>ts. network_types (ordinal_mask ns) = Inr ts \<and> distinct ts
      \<and> set ts = (\<lambda>i. [Udp4, Udp6, Tcp4, Tcp6] ! i) ` set ns"
    by (intro exI [of _ ?ts])
      (simp add: network_types_bits [OF n] bit_ordinal_mask numeral_eq_Suc)
  let ?ss = "map snd (filter (\<lambda>(i, s). i \<in> set cs) (enumerate 0 all_cipher_suites))"
  have e: "filter (\<lambda>(i, s). bit (ordinal_mask cs) i) (enumerate 0 all_cipher_suites)
      = filter (\<lambda>(i, s). i \<in> set cs) (enumerate 0 all_cipher_suites)"
    using assms(4) by (intro filter_cong) (auto simp: bit_ordinal_mask)
  have "set ?ss = (\<lambda>i. all_cipher_suites ! i) ` {i. i < 8 \<and> i \<in> set cs}"
    by (subst set_enumerate_selected) (simp add: all_cipher_suites_facts)
  also have "{i. i < 8 \<and> i \<in> set cs} = set cs" using assms(4) by auto
  finally have ss: "set ?ss = (\<lambda>i. all_cipher_suites ! i) ` set cs" .
  show "\<exists>ss. cipher_suites (ordinal_mask cs) = Inr ss \<and> distinct ss
      \<and> set ss = (\<lambda>i. all_cipher_suites ! i) ` set cs"
    by (intro exI [of _ ?ss] conjI ss distinct_selected all_cipher_suites_facts(2))
      (simp only: cipher_suites_bits [OF c] e)
qed

text \<open>
  C10: the masks transport a selection. For any nonempty list of \<open>IceNetworkType\<close> constants the
  mask Kotlin computes is accepted, and the types the engine uses are exactly those of the same names,
  each once; the same holds for \<open>DtlsCipherSuite\<close> constants and the cipher suites they name. A mask that is
  not positive or has a bit beyond the last ordinal is refused.
\<close>

theorem mask_roundtrip:
  assumes "ts \<noteq> []" and "cs \<noteq> []"
  shows "(\<exists>types. network_types (ordinal_mask (map IceNetworkType_ordinal ts)) = Inr types
            \<and> distinct types \<and> set types = network_type_named ` set ts)
    \<and> (\<exists>suites. cipher_suites (ordinal_mask (map DtlsCipherSuite_ordinal cs)) = Inr suites
            \<and> distinct suites \<and> set suites = suite_named ` set cs)
    \<and> (sint m \<le> 0 \<or> m AND NOT 0xF \<noteq> 0 \<longrightarrow> network_types m = Inl ''Invalid ICE network type mask'')
    \<and> (sint m \<le> 0 \<or> m AND NOT 0xff \<noteq> 0 \<longrightarrow> cipher_suites m = Inl ''Invalid DTLS cipher suite mask'')"
proof (intro conjI)
  have ns: "map IceNetworkType_ordinal ts \<noteq> []" "\<forall>i\<in>set (map IceNetworkType_ordinal ts). i < 4"
    and cs: "map DtlsCipherSuite_ordinal cs \<noteq> []" "\<forall>i\<in>set (map DtlsCipherSuite_ordinal cs). i < 8"
    using assms by (simp_all add: network_type_at suite_at)
  show "\<exists>types. network_types (ordinal_mask (map IceNetworkType_ordinal ts)) = Inr types
      \<and> distinct types \<and> set types = network_type_named ` set ts"
    using masks_select(1) [OF ns cs] by (simp only: set_map image_image network_type_at)
  show "\<exists>suites. cipher_suites (ordinal_mask (map DtlsCipherSuite_ordinal cs)) = Inr suites
      \<and> distinct suites \<and> set suites = suite_named ` set cs"
    using masks_select(2) [OF ns cs] by (simp only: set_map image_image suite_at)
  show "sint m \<le> 0 \<or> m AND NOT 0xF \<noteq> 0 \<longrightarrow> network_types m = Inl ''Invalid ICE network type mask''"
    by (auto simp: network_types_def)
  show "sint m \<le> 0 \<or> m AND NOT 0xff \<noteq> 0 \<longrightarrow> cipher_suites m = Inl ''Invalid DTLS cipher suite mask''"
    by (auto simp: cipher_suites_def)
qed

theorem mask_roundtrip_witness:
  "(\<exists>types. network_types (ordinal_mask (map IceNetworkType_ordinal [TCP4, UDP4])) = Inr types
      \<and> distinct types \<and> set types = {Tcp4, Udp4})
   \<and> (\<exists>suites. cipher_suites (ordinal_mask (map DtlsCipherSuite_ordinal [ECDHE_RSA_AES_256_CBC_SHA])) = Inr suites
      \<and> distinct suites \<and> set suites = {Tls_Ecdhe_Rsa_With_Aes_256_Cbc_Sha})"
  using mask_roundtrip [of "[TCP4, UDP4]" "[ECDHE_RSA_AES_256_CBC_SHA]" 0] by simp

end
