(* ===== verification/Webrtc_Api.thy ===== *)
theory Webrtc_Api
  imports Validation Stats_Wire
begin

text \<open>
  What the engine calls of the webrtc, rtc, rcgen, bytes and tokio crates and of the system. Those crates are not part of the
  repository: their methods are the fields of a record \<open>'w webrtc_api\<close> that every definition using
  them takes as an argument. A method reads and changes the crates' own state, a value of the type
  variable \<open>'w\<close>, so nothing is assumed about it. Connections, channels, socket muxes and
  certificates are references into that state.
\<close>

type_synonym peer_ref = nat
type_synonym channel_ref = nat
type_synonym mux_ref = nat
type_synonym certificate = nat

text \<open>\<open>webrtc::error::Error\<close>: the code tells \<open>ErrSendBufferFull\<close> from all others.\<close>

datatype webrtc_error = ErrSendBufferFull | WebrtcError string

type_synonym 'a webrtc_result = "webrtc_error + 'a"

record ice_candidate_init =
  ic_candidate :: string
  ic_sdp_mid :: "string option"
  ic_sdp_mline_index :: "u16 option"
  ic_username_fragment :: "string option"
  ic_url :: "string option"

record data_channel_init =
  init_ordered :: bool
  init_max_packet_life_time :: "u16 option"
  init_max_retransmits :: "u16 option"
  init_protocol :: string
  init_negotiated :: "u16 option"

datatype channel_state = ChannelUnspecified | ChannelConnecting | ChannelOpen | ChannelClosing | ChannelClosed

text \<open>
  \<open>RTCConfigurationBuilder\<close> and \<open>PeerConnectionBuilder\<close> are written only through their \<open>with_\<close>
  methods, so a built value is the sequence of those calls.
\<close>

datatype configuration_call =
    with_ice_servers "ice_server list"
  | with_ice_transport_policy ice_transport_policy
  | with_certificates "certificate list"
  | with_ice_candidate_pool_size u8

type_synonym rtc_configuration = "configuration_call list"

datatype builder_call =
    with_configuration rtc_configuration
  | with_setting_engine "engine_call list"
  | with_handler u64
  | with_runtime
  | with_udp_addrs "string list"
  | with_tcp_addrs "string list"
  | with_dedicated_reactor_thread bool
  | with_data_channel_send_buffer_limit usize
  | with_data_channel_event_channel_capacity usize
  | with_socket_mux mux_ref

type_synonym peer_builder = "builder_call list"

type_synonym ('w, 'a) api_call = "'w \<Rightarrow> 'a \<times> 'w"

record 'w webrtc_api =
  error_to_string :: "webrtc_error \<Rightarrow> string"
  peer_build :: "peer_builder \<Rightarrow> ('w, peer_ref webrtc_result) api_call"
  peer_create_offer :: "peer_ref \<Rightarrow> ('w, session_description webrtc_result) api_call"
  peer_create_answer :: "peer_ref \<Rightarrow> ('w, session_description webrtc_result) api_call"
  peer_set_local_description :: "peer_ref \<Rightarrow> session_description \<Rightarrow> ('w, unit webrtc_result) api_call"
  peer_set_remote_description :: "peer_ref \<Rightarrow> session_description \<Rightarrow> ('w, unit webrtc_result) api_call"
  peer_add_ice_candidate :: "peer_ref \<Rightarrow> ice_candidate_init \<Rightarrow> ('w, unit webrtc_result) api_call"
  peer_restart_ice :: "peer_ref \<Rightarrow> ('w, unit webrtc_result) api_call"
  peer_set_configuration :: "peer_ref \<Rightarrow> rtc_configuration \<Rightarrow> ('w, unit webrtc_result) api_call"
  peer_create_data_channel :: "peer_ref \<Rightarrow> string \<Rightarrow> data_channel_init option \<Rightarrow> ('w, channel_ref webrtc_result) api_call"
  peer_get_stats :: "peer_ref \<Rightarrow> ('w, stats_report) api_call"
  peer_close :: "peer_ref \<Rightarrow> ('w, unit webrtc_result) api_call"
  channel_id :: "channel_ref \<Rightarrow> ('w, u16) api_call"
  channel_label :: "channel_ref \<Rightarrow> ('w, string webrtc_result) api_call"
  channel_protocol :: "channel_ref \<Rightarrow> ('w, string webrtc_result) api_call"
  channel_ordered :: "channel_ref \<Rightarrow> ('w, bool webrtc_result) api_call"
  channel_negotiated :: "channel_ref \<Rightarrow> ('w, bool webrtc_result) api_call"
  channel_max_packet_life_time :: "channel_ref \<Rightarrow> ('w, u16 option webrtc_result) api_call"
  channel_max_retransmits :: "channel_ref \<Rightarrow> ('w, u16 option webrtc_result) api_call"
  channel_ready_state :: "channel_ref \<Rightarrow> ('w, channel_state webrtc_result) api_call"
  channel_send_text :: "channel_ref \<Rightarrow> string \<Rightarrow> ('w, unit webrtc_result) api_call"
  channel_send :: "channel_ref \<Rightarrow> bytes \<Rightarrow> ('w, unit webrtc_result) api_call"
  channel_try_send_text :: "channel_ref \<Rightarrow> string \<Rightarrow> ('w, unit webrtc_result) api_call"
  channel_try_send :: "channel_ref \<Rightarrow> bytes \<Rightarrow> ('w, unit webrtc_result) api_call"
  channel_writable :: "channel_ref \<Rightarrow> ('w, unit webrtc_result) api_call"
  channel_outstanding_bytes :: "channel_ref \<Rightarrow> ('w, usize webrtc_result) api_call"
  channel_set_low_threshold :: "channel_ref \<Rightarrow> u32 \<Rightarrow> ('w, unit webrtc_result) api_call"
  channel_set_high_threshold :: "channel_ref \<Rightarrow> u32 \<Rightarrow> ('w, unit webrtc_result) api_call"
  channel_close :: "channel_ref \<Rightarrow> ('w, unit webrtc_result) api_call"
  system_clock :: "('w, nat result) api_call"
  bytes_try_into_mut :: "bytes \<Rightarrow> bytes option"
  certificate_generate_key :: "('w, nat result) api_call"
  certificate_from_key_pair :: "nat \<Rightarrow> ('w, certificate result) api_call"
  certificate_from_pem :: "string \<Rightarrow> ('w, certificate result) api_call"
  certificate_get_fingerprints :: "certificate \<Rightarrow> string list"
  certificate_serialize_pem :: "certificate \<Rightarrow> string"
  mux_bind :: "(ip_addr \<times> u16) list \<Rightarrow> (ip_addr \<times> u16) list \<Rightarrow> ('w, mux_ref result) api_call"
  thread_spawn :: "string \<Rightarrow> ('w, unit result) api_call"
  tokio_build :: "usize \<Rightarrow> string \<Rightarrow> ('w, unit result option) api_call"

end
