(* ===== verification/Async_Prog.thy ===== *)
theory Async_Prog
  imports Kestara_Prelude
begin

text \<open>
  The asynchronous functions of \<open>native/src/registry.rs\<close> and \<open>runtime.rs\<close> are programs that are
  interleaved at their await points. A program is a tree of atomic steps: \<open>Act\<close> is one step on the
  shared state (a call on the webrtc crate, or a critical section under a \<open>std::sync::Mutex\<close>),
  \<open>Acquire\<close> is \<open>lock().await\<close> on a \<open>tokio::sync::Mutex\<close>, \<open>Release\<close> is the drop of its guard, and
  \<open>Panic\<close> is a panic, which drops every guard and ends the task. Mutexes are identified by numbers.

  The theory has the sequential meaning of a program (\<open>run\<close>), its small steps among other tasks
  (\<open>task_step\<close>), and the predicates the components use: \<open>guarded\<close>, a program holds at most one
  mutex at a time and drops it before it ends; \<open>covered\<close>, it changes a part of the state only while it
  holds a mutex; \<open>guarantees\<close>, all its steps satisfy a relation; and \<open>keeps\<close>, all its steps preserve
  an invariant.
\<close>

subsection \<open>Programs\<close>

datatype ('s, 'a) prog =
    Done 'a
  | Act "'s \<Rightarrow> 's" "'s \<Rightarrow> ('s, 'a) prog"
  | Acquire nat "('s, 'a) prog"
  | Release nat "('s, 'a) prog"
  | Panic

primrec bind_prog :: "('s, 'a) prog \<Rightarrow> ('a \<Rightarrow> ('s, 'b) prog) \<Rightarrow> ('s, 'b) prog" where
  "bind_prog (Done a) k = k a"
| "bind_prog (Act f c) k = Act f (\<lambda>s. bind_prog (c s) k)"
| "bind_prog (Acquire m p) k = Acquire m (bind_prog p k)"
| "bind_prog (Release m p) k = Release m (bind_prog p k)"
| "bind_prog Panic k = Panic"

text \<open>One atomic step that reads a value and updates the state.\<close>

definition act :: "('s \<Rightarrow> 'a \<times> 's) \<Rightarrow> ('s, 'a) prog" where
  "act f = Act (\<lambda>s. snd (f s)) (\<lambda>s. Done (fst (f s)))"

text \<open>The operator \<open>?\<close>: an error ends the function.\<close>

definition try_prog :: "('s, 'e + 'a) prog \<Rightarrow> ('a \<Rightarrow> ('s, 'e + 'b) prog) \<Rightarrow> ('s, 'e + 'b) prog" where
  "try_prog p k = bind_prog p (\<lambda>r. case r of Inl e \<Rightarrow> Done (Inl e) | Inr a \<Rightarrow> k a)"

text \<open>\<open>let _guard = mutex.lock().await; body\<close>: the guard is dropped on every way out of the body.\<close>

definition with_guard :: "nat \<Rightarrow> ('s, 'a) prog \<Rightarrow> ('s, 'a) prog" where
  "with_guard m body = Acquire m (bind_prog body (\<lambda>r. Release m (Done r)))"

subsection \<open>Sequential runs\<close>

text \<open>
  The run of a program with nothing else scheduled. \<open>L\<close> is the set of the locked mutexes. The run is
  \<open>Blocked\<close> when the program waits for a mutex that nobody will unlock.
\<close>

datatype ('s, 'a) outcome = Returned 'a "nat set" 's | Blocked | Panicked 's

primrec run :: "('s, 'a) prog \<Rightarrow> nat set \<Rightarrow> 's \<Rightarrow> ('s, 'a) outcome" where
  "run (Done a) = (\<lambda>L s. Returned a L s)"
| "run (Act f c) = (\<lambda>L s. run (c s) L (f s))"
| "run (Acquire m p) = (\<lambda>L s. if m \<in> L then Blocked else run p (insert m L) s)"
| "run (Release m p) = (\<lambda>L s. run p (L - {m}) s)"
| "run Panic = (\<lambda>L s. Panicked s)"

definition and_run :: "('s, 'a) outcome \<Rightarrow> ('a \<Rightarrow> nat set \<Rightarrow> 's \<Rightarrow> ('s, 'b) outcome) \<Rightarrow> ('s, 'b) outcome" where
  "and_run r k = (case r of Returned a L s \<Rightarrow> k a L s | Blocked \<Rightarrow> Blocked | Panicked s \<Rightarrow> Panicked s)"

lemma and_run_simps [simp]:
  "and_run (Returned a L s) k = k a L s" "and_run Blocked k = Blocked"
  "and_run (Panicked s) k = Panicked s"
  by (simp_all add: and_run_def)

lemma run_act [simp]: "run (act f) L s = Returned (fst (f s)) L (snd (f s))"
  by (simp add: act_def)

lemma run_bind: "run (bind_prog p k) L s = and_run (run p L s) (\<lambda>a. run (k a))"
  by (induction p arbitrary: L s) simp_all

lemma run_bind_act [simp]:
  "run (bind_prog (act f) k) L s = run (k (fst (f s))) L (snd (f s))"
  by (simp add: run_bind)

lemma run_try_act [simp]:
  "run (try_prog (act f) k) L s =
     (case fst (f s) of Inl e \<Rightarrow> Returned (Inl e) L (snd (f s)) | Inr a \<Rightarrow> run (k a) L (snd (f s)))"
  by (simp add: try_prog_def split: sum.splits)

lemma run_try:
  "run (try_prog p k) L s =
     and_run (run p L s) (\<lambda>r. case r of Inl e \<Rightarrow> Returned (Inl e) | Inr a \<Rightarrow> run (k a))"
  by (cases "run p L s") (simp_all add: try_prog_def run_bind split: sum.splits)

lemma run_with_guard:
  "run (with_guard m body) L s =
     (if m \<in> L then Blocked
      else and_run (run body (insert m L) s) (\<lambda>a L s. Returned a (L - {m}) s))"
  by (cases "run body (insert m L) s") (simp_all add: with_guard_def run_bind)

subsection \<open>Small steps\<close>

text \<open>
  A task is a program with the mutexes it holds. \<open>L\<close> is the set of the mutexes the other tasks hold.
\<close>

type_synonym ('s, 'a) task = "('s, 'a) prog \<times> nat set"

inductive task_step :: "nat set \<Rightarrow> ('s, 'a) task \<times> 's \<Rightarrow> ('s, 'a) task \<times> 's \<Rightarrow> bool" for L where
  act_step: "task_step L ((Act f c, H), s) ((c s, H), f s)"
| acquire_step: "m \<notin> L \<Longrightarrow> m \<notin> H \<Longrightarrow> task_step L ((Acquire m p, H), s) ((p, insert m H), s)"
| release_step: "task_step L ((Release m p, H), s) ((p, H - {m}), s)"

inductive_cases task_step_DoneE: "task_step L ((Done a, H), s) t"
inductive_cases task_step_PanicE: "task_step L ((Panic, H), s) t"
inductive_cases task_step_ActE: "task_step L ((Act f c, H), s) t"
inductive_cases task_step_AcquireE: "task_step L ((Acquire m p, H), s) t"
inductive_cases task_step_ReleaseE: "task_step L ((Release m p, H), s) t"

text \<open>The sequential run is the maximal sequence of small steps of a task that is alone.\<close>

lemma run_small_steps:
  "run p H s = Returned a H' s' \<Longrightarrow> (task_step {})\<^sup>*\<^sup>* ((p, H), s) ((Done a, H'), s')"
proof (induction p arbitrary: H s)
  case (Act f c)
  from Act.IH [of "c s" H "f s"] Act.prems
  have "(task_step {})\<^sup>*\<^sup>* ((c s, H), f s) ((Done a, H'), s')" by auto
  moreover have "task_step {} ((Act f c, H), s) ((c s, H), f s)" by (rule act_step)
  ultimately show ?case by (metis converse_rtranclp_into_rtranclp)
next
  case (Acquire m p)
  then have m: "m \<notin> H" and r: "run p (insert m H) s = Returned a H' s'" by (auto split: if_splits)
  have "task_step {} ((Acquire m p, H), s) ((p, insert m H), s)" using m by (simp add: acquire_step)
  with Acquire.IH [OF r] show ?case by (metis converse_rtranclp_into_rtranclp)
next
  case (Release m p)
  then have r: "run p (H - {m}) s = Returned a H' s'" by simp
  have "task_step {} ((Release m p, H), s) ((p, H - {m}), s)" by (rule release_step)
  with Release.IH [OF r] show ?case by (metis converse_rtranclp_into_rtranclp)
qed simp_all

subsection \<open>Lock discipline\<close>

text \<open>
  \<open>guarded h p h'\<close>: started with the mutex \<open>h\<close> held (if any), the program acquires a mutex only while
  it holds none, releases only what it holds, and ends with \<open>h'\<close> held, or panics.
\<close>

primrec guarded :: "nat option \<Rightarrow> ('s, 'a) prog \<Rightarrow> nat option \<Rightarrow> bool" where
  "guarded h (Done a) h' \<longleftrightarrow> h = h'"
| "guarded h (Act f c) h' \<longleftrightarrow> (\<forall>s. guarded h (c s) h')"
| "guarded h (Acquire m p) h' \<longleftrightarrow> h = None \<and> guarded (Some m) p h'"
| "guarded h (Release m p) h' \<longleftrightarrow> h = Some m \<and> guarded None p h'"
| "guarded h Panic h' \<longleftrightarrow> True"

named_theorems lock_rules

lemma guarded_Done [lock_rules]: "guarded h (Done a) h"
  by simp

lemma guarded_Panic [lock_rules]: "guarded h Panic h'"
  by simp

lemma guarded_act [lock_rules]: "guarded h (act f) h"
  by (simp add: act_def)

lemma guarded_bind:
  "guarded h p h' \<Longrightarrow> (\<And>a. guarded h' (k a) h'') \<Longrightarrow> guarded h (bind_prog p k) h''"
  by (induction p arbitrary: h) auto

lemma guarded_bind_same [lock_rules]:
  "guarded h p h \<Longrightarrow> (\<And>a. guarded h (k a) h) \<Longrightarrow> guarded h (bind_prog p k) h"
  by (rule guarded_bind)

lemma guarded_try [lock_rules]:
  "guarded h p h \<Longrightarrow> (\<And>a. guarded h (k a) h) \<Longrightarrow> guarded h (try_prog p k) h"
  unfolding try_prog_def by (rule guarded_bind) (auto split: sum.split)

lemma guarded_with_guard [lock_rules]:
  "guarded (Some m) body (Some m) \<Longrightarrow> guarded None (with_guard m body) None"
  by (simp add: with_guard_def guarded_bind)

lemma guarded_if [lock_rules]:
  "(b \<Longrightarrow> guarded h p h') \<Longrightarrow> (\<not> b \<Longrightarrow> guarded h q h') \<Longrightarrow> guarded h (if b then p else q) h'"
  by simp

lemma guarded_option [lock_rules]:
  "guarded h p h' \<Longrightarrow> (\<And>x. guarded h (q x) h') \<Longrightarrow>
   guarded h (case v of None \<Rightarrow> p | Some x \<Rightarrow> q x) h'"
  by (cases v) simp_all

lemma guarded_sum [lock_rules]:
  "(\<And>e. guarded h (p e) h') \<Longrightarrow> (\<And>x. guarded h (q x) h') \<Longrightarrow>
   guarded h (case v of Inl e \<Rightarrow> p e | Inr x \<Rightarrow> q x) h'"
  by (cases v) simp_all

lemma guarded_prod [lock_rules]:
  "(\<And>x y. guarded h (p x y) h') \<Longrightarrow> guarded h (case v of (x, y) \<Rightarrow> p x y) h'"
  by (cases v) simp

text \<open>A task follows the discipline when the mutexes it holds are those its program says it holds.\<close>

definition held :: "nat option \<Rightarrow> nat set" where
  "held h = (case h of None \<Rightarrow> {} | Some m \<Rightarrow> {m})"

definition disciplined :: "('s, 'a) task \<Rightarrow> bool" where
  "disciplined t \<longleftrightarrow> (\<exists>h. guarded h (fst t) None \<and> snd t = held h)"

lemma disciplined_step:
  assumes "task_step L ((p, H), s) ((p', H'), s')" and "disciplined (p, H)"
  shows "disciplined (p', H')"
  using assms by cases (auto simp: disciplined_def held_def)

lemma disciplined_start: "guarded None p None \<Longrightarrow> disciplined (p, {})"
  unfolding disciplined_def held_def by (intro exI [of _ None]) simp

text \<open>
  A disciplined task that cannot step has ended, or waits for one mutex while it holds none.
\<close>

lemma disciplined_stuck:
  assumes "disciplined (p, H)" and "\<And>t. \<not> task_step L ((p, H), s) t"
  obtains a where "p = Done a" "H = {}" | m q where "p = Acquire m q" "H = {}" "m \<in> L"
    | "p = Panic"
proof (cases p)
  case (Done a)
  with assms(1) have "H = {}" by (auto simp: disciplined_def held_def)
  with Done that(1) show ?thesis by simp
next
  case (Act f c)
  with assms(2) [of "((c s, H), f s)"] act_step [of L f c H s] show ?thesis by simp
next
  case (Acquire m q)
  with assms(1) have "H = {}" by (auto simp: disciplined_def held_def)
  moreover from this Acquire assms(2) have "m \<in> L"
    using acquire_step [of m L H q s] by auto
  ultimately show ?thesis using Acquire that(2) by simp
next
  case (Release m q)
  with assms(2) [of "((q, H - {m}), s)"] release_step [of L m q H s] show ?thesis by simp
next
  case Panic
  with that(3) show ?thesis .
qed

text \<open>
  A disciplined program run alone from an unlocked state is never blocked: it returns and leaves the
  mutexes unlocked, or it panics.
\<close>

lemma guarded_runs:
  "guarded h p h' \<Longrightarrow>
   (\<exists>a s'. run p (held h) s = Returned a (held h') s') \<or> (\<exists>s'. run p (held h) s = Panicked s')"
proof (induction p arbitrary: h s)
  case (Acquire m p)
  then have "guarded (Some m) p h'" and "held h = {}" by (simp_all add: held_def)
  from Acquire.IH [OF this(1)] this(2) show ?case by (simp add: held_def)
next
  case (Release m p)
  then have "guarded None p h'" and "held h = {m}" by (simp_all add: held_def)
  from Release.IH [OF this(1)] this(2) show ?case by (simp add: held_def)
qed auto

subsection \<open>Guarantees\<close>

text \<open>\<open>guarantees G p\<close>: every step of \<open>p\<close>, from any state, relates the states before and after by \<open>G\<close>.\<close>

primrec guarantees :: "('s \<Rightarrow> 's \<Rightarrow> bool) \<Rightarrow> ('s, 'a) prog \<Rightarrow> bool" where
  "guarantees G (Done a) \<longleftrightarrow> True"
| "guarantees G (Act f c) \<longleftrightarrow> (\<forall>s. G s (f s) \<and> guarantees G (c s))"
| "guarantees G (Acquire m p) \<longleftrightarrow> guarantees G p"
| "guarantees G (Release m p) \<longleftrightarrow> guarantees G p"
| "guarantees G Panic \<longleftrightarrow> True"

named_theorems guarantee_rules

lemma guarantees_Done [guarantee_rules]: "guarantees G (Done a)"
  by simp

lemma guarantees_Panic [guarantee_rules]: "guarantees G Panic"
  by simp

lemma guarantees_act [guarantee_rules]: "(\<And>s. G s (snd (f s))) \<Longrightarrow> guarantees G (act f)"
  by (simp add: act_def)

lemma guarantees_bind [guarantee_rules]:
  "guarantees G p \<Longrightarrow> (\<And>a. guarantees G (k a)) \<Longrightarrow> guarantees G (bind_prog p k)"
  by (induction p) auto

lemma guarantees_try [guarantee_rules]:
  "guarantees G p \<Longrightarrow> (\<And>a. guarantees G (k a)) \<Longrightarrow> guarantees G (try_prog p k)"
  unfolding try_prog_def by (rule guarantees_bind) (auto split: sum.split)

lemma guarantees_with_guard [guarantee_rules]:
  "guarantees G body \<Longrightarrow> guarantees G (with_guard m body)"
  by (simp add: with_guard_def guarantees_bind)

lemma guarantees_if [guarantee_rules]:
  "(b \<Longrightarrow> guarantees G p) \<Longrightarrow> (\<not> b \<Longrightarrow> guarantees G q) \<Longrightarrow> guarantees G (if b then p else q)"
  by simp

lemma guarantees_option [guarantee_rules]:
  "guarantees G p \<Longrightarrow> (\<And>x. guarantees G (q x)) \<Longrightarrow>
   guarantees G (case v of None \<Rightarrow> p | Some x \<Rightarrow> q x)"
  by (cases v) simp_all

lemma guarantees_sum [guarantee_rules]:
  "(\<And>e. guarantees G (p e)) \<Longrightarrow> (\<And>x. guarantees G (q x)) \<Longrightarrow>
   guarantees G (case v of Inl e \<Rightarrow> p e | Inr x \<Rightarrow> q x)"
  by (cases v) simp_all

lemma guarantees_prod [guarantee_rules]:
  "(\<And>x y. guarantees G (p x y)) \<Longrightarrow> guarantees G (case v of (x, y) \<Rightarrow> p x y)"
  by (cases v) simp

lemma guarantees_step:
  assumes "task_step L ((p, H), s) ((p', H'), s')" and "guarantees G p"
  shows "guarantees G p' \<and> (s' = s \<or> G s s')"
  using assms by cases auto

lemma guarantees_mono: "guarantees G p \<Longrightarrow> (\<And>s s'. G s s' \<Longrightarrow> G' s s') \<Longrightarrow> guarantees G' p"
  by (induction p) auto

lemma guarantees_run_end:
  assumes "guarantees G p" and "reflp G" and "transp G"
    and "run p L s = Returned a L' s' \<or> run p L s = Panicked s'"
  shows "G s s'"
  using assms(1,4)
proof (induction p arbitrary: L s)
  case (Act f c)
  from Act.prems have "G s (f s)" by simp
  moreover from Act.IH [of "c s" L "f s"] Act.prems have "G (f s) s'" by auto
  ultimately show ?case by (rule transpD [OF assms(3)])
next
  case (Acquire m p)
  then show ?case by (auto split: if_splits)
qed (use assms(2) in \<open>auto dest: reflpD\<close>)

lemma guarantees_run:
  "guarantees G p \<Longrightarrow> reflp G \<Longrightarrow> transp G \<Longrightarrow> run p L s = Returned a L' s' \<Longrightarrow> G s s'"
  using guarantees_run_end [of G p L s a L' s'] by simp

subsection \<open>Covered steps\<close>

text \<open>
  \<open>covered obs h p h'\<close>: the program is \<open>guarded\<close>, and a step that it makes while it holds no mutex
  leaves the part \<open>obs\<close> of the state as it is.
\<close>

primrec covered :: "('s \<Rightarrow> 'v) \<Rightarrow> nat option \<Rightarrow> ('s, 'a) prog \<Rightarrow> nat option \<Rightarrow> bool" where
  "covered obs h (Done a) h' \<longleftrightarrow> h = h'"
| "covered obs h (Act f c) h' \<longleftrightarrow>
     (h = None \<longrightarrow> (\<forall>s. obs (f s) = obs s)) \<and> (\<forall>s. covered obs h (c s) h')"
| "covered obs h (Acquire m p) h' \<longleftrightarrow> h = None \<and> covered obs (Some m) p h'"
| "covered obs h (Release m p) h' \<longleftrightarrow> h = Some m \<and> covered obs None p h'"
| "covered obs h Panic h' \<longleftrightarrow> True"

named_theorems cover_rules

lemma covered_Done [cover_rules]: "covered obs h (Done a) h"
  by simp

lemma covered_Panic [cover_rules]: "covered obs h Panic h'"
  by simp

lemma covered_act: "(\<And>s. h = None \<Longrightarrow> obs (snd (f s)) = obs s) \<Longrightarrow> covered obs h (act f) h"
  by (simp add: act_def)

lemma covered_bind:
  "covered obs h p h' \<Longrightarrow> (\<And>a. covered obs h' (k a) h'') \<Longrightarrow> covered obs h (bind_prog p k) h''"
  by (induction p arbitrary: h) auto

lemma covered_bind_same [cover_rules]:
  "covered obs h p h \<Longrightarrow> (\<And>a. covered obs h (k a) h) \<Longrightarrow> covered obs h (bind_prog p k) h"
  by (rule covered_bind)

lemma covered_try [cover_rules]:
  "covered obs h p h \<Longrightarrow> (\<And>a. covered obs h (k a) h) \<Longrightarrow> covered obs h (try_prog p k) h"
  unfolding try_prog_def by (rule covered_bind) (auto split: sum.split)

lemma covered_with_guard [cover_rules]:
  "covered obs (Some m) body (Some m) \<Longrightarrow> covered obs None (with_guard m body) None"
  by (simp add: with_guard_def covered_bind)

lemma covered_if [cover_rules]:
  "(b \<Longrightarrow> covered obs h p h') \<Longrightarrow> (\<not> b \<Longrightarrow> covered obs h q h') \<Longrightarrow>
   covered obs h (if b then p else q) h'"
  by simp

lemma covered_option [cover_rules]:
  "covered obs h p h' \<Longrightarrow> (\<And>x. covered obs h (q x) h') \<Longrightarrow>
   covered obs h (case v of None \<Rightarrow> p | Some x \<Rightarrow> q x) h'"
  by (cases v) simp_all

lemma covered_prod [cover_rules]:
  "(\<And>x y. covered obs h (p x y) h') \<Longrightarrow> covered obs h (case v of (x, y) \<Rightarrow> p x y) h'"
  by (cases v) simp

lemma covered_step:
  assumes "task_step L ((p, held h), s) ((p', H'), s')" and "covered obs h p None"
  shows "\<exists>h'. H' = held h' \<and> covered obs h' p' None \<and> (h = None \<longrightarrow> obs s' = obs s)"
  using assms
proof cases
  case (act_step f c)
  with assms(2) show ?thesis by (intro exI [of _ h]) auto
next
  case (acquire_step m)
  with assms(2) show ?thesis by (intro exI [of _ "Some m"]) (auto simp: held_def)
next
  case (release_step m)
  with assms(2) show ?thesis by (intro exI [of _ None]) (auto simp: held_def)
qed

subsection \<open>Invariants\<close>

text \<open>
  \<open>keeps I b p\<close>: every step of \<open>p\<close> from a state with \<open>I\<close> leads to a state with \<open>I\<close>, whatever happens
  to the state in between as long as \<open>I\<close> holds; and unless \<open>b\<close>, \<open>p\<close> does not panic.
\<close>

primrec keeps :: "('s \<Rightarrow> bool) \<Rightarrow> bool \<Rightarrow> ('s, 'a) prog \<Rightarrow> bool" where
  "keeps I b (Done a) \<longleftrightarrow> True"
| "keeps I b (Act f c) \<longleftrightarrow> (\<forall>s. I s \<longrightarrow> I (f s) \<and> keeps I b (c s))"
| "keeps I b (Acquire m p) \<longleftrightarrow> keeps I b p"
| "keeps I b (Release m p) \<longleftrightarrow> keeps I b p"
| "keeps I b Panic \<longleftrightarrow> b"

named_theorems keep_rules

lemma keeps_Done [keep_rules]: "keeps I b (Done a)"
  by simp

lemma keeps_act: "(\<And>s. I s \<Longrightarrow> I (snd (f s))) \<Longrightarrow> keeps I b (act f)"
  by (simp add: act_def)

lemma keeps_bind [keep_rules]:
  "keeps I b p \<Longrightarrow> (\<And>a. keeps I b (k a)) \<Longrightarrow> keeps I b (bind_prog p k)"
  by (induction p) auto

lemma keeps_try [keep_rules]:
  "keeps I b p \<Longrightarrow> (\<And>a. keeps I b (k a)) \<Longrightarrow> keeps I b (try_prog p k)"
  unfolding try_prog_def by (rule keeps_bind) (auto split: sum.split)

lemma keeps_try_act:
  "(\<And>s. I s \<Longrightarrow> I (snd (f s))) \<Longrightarrow> (\<And>s a. I s \<Longrightarrow> fst (f s) = Inr a \<Longrightarrow> keeps I b (k a)) \<Longrightarrow>
   keeps I b (try_prog (act f) k)"
  by (auto simp: try_prog_def act_def split: sum.split)

lemma keeps_with_guard [keep_rules]: "keeps I b body \<Longrightarrow> keeps I b (with_guard m body)"
  by (simp add: with_guard_def keeps_bind)

lemma keeps_if [keep_rules]:
  "(c \<Longrightarrow> keeps I b p) \<Longrightarrow> (\<not> c \<Longrightarrow> keeps I b q) \<Longrightarrow> keeps I b (if c then p else q)"
  by simp

lemma keeps_option [keep_rules]:
  "(v = None \<Longrightarrow> keeps I b p) \<Longrightarrow> (\<And>x. keeps I b (q x)) \<Longrightarrow>
   keeps I b (case v of None \<Rightarrow> p | Some x \<Rightarrow> q x)"
  by (cases v) simp_all

lemma keeps_sum [keep_rules]:
  "(\<And>e. keeps I b (p e)) \<Longrightarrow> (\<And>x. keeps I b (q x)) \<Longrightarrow>
   keeps I b (case v of Inl e \<Rightarrow> p e | Inr x \<Rightarrow> q x)"
  by (cases v) simp_all

lemma keeps_prod [keep_rules]:
  "(\<And>x y. keeps I b (p x y)) \<Longrightarrow> keeps I b (case v of (x, y) \<Rightarrow> p x y)"
  by (cases v) simp

lemma keeps_step:
  assumes "task_step L ((p, H), s) ((p', H'), s')" and "keeps I b p" and "I s"
  shows "keeps I b p' \<and> I s'"
  using assms by cases auto

lemma keeps_run: "keeps I False p \<Longrightarrow> I s \<Longrightarrow> run p L s \<noteq> Panicked s'"
  by (induction p arbitrary: L s) auto

end
