(* ===== verification/Registry.thy ===== *)
theory Registry
  imports Webrtc_Api Async_Prog Events
begin

text \<open>
  \<open>native/src/registry.rs\<close>: \<open>RuntimeState\<close> with its registry of peer connections and DataChannels,
  and every method of it as a program over that state. The \<open>std::sync::Mutex\<close> around the registry is
  held only inside single steps, so it appears as the flag that it is poisoned; the
  \<open>tokio::sync::Mutex\<close> of a peer entry is held across await points, so it is a mutex of
  \<open>Async_Prog\<close>, numbered by the counter \<open>st_next_mutex\<close> when it is created; the semaphores of
  the channels are numbered by \<open>st_next_semaphore\<close>.
\<close>

subsection \<open>State\<close>

record peer_entry =
  pe_peer :: peer_ref
  pe_operations :: nat
  pe_receive_queue_capacity :: usize

record channel_entry =
  ce_channel :: channel_ref
  ce_peer_handle :: u64

text \<open>The arguments of a spawned \<open>poll_data_channel\<close> task, with its semaphore and the
  capacity it was created with.\<close>

record poller =
  po_peer_handle :: u64
  po_channel_handle :: u64
  po_channel :: channel_ref
  po_capacity :: usize
  po_semaphore :: nat

record 'w runtime_state =
  st_peers :: "(u64, peer_entry) hash_map"
  st_channels :: "(u64, channel_entry) hash_map"
  st_registry_poisoned :: bool
  st_events :: "native_event list"
  st_next_handle :: u64
  st_certificate :: certificate
  st_certificate_poisoned :: bool
  st_socket_mux :: "mux_ref option"
  st_next_mutex :: nat
  st_next_semaphore :: nat
  st_spawned :: "poller list"
  st_world :: 'w

definition new_runtime_state :: "native_event list \<Rightarrow> certificate \<Rightarrow> bool \<Rightarrow> mux_ref option \<Rightarrow> 'w \<Rightarrow> 'w runtime_state" where
  "new_runtime_state events certificate poisoned socket_mux w =
     \<lparr>st_peers = [], st_channels = [], st_registry_poisoned = False, st_events = events,
      st_next_handle = 1, st_certificate = certificate, st_certificate_poisoned = poisoned,
      st_socket_mux = socket_mux, st_next_mutex = 0, st_next_semaphore = 0, st_spawned = [], st_world = w\<rparr>"

type_synonym ('w, 'a) rt = "('w runtime_state, 'a) prog"

subsection \<open>Steps\<close>

text \<open>One awaited call on the webrtc crate, and its error turned into a message.\<close>

definition call :: "('w, 'a) api_call \<Rightarrow> ('w, 'a) rt" where
  "call f = act (\<lambda>s. let (a, w) = f (st_world s) in (a, s\<lparr>st_world := w\<rparr>))"

definition call_or :: "'w webrtc_api \<Rightarrow> string \<Rightarrow> ('w, 'a webrtc_result) api_call \<Rightarrow> ('w, 'a result) rt" where
  "call_or api message f =
     bind_prog (call f) (\<lambda>r. Done (map_err (\<lambda>e. message @ error_to_string api e) r))"

definition push_event :: "native_event \<Rightarrow> 'w runtime_state \<Rightarrow> 'w runtime_state" where
  "push_event event s = s\<lparr>st_events := st_events s @ [event]\<rparr>"

definition send_event :: "native_event \<Rightarrow> ('w, unit) rt" where
  "send_event event = act (\<lambda>s. ((), push_event event s))"

definition lock_certificate :: "'w runtime_state \<Rightarrow> certificate result" where
  "lock_certificate s =
     (if st_certificate_poisoned s then Inl ''The runtime DTLS certificate lock is poisoned''
      else Inr (st_certificate s))"

text \<open>
  \<open>self.lock_registry()?\<close> followed by a critical section \<open>f\<close> on the registry.
\<close>

definition lock_registry :: "('w runtime_state \<Rightarrow> 'a result \<times> 'w runtime_state) \<Rightarrow> ('w, 'a result) rt" where
  "lock_registry f =
     act (\<lambda>s. if st_registry_poisoned s
               then (Inl ''Kestara WebRTC handle registry is poisoned'', s) else f s)"

definition next_handle :: "('w, u64) rt" where
  "next_handle = act (\<lambda>s. (st_next_handle s, s\<lparr>st_next_handle := st_next_handle s + 1\<rparr>))"

definition get_peer :: "u64 \<Rightarrow> ('w, peer_entry result) rt" where
  "get_peer peer_handle =
     lock_registry (\<lambda>s.
       (ok_or (''Unknown peer connection handle: '' @ show_unsigned peer_handle)
          (map_of (st_peers s) peer_handle), s))"

definition get_channel :: "u64 \<Rightarrow> ('w, (channel_ref \<times> u64) result) rt" where
  "get_channel channel_handle =
     lock_registry (\<lambda>s.
       (map_ok (\<lambda>entry. (ce_channel entry, ce_peer_handle entry))
          (ok_or (''Unknown DataChannel handle: '' @ show_unsigned channel_handle)
             (map_of (st_channels s) channel_handle)), s))"

subsection \<open>Peer connections\<close>

definition port_range :: "u16 \<Rightarrow> u16 \<Rightarrow> u16 list" where
  "port_range lo hi = (if lo = 0 then [0] else map word_of_nat [unat lo..<unat hi + 1])"

definition peer_builder_for ::
  "peer_configuration \<Rightarrow> u64 \<Rightarrow> certificate \<Rightarrow> mux_ref option \<Rightarrow> u16 \<Rightarrow> peer_builder" where
  "peer_builder_for configuration handle certificate socket_mux p =
     (let (udp_addresses, tcp_addresses) =
            bind_addresses (cfg_transport configuration) (ice_network_types (cfg_ice configuration)) p;
          ice_policy = (if relay_only configuration then PolicyRelay else PolicyAll)
      in [with_configuration
            [with_ice_servers (cfg_ice_servers configuration),
             with_ice_transport_policy ice_policy,
             with_certificates [certificate],
             with_ice_candidate_pool_size (candidate_pool_size (cfg_ice configuration))],
          with_setting_engine (setting_engine configuration),
          with_handler handle,
          with_runtime,
          with_udp_addrs udp_addresses,
          with_tcp_addrs tcp_addresses,
          with_dedicated_reactor_thread True,
          with_data_channel_send_buffer_limit (send_buffer_limit (cfg_sctp configuration)),
          with_data_channel_event_channel_capacity 1]
         @ (case socket_mux of Some mux \<Rightarrow> [with_socket_mux mux] | None \<Rightarrow> []))"

text \<open>
  The loop over the ports. The value is the first connection that was built, or the last error when
  every port was refused; an error ends the function at once.
\<close>

fun build_on_ports ::
  "'w webrtc_api \<Rightarrow> peer_configuration \<Rightarrow> u64 \<Rightarrow> u16 list \<Rightarrow> string option \<Rightarrow>
   ('w, (peer_ref option \<times> string option) result) rt" where
  "build_on_ports api configuration handle [] last_error = Done (Inr (None, last_error))"
| "build_on_ports api configuration handle (p # ports) last_error =
     try_prog (act (\<lambda>s. (map_ok (\<lambda>c. (c, st_socket_mux s)) (lock_certificate s), s)))
       (\<lambda>(certificate, socket_mux).
     bind_prog (call (peer_build api
                  (peer_builder_for configuration handle certificate socket_mux p)))
       (\<lambda>r. case r of
          Inr connection \<Rightarrow> Done (Inr (Some connection, last_error))
        | Inl error \<Rightarrow>
            let message = error_to_string api error in
            if p = 0 \<or> \<not> contains message ''no udp_sockets or tcp_listeners available''
            then Done (Inl (''Failed to create peer connection: '' @ message))
            else build_on_ports api configuration handle ports (Some message)))"

definition create_peer :: "'w webrtc_api \<Rightarrow> peer_configuration \<Rightarrow> ('w, u64 result) rt" where
  "create_peer api configuration =
     bind_prog next_handle (\<lambda>handle.
     try_prog (build_on_ports api configuration handle
                 (port_range (min_port configuration) (max_port configuration)) None)
       (\<lambda>(peer, last_error).
     try_prog
       (Done (ok_or
          (if min_port configuration = 0
           then ''Failed to bind peer connection transports: ''
                @ (case last_error of Some e \<Rightarrow> e | None \<Rightarrow> ''unknown bind error'')
           else ''No transport port is available in the configured range ''
                @ show_unsigned (min_port configuration) @ ''-''
                @ show_unsigned (max_port configuration) @ '': ''
                @ (case last_error of Some e \<Rightarrow> e | None \<Rightarrow> ''unknown bind error''))
          peer))
       (\<lambda>peer.
     lock_registry (\<lambda>s.
       (Inr handle,
        s\<lparr>st_peers := AList.update handle
             \<lparr>pe_peer = peer, pe_operations = st_next_mutex s,
              pe_receive_queue_capacity = receive_queue_capacity (cfg_sctp configuration)\<rparr>
             (st_peers s),
          st_next_mutex := st_next_mutex s + 1\<rparr>)))))"

definition create_description :: "'w webrtc_api \<Rightarrow> u64 \<Rightarrow> bool \<Rightarrow> ('w, string result) rt" where
  "create_description api peer_handle answer =
     try_prog (get_peer peer_handle) (\<lambda>peer.
     with_guard (pe_operations peer)
       (try_prog
          (call_or api ''Failed to create session description: ''
             (if answer then peer_create_answer api (pe_peer peer)
              else peer_create_offer api (pe_peer peer)))
          (\<lambda>description. Done (Inr (sd_sdp description)))))"

definition set_local_description :: "'w webrtc_api \<Rightarrow> u64 \<Rightarrow> session_description \<Rightarrow> ('w, unit result) rt" where
  "set_local_description api peer_handle description =
     try_prog (get_peer peer_handle) (\<lambda>peer.
     with_guard (pe_operations peer)
       (call_or api ''Failed to set local description: ''
          (peer_set_local_description api (pe_peer peer) description)))"

definition set_remote_description :: "'w webrtc_api \<Rightarrow> u64 \<Rightarrow> session_description \<Rightarrow> ('w, unit result) rt" where
  "set_remote_description api peer_handle description =
     try_prog (get_peer peer_handle) (\<lambda>peer.
     with_guard (pe_operations peer)
       (call_or api ''Failed to set remote description: ''
          (peer_set_remote_description api (pe_peer peer) description)))"

definition add_ice_candidate :: "'w webrtc_api \<Rightarrow> u64 \<Rightarrow> ice_candidate_init \<Rightarrow> ('w, unit result) rt" where
  "add_ice_candidate api peer_handle init =
     try_prog (get_peer peer_handle) (\<lambda>peer.
     with_guard (pe_operations peer)
       (call_or api ''Failed to add ICE candidate: ''
          (peer_add_ice_candidate api (pe_peer peer) init)))"

definition restart_ice :: "'w webrtc_api \<Rightarrow> u64 \<Rightarrow> ('w, unit result) rt" where
  "restart_ice api peer_handle =
     try_prog (get_peer peer_handle) (\<lambda>peer.
     with_guard (pe_operations peer)
       (call_or api ''Failed to restart ICE: '' (peer_restart_ice api (pe_peer peer))))"

definition set_configuration :: "'w webrtc_api \<Rightarrow> u64 \<Rightarrow> ice_server list \<Rightarrow> bool \<Rightarrow> ('w, unit result) rt" where
  "set_configuration api peer_handle ice_servers relay =
     try_prog (get_peer peer_handle) (\<lambda>peer.
     with_guard (pe_operations peer)
       (let policy = (if relay then PolicyRelay else PolicyAll);
            ice_servers = (if ice_servers = [] then ice_servers @ [default_ice_server] else ice_servers)
        in call_or api ''Failed to update peer configuration: ''
             (peer_set_configuration api (pe_peer peer)
                [with_ice_servers ice_servers, with_ice_transport_policy policy])))"

subsection \<open>DataChannels\<close>

definition optional_number :: "u16 option \<Rightarrow> i32" where
  "optional_number v = (case v of None \<Rightarrow> - 1 | Some n \<Rightarrow> ucast n)"

definition channel_metadata :: "bool \<Rightarrow> u16 option \<Rightarrow> u16 option \<Rightarrow> bytes" where
  "channel_metadata negotiated life_time retransmits =
     [if negotiated then 1 else 0]
     @ to_le_bytes 4 (optional_number life_time)
     @ to_le_bytes 4 (optional_number retransmits)"

definition channel_number :: "bool \<Rightarrow> bool \<Rightarrow> u16 \<Rightarrow> i32" where
  "channel_number ordered opened ident =
     (if ordered then 1 else 0) OR push_bit 1 (if opened then 1 else 0) OR push_bit 2 (ucast ident)"

definition data_channel_event :: "u64 \<Rightarrow> u64 \<Rightarrow> string \<Rightarrow> string \<Rightarrow> i32 \<Rightarrow> bytes \<Rightarrow> native_event" where
  "data_channel_event peer_handle handle label protocol number metadata =
     \<lparr>ev_kind = DATA_CHANNEL, ev_peer_handle = peer_handle, ev_channel_handle = handle,
      ev_operation_handle = 0, ev_text = Some label, ev_secondary_text = Some protocol,
      ev_number = number, ev_data = Some metadata, ev_delivery_permit = None\<rparr>"

text \<open>
  \<open>tokio::sync::Semaphore::MAX_PERMITS\<close>; \<open>Semaphore::new\<close> panics above it.
\<close>

definition max_permits :: usize where
  "max_permits = drop_bit 3 (- 1)"

definition spawn_poller :: "u64 \<Rightarrow> u64 \<Rightarrow> channel_ref \<Rightarrow> usize \<Rightarrow> 'w runtime_state \<Rightarrow> 'w runtime_state" where
  "spawn_poller peer_handle handle channel capacity s =
     s\<lparr>st_spawned := st_spawned s
         @ [\<lparr>po_peer_handle = peer_handle, po_channel_handle = handle, po_channel = channel,
             po_capacity = capacity, po_semaphore = st_next_semaphore s\<rparr>],
       st_next_semaphore := st_next_semaphore s + 1\<rparr>"

definition register_channel :: "'w webrtc_api \<Rightarrow> u64 \<Rightarrow> channel_ref \<Rightarrow> bool \<Rightarrow> ('w, u64 result) rt" where
  "register_channel api peer_handle channel emit_created_event =
     bind_prog next_handle (\<lambda>handle.
     bind_prog (call (channel_label api channel)) (\<lambda>label.
     bind_prog (call (channel_protocol api channel)) (\<lambda>protocol.
     bind_prog (call (channel_ordered api channel)) (\<lambda>ordered.
     bind_prog (call (channel_id api channel)) (\<lambda>ident.
     bind_prog (call (channel_negotiated api channel)) (\<lambda>negotiated.
     bind_prog (call (channel_max_packet_life_time api channel)) (\<lambda>life_time.
     bind_prog (call (channel_max_retransmits api channel)) (\<lambda>retransmits.
     bind_prog (call (channel_ready_state api channel)) (\<lambda>ready.
     let opened = (ready = Inr ChannelOpen) in
     try_prog
       (lock_registry (\<lambda>s.
          (Inr (), s\<lparr>st_channels := AList.update handle
                         \<lparr>ce_channel = channel, ce_peer_handle = peer_handle\<rparr> (st_channels s)\<rparr>)))
       (\<lambda>_.
     bind_prog
       (if emit_created_event
        then send_event (data_channel_event peer_handle handle
               (unwrap_or [] label) (unwrap_or [] protocol)
               (channel_number (unwrap_or True ordered) opened ident)
               (channel_metadata (unwrap_or False negotiated)
                  (unwrap_or None life_time) (unwrap_or None retransmits)))
        else Done ())
       (\<lambda>_.
     try_prog (get_peer peer_handle) (\<lambda>peer.
     if max_permits < pe_receive_queue_capacity peer then Panic
     else act (\<lambda>s. (Inr handle,
            spawn_poller peer_handle handle channel (pe_receive_queue_capacity peer) s))))))))))))))"

text \<open>
  The loop of \<open>poll_data_channel\<close>: the event a poller sends for what \<open>channel.poll()\<close> yields, for a
  message with a permit of its semaphore, and the end of the loop. When the poller waits is in the
  theory \<open>Scheduler\<close>.
\<close>

datatype channel_event = OnOpen | OnError | OnClosing | OnClose | OnMessage bool bytes
  | OnBufferedAmountLow | OnBufferedAmountHigh

fun is_message :: "channel_event \<Rightarrow> bool" where
  "is_message (OnMessage _ _) = True"
| "is_message _ = False"

definition poll_event :: "poller \<Rightarrow> channel_event \<Rightarrow> native_event" where
  "poll_event po event =
     (let sent = (\<lambda>kind. event_channel kind (po_peer_handle po) (po_channel_handle po)) in
      case event of
        OnOpen \<Rightarrow> sent DATA_CHANNEL_OPEN
      | OnError \<Rightarrow> (sent DATA_CHANNEL_ERROR)\<lparr>ev_text := Some ''The native DataChannel reported an error''\<rparr>
      | OnClosing \<Rightarrow> sent DATA_CHANNEL_CLOSING
      | OnClose \<Rightarrow> sent DATA_CHANNEL_CLOSED
      | OnMessage is_string data \<Rightarrow>
          if is_string
          then (sent DATA_CHANNEL_TEXT)\<lparr>ev_text := Some (from_utf8_lossy data),
                 ev_delivery_permit := Some (po_semaphore po)\<rparr>
          else (sent DATA_CHANNEL_BINARY)\<lparr>ev_data := Some data,
                 ev_delivery_permit := Some (po_semaphore po)\<rparr>
      | OnBufferedAmountLow \<Rightarrow> sent DATA_CHANNEL_BUFFERED_AMOUNT_LOW
      | OnBufferedAmountHigh \<Rightarrow> sent DATA_CHANNEL_BUFFERED_AMOUNT_HIGH)"

definition poller_end :: "poller \<Rightarrow> 'w runtime_state \<Rightarrow> 'w runtime_state" where
  "poller_end po s =
     s\<lparr>st_channels := (if st_registry_poisoned s then st_channels s
                       else AList.delete (po_channel_handle po) (st_channels s)),
       st_spawned := remove1 po (st_spawned s)\<rparr>"

definition create_data_channel ::
  "'w webrtc_api \<Rightarrow> u64 \<Rightarrow> data_channel_configuration \<Rightarrow> ('w, (u64 \<times> u16) result) rt" where
  "create_data_channel api peer_handle configuration =
     try_prog (get_peer peer_handle) (\<lambda>peer.
     with_guard (pe_operations peer)
       (let options =
              \<lparr>init_ordered = chan_ordered configuration,
               init_max_packet_life_time = chan_max_packet_life_time configuration,
               init_max_retransmits = chan_max_retransmits configuration,
               init_protocol = chan_protocol configuration,
               init_negotiated = chan_negotiated_id configuration\<rparr>
        in try_prog
             (call_or api ''Failed to create DataChannel: ''
                (peer_create_data_channel api (pe_peer peer) (chan_label configuration) (Some options)))
             (\<lambda>channel.
           bind_prog (call (channel_id api channel)) (\<lambda>ident.
           try_prog (register_channel api peer_handle channel False) (\<lambda>handle.
           Done (Inr (handle, ident)))))))"

definition send_text :: "'w webrtc_api \<Rightarrow> u64 \<Rightarrow> string \<Rightarrow> ('w, unit result) rt" where
  "send_text api channel_handle txt =
     try_prog (get_channel channel_handle) (\<lambda>(channel, peer_handle).
     try_prog (get_peer peer_handle) (\<lambda>peer.
     with_guard (pe_operations peer)
       (call_or api ''Failed to send DataChannel text: '' (channel_send_text api channel txt))))"

definition send_binary :: "'w webrtc_api \<Rightarrow> u64 \<Rightarrow> bytes \<Rightarrow> ('w, unit result) rt" where
  "send_binary api channel_handle data =
     try_prog (get_channel channel_handle) (\<lambda>(channel, peer_handle).
     try_prog (get_peer peer_handle) (\<lambda>peer.
     with_guard (pe_operations peer)
       (case bytes_try_into_mut api data of
          None \<Rightarrow> Panic
        | Some data \<Rightarrow>
            call_or api ''Failed to send DataChannel data: '' (channel_send api channel data))))"

definition try_send_outcome :: "'w webrtc_api \<Rightarrow> string \<Rightarrow> unit webrtc_result \<Rightarrow> bool result" where
  "try_send_outcome api message r =
     (case r of
        Inr () \<Rightarrow> Inr True
      | Inl ErrSendBufferFull \<Rightarrow> Inr False
      | Inl error \<Rightarrow> Inl (message @ error_to_string api error))"

definition try_send_text :: "'w webrtc_api \<Rightarrow> u64 \<Rightarrow> string \<Rightarrow> ('w, bool result) rt" where
  "try_send_text api channel_handle txt =
     try_prog (get_channel channel_handle) (\<lambda>(channel, _).
     bind_prog (call (channel_try_send_text api channel txt))
       (\<lambda>r. Done (try_send_outcome api ''Failed to send DataChannel text: '' r)))"

definition try_send_binary :: "'w webrtc_api \<Rightarrow> u64 \<Rightarrow> bytes \<Rightarrow> ('w, bool result) rt" where
  "try_send_binary api channel_handle data =
     try_prog (get_channel channel_handle) (\<lambda>(channel, _).
     case bytes_try_into_mut api data of
       None \<Rightarrow> Panic
     | Some data \<Rightarrow>
         bind_prog (call (channel_try_send api channel data))
           (\<lambda>r. Done (try_send_outcome api ''Failed to send DataChannel data: '' r)))"

definition data_channel_writable :: "'w webrtc_api \<Rightarrow> u64 \<Rightarrow> ('w, unit result) rt" where
  "data_channel_writable api channel_handle =
     try_prog (get_channel channel_handle) (\<lambda>(channel, _).
     call_or api ''DataChannel cannot become writable: '' (channel_writable api channel))"

definition data_channel_outstanding_bytes :: "'w webrtc_api \<Rightarrow> u64 \<Rightarrow> ('w, u64 result) rt" where
  "data_channel_outstanding_bytes api channel_handle =
     try_prog (get_channel channel_handle) (\<lambda>(channel, _).
     call_or api ''Failed to read DataChannel outstanding bytes: ''
       (channel_outstanding_bytes api channel))"

definition set_data_channel_thresholds :: "'w webrtc_api \<Rightarrow> u64 \<Rightarrow> u32 \<Rightarrow> u32 \<Rightarrow> ('w, unit result) rt" where
  "set_data_channel_thresholds api channel_handle low high =
     try_prog (get_channel channel_handle) (\<lambda>(channel, _).
     try_prog (call_or api ''Failed to set DataChannel low threshold: ''
                 (channel_set_low_threshold api channel low)) (\<lambda>_.
     try_prog (call_or api ''Failed to set DataChannel high threshold: ''
                 (channel_set_high_threshold api channel high)) (\<lambda>_.
     Done (Inr ()))))"

definition get_stats :: "'w webrtc_api \<Rightarrow> u64 \<Rightarrow> ('w, bytes result) rt" where
  "get_stats api peer_handle =
     try_prog (get_peer peer_handle) (\<lambda>peer.
     with_guard (pe_operations peer)
       (bind_prog (call (peer_get_stats api (pe_peer peer))) (\<lambda>report.
        bind_prog (call (system_clock api)) (\<lambda>clock.
        Done (encode_stats clock report)))))"

subsection \<open>Closing\<close>

definition close_data_channel :: "'w webrtc_api \<Rightarrow> u64 \<Rightarrow> ('w, unit result) rt" where
  "close_data_channel api channel_handle =
     try_prog
       (lock_registry (\<lambda>s.
          (Inr (map_of (st_channels s) channel_handle),
           s\<lparr>st_channels := AList.delete channel_handle (st_channels s)\<rparr>)))
       (\<lambda>entry. case entry of
          None \<Rightarrow> Done (Inr ())
        | Some entry \<Rightarrow>
            try_prog (get_peer (ce_peer_handle entry)) (\<lambda>peer.
            with_guard (pe_operations peer)
              (call_or api ''Failed to close DataChannel: '' (channel_close api (ce_channel entry)))))"

definition close_peer :: "'w webrtc_api \<Rightarrow> u64 \<Rightarrow> ('w, unit result) rt" where
  "close_peer api peer_handle =
     try_prog
       (lock_registry (\<lambda>s.
          (Inr (map_of (st_peers s) peer_handle),
           s\<lparr>st_channels := retain (\<lambda>_ channel. ce_peer_handle channel \<noteq> peer_handle) (st_channels s),
             st_peers := AList.delete peer_handle (st_peers s)\<rparr>)))
       (\<lambda>peer. case peer of
          None \<Rightarrow> Done (Inr ())
        | Some peer \<Rightarrow>
            with_guard (pe_operations peer)
              (call_or api ''Failed to close peer connection: '' (peer_close api (pe_peer peer))))"

text \<open>
  The closes that \<open>shutdown_all\<close> spawns in a \<open>JoinSet\<close> are run one after the other, in the iteration
  order of the map; their results are ignored.
\<close>

fun close_all :: "'w webrtc_api \<Rightarrow> peer_entry list \<Rightarrow> ('w, unit) rt" where
  "close_all api [] = Done ()"
| "close_all api (peer # peers) =
     bind_prog
       (with_guard (pe_operations peer) (call (peer_close api (pe_peer peer))))
       (\<lambda>_. close_all api peers)"

definition shutdown_all :: "'w webrtc_api \<Rightarrow> ('w, unit result) rt" where
  "shutdown_all api =
     try_prog
       (lock_registry (\<lambda>s. (Inr (map snd (st_peers s)), s\<lparr>st_channels := [], st_peers := []\<rparr>)))
       (\<lambda>peers. bind_prog (close_all api peers) (\<lambda>_. Done (Inr ())))"

end
