(* ===== verification/Loopback_Api.thy ===== *)
theory Loopback_Api
  imports Webrtc_Api
begin

text \<open>
  A concrete instance of the crates' interface, for the examples of the other theories: a counter
  numbers the connections and channels it makes, every call succeeds, and connections can be built
  on the ports of a given set only.
\<close>

definition opened_ok :: "nat \<Rightarrow> nat webrtc_result \<times> nat" where
  "opened_ok w = (Inr w, w + 1)"

definition bind_message :: string where
  "bind_message = ''no udp_sockets or tcp_listeners available''"

definition builder_udp :: "peer_builder \<Rightarrow> string list" where
  "builder_udp b = concat (map (\<lambda>c. case c of with_udp_addrs a \<Rightarrow> a | _ \<Rightarrow> []) b)"

definition loopback_api :: "(string list \<Rightarrow> bool) \<Rightarrow> nat webrtc_api" where
  "loopback_api bindable =
     \<lparr>error_to_string = (\<lambda>e. case e of ErrSendBufferFull \<Rightarrow> ''send buffer full'' | WebrtcError m \<Rightarrow> m),
      peer_build = (\<lambda>b w. if bindable (builder_udp b) then opened_ok w
                           else (Inl (WebrtcError bind_message), w)),
      peer_create_offer = (\<lambda>p w. (Inr \<lparr>sd_type = Offer, sd_sdp = ''v=0''\<rparr>, w)),
      peer_create_answer = (\<lambda>p w. (Inr \<lparr>sd_type = Answer, sd_sdp = ''v=0''\<rparr>, w)),
      peer_set_local_description = (\<lambda>p d w. (Inr (), w)),
      peer_set_remote_description = (\<lambda>p d w. (Inr (), w)),
      peer_add_ice_candidate = (\<lambda>p i w. (Inr (), w)),
      peer_restart_ice = (\<lambda>p w. (Inr (), w)),
      peer_set_configuration = (\<lambda>p c w. (Inr (), w)),
      peer_create_data_channel = (\<lambda>p l i w. opened_ok w),
      peer_get_stats = (\<lambda>p w. (\<lparr>report_peer_connection = None, report_transport = None,
         report_get = (\<lambda>_. None), report_iter = []\<rparr>, w)),
      peer_close = (\<lambda>p w. (Inr (), w)),
      channel_id = (\<lambda>c w. (5, w)),
      channel_label = (\<lambda>c w. (Inr ''chat'', w)),
      channel_protocol = (\<lambda>c w. (Inr [], w)),
      channel_ordered = (\<lambda>c w. (Inr True, w)),
      channel_negotiated = (\<lambda>c w. (Inr False, w)),
      channel_max_packet_life_time = (\<lambda>c w. (Inr None, w)),
      channel_max_retransmits = (\<lambda>c w. (Inr None, w)),
      channel_ready_state = (\<lambda>c w. (Inr ChannelOpen, w)),
      channel_send_text = (\<lambda>c t w. (Inr (), w)),
      channel_send = (\<lambda>c d w. (Inr (), w)),
      channel_try_send_text = (\<lambda>c t w. (Inr (), w)),
      channel_try_send = (\<lambda>c d w. (Inr (), w)),
      channel_writable = (\<lambda>c w. (Inr (), w)),
      channel_outstanding_bytes = (\<lambda>c w. (Inr 0, w)),
      channel_set_low_threshold = (\<lambda>c n w. (Inr (), w)),
      channel_set_high_threshold = (\<lambda>c n w. (Inr (), w)),
      channel_close = (\<lambda>c w. (Inr (), w)),
      system_clock = (\<lambda>w. (Inr 0, w)),
      bytes_try_into_mut = (\<lambda>d. if d = [] then None else Some d),
      certificate_generate_key = (\<lambda>w. (Inr w, w + 1)),
      certificate_from_key_pair = (\<lambda>k w. (Inr k, w)),
      certificate_from_pem = (\<lambda>p w. (Inr w, w + 1)),
      certificate_get_fingerprints = (\<lambda>c. [''AB:CD'']),
      certificate_serialize_pem = (\<lambda>c. ''pem''),
      mux_bind = (\<lambda>u t w. (Inr w, w + 1)),
      thread_spawn = (\<lambda>n w. (Inr (), w)),
      tokio_build = (\<lambda>n m w. (Some (Inr ()), w))\<rparr>"

text \<open>A peer configuration with UDP on IPv4 and the given port range.\<close>

definition sample_configuration :: "u16 \<Rightarrow> u16 \<Rightarrow> peer_configuration" where
  "sample_configuration lo hi =
     \<lparr>cfg_ice_servers = [], min_port = lo, max_port = hi, relay_only = False,
      cfg_ice = \<lparr>disconnected_timeout = None, failed_timeout = None, keep_alive_interval = None,
        check_interval = None, max_binding_requests = None, host_acceptance_min_wait = None,
        server_reflexive_acceptance_min_wait = None, peer_reflexive_acceptance_min_wait = None,
        relay_acceptance_min_wait = None, ice_network_types = [Udp4], mdns_mode = Disabled,
        mdns_query_timeout = None, lite = False, nat_mapping = None,
        discard_local_candidates_on_restart = False, candidate_pool_size = 0,
        include_loopback_candidate = False, mdns_local_name = None, mdns_local_address = None,
        ice_credentials = None\<rparr>,
      cfg_sctp = \<lparr>send_buffer_limit = 0, receive_buffer_size = 1048576,
        maximum_message_size = 65536, receive_queue_capacity = 64\<rparr>,
      cfg_dtls = \<lparr>answering_role = None, media_level_fingerprints = False,
        replay_protection_window = 64, dtls_cipher_suites = all_cipher_suites\<rparr>,
      cfg_transport = \<lparr>udp_bind_addresses = [], tcp_bind_addresses = [], receive_mtu = 0\<rparr>\<rparr>"

end
