(* ===== verification/Registry_Facts.thy ===== *)
theory Registry_Facts
  imports Registry Loopback_Api
begin

text \<open>
  What the methods of \<open>RuntimeState\<close> do when they run without interference: their lock discipline,
  the registry invariant every method keeps, and the outcome of each of them.
\<close>

subsection \<open>Runs of the basic steps\<close>

named_theorems registry_runs

lemma run_call [registry_runs]:
  "run (call f) L s = Returned (fst (f (st_world s))) L (s\<lparr>st_world := snd (f (st_world s))\<rparr>)"
  by (simp add: call_def case_prod_unfold Let_def)

lemma run_call_or [registry_runs]:
  "run (call_or api m f) L s =
     Returned (map_err (\<lambda>e. m @ error_to_string api e) (fst (f (st_world s)))) L
       (s\<lparr>st_world := snd (f (st_world s))\<rparr>)"
  by (simp add: call_or_def run_bind registry_runs)

lemma run_send_event [registry_runs]: "run (send_event e) L s = Returned () L (push_event e s)"
  by (simp add: send_event_def)

lemma run_next_handle [registry_runs]:
  "run next_handle L s =
     Returned (st_next_handle s) L (s\<lparr>st_next_handle := st_next_handle s + 1\<rparr>)"
  by (simp add: next_handle_def)

lemma run_lock_registry [registry_runs]:
  "run (lock_registry f) L s =
     (if st_registry_poisoned s
      then Returned (Inl ''Kestara WebRTC handle registry is poisoned'') L s
      else Returned (fst (f s)) L (snd (f s)))"
  by (simp add: lock_registry_def)

lemma run_get_peer [registry_runs]:
  "run (get_peer h) L s =
     Returned
       (if st_registry_poisoned s then Inl ''Kestara WebRTC handle registry is poisoned''
        else ok_or (''Unknown peer connection handle: '' @ show_unsigned h) (map_of (st_peers s) h)) L s"
  by (simp add: get_peer_def registry_runs)

lemma run_get_channel [registry_runs]:
  "run (get_channel h) L s =
     Returned
       (if st_registry_poisoned s then Inl ''Kestara WebRTC handle registry is poisoned''
        else map_ok (\<lambda>entry. (ce_channel entry, ce_peer_handle entry))
               (ok_or (''Unknown DataChannel handle: '' @ show_unsigned h) (map_of (st_channels s) h))) L s"
  by (simp add: get_channel_def registry_runs)

subsection \<open>Lock discipline\<close>

text \<open>
  Every method acquires at most one operations mutex, only while it holds none, and drops it on every
  way out.
\<close>

lemma guarded_steps [lock_rules]:
  "guarded h (call f) h" "guarded h (send_event e) h" "guarded h (lock_registry g) h"
  "guarded h next_handle h" "guarded h (get_peer p) h" "guarded h (get_channel c) h"
  by (simp_all add: call_def send_event_def lock_registry_def next_handle_def get_peer_def
      get_channel_def guarded_act)

lemma guarded_call_or [lock_rules]: "guarded h (call_or api m f) h"
  unfolding call_or_def by (intro lock_rules)

lemma guarded_build_on_ports [lock_rules]: "guarded h (build_on_ports api c n ports e) h"
proof (induction ports arbitrary: e)
  case (Cons p ports)
  show ?case
    unfolding build_on_ports.simps Let_def by (intro lock_rules Cons.IH)
qed (simp add: lock_rules)

lemma guarded_create_peer [lock_rules]: "guarded h (create_peer api c) h"
  unfolding create_peer_def by (intro lock_rules)

lemma guarded_register_channel [lock_rules]: "guarded h (register_channel api p c b) h"
  unfolding register_channel_def Let_def by (intro lock_rules)

lemma guarded_close_all [lock_rules]: "guarded None (close_all api peers) None"
  by (induction peers) (auto intro!: lock_rules)

lemma guarded_methods [lock_rules]:
  "guarded None (create_description api p b) None"
  "guarded None (set_local_description api p d) None"
  "guarded None (set_remote_description api p d) None"
  "guarded None (add_ice_candidate api p i) None"
  "guarded None (restart_ice api p) None"
  "guarded None (set_configuration api p srv b) None"
  "guarded None (create_data_channel api p dc) None"
  "guarded None (send_text api c t) None"
  "guarded None (send_binary api c bs) None"
  "guarded None (try_send_text api c t) None"
  "guarded None (try_send_binary api c bs) None"
  "guarded None (data_channel_writable api c) None"
  "guarded None (data_channel_outstanding_bytes api c) None"
  "guarded None (set_data_channel_thresholds api c lo hi) None"
  "guarded None (get_stats api p) None"
  "guarded None (close_data_channel api c) None"
  "guarded None (close_peer api p) None"
  "guarded None (shutdown_all api) None"
  unfolding create_description_def set_local_description_def set_remote_description_def
    add_ice_candidate_def restart_ice_def set_configuration_def create_data_channel_def
    send_text_def send_binary_def try_send_text_def try_send_binary_def data_channel_writable_def
    data_channel_outstanding_bytes_def set_data_channel_thresholds_def get_stats_def
    close_data_channel_def close_peer_def shutdown_all_def Let_def
  by (intro lock_rules)+

subsection \<open>Registering a channel\<close>

text \<open>What \<open>register_channel\<close> asks a channel, in its order, with its defaults for failed getters.\<close>

record channel_description =
  desc_label :: string
  desc_protocol :: string
  desc_number :: i32
  desc_metadata :: bytes

definition describe_channel ::
  "'w webrtc_api \<Rightarrow> channel_ref \<Rightarrow> 'w \<Rightarrow> channel_description \<times> 'w" where
  "describe_channel api c w =
     (let (label, w) = channel_label api c w;
          (protocol, w) = channel_protocol api c w;
          (ordered, w) = channel_ordered api c w;
          (ident, w) = channel_id api c w;
          (negotiated, w) = channel_negotiated api c w;
          (life_time, w) = channel_max_packet_life_time api c w;
          (retransmits, w) = channel_max_retransmits api c w;
          (ready, w) = channel_ready_state api c w
      in (\<lparr>desc_label = unwrap_or [] label, desc_protocol = unwrap_or [] protocol,
           desc_number = channel_number (unwrap_or True ordered) (ready = Inr ChannelOpen) ident,
           desc_metadata = channel_metadata (unwrap_or False negotiated)
              (unwrap_or None life_time) (unwrap_or None retransmits)\<rparr>, w))"

definition created_event :: "u64 \<Rightarrow> u64 \<Rightarrow> channel_description \<Rightarrow> native_event" where
  "created_event p h d =
     data_channel_event p h (desc_label d) (desc_protocol d) (desc_number d) (desc_metadata d)"

text \<open>The state after the entry is inserted and the event is sent.\<close>

definition channel_inserted ::
  "'w webrtc_api \<Rightarrow> u64 \<Rightarrow> channel_ref \<Rightarrow> bool \<Rightarrow> 'w runtime_state \<Rightarrow> 'w runtime_state" where
  "channel_inserted api p c emit s =
     (let (d, w) = describe_channel api c (st_world s); h = st_next_handle s in
      s\<lparr>st_next_handle := h + 1, st_world := w,
        st_channels := AList.update h \<lparr>ce_channel = c, ce_peer_handle = p\<rparr> (st_channels s),
        st_events := st_events s @ (if emit then [created_event p h d] else [])\<rparr>)"

lemma run_register_channel:
  "run (register_channel api p c emit) L s =
     (if st_registry_poisoned s
      then Returned (Inl ''Kestara WebRTC handle registry is poisoned'') L
             (s\<lparr>st_next_handle := st_next_handle s + 1,
                st_world := snd (describe_channel api c (st_world s))\<rparr>)
      else case map_of (st_peers s) p of
        None \<Rightarrow> Returned (Inl (''Unknown peer connection handle: '' @ show_unsigned p)) L
                  (channel_inserted api p c emit s)
      | Some e \<Rightarrow>
          if max_permits < pe_receive_queue_capacity e then Panicked (channel_inserted api p c emit s)
          else Returned (Inr (st_next_handle s)) L
                 (spawn_poller p (st_next_handle s) c (pe_receive_queue_capacity e)
                   (channel_inserted api p c emit s)))"
  by (simp add: register_channel_def run_bind run_try registry_runs channel_inserted_def
      describe_channel_def created_event_def push_event_def case_prod_unfold Let_def
      split: option.splits)

subsection \<open>The registry invariant\<close>

text \<open>
  Handles are allocated by a counter that starts at 1, shared by peers and channels; every channel
  belongs to a registered peer; every peer has an operations mutex of its own.
\<close>

definition registry_ok :: "'w runtime_state \<Rightarrow> bool" where
  "registry_ok s \<longleftrightarrow>
     hash_map_ok (st_peers s) \<and> hash_map_ok (st_channels s)
     \<and> (\<forall>h \<in> keys (st_peers s) \<union> keys (st_channels s). 0 < h \<and> h < st_next_handle s)
     \<and> keys (st_peers s) \<inter> keys (st_channels s) = {}
     \<and> (\<forall>e \<in> set (st_channels s). ce_peer_handle (snd e) \<in> keys (st_peers s))
     \<and> distinct (map (pe_operations \<circ> snd) (st_peers s))
     \<and> (\<forall>e \<in> set (st_peers s). pe_operations (snd e) < st_next_mutex s)"

definition counter_left :: "'w runtime_state \<Rightarrow> bool" where
  "counter_left s \<longleftrightarrow> 0 < st_next_handle s \<and> st_next_handle s < - 1"

lemma counter_step:
  "counter_left s \<Longrightarrow> st_next_handle s < st_next_handle s + 1"
proof -
  assume "counter_left s"
  then have "1 + st_next_handle s \<noteq> 0"
    unfolding counter_left_def by (metis add.commute add_eq_0_iff less_irrefl)
  from unatSuc [OF this] show ?thesis by (simp add: word_less_nat_alt add.commute)
qed

lemma counter_mono: "counter_left s \<Longrightarrow> h < st_next_handle s \<Longrightarrow> h < st_next_handle s + 1"
  using counter_step less_trans by blast

lemma registry_ok_new: "registry_ok (new_runtime_state ev c b m w)"
  by (simp add: registry_ok_def new_runtime_state_def)

lemma registry_ok_world [simp]:
  "registry_ok (s\<lparr>st_world := w\<rparr>) = registry_ok s" "registry_ok (push_event e s) = registry_ok s"
  "registry_ok (spawn_poller p h ch n s) = registry_ok s" "registry_ok (s\<lparr>st_events := es\<rparr>) = registry_ok s"
  "registry_ok (s\<lparr>st_certificate := c\<rparr>) = registry_ok s"
  by (simp_all add: registry_ok_def push_event_def spawn_poller_def)

lemma registry_ok_alloc:
  "registry_ok s \<Longrightarrow> counter_left s \<Longrightarrow> registry_ok (s\<lparr>st_next_handle := st_next_handle s + 1\<rparr>)"
  using counter_mono [of s] by (auto simp: registry_ok_def)

lemma in_delete: "e \<in> set (AList.delete k m) \<Longrightarrow> e \<in> set m"
  by (simp add: set_delete)

lemma distinct_mutex_delete:
  "distinct (map f m) \<Longrightarrow> distinct (map f (AList.delete k m))"
  unfolding AList.delete_eq by (rule distinct_map_filter)

lemma fresh_handle:
  assumes "registry_ok s"
  shows "st_next_handle s \<notin> keys (st_peers s)" "st_next_handle s \<notin> keys (st_channels s)"
    "AList.update (st_next_handle s) v (st_peers s) = st_peers s @ [(st_next_handle s, v)]"
    "AList.update (st_next_handle s) u (st_channels s) = st_channels s @ [(st_next_handle s, u)]"
proof -
  show "st_next_handle s \<notin> keys (st_peers s)" "st_next_handle s \<notin> keys (st_channels s)"
    using assms by (auto simp: registry_ok_def)
  then show "AList.update (st_next_handle s) v (st_peers s) = st_peers s @ [(st_next_handle s, v)]"
    "AList.update (st_next_handle s) u (st_channels s) = st_channels s @ [(st_next_handle s, u)]"
    by (simp_all add: update_fresh)
qed

lemma registry_ok_add_peer:
  assumes ok: "registry_ok s" and left: "counter_left s"
  shows "registry_ok (s\<lparr>st_next_handle := st_next_handle s + 1,
     st_peers := AList.update (st_next_handle s)
        \<lparr>pe_peer = p, pe_operations = st_next_mutex s, pe_receive_queue_capacity = n\<rparr> (st_peers s),
     st_next_mutex := st_next_mutex s + 1\<rparr>)"
proof -
  have "0 < st_next_handle s" using left by (simp add: counter_left_def)
  then show ?thesis
    using ok fresh_handle(1,2) [OF ok] counter_step [OF left] counter_mono [OF left]
    unfolding registry_ok_def fresh_handle(3) [OF ok]
    by (intro conjI) (auto simp: hash_map_ok_def intro: less_SucI)
qed

lemma registry_ok_add_channel:
  assumes ok: "registry_ok s" and left: "counter_left s" and p: "p \<in> keys (st_peers s)"
  shows "registry_ok (channel_inserted api p c emit s)"
proof -
  have "0 < st_next_handle s" using left by (simp add: counter_left_def)
  then show ?thesis
    using ok fresh_handle(1,2) [OF ok] p counter_step [OF left] counter_mono [OF left]
    unfolding registry_ok_def channel_inserted_def case_prod_unfold Let_def fresh_handle(4) [OF ok]
    by (intro conjI) (auto simp: hash_map_ok_def)
qed

lemma registry_ok_drop_channel:
  "registry_ok s \<Longrightarrow> registry_ok (s\<lparr>st_channels := AList.delete h (st_channels s)\<rparr>)"
  by (auto simp: registry_ok_def set_delete)

lemma channel_owner:
  "registry_ok s \<Longrightarrow> (h, c) \<in> set (st_channels s) \<Longrightarrow> ce_peer_handle c \<in> keys (st_peers s)"
  unfolding registry_ok_def by (metis snd_conv)

lemma registry_ok_drop_peer:
  assumes ok: "registry_ok s"
  shows "registry_ok (s\<lparr>st_channels := retain (\<lambda>_ c. ce_peer_handle c \<noteq> p) (st_channels s),
                  st_peers := AList.delete p (st_peers s)\<rparr>)"
proof -
  have "ce_peer_handle (snd e) \<in> keys (st_peers s) - {p}"
    if "e \<in> set (retain (\<lambda>_ c. ce_peer_handle c \<noteq> p) (st_channels s))" for e
    using that channel_owner [OF ok, of "fst e" "snd e"] by (auto simp: set_retain)
  then show ?thesis
    using ok unfolding registry_ok_def
    by (intro conjI) (auto simp: set_retain distinct_mutex_delete dest: in_delete)
qed

lemma registry_ok_drop_all: "registry_ok s \<Longrightarrow> registry_ok (s\<lparr>st_channels := [], st_peers := []\<rparr>)"
  by (simp add: registry_ok_def)

subsection \<open>Methods that leave the registry alone\<close>

definition world_only :: "'w runtime_state \<Rightarrow> 'w runtime_state \<Rightarrow> bool" where
  "world_only s s' \<longleftrightarrow> (\<exists>w. s' = s\<lparr>st_world := w\<rparr>)"

lemma world_only_refl [simp]: "world_only s s"
  unfolding world_only_def by (intro exI [of _ "st_world s"]) simp

lemma reflp_world_only: "reflp world_only"
  by (simp add: reflp_def)

lemma transp_world_only: "transp world_only"
  unfolding world_only_def by (rule transpI) force

lemma guarantees_call [guarantee_rules]: "guarantees world_only (call f)"
  unfolding call_def by (intro guarantee_rules) (auto simp: world_only_def case_prod_unfold Let_def)

lemma guarantees_call_or [guarantee_rules]: "guarantees world_only (call_or api m f)"
  unfolding call_or_def by (intro guarantee_rules)

lemma guarantees_getters [guarantee_rules]:
  "guarantees world_only (get_peer p)" "guarantees world_only (get_channel c)"
  unfolding get_peer_def get_channel_def lock_registry_def by (intro guarantee_rules; simp)+

lemma guarantees_build_on_ports [guarantee_rules]:
  "guarantees world_only (build_on_ports api c h ports e)"
proof (induction ports arbitrary: e)
  case (Cons p ports)
  show ?case
    unfolding build_on_ports.simps Let_def by (intro guarantee_rules Cons.IH) simp
qed (simp add: guarantee_rules)

lemma quiet_methods:
  "guarantees world_only (create_description api p b)"
  "guarantees world_only (set_local_description api p d)"
  "guarantees world_only (set_remote_description api p d)"
  "guarantees world_only (add_ice_candidate api p i)"
  "guarantees world_only (restart_ice api p)"
  "guarantees world_only (set_configuration api p srv b)"
  "guarantees world_only (send_text api c t)"
  "guarantees world_only (send_binary api c bs)"
  "guarantees world_only (try_send_text api c t)"
  "guarantees world_only (try_send_binary api c bs)"
  "guarantees world_only (data_channel_writable api c)"
  "guarantees world_only (data_channel_outstanding_bytes api c)"
  "guarantees world_only (set_data_channel_thresholds api c lo hi)"
  "guarantees world_only (get_stats api p)"
  unfolding create_description_def set_local_description_def set_remote_description_def
    add_ice_candidate_def restart_ice_def set_configuration_def
    send_text_def send_binary_def try_send_text_def try_send_binary_def data_channel_writable_def
    data_channel_outstanding_bytes_def set_data_channel_thresholds_def get_stats_def Let_def
  by (intro guarantee_rules)+

lemma quiet_run:
  assumes "guarantees world_only p" and "run p L s = Returned a L' s'"
  obtains w where "s' = s\<lparr>st_world := w\<rparr>"
  using guarantees_run [OF assms(1) reflp_world_only transp_world_only assms(2)]
  by (auto simp: world_only_def)

lemma quiet_panic:
  assumes "guarantees world_only p" and "run p L s = Panicked s'"
  obtains w where "s' = s\<lparr>st_world := w\<rparr>"
  using guarantees_run_end [OF assms(1) reflp_world_only transp_world_only, of L s _ _ s'] assms(2)
  unfolding world_only_def by blast

text \<open>The search for a port returns, with the same locks, having changed only the crate's state.\<close>

lemma run_build_on_ports:
  "\<exists>r w. run (build_on_ports api c h ports e) L s = Returned r L (s\<lparr>st_world := w\<rparr>)"
proof (induction ports arbitrary: e s)
  case Nil
  show ?case by (auto intro: exI [of _ "st_world s"])
next
  case (Cons p ports)
  show ?case
  proof (cases "lock_certificate s")
    case (Inl m)
    then show ?thesis by (auto intro!: exI [of _ "st_world s"])
  next
    case (Inr cert)
    let ?r = "peer_build api (peer_builder_for c h cert (st_socket_mux s) p) (st_world s)"
    from Cons.IH [of _ "s\<lparr>st_world := snd ?r\<rparr>"] Inr show ?thesis
      by (cases "fst ?r") (auto simp: run_bind registry_runs Let_def)
  qed
qed

subsection \<open>Creating a peer\<close>

text \<open>The message of the webrtc crate that no socket could be bound.\<close>

definition bind_refused :: "string \<Rightarrow> bool" where
  "bind_refused m \<longleftrightarrow> contains m ''no udp_sockets or tcp_listeners available''"

definition port_builder :: "peer_configuration \<Rightarrow> 'w runtime_state \<Rightarrow> u16 \<Rightarrow> peer_builder" where
  "port_builder c s p = peer_builder_for c (st_next_handle s) (st_certificate s) (st_socket_mux s) p"

lemma build_on_ports_outcome:
  assumes "run (build_on_ports api c h ports e) L s = Returned r L' s'"
    and "\<not> st_certificate_poisoned s"
  shows "case r of
      Inl m \<Rightarrow> \<exists>t. m = ''Failed to create peer connection: '' @ t
    | Inr (Some peer, _) \<Rightarrow> \<exists>p\<in>set ports. \<exists>w w'.
        peer_build api (peer_builder_for c h (st_certificate s) (st_socket_mux s) p) w = (Inr peer, w')
    | Inr (None, e') \<Rightarrow> 0 \<notin> set ports \<and>
        (case e' of None \<Rightarrow> ports = [] \<and> e = None
         | Some m \<Rightarrow> if ports = [] then e' = e else bind_refused m)"
  using assms
proof (induction ports arbitrary: e s)
  case Nil
  then show ?case by (auto split: option.splits)
next
  case (Cons p ports)
  let ?cert = "st_certificate s" and ?mux = "st_socket_mux s"
  obtain b w where b: "peer_build api (peer_builder_for c h ?cert ?mux p) (st_world s) = (b, w)"
    by (cases "peer_build api (peer_builder_for c h ?cert ?mux p) (st_world s)")
  note run = Cons.prems(1) [simplified, unfolded lock_certificate_def if_not_P [OF Cons.prems(2)], simplified]
  show ?case
  proof (cases b)
    case (Inr peer)
    with run b have "r = Inr (Some peer, e)" by (simp add: run_bind registry_runs)
    with b Inr show ?thesis by fastforce
  next
    case (Inl err)
    let ?m = "error_to_string api err"
    show ?thesis
    proof (cases "p = 0 \<or> \<not> bind_refused ?m")
      case True
      with run b Inl have "r = Inl (''Failed to create peer connection: '' @ ?m)"
        by (auto simp: run_bind registry_runs Let_def bind_refused_def)
      then show ?thesis by simp
    next
      case False
      with run b Inl have "run (build_on_ports api c h ports (Some ?m)) L (s\<lparr>st_world := w\<rparr>) = Returned r L' s'"
        by (auto simp: run_bind registry_runs Let_def bind_refused_def)
      note ih = Cons.IH [OF this, simplified, OF Cons.prems(2)]
      show ?thesis
      proof (cases r)
        case (Inl m)
        with ih show ?thesis by simp
      next
        case (Inr x)
        obtain q e' where x: "x = (q, e')" by (cases x)
        show ?thesis
          using ih False by (cases q; cases e'; cases "ports = []") (simp_all add: Inr x bex_Un)
      qed
    qed
  qed
qed

lemma port_search:
  assumes "run (build_on_ports api c h ports None) L s = Returned r L' s'"
  obtains
    (poisoned) "st_certificate_poisoned s" "r = Inl ''The runtime DTLS certificate lock is poisoned''"
  | (failed) t where "r = Inl (''Failed to create peer connection: '' @ t)"
  | (built) peer e p v v' where "r = Inr (Some peer, e)" "p \<in> set ports"
      "peer_build api (peer_builder_for c h (st_certificate s) (st_socket_mux s) p) v = (Inr peer, v')"
  | (refused) t where "r = Inr (None, Some t)" "0 \<notin> set ports" "bind_refused t"
  | (empty) "r = Inr (None, None)" "ports = []"
proof (cases "st_certificate_poisoned s \<or> ports = []")
  case True
  with assms poisoned empty show thesis by (cases ports) (auto simp: lock_certificate_def)
next
  case False
  with build_on_ports_outcome [OF assms] that(2-4) show thesis
    by (cases r; cases "fst (projr r)"; cases "snd (projr r)") (auto simp: case_prod_unfold)
qed

lemma port_range_mem: "lo \<le> hi \<Longrightarrow> p \<in> set (port_range lo hi) \<longleftrightarrow> lo \<le> p \<and> p \<le> hi \<and> (lo = 0 \<longrightarrow> p = 0)"
proof -
  assume le: "lo \<le> hi"
  have "p \<in> word_of_nat ` {unat lo..<Suc (unat hi)} \<longleftrightarrow> lo \<le> p \<and> p \<le> hi"
  proof
    assume "p \<in> word_of_nat ` {unat lo..<Suc (unat hi)}"
    then obtain n where n: "p = word_of_nat n" "unat lo \<le> n" "n \<le> unat hi" by auto
    moreover have "unat hi < 2 ^ LENGTH(16)" by (rule unsigned_less)
    with n(3) have "n < 2 ^ 16" by simp
    ultimately show "lo \<le> p \<and> p \<le> hi" by (simp add: word_le_nat_alt unat_of_nat)
  next
    assume "lo \<le> p \<and> p \<le> hi"
    then show "p \<in> word_of_nat ` {unat lo..<Suc (unat hi)}"
      by (intro image_eqI [of _ _ "unat p"]) (simp_all add: word_le_nat_alt)
  qed
  then show ?thesis using le by (auto simp: port_range_def)
qed

definition peer_added :: "peer_configuration \<Rightarrow> peer_ref \<Rightarrow> 'w \<Rightarrow> 'w runtime_state \<Rightarrow> 'w runtime_state" where
  "peer_added c peer w s =
     s\<lparr>st_next_handle := st_next_handle s + 1, st_world := w,
       st_peers := AList.update (st_next_handle s)
         \<lparr>pe_peer = peer, pe_operations = st_next_mutex s,
          pe_receive_queue_capacity = receive_queue_capacity (cfg_sctp c)\<rparr> (st_peers s),
       st_next_mutex := st_next_mutex s + 1\<rparr>"

definition range_message :: "peer_configuration \<Rightarrow> string \<Rightarrow> string" where
  "range_message c m = ''No transport port is available in the configured range ''
     @ show_unsigned (min_port c) @ ''-'' @ show_unsigned (max_port c) @ '': '' @ m"

text \<open>
  C11: creating a peer always returns and takes exactly one handle. It succeeds with that handle for
  a connection that was built, with the bind addresses of some port of the configured range, and the
  registry then has exactly one entry more, with a mutex of its own and the configured queue
  capacity. Otherwise the registry is unchanged and the error says which step failed; the fallback
  text \<open>unknown bind error\<close> is produced only for an empty range, which both bridges refuse.
\<close>

theorem create_peer_outcome:
  "(\<exists>p peer w v v'. p \<in> set (port_range (min_port c) (max_port c))
            \<and> peer_build api (port_builder c s p) v = (Inr peer, v')
            \<and> run (create_peer api c) L s
               = Returned (Inr (st_next_handle s)) L (peer_added c peer w s))
    \<or> (\<exists>m w. run (create_peer api c) L s
               = Returned (Inl m) L (s\<lparr>st_next_handle := st_next_handle s + 1, st_world := w\<rparr>)
          \<and> (st_certificate_poisoned s \<and> m = ''The runtime DTLS certificate lock is poisoned''
            \<or> st_registry_poisoned s \<and> m = ''Kestara WebRTC handle registry is poisoned''
            \<or> (\<exists>t. m = ''Failed to create peer connection: '' @ t)
            \<or> (\<exists>t. 0 < min_port c \<and> bind_refused t \<and> m = range_message c t)
            \<or> max_port c < min_port c \<and> m = range_message c ''unknown bind error''))"
proof -
  let ?ports = "port_range (min_port c) (max_port c)"
  let ?s = "s\<lparr>st_next_handle := st_next_handle s + 1\<rparr>"
  obtain r w where b: "run (build_on_ports api c (st_next_handle s) ?ports None) L ?s
      = Returned r L (?s\<lparr>st_world := w\<rparr>)"
    using run_build_on_ports [of api c "st_next_handle s" ?ports None L ?s] by auto
  note runs = create_peer_def run_bind run_try registry_runs range_message_def b
  from b show ?thesis
  proof (cases rule: port_search)
    case poisoned
    then show ?thesis by (intro disjI2) (auto simp: runs)
  next
    case (failed t)
    then show ?thesis by (intro disjI2) (auto simp: runs)
  next
    case (built peer e p v v')
    then show ?thesis
    proof (cases "st_registry_poisoned s")
      case True
      with built show ?thesis by (intro disjI2) (auto simp: runs)
    next
      case False
      with built have "run (create_peer api c) L s
          = Returned (Inr (st_next_handle s)) L (peer_added c peer w s)"
        by (simp add: runs peer_added_def)
      with built show ?thesis unfolding port_builder_def by auto
    qed
  next
    case (refused t)
    from refused(2) have lo: "min_port c \<noteq> 0" by (rule contrapos_nn) (simp add: port_range_def)
    with refused show ?thesis by (intro disjI2) (auto simp: runs word_greater_zero_iff)
  next
    case empty
    then have "max_port c < min_port c" "min_port c \<noteq> 0"
      by (auto simp: port_range_def word_less_nat_alt split: if_splits)
    with empty show ?thesis by (intro disjI2) (auto simp: runs intro: exI [of _ "st_world s"])
  qed
qed

lemma run_build_first_free:
  assumes "\<not> st_certificate_poisoned s" and "0 \<notin> set ports"
    and "bind_refused (error_to_string api e)"
    and "\<And>p. p \<in> set ports \<Longrightarrow>
      peer_build api (peer_builder_for c h (st_certificate s) (st_socket_mux s) p) (st_world s)
        = (if free p then (Inr (conn p), w' p) else (Inl e, st_world s))"
  shows "run (build_on_ports api c h ports le) L s =
    (case filter free ports of
       p # _ \<Rightarrow> Returned (Inr (Some (conn p), if free (hd ports) then le else Some (error_to_string api e)))
                  L (s\<lparr>st_world := w' p\<rparr>)
     | [] \<Rightarrow> Returned (Inr (None, if ports = [] then le else Some (error_to_string api e))) L s)"
  using assms
proof (induction ports arbitrary: le)
  case (Cons p ports)
  from Cons.prems(1-3) Cons.prems(4) [of p] have p: "p \<noteq> 0"
    and b: "peer_build api (peer_builder_for c h (st_certificate s) (st_socket_mux s) p) (st_world s)
        = (if free p then (Inr (conn p), w' p) else (Inl e, st_world s))" by auto
  show ?case
  proof (cases "free p")
    case True
    with b Cons.prems(1) show ?thesis by (simp add: run_bind registry_runs lock_certificate_def)
  next
    case False
    with b p Cons.prems(1,3) have "run (build_on_ports api c h (p # ports) le) L s
        = run (build_on_ports api c h ports (Some (error_to_string api e))) L s"
      by (simp add: run_bind registry_runs lock_certificate_def bind_refused_def Let_def)
    with Cons.IH [of "Some (error_to_string api e)"] Cons.prems False show ?thesis
      by (auto split: list.splits)
  qed
qed simp

text \<open>
  C12: with a fixed port range, the peer gets the lowest port of the range on which its sockets can
  be bound; when none can, the caller learns the range and the crate's message, and the registry is
  unchanged.
\<close>

theorem create_peer_first_free_port:
  assumes "\<not> st_certificate_poisoned s" and "\<not> st_registry_poisoned s"
    and "0 < min_port c" and "min_port c \<le> max_port c"
    and "bind_refused (error_to_string api e)"
    and "\<And>p. min_port c \<le> p \<Longrightarrow> p \<le> max_port c \<Longrightarrow>
      peer_build api (port_builder c s p) (st_world s)
        = (if free p then (Inr (conn p), w' p) else (Inl e, st_world s))"
  shows "run (create_peer api c) L s =
    (case filter free (port_range (min_port c) (max_port c)) of
       p # _ \<Rightarrow> Returned (Inr (st_next_handle s)) L (peer_added c (conn p) (w' p) s)
     | [] \<Rightarrow> Returned (Inl (range_message c (error_to_string api e))) L
               (s\<lparr>st_next_handle := st_next_handle s + 1\<rparr>))"
proof -
  let ?ports = "port_range (min_port c) (max_port c)"
  let ?s = "s\<lparr>st_next_handle := st_next_handle s + 1\<rparr>"
  have "0 \<notin> set ?ports" using assms(3,4) by (simp add: port_range_mem word_greater_zero_iff)
  moreover have "?ports \<noteq> []" using assms(4) by (simp add: port_range_def word_le_nat_alt)
  moreover have "p \<in> set ?ports \<Longrightarrow>
      peer_build api (peer_builder_for c (st_next_handle s) (st_certificate ?s) (st_socket_mux ?s) p)
        (st_world ?s) = (if free p then (Inr (conn p), w' p) else (Inl e, st_world ?s))" for p
    using assms(4) assms(6) [of p] by (simp add: port_range_mem port_builder_def)
  ultimately have "run (build_on_ports api c (st_next_handle s) ?ports None) L ?s =
    (case filter free ?ports of
       p # _ \<Rightarrow> Returned (Inr (Some (conn p),
                   if free (hd ?ports) then None else Some (error_to_string api e)))
                  L (?s\<lparr>st_world := w' p\<rparr>)
     | [] \<Rightarrow> Returned (Inr (None, Some (error_to_string api e))) L ?s)"
    using run_build_first_free [of ?s ?ports api e c "st_next_handle s" free conn w' None L]
      assms(1,5) by simp
  with assms(2,3) show ?thesis
    by (auto simp: create_peer_def run_bind run_try registry_runs peer_added_def range_message_def
        split: list.splits)
qed

definition sample_state :: "nat runtime_state" where
  "sample_state = new_runtime_state [] 7 False None 0"

abbreviation only_9001 :: "nat webrtc_api" where
  "only_9001 \<equiv> loopback_api (\<lambda>udp. udp = [''0.0.0.0:9001''])"

lemma show_ports: "show_nat 9000 = ''9000''" "show_nat 9001 = ''9001''" "show_nat 9002 = ''9002''"
  by (simp_all add: show_nat.simps char_of_def bit_0)

lemma loopback_build_9001:
  "peer_build only_9001 (port_builder (sample_configuration 9000 9002) sample_state p) (st_world sample_state)
     = (if p = 9001 then (Inr 0, 1) else (Inl (WebrtcError bind_message), st_world sample_state))"
  if "9000 \<le> p" "p \<le> 9002" for p
proof -
  have "p \<in> set (port_range 9000 9002)" using that by (simp add: port_range_mem)
  then have "p = 9000 \<or> p = 9001 \<or> p = 9002"
    by (auto simp: port_range_def upt_rec)
  then show ?thesis
    by (elim disjE) (simp_all add: loopback_api_def port_builder_def peer_builder_for_def builder_udp_def
        sample_configuration_def bind_addresses_def push_new_def show_unsigned_def opened_ok_def
        show_ports sample_state_def new_runtime_state_def)
qed

theorem create_peer_first_free_port_witness:
  "run (create_peer only_9001 (sample_configuration 9000 9002)) {} sample_state
     = Returned (Inr 1) {} (peer_added (sample_configuration 9000 9002) 0 1 sample_state)"
proof -
  have "filter (\<lambda>p. p = 9001) (port_range 9000 9002) = [9001]"
    by (simp add: port_range_def upt_rec)
  moreover have "bind_refused (error_to_string only_9001 (WebrtcError bind_message))"
    by (simp add: bind_refused_def loopback_api_def bind_message_def)
  moreover have "min_port (sample_configuration 9000 9002) = 9000"
    "max_port (sample_configuration 9000 9002) = 9002"
    by (simp_all add: sample_configuration_def)
  moreover have "\<not> st_certificate_poisoned sample_state" "\<not> st_registry_poisoned sample_state"
    "st_next_handle sample_state = 1"
    by (simp_all add: sample_state_def new_runtime_state_def)
  ultimately show ?thesis
    using create_peer_first_free_port [of sample_state "sample_configuration 9000 9002" only_9001
        "WebrtcError bind_message" "\<lambda>p. p = 9001" "\<lambda>_. 0" "\<lambda>_. 1" "{}"] loopback_build_9001
    by simp
qed

subsection \<open>The registry as two maps\<close>

text \<open>
  The contract of the registry: which connection a peer handle denotes, and which channel of which
  peer a channel handle denotes. A method has one of the effects below on it.
\<close>

record abstract_registry =
  ar_peers :: "u64 \<rightharpoonup> peer_ref"
  ar_channels :: "u64 \<rightharpoonup> channel_ref \<times> u64"

definition abs_registry :: "'w runtime_state \<Rightarrow> abstract_registry" where
  "abs_registry s =
     \<lparr>ar_peers = map_option pe_peer \<circ> map_of (st_peers s),
      ar_channels = map_option (\<lambda>e. (ce_channel e, ce_peer_handle e)) \<circ> map_of (st_channels s)\<rparr>"

datatype registry_effect =
    Unchanged
  | PeerAdded u64 peer_ref
  | ChannelAdded u64 channel_ref u64
  | ChannelRemoved u64
  | PeerRemoved u64
  | Cleared

fun apply_effect :: "registry_effect \<Rightarrow> abstract_registry \<Rightarrow> abstract_registry" where
  "apply_effect Unchanged r = r"
| "apply_effect (PeerAdded h p) r = r\<lparr>ar_peers := (ar_peers r)(h \<mapsto> p)\<rparr>"
| "apply_effect (ChannelAdded h c p) r = r\<lparr>ar_channels := (ar_channels r)(h \<mapsto> (c, p))\<rparr>"
| "apply_effect (ChannelRemoved h) r = r\<lparr>ar_channels := (ar_channels r)(h := None)\<rparr>"
| "apply_effect (PeerRemoved p) r =
     r\<lparr>ar_peers := (ar_peers r)(p := None),
       ar_channels := (\<lambda>h. case ar_channels r h of
          Some (c, q) \<Rightarrow> if q = p then None else Some (c, q) | None \<Rightarrow> None)\<rparr>"
| "apply_effect Cleared r = \<lparr>ar_peers = (\<lambda>_. None), ar_channels = (\<lambda>_. None)\<rparr>"

lemma abs_registry_simps [simp]:
  "abs_registry (s\<lparr>st_world := w\<rparr>) = abs_registry s"
  "abs_registry (s\<lparr>st_next_handle := n\<rparr>) = abs_registry s"
  "abs_registry (spawn_poller p h ch n s) = abs_registry s"
  "abs_registry (s\<lparr>st_events := es\<rparr>) = abs_registry s"
  "abs_registry (s\<lparr>st_certificate := c\<rparr>) = abs_registry s"
  by (simp_all add: abs_registry_def spawn_poller_def)

lemma abs_peer_added:
  "abs_registry (peer_added c peer w s) = apply_effect (PeerAdded (st_next_handle s) peer) (abs_registry s)"
  by (auto simp: abs_registry_def peer_added_def update_conv')

lemma abs_channel_inserted:
  "abs_registry (channel_inserted api p c emit s)
     = apply_effect (ChannelAdded (st_next_handle s) c p) (abs_registry s)"
  by (auto simp: abs_registry_def channel_inserted_def case_prod_unfold Let_def update_conv')

lemma abs_channel_removed:
  "abs_registry (s\<lparr>st_channels := AList.delete h (st_channels s)\<rparr>)
     = apply_effect (ChannelRemoved h) (abs_registry s)"
  by (auto simp: abs_registry_def delete_conv')

lemma abs_peer_removed:
  "hash_map_ok (st_channels s) \<Longrightarrow>
   abs_registry (s\<lparr>st_channels := retain (\<lambda>_ c. ce_peer_handle c \<noteq> p) (st_channels s),
                  st_peers := AList.delete p (st_peers s)\<rparr>)
     = apply_effect (PeerRemoved p) (abs_registry s)"
  by (auto simp: abs_registry_def delete_conv' map_of_retain fun_eq_iff split: option.splits)

lemma abs_cleared: "abs_registry (s\<lparr>st_channels := [], st_peers := []\<rparr>) = apply_effect Cleared (abs_registry s)"
  by (auto simp: abs_registry_def)

subsection \<open>Effects of the methods\<close>

lemma create_peer_effect:
  assumes "run (create_peer api c) L s = Returned r L' s'"
  obtains (ok) peer w where "r = Inr (st_next_handle s)" "s' = peer_added c peer w s"
  | (error) m w where "r = Inl m" "s' = s\<lparr>st_next_handle := st_next_handle s + 1, st_world := w\<rparr>"
proof -
  let ?s = "s\<lparr>st_next_handle := st_next_handle s + 1\<rparr>" and ?ps = "port_range (min_port c) (max_port c)"
  obtain q w where b: "run (build_on_ports api c (st_next_handle s) ?ps None) L ?s
      = Returned q L (?s\<lparr>st_world := w\<rparr>)"
    using run_build_on_ports [of api c "st_next_handle s" ?ps None L ?s] by auto
  note runs = create_peer_def run_bind run_try registry_runs b
  show thesis
  proof (cases q)
    case (Inl m)
    with assms error [of m w] show thesis by (simp add: runs)
  next
    case (Inr x)
    with assms ok [of "the (fst x)" w] error [of _ w] show thesis
      by (cases x; cases "fst x"; cases "st_registry_poisoned s") (auto simp: runs peer_added_def)
  qed
qed

definition channel_options :: "data_channel_configuration \<Rightarrow> data_channel_init" where
  "channel_options c =
     \<lparr>init_ordered = chan_ordered c, init_max_packet_life_time = chan_max_packet_life_time c,
      init_max_retransmits = chan_max_retransmits c, init_protocol = chan_protocol c,
      init_negotiated = chan_negotiated_id c\<rparr>"

lemma run_create_data_channel:
  "run (create_data_channel api p c) L s =
     (if st_registry_poisoned s
      then Returned (Inl ''Kestara WebRTC handle registry is poisoned'') L s
      else case map_of (st_peers s) p of
        None \<Rightarrow> Returned (Inl (''Unknown peer connection handle: '' @ show_unsigned p)) L s
      | Some e \<Rightarrow>
          if pe_operations e \<in> L then Blocked
          else case peer_create_data_channel api (pe_peer e) (chan_label c) (Some (channel_options c))
                      (st_world s) of
            (Inl err, w) \<Rightarrow> Returned (Inl (''Failed to create DataChannel: '' @ error_to_string api err)) L
                             (s\<lparr>st_world := w\<rparr>)
          | (Inr ch, w) \<Rightarrow>
              (let (ident, w) = channel_id api ch w;
                   s1 = channel_inserted api p ch False (s\<lparr>st_world := w\<rparr>) in
               if max_permits < pe_receive_queue_capacity e then Panicked s1
               else Returned (Inr (st_next_handle s, ident)) L
                 (spawn_poller p (st_next_handle s) ch (pe_receive_queue_capacity e) s1)))"
  by (simp add: create_data_channel_def run_try run_bind run_with_guard registry_runs
      run_register_channel channel_options_def case_prod_unfold Let_def split: option.split sum.split)

lemma create_data_channel_effect:
  assumes "run (create_data_channel api p c) L s = Returned r L' s'"
  obtains (ok) ch w n where "r = Inr (st_next_handle s, fst (channel_id api ch w))"
      "p \<in> keys (st_peers s)"
      "s' = spawn_poller p (st_next_handle s) ch n
         (channel_inserted api p ch False (s\<lparr>st_world := snd (channel_id api ch w)\<rparr>))"
  | (error) m w where "r = Inl m" "s' = s\<lparr>st_world := w\<rparr>"
proof (cases "st_registry_poisoned s \<or> map_of (st_peers s) p = None")
  case True
  with assms have "s' = s\<lparr>st_world := st_world s\<rparr>" and "r \<in> range Inl"
    by (cases "st_registry_poisoned s"; auto simp: run_create_data_channel)+
  with error show thesis by (metis rangeE)
next
  case False
  then obtain e where e: "map_of (st_peers s) p = Some e" "\<not> st_registry_poisoned s" by auto
  then have k: "p \<in> keys (st_peers s)" by (simp add: keys_map_of)
  obtain q w where q: "peer_create_data_channel api (pe_peer e) (chan_label c) (Some (channel_options c))
      (st_world s) = (q, w)" by (cases "peer_create_data_channel api (pe_peer e) (chan_label c)
        (Some (channel_options c)) (st_world s)")
  show thesis
    using assms ok [of "projr q" w, OF _ k] error
    by (cases q) (auto simp: run_create_data_channel e q case_prod_unfold Let_def split: if_split_asm)
qed

lemma run_close_data_channel:
  "run (close_data_channel api h) L s =
     (let s1 = s\<lparr>st_channels := AList.delete h (st_channels s)\<rparr> in
      if st_registry_poisoned s
      then Returned (Inl ''Kestara WebRTC handle registry is poisoned'') L s
      else case map_of (st_channels s) h of
        None \<Rightarrow> Returned (Inr ()) L s1
      | Some c \<Rightarrow> (case map_of (st_peers s) (ce_peer_handle c) of
          None \<Rightarrow> Returned (Inl (''Unknown peer connection handle: '' @ show_unsigned (ce_peer_handle c))) L s1
        | Some e \<Rightarrow>
            if pe_operations e \<in> L then Blocked
            else (let (r, w) = channel_close api (ce_channel c) (st_world s) in
                  Returned (map_err (\<lambda>m. ''Failed to close DataChannel: '' @ error_to_string api m) r) L
                    (s1\<lparr>st_world := w\<rparr>))))"
  by (simp add: close_data_channel_def run_try run_with_guard registry_runs case_prod_unfold Let_def
      split: option.split)

lemma run_close_peer:
  "run (close_peer api p) L s =
     (let s1 = s\<lparr>st_channels := retain (\<lambda>_ c. ce_peer_handle c \<noteq> p) (st_channels s),
                 st_peers := AList.delete p (st_peers s)\<rparr> in
      if st_registry_poisoned s
      then Returned (Inl ''Kestara WebRTC handle registry is poisoned'') L s
      else case map_of (st_peers s) p of
        None \<Rightarrow> Returned (Inr ()) L s1
      | Some e \<Rightarrow>
          if pe_operations e \<in> L then Blocked
          else (let (r, w) = peer_close api (pe_peer e) (st_world s) in
                Returned (map_err (\<lambda>m. ''Failed to close peer connection: '' @ error_to_string api m) r) L
                  (s1\<lparr>st_world := w\<rparr>)))"
  by (simp add: close_peer_def run_try run_with_guard registry_runs case_prod_unfold Let_def
      split: option.split)

lemma close_data_channel_effect:
  assumes "run (close_data_channel api h) L s = Returned r L' s'"
  shows "(st_registry_poisoned s \<and> s' = s)
    \<or> (\<exists>w. s' = s\<lparr>st_channels := AList.delete h (st_channels s)\<rparr>\<lparr>st_world := w\<rparr>)"
proof (cases "st_registry_poisoned s")
  case False
  have "s' = s\<lparr>st_channels := AList.delete h (st_channels s)\<rparr>\<lparr>st_world := st_world s'\<rparr>"
    using assms False
    by (auto simp: run_close_data_channel case_prod_unfold Let_def split: option.split_asm if_split_asm)
  then show ?thesis by blast
qed (use assms in \<open>simp add: run_close_data_channel Let_def\<close>)

lemma close_peer_effect:
  assumes "run (close_peer api p) L s = Returned r L' s'"
  shows "(st_registry_poisoned s \<and> s' = s)
    \<or> (\<exists>w. s' = s\<lparr>st_channels := retain (\<lambda>_ c. ce_peer_handle c \<noteq> p) (st_channels s),
                    st_peers := AList.delete p (st_peers s)\<rparr>\<lparr>st_world := w\<rparr>)"
proof (cases "st_registry_poisoned s")
  case False
  have "s' = s\<lparr>st_channels := retain (\<lambda>_ c. ce_peer_handle c \<noteq> p) (st_channels s),
                st_peers := AList.delete p (st_peers s)\<rparr>\<lparr>st_world := st_world s'\<rparr>"
    using assms False
    by (auto simp: run_close_peer case_prod_unfold Let_def split: option.split_asm if_split_asm)
  then show ?thesis by blast
qed (use assms in \<open>simp add: run_close_peer Let_def\<close>)

lemma run_close_all:
  "run (close_all api ps) L s = Returned r L' s' \<Longrightarrow> world_only s s'"
proof (induction ps arbitrary: s L)
  case (Cons p ps)
  then show ?case
    by (cases "pe_operations p \<in> L")
      (fastforce simp: run_bind run_with_guard registry_runs world_only_def)+
qed simp

lemma shutdown_all_effect:
  assumes "run (shutdown_all api) L s = Returned r L' s'"
  shows "(st_registry_poisoned s \<and> s' = s) \<or> (\<exists>w. s' = s\<lparr>st_channels := [], st_peers := []\<rparr>\<lparr>st_world := w\<rparr>)"
proof (cases "st_registry_poisoned s")
  case True
  with assms show ?thesis by (simp add: shutdown_all_def run_try registry_runs)
next
  case False
  let ?s = "s\<lparr>st_channels := [], st_peers := []\<rparr>"
  from False assms have "\<exists>u. run (close_all api (map snd (st_peers s))) L ?s = Returned u L' s'"
    by (cases "run (close_all api (map snd (st_peers s))) L ?s")
      (simp_all add: shutdown_all_def run_try run_bind registry_runs)
  then have "world_only ?s s'" using run_close_all by blast
  then show ?thesis by (simp add: world_only_def)
qed

end
