(* ===== verification/Registry_Contracts.thy ===== *)
theory Registry_Contracts
  imports Registry_Facts
begin

text \<open>
  What the methods of \<open>native/src/registry.rs\<close> promise of every single step they make, so that it holds
  under any interleaving: the receive queue capacities in the registry and of the pollers are
  configured ones and a method panics only where the source says so (\<open>keeps\<close>), and the methods that
  take the operations mutex of a peer call the webrtc crate only under it (\<open>covered\<close>).
\<close>

subsection \<open>Receive queue capacities\<close>

text \<open>\<open>K\<close> are the capacities that have been configured.\<close>

definition capacities_in :: "usize set \<Rightarrow> 'w runtime_state \<Rightarrow> bool" where
  "capacities_in K s \<longleftrightarrow>
     (\<forall>e \<in> set (st_peers s). pe_receive_queue_capacity (snd e) \<in> K)
     \<and> (\<forall>po \<in> set (st_spawned s). po_capacity po \<in> K)"

lemma capacities_in_simps [simp]:
  "capacities_in K (s\<lparr>st_world := w\<rparr>) = capacities_in K s"
  "capacities_in K (s\<lparr>st_channels := cs\<rparr>) = capacities_in K s"
  "capacities_in K (s\<lparr>st_next_handle := n\<rparr>) = capacities_in K s"
  "capacities_in K (s\<lparr>st_certificate := c\<rparr>) = capacities_in K s"
  "capacities_in K (s\<lparr>st_events := es\<rparr>) = capacities_in K s"
  "capacities_in K (push_event e s) = capacities_in K s"
  "capacities_in K (spawn_poller p h c n s) \<longleftrightarrow> capacities_in K s \<and> n \<in> K"
  by (auto simp: capacities_in_def push_event_def spawn_poller_def)

lemma capacities_in_peers:
  "capacities_in K s \<Longrightarrow> set ps \<subseteq> set (st_peers s) \<Longrightarrow> capacities_in K (s\<lparr>st_peers := ps\<rparr>)"
  by (auto simp: capacities_in_def)

lemma set_alist_update: "set (AList.update k v m) \<subseteq> insert (k, v) (set m)"
  by (induction m) auto

lemma capacities_in_update:
  "capacities_in K s \<Longrightarrow> pe_receive_queue_capacity e \<in> K \<Longrightarrow>
   capacities_in K (s\<lparr>st_peers := AList.update h e (st_peers s), st_next_mutex := n\<rparr>)"
  using set_alist_update [of h e "st_peers s"] by (auto simp: capacities_in_def)

lemma keeps_steps [keep_rules]:
  "keeps (capacities_in K) b (call f)" "keeps (capacities_in K) b (send_event e)"
  "keeps (capacities_in K) b next_handle" "keeps (capacities_in K) b (get_peer p)"
  "keeps (capacities_in K) b (get_channel c)"
  unfolding call_def send_event_def next_handle_def get_peer_def get_channel_def lock_registry_def
  by (rule keeps_act, simp add: case_prod_unfold Let_def)+

lemma keeps_call_or [keep_rules]: "keeps (capacities_in K) b (call_or api m f)"
  unfolding call_or_def by (intro keep_rules)

lemma keeps_lock_registry:
  "(\<And>s. capacities_in K s \<Longrightarrow> capacities_in K (snd (f s))) \<Longrightarrow>
   keeps (capacities_in K) b (lock_registry f)"
  unfolding lock_registry_def by (rule keeps_act) simp

lemma keeps_build_on_ports [keep_rules]: "keeps (capacities_in K) b (build_on_ports api c h ports e)"
proof (induction ports arbitrary: e)
  case (Cons p ports)
  show ?case
    unfolding build_on_ports.simps Let_def by (intro keep_rules Cons.IH keeps_act) simp
qed (simp add: keep_rules)

text \<open>The entry that \<open>get_peer\<close> finds has a configured capacity.\<close>

lemma keeps_try_get_peer:
  "(\<And>peer. pe_receive_queue_capacity peer \<in> K \<Longrightarrow> keeps (capacities_in K) b (k peer)) \<Longrightarrow>
   keeps (capacities_in K) b (try_prog (get_peer p) k)"
  unfolding get_peer_def lock_registry_def
  by (rule keeps_try_act)
    (auto simp: capacities_in_def ok_or_def dest!: map_of_SomeD split: if_splits option.splits)

lemma keeps_create_peer:
  "receive_queue_capacity (cfg_sctp c) \<in> K \<Longrightarrow> keeps (capacities_in K) b (create_peer api c)"
  unfolding create_peer_def
  by (intro keep_rules keeps_lock_registry) (simp add: capacities_in_update)

lemma keeps_register_channel:
  assumes "b \<or> (\<forall>n \<in> K. n \<le> max_permits)"
  shows "keeps (capacities_in K) b (register_channel api p c emit)"
  unfolding register_channel_def Let_def
  by (intro keeps_try_get_peer keep_rules keeps_lock_registry keeps_act) (use assms in auto)

lemma keeps_create_data_channel:
  "b \<or> (\<forall>n \<in> K. n \<le> max_permits) \<Longrightarrow> keeps (capacities_in K) b (create_data_channel api p dc)"
  unfolding create_data_channel_def Let_def by (intro keep_rules keeps_register_channel)

lemma keeps_send_binary:
  "b \<or> bytes_try_into_mut api bs \<noteq> None \<Longrightarrow> keeps (capacities_in K) b (send_binary api c bs)"
  "b \<or> bytes_try_into_mut api bs \<noteq> None \<Longrightarrow> keeps (capacities_in K) b (try_send_binary api c bs)"
  unfolding send_binary_def try_send_binary_def by (intro keep_rules; simp)+

lemma keeps_methods:
  "keeps (capacities_in K) b (create_description api p a)"
  "keeps (capacities_in K) b (set_local_description api p d)"
  "keeps (capacities_in K) b (set_remote_description api p d)"
  "keeps (capacities_in K) b (add_ice_candidate api p i)"
  "keeps (capacities_in K) b (restart_ice api p)"
  "keeps (capacities_in K) b (set_configuration api p srv relay)"
  "keeps (capacities_in K) b (send_text api c t)"
  "keeps (capacities_in K) b (try_send_text api c t)"
  "keeps (capacities_in K) b (data_channel_writable api c)"
  "keeps (capacities_in K) b (data_channel_outstanding_bytes api c)"
  "keeps (capacities_in K) b (set_data_channel_thresholds api c lo hi)"
  "keeps (capacities_in K) b (get_stats api p)"
  unfolding create_description_def set_local_description_def set_remote_description_def
    add_ice_candidate_def restart_ice_def set_configuration_def send_text_def try_send_text_def
    data_channel_writable_def data_channel_outstanding_bytes_def set_data_channel_thresholds_def
    get_stats_def Let_def
  by (intro keep_rules)+

lemma keeps_closes:
  "keeps (capacities_in K) b (close_data_channel api c)" "keeps (capacities_in K) b (close_peer api p)"
  unfolding close_data_channel_def close_peer_def
  by (intro keep_rules keeps_lock_registry; simp add: capacities_in_peers set_delete)+

lemma keeps_close_all: "keeps (capacities_in K) b (close_all api ps)"
  by (induction ps) (auto intro!: keep_rules)

lemma keeps_shutdown_all: "keeps (capacities_in K) b (shutdown_all api)"
  unfolding shutdown_all_def
  by (intro keep_rules keeps_lock_registry keeps_close_all) (simp add: capacities_in_peers)

subsection \<open>Calls under the operations mutex\<close>

lemma covered_calls [cover_rules]:
  "covered obs (Some m) (call f) (Some m)" "covered obs (Some m) (call_or api msg g) (Some m)"
  unfolding call_or_def call_def by (intro cover_rules covered_act; simp)+

lemma covered_getters [cover_rules]:
  "covered st_world h (get_peer p) h" "covered st_world h (get_channel c) h"
  unfolding get_peer_def get_channel_def lock_registry_def by (rule covered_act, simp)+

lemma covered_lock_registry:
  "(\<And>s. st_world (snd (f s)) = st_world s) \<Longrightarrow> covered st_world h (lock_registry f) h"
  unfolding lock_registry_def by (rule covered_act) simp

lemma covered_register_channel [cover_rules]:
  "covered st_world (Some m) (register_channel api p c emit) (Some m)"
  unfolding register_channel_def Let_def next_handle_def send_event_def
  by (intro cover_rules covered_act covered_lock_registry) simp_all

text \<open>
  The methods that take the mutex of their peer make every call on the crate under it. The others,
  \<open>try_send_*\<close>, \<open>data_channel_writable\<close>, \<open>data_channel_outstanding_bytes\<close> and
  \<open>set_data_channel_thresholds\<close>, take none, nor do the creation of a peer and the rotation of the
  certificate.
\<close>

lemma covered_methods:
  "covered st_world None (create_description api p a) None"
  "covered st_world None (set_local_description api p d) None"
  "covered st_world None (set_remote_description api p d) None"
  "covered st_world None (add_ice_candidate api p i) None"
  "covered st_world None (restart_ice api p) None"
  "covered st_world None (set_configuration api p srv relay) None"
  "covered st_world None (create_data_channel api p dc) None"
  "covered st_world None (send_text api c t) None"
  "covered st_world None (send_binary api c bs) None"
  "covered st_world None (get_stats api p) None"
  "covered st_world None (close_data_channel api c) None"
  "covered st_world None (close_peer api p) None"
  unfolding create_description_def set_local_description_def set_remote_description_def
    add_ice_candidate_def restart_ice_def set_configuration_def create_data_channel_def send_text_def
    send_binary_def get_stats_def close_data_channel_def close_peer_def Let_def
  by (intro cover_rules covered_lock_registry; simp)+

end
