(* ===== verification/Runtime.thy ===== *)
theory Runtime
  imports Registry_Contracts
begin

text \<open>
  \<open>native/src/runtime.rs\<close>: the commands, their execution on the registry, certificates and the shared
  socket mux, and the table of runtimes of the process with the operations the bridges call on it.
  The interleaving of the dispatched operations is in the theory \<open>Scheduler\<close>.
\<close>

subsection \<open>Commands\<close>

datatype command =
    CreatePeer u64 duration peer_configuration
  | CreateDescription u64 duration u64 bool
  | SetLocalDescription u64 duration u64 session_description
  | SetRemoteDescription u64 duration u64 session_description
  | AddIceCandidate u64 duration u64 ice_candidate_init
  | RestartIce u64 duration u64
  | SetConfiguration u64 duration u64 "ice_server list" bool
  | CreateDataChannel u64 duration u64 data_channel_configuration
  | SendText u64 duration u64 string
  | SendBinary u64 duration u64 bytes
  | TrySendText u64 duration u64 string
  | TrySendBinary u64 duration u64 bytes
  | DataChannelWritable u64 duration u64
  | DataChannelOutstandingBytes u64 duration u64
  | SetDataChannelThresholds u64 duration u64 u32 u32
  | GetStats u64 duration u64
  | CloseDataChannel u64 duration u64
  | ClosePeer u64 duration u64
  | RotateCertificate u64 duration "string option"
  | Shutdown u64 duration

fun operation_handle :: "command \<Rightarrow> u64" where
  "operation_handle (CreatePeer h _ _) = h"
| "operation_handle (CreateDescription h _ _ _) = h"
| "operation_handle (SetLocalDescription h _ _ _) = h"
| "operation_handle (SetRemoteDescription h _ _ _) = h"
| "operation_handle (AddIceCandidate h _ _ _) = h"
| "operation_handle (RestartIce h _ _) = h"
| "operation_handle (SetConfiguration h _ _ _ _) = h"
| "operation_handle (CreateDataChannel h _ _ _) = h"
| "operation_handle (SendText h _ _ _) = h"
| "operation_handle (SendBinary h _ _ _) = h"
| "operation_handle (TrySendText h _ _ _) = h"
| "operation_handle (TrySendBinary h _ _ _) = h"
| "operation_handle (DataChannelWritable h _ _) = h"
| "operation_handle (DataChannelOutstandingBytes h _ _) = h"
| "operation_handle (SetDataChannelThresholds h _ _ _ _) = h"
| "operation_handle (GetStats h _ _) = h"
| "operation_handle (CloseDataChannel h _ _) = h"
| "operation_handle (ClosePeer h _ _) = h"
| "operation_handle (RotateCertificate h _ _) = h"
| "operation_handle (Shutdown h _) = h"

fun command_timeout :: "command \<Rightarrow> duration" where
  "command_timeout (CreatePeer _ t _) = t"
| "command_timeout (CreateDescription _ t _ _) = t"
| "command_timeout (SetLocalDescription _ t _ _) = t"
| "command_timeout (SetRemoteDescription _ t _ _) = t"
| "command_timeout (AddIceCandidate _ t _ _) = t"
| "command_timeout (RestartIce _ t _) = t"
| "command_timeout (SetConfiguration _ t _ _ _) = t"
| "command_timeout (CreateDataChannel _ t _ _) = t"
| "command_timeout (SendText _ t _ _) = t"
| "command_timeout (SendBinary _ t _ _) = t"
| "command_timeout (TrySendText _ t _ _) = t"
| "command_timeout (TrySendBinary _ t _ _) = t"
| "command_timeout (DataChannelWritable _ t _) = t"
| "command_timeout (DataChannelOutstandingBytes _ t _) = t"
| "command_timeout (SetDataChannelThresholds _ t _ _ _) = t"
| "command_timeout (GetStats _ t _) = t"
| "command_timeout (CloseDataChannel _ t _) = t"
| "command_timeout (ClosePeer _ t _) = t"
| "command_timeout (RotateCertificate _ t _) = t"
| "command_timeout (Shutdown _ t) = t"

subsection \<open>Certificates\<close>

definition generate_certificate :: "'w webrtc_api \<Rightarrow> ('w, certificate result) api_call" where
  "generate_certificate api w =
     (case certificate_generate_key api w of
        (Inl error, w) \<Rightarrow> (Inl (''Failed to generate the runtime DTLS key: '' @ error), w)
      | (Inr key, w) \<Rightarrow>
          (case certificate_from_key_pair api key w of
             (r, w) \<Rightarrow>
               (map_err (\<lambda>error. ''Failed to generate the runtime DTLS certificate: '' @ error) r, w)))"

definition import_certificate :: "'w webrtc_api \<Rightarrow> string \<Rightarrow> ('w, certificate result) api_call" where
  "import_certificate api pem w =
     (case certificate_from_pem api pem w of
        (r, w) \<Rightarrow> (map_err (\<lambda>error. ''Failed to import the runtime DTLS certificate: '' @ error) r, w))"

definition certificate_fingerprint_value :: "'w webrtc_api \<Rightarrow> certificate \<Rightarrow> string result" where
  "certificate_fingerprint_value api certificate =
     (case certificate_get_fingerprints api certificate of
        fingerprint # _ \<Rightarrow> Inr fingerprint
      | [] \<Rightarrow> Inl ''The runtime DTLS certificate has no fingerprint'')"

definition new_certificate :: "'w webrtc_api \<Rightarrow> string option \<Rightarrow> ('w, certificate result) api_call" where
  "new_certificate api pem =
     (case pem of Some pem \<Rightarrow> import_certificate api pem | None \<Rightarrow> generate_certificate api)"

definition rotate_certificate :: "'w webrtc_api \<Rightarrow> string option \<Rightarrow> ('w, string result) rt" where
  "rotate_certificate api pem =
     try_prog (call (new_certificate api pem)) (\<lambda>certificate.
     try_prog (Done (certificate_fingerprint_value api certificate)) (\<lambda>fingerprint.
     act (\<lambda>s. if st_certificate_poisoned s
               then (Inl ''The runtime DTLS certificate lock is poisoned'', s)
               else (Inr fingerprint, s\<lparr>st_certificate := certificate\<rparr>))))"

subsection \<open>Execution of a command\<close>

definition text_value :: "string \<Rightarrow> operation_value" where
  "text_value t = default_value\<lparr>val_text := Some t\<rparr>"

fun execute :: "'w webrtc_api \<Rightarrow> command \<Rightarrow> ('w, operation_value result) rt" where
  "execute api (CreatePeer _ _ configuration) =
     try_prog (create_peer api configuration) (\<lambda>peer_handle.
     Done (Inr (default_value\<lparr>val_peer_handle := peer_handle\<rparr>)))"
| "execute api (CreateDescription _ _ peer_handle answer) =
     try_prog (create_description api peer_handle answer) (\<lambda>txt. Done (Inr (text_value txt)))"
| "execute api (SetLocalDescription _ _ peer_handle description) =
     try_prog (set_local_description api peer_handle description) (\<lambda>_. Done (Inr default_value))"
| "execute api (SetRemoteDescription _ _ peer_handle description) =
     try_prog (set_remote_description api peer_handle description) (\<lambda>_. Done (Inr default_value))"
| "execute api (AddIceCandidate _ _ peer_handle init) =
     try_prog (add_ice_candidate api peer_handle init) (\<lambda>_. Done (Inr default_value))"
| "execute api (RestartIce _ _ peer_handle) =
     try_prog (restart_ice api peer_handle) (\<lambda>_. Done (Inr default_value))"
| "execute api (SetConfiguration _ _ peer_handle ice_servers relay) =
     try_prog (set_configuration api peer_handle ice_servers relay) (\<lambda>_. Done (Inr default_value))"
| "execute api (CreateDataChannel _ _ peer_handle configuration) =
     try_prog (create_data_channel api peer_handle configuration) (\<lambda>(channel_handle, ident).
     Done (Inr (default_value\<lparr>val_channel_handle := channel_handle,
                              val_text := Some (show_unsigned ident)\<rparr>)))"
| "execute api (SendText _ _ channel_handle txt) =
     try_prog (send_text api channel_handle txt) (\<lambda>_. Done (Inr default_value))"
| "execute api (SendBinary _ _ channel_handle data) =
     try_prog (send_binary api channel_handle data) (\<lambda>_. Done (Inr default_value))"
| "execute api (TrySendText _ _ channel_handle txt) =
     try_prog (try_send_text api channel_handle txt) (\<lambda>b. Done (Inr (text_value (show_bool b))))"
| "execute api (TrySendBinary _ _ channel_handle data) =
     try_prog (try_send_binary api channel_handle data) (\<lambda>b. Done (Inr (text_value (show_bool b))))"
| "execute api (DataChannelWritable _ _ channel_handle) =
     try_prog (data_channel_writable api channel_handle) (\<lambda>_. Done (Inr default_value))"
| "execute api (DataChannelOutstandingBytes _ _ channel_handle) =
     try_prog (data_channel_outstanding_bytes api channel_handle)
       (\<lambda>n. Done (Inr (text_value (show_unsigned n))))"
| "execute api (SetDataChannelThresholds _ _ channel_handle low high) =
     try_prog (set_data_channel_thresholds api channel_handle low high) (\<lambda>_. Done (Inr default_value))"
| "execute api (GetStats _ _ peer_handle) =
     try_prog (get_stats api peer_handle) (\<lambda>data. Done (Inr (default_value\<lparr>val_data := Some data\<rparr>)))"
| "execute api (CloseDataChannel _ _ channel_handle) =
     try_prog (close_data_channel api channel_handle) (\<lambda>_. Done (Inr default_value))"
| "execute api (ClosePeer _ _ peer_handle) =
     try_prog (close_peer api peer_handle) (\<lambda>_. Done (Inr default_value))"
| "execute api (RotateCertificate _ _ pem) =
     try_prog (rotate_certificate api pem) (\<lambda>fingerprint. Done (Inr (text_value fingerprint)))"
| "execute api (Shutdown _ _) = Done (Inl ''Invalid asynchronous shutdown command'')"

lemma guarded_execute: "guarded None (execute api c) None"
  by (cases c) (auto simp: rotate_certificate_def intro!: lock_rules)

subsection \<open>Effect of a command on the registry\<close>

text \<open>
  The contract of a command: \<open>n\<close> is the next handle, \<open>r\<close> the result of the operation.
\<close>

fun command_effect :: "bool \<Rightarrow> u64 \<Rightarrow> command \<Rightarrow> operation_value result \<Rightarrow> registry_effect \<Rightarrow> bool" where
  "command_effect poisoned n (CreatePeer _ _ _) r eff \<longleftrightarrow>
     (case r of Inr v \<Rightarrow> val_peer_handle v = n \<and> (\<exists>p. eff = PeerAdded n p) | Inl _ \<Rightarrow> eff = Unchanged)"
| "command_effect poisoned n (CreateDataChannel _ _ p _) r eff \<longleftrightarrow>
     (case r of Inr v \<Rightarrow> val_channel_handle v = n \<and> (\<exists>c. eff = ChannelAdded n c p) | Inl _ \<Rightarrow> eff = Unchanged)"
| "command_effect poisoned n (CloseDataChannel _ _ h) r eff \<longleftrightarrow>
     eff = (if poisoned then Unchanged else ChannelRemoved h)"
| "command_effect poisoned n (ClosePeer _ _ p) r eff \<longleftrightarrow>
     eff = (if poisoned then Unchanged else PeerRemoved p)"
| "command_effect poisoned n _ r eff \<longleftrightarrow> eff = Unchanged"

definition refines :: "'w runtime_state \<Rightarrow> command \<Rightarrow> operation_value result \<Rightarrow> 'w runtime_state \<Rightarrow> bool" where
  "refines s c r s' \<longleftrightarrow>
     registry_ok s' \<and>
     (\<exists>eff. abs_registry s' = apply_effect eff (abs_registry s)
        \<and> command_effect (st_registry_poisoned s) (st_next_handle s) c r eff)"

lemma run_try_Done:
  assumes "run (try_prog p (\<lambda>x. Done (Inr (f x)))) L s = Returned r L' s'"
  obtains q where "run p L s = Returned q L' s'" "r = map_ok f q"
proof (cases "run p L s")
  case (Returned q L1 s1)
  with assms that show thesis by (cases q) (simp_all add: run_try)
qed (use assms in \<open>simp_all add: run_try\<close>)

lemma create_peer_refines:
  assumes "registry_ok s" and "counter_left s"
    and "run (execute api (CreatePeer o1 t c)) L s = Returned r L' s'"
  shows "refines s (CreatePeer o1 t c) r s'"
proof -
  from assms(3) obtain q where q: "run (create_peer api c) L s = Returned q L' s'"
    and r: "r = map_ok (\<lambda>h. default_value\<lparr>val_peer_handle := h\<rparr>) q"
    by (auto elim: run_try_Done)
  from q show ?thesis
  proof (cases rule: create_peer_effect)
    case (ok peer w)
    have "registry_ok (peer_added c peer w s)"
      using registry_ok_add_peer [OF assms(1,2)] registry_ok_world(1) unfolding peer_added_def
      by (simp add: registry_ok_def)
    with ok r show ?thesis unfolding refines_def ok(2) abs_peer_added
      by (auto intro!: exI [of _ "PeerAdded (st_next_handle s) peer"])
  next
    case (error m w)
    have "registry_ok s'" using registry_ok_alloc [OF assms(1,2)] by (simp add: error(2) registry_ok_def)
    with error r show ?thesis unfolding refines_def by (auto intro!: exI [of _ Unchanged])
  qed
qed

lemma create_data_channel_refines:
  assumes "registry_ok s" and "counter_left s"
    and "run (execute api (CreateDataChannel o1 t p c)) L s = Returned r L' s'"
  shows "refines s (CreateDataChannel o1 t p c) r s'"
proof -
  from assms(3) obtain q where q: "run (create_data_channel api p c) L s = Returned q L' s'"
    and r: "r = map_ok (\<lambda>(h, i). default_value\<lparr>val_channel_handle := h, val_text := Some (show_unsigned i)\<rparr>) q"
    by (auto simp: case_prod_unfold elim: run_try_Done)
  from q show ?thesis
  proof (cases rule: create_data_channel_effect)
    case (ok ch w n)
    let ?s = "s\<lparr>st_world := snd (channel_id api ch w)\<rparr>"
    have "registry_ok (channel_inserted api p ch False ?s)"
      using assms(1,2) ok(2) by (intro registry_ok_add_channel) (simp_all add: counter_left_def)
    with ok r show ?thesis unfolding refines_def
      by (auto simp: abs_channel_inserted intro!: exI [of _ "ChannelAdded (st_next_handle s) ch p"])
  next
    case (error m w)
    with assms(1) r show ?thesis unfolding refines_def by (auto intro!: exI [of _ Unchanged])
  qed
qed

lemma close_data_channel_refines:
  assumes "registry_ok s" and "run (execute api (CloseDataChannel o1 t h)) L s = Returned r L' s'"
  shows "refines s (CloseDataChannel o1 t h) r s'"
proof -
  from assms(2) obtain q where "run (close_data_channel api h) L s = Returned q L' s'"
    by (auto elim: run_try_Done)
  note e = close_data_channel_effect [OF this]
  show ?thesis
  proof (cases "st_registry_poisoned s")
    case True
    with assms e registry_ok_drop_channel [OF assms(1)] show ?thesis
      unfolding refines_def by (auto simp: run_close_data_channel run_try Let_def)
  next
    case False
    with e obtain w where "s' = s\<lparr>st_channels := AList.delete h (st_channels s)\<rparr>\<lparr>st_world := w\<rparr>" by blast
    with False registry_ok_drop_channel [OF assms(1)] show ?thesis
      unfolding refines_def by (auto simp only: registry_ok_world abs_registry_simps abs_channel_removed
          command_effect.simps if_False)
  qed
qed

lemma close_peer_refines:
  assumes "registry_ok s" and "run (execute api (ClosePeer o1 t p)) L s = Returned r L' s'"
  shows "refines s (ClosePeer o1 t p) r s'"
proof -
  from assms(2) obtain q where "run (close_peer api p) L s = Returned q L' s'"
    by (auto elim: run_try_Done)
  note e = close_peer_effect [OF this]
  have h: "hash_map_ok (st_channels s)" using assms(1) by (simp add: registry_ok_def)
  show ?thesis
  proof (cases "st_registry_poisoned s")
    case True
    with assms e show ?thesis
      unfolding refines_def by (auto simp: run_close_peer run_try Let_def)
  next
    case False
    with e obtain w where "s' = s\<lparr>st_channels := retain (\<lambda>_ c. ce_peer_handle c \<noteq> p) (st_channels s),
       st_peers := AList.delete p (st_peers s)\<rparr>\<lparr>st_world := w\<rparr>" by blast
    with False registry_ok_drop_peer [OF assms(1)] h show ?thesis
      unfolding refines_def by (auto simp only: registry_ok_world abs_registry_simps abs_peer_removed
          command_effect.simps if_False)
  qed
qed

lemma command_cases:
  obtains (quiet) "guarantees world_only (execute api c)" "\<And>b n r. command_effect b n c r Unchanged"
  | (create_peer) o1 t x where "c = CreatePeer o1 t x"
  | (create_data_channel) o1 t p x where "c = CreateDataChannel o1 t p x"
  | (close_data_channel) o1 t h where "c = CloseDataChannel o1 t h"
  | (close_peer) o1 t p where "c = ClosePeer o1 t p"
  | (rotate) o1 t x where "c = RotateCertificate o1 t x"
proof (cases c)
  case (CreatePeer o1 t x) with create_peer show thesis by blast
next
  case (CreateDataChannel o1 t p x) with create_data_channel show thesis by blast
next
  case (CloseDataChannel o1 t h) with close_data_channel show thesis by blast
next
  case (ClosePeer o1 t p) with close_peer show thesis by blast
next
  case (RotateCertificate o1 t x) with rotate show thesis by blast
qed (rule quiet; simp; intro guarantee_rules quiet_methods)+

lemma run_rotate_certificate:
  "run (rotate_certificate api pem) L s =
     (case new_certificate api pem (st_world s) of
        (Inl m, w) \<Rightarrow> Returned (Inl m) L (s\<lparr>st_world := w\<rparr>)
      | (Inr cert, w) \<Rightarrow> (case certificate_fingerprint_value api cert of
          Inl m \<Rightarrow> Returned (Inl m) L (s\<lparr>st_world := w\<rparr>)
        | Inr fp \<Rightarrow>
            if st_certificate_poisoned s
            then Returned (Inl ''The runtime DTLS certificate lock is poisoned'') L (s\<lparr>st_world := w\<rparr>)
            else Returned (Inr fp) L (s\<lparr>st_world := w, st_certificate := cert\<rparr>)))"
  by (simp add: rotate_certificate_def run_try registry_runs case_prod_unfold split: sum.split)

lemma rotate_certificate_run:
  assumes "run (rotate_certificate api pem) L s = Returned r L' s'"
  shows "\<exists>w cert. s' = s\<lparr>st_world := w, st_certificate := cert\<rparr>"
proof -
  have "s' = s\<lparr>st_world := st_world s', st_certificate := st_certificate s'\<rparr>"
    using assms unfolding run_rotate_certificate
    by (auto split: prod.split_asm sum.split_asm if_split_asm)
  then show ?thesis by blast
qed

lemma rotate_refines:
  assumes "registry_ok s" and "run (execute api (RotateCertificate o1 t pem)) L s = Returned r L' s'"
  shows "refines s (RotateCertificate o1 t pem) r s'"
proof -
  from assms(2) obtain q where "run (rotate_certificate api pem) L s = Returned q L' s'"
    by (auto elim: run_try_Done)
  from rotate_certificate_run [OF this] assms(1) show ?thesis
    by (auto simp: refines_def intro!: exI [of _ Unchanged])
qed

text \<open>
  The commands that can panic when the capacities of the registered peers are in \<open>K\<close>, and what a
  panicking command has done to the registry: a channel whose semaphore cannot be created is already
  registered.
\<close>

fun panics :: "'w webrtc_api \<Rightarrow> usize set \<Rightarrow> command \<Rightarrow> bool" where
  "panics api K (CreateDataChannel _ _ _ _) \<longleftrightarrow> \<not> (\<forall>n \<in> K. n \<le> max_permits)"
| "panics api K (SendBinary _ _ _ data) \<longleftrightarrow> bytes_try_into_mut api data = None"
| "panics api K (TrySendBinary _ _ _ data) \<longleftrightarrow> bytes_try_into_mut api data = None"
| "panics api K _ \<longleftrightarrow> False"

fun panic_effect :: "'w webrtc_api \<Rightarrow> 'w runtime_state \<Rightarrow> command \<Rightarrow> registry_effect \<Rightarrow> bool" where
  "panic_effect api s (CreateDataChannel _ _ p _) eff \<longleftrightarrow>
     (\<exists>e ch. map_of (st_peers s) p = Some e \<and> max_permits < pe_receive_queue_capacity e
        \<and> eff = ChannelAdded (st_next_handle s) ch p)"
| "panic_effect api s (SendBinary _ _ _ data) eff \<longleftrightarrow>
     bytes_try_into_mut api data = None \<and> eff = Unchanged"
| "panic_effect api s (TrySendBinary _ _ _ data) eff \<longleftrightarrow>
     bytes_try_into_mut api data = None \<and> eff = Unchanged"
| "panic_effect api s _ eff \<longleftrightarrow> False"

fun configured_capacity :: "command \<Rightarrow> usize set" where
  "configured_capacity (CreatePeer _ _ cfg) = {receive_queue_capacity (cfg_sctp cfg)}"
| "configured_capacity _ = {}"

lemma keeps_execute:
  assumes "configured_capacity c \<subseteq> K" and "b \<or> \<not> panics api K c"
  shows "keeps (capacities_in K) b (execute api c)"
  using assms
  by (cases c) (auto simp: rotate_certificate_def case_prod_unfold intro!: keeps_act
      keeps_try keeps_prod keeps_Done keeps_steps keeps_create_peer keeps_create_data_channel
      keeps_send_binary keeps_methods keeps_closes)

lemma execute_panics:
  assumes "registry_ok s" and "counter_left s" and run: "run (execute api c) L s = Panicked s'"
  shows "registry_ok s' \<and>
    (\<exists>eff. abs_registry s' = apply_effect eff (abs_registry s) \<and> panic_effect api s c eff)"
proof -
  have "panics api UNIV c"
    using keeps_run [OF keeps_execute [of c UNIV False api], of s L s'] run by (auto simp: capacities_in_def)
  moreover have ?thesis if "guarantees world_only (execute api c)" "panic_effect api s c Unchanged"
    using quiet_panic [OF that(1) run] that(2) assms(1)
    by (metis abs_registry_simps(1) apply_effect.simps(1) registry_ok_world(1))
  moreover have ?thesis if c: "c = CreateDataChannel h t p x" for h t p x
  proof -
    from run c have "run (create_data_channel api p x) L s = Panicked s'"
      by (cases "run (create_data_channel api p x) L s")
        (auto simp: run_try case_prod_unfold split: sum.split_asm)
    then obtain e ch w where e: "map_of (st_peers s) p = Some e" "max_permits < pe_receive_queue_capacity e"
      and s': "s' = channel_inserted api p ch False (s\<lparr>st_world := w\<rparr>)"
      by (auto simp: run_create_data_channel case_prod_unfold Let_def
          split: if_split_asm option.split_asm prod.split_asm sum.split_asm)
    then have "registry_ok s'"
      using assms(1,2) by (auto intro!: registry_ok_add_channel simp: keys_map_of counter_left_def)
    with e s' c show ?thesis
      by (auto simp: abs_channel_inserted intro!: exI [of _ "ChannelAdded (st_next_handle s) ch p"])
  qed
  ultimately show ?thesis
    by (cases c) (auto intro!: guarantee_rules quiet_methods)
qed

lemma execute_returns:
  assumes "registry_ok s" and "counter_left s"
    and "run (execute api c) L s = Returned r L' s'"
  shows "refines s c r s'"
proof (cases c rule: command_cases [where api = api])
  case quiet
  from quiet_run [OF quiet(1) assms(3)] obtain w where "s' = s\<lparr>st_world := w\<rparr>" .
  with assms(1) quiet(2) show ?thesis unfolding refines_def by (auto intro!: exI [of _ Unchanged])
next
  case create_peer with assms show ?thesis by (simp only: create_peer_refines)
next
  case create_data_channel with assms show ?thesis by (simp only: create_data_channel_refines)
next
  case close_data_channel with assms show ?thesis by (simp only: close_data_channel_refines)
next
  case close_peer with assms show ?thesis by (simp only: close_peer_refines)
next
  case rotate with assms show ?thesis by (simp only: rotate_refines)
qed

text \<open>
  C16: every command, run without other tasks in between, implements its contract on the registry.
  Started with no mutex locked from a well-formed registry with handles left, whatever the webrtc
  crate answers, it never waits: it returns with every mutex unlocked, or it panics. When it returns,
  creating a peer or a channel has added exactly one entry, under a handle that was free and that the
  operation returns, and only when it succeeds; closing a channel has removed it; closing a peer has
  removed it together with all its channels, even when the close itself fails; no other command has
  touched the registry. It panics only when a channel is created for a peer whose receive queue
  capacity exceeds what a semaphore can hold, and then the channel is already registered, or when
  binary data cannot be made mutable, and then the registry is as before. Whether it returns or
  panics the registry is well-formed again: no channel is without its peer.
\<close>

theorem execute_refines:
  assumes "registry_ok s" and "counter_left s"
  shows "ar_peers (abs_registry s) (st_next_handle s) = None \<and>
    ar_channels (abs_registry s) (st_next_handle s) = None \<and>
    (case run (execute api c) {} s of
       Returned r L s' \<Rightarrow> L = {} \<and> registry_ok s' \<and>
         (\<exists>eff. abs_registry s' = apply_effect eff (abs_registry s)
            \<and> command_effect (st_registry_poisoned s) (st_next_handle s) c r eff)
     | Panicked s' \<Rightarrow> registry_ok s' \<and>
         (\<exists>eff. abs_registry s' = apply_effect eff (abs_registry s) \<and> panic_effect api s c eff)
     | Blocked \<Rightarrow> False)"
proof -
  have "st_next_handle s \<notin> keys (st_peers s)" "st_next_handle s \<notin> keys (st_channels s)"
    using fresh_handle(1,2) [OF assms(1)] by auto
  moreover have "(\<exists>a s'. run (execute api c) {} s = Returned a {} s')
      \<or> (\<exists>s'. run (execute api c) {} s = Panicked s')"
    using guarded_runs [OF guarded_execute [of api c], of s] by (simp add: held_def)
  ultimately show ?thesis
    using execute_returns [OF assms, of api c "{}"] execute_panics [OF assms, of api c "{}"]
    by (auto simp: refines_def abs_registry_def map_of_eq_None_iff)
qed

abbreviation open_api :: "nat webrtc_api" where
  "open_api \<equiv> loopback_api (\<lambda>_. True)"

definition sample_channel :: data_channel_configuration where
  "sample_channel = \<lparr>chan_label = ''chat'', chan_ordered = True, chan_max_packet_life_time = None,
     chan_max_retransmits = None, chan_protocol = [], chan_negotiated_id = None\<rparr>"

definition sample_with_peer :: "nat runtime_state" where
  "sample_with_peer = peer_added (sample_configuration 0 0) 3 4 sample_state"

lemmas sample_defs = sample_with_peer_def peer_added_def sample_state_def new_runtime_state_def
  sample_configuration_def sample_channel_def loopback_api_def opened_ok_def max_permits_def

theorem execute_refines_witness:
  "\<exists>r s'. run (execute open_api (CreateDataChannel 8 1000 1 sample_channel)) {} sample_with_peer
       = Returned r {} s'
     \<and> registry_ok s'
     \<and> ar_channels (abs_registry s') 2 = Some (4, 1)"
proof -
  let ?c = "CreateDataChannel 8 1000 1 sample_channel"
  have ok: "registry_ok sample_with_peer" "counter_left sample_with_peer"
    by (simp_all add: sample_defs registry_ok_def hash_map_ok_def counter_left_def)
  obtain r s' where run: "run (execute open_api ?c) {} sample_with_peer = Returned r {} s'"
    and s': "ar_channels (abs_registry s') 2 = Some (4, 1)"
    by (simp add: run_try run_create_data_channel sample_defs channel_inserted_def
        describe_channel_def abs_registry_def spawn_poller_def drop_bit_eq_div word_less_nat_alt)
  from execute_refines [OF ok, of ?c open_api] run s' show ?thesis by simp
qed

subsection \<open>The operations mutex\<close>

text \<open>
  The commands that are serialised by the operations mutex of a peer, and the handle of that peer: the
  one they name, or the one their channel belongs to.
\<close>

fun serialised :: "command \<Rightarrow> bool" where
  "serialised (CreateDescription _ _ _ _) = True"
| "serialised (SetLocalDescription _ _ _ _) = True"
| "serialised (SetRemoteDescription _ _ _ _) = True"
| "serialised (AddIceCandidate _ _ _ _) = True"
| "serialised (RestartIce _ _ _) = True"
| "serialised (SetConfiguration _ _ _ _ _) = True"
| "serialised (CreateDataChannel _ _ _ _) = True"
| "serialised (SendText _ _ _ _) = True"
| "serialised (SendBinary _ _ _ _) = True"
| "serialised (GetStats _ _ _) = True"
| "serialised (CloseDataChannel _ _ _) = True"
| "serialised (ClosePeer _ _ _) = True"
| "serialised _ = False"

fun command_peer :: "command \<Rightarrow> 'w runtime_state \<Rightarrow> u64 option" where
  "command_peer (CreateDescription _ _ p _) s = Some p"
| "command_peer (SetLocalDescription _ _ p _) s = Some p"
| "command_peer (SetRemoteDescription _ _ p _) s = Some p"
| "command_peer (AddIceCandidate _ _ p _) s = Some p"
| "command_peer (RestartIce _ _ p) s = Some p"
| "command_peer (SetConfiguration _ _ p _ _) s = Some p"
| "command_peer (CreateDataChannel _ _ p _) s = Some p"
| "command_peer (SendText _ _ c _) s = map_option ce_peer_handle (map_of (st_channels s) c)"
| "command_peer (SendBinary _ _ c _) s = map_option ce_peer_handle (map_of (st_channels s) c)"
| "command_peer (GetStats _ _ p) s = Some p"
| "command_peer (CloseDataChannel _ _ c) s = map_option ce_peer_handle (map_of (st_channels s) c)"
| "command_peer (ClosePeer _ _ p) s = Some p"
| "command_peer _ s = None"

lemma covered_execute: "serialised c \<Longrightarrow> covered st_world None (execute api c) None"
  by (cases c) (auto intro!: cover_rules covered_methods)

lemma execute_waits:
  assumes "command_peer c s = Some p" and "map_of (st_peers s) p = Some e" and "pe_operations e \<in> L"
    and "\<not> st_registry_poisoned s"
  shows "run (execute api c) L s = Blocked"
  using assms
  by (cases c) (auto simp: run_try run_with_guard registry_runs create_description_def
      set_local_description_def set_remote_description_def add_ice_candidate_def restart_ice_def
      set_configuration_def send_text_def send_binary_def get_stats_def run_create_data_channel
      run_close_data_channel run_close_peer)

subsection \<open>The shared socket mux\<close>

definition socket_addresses :: "string list \<Rightarrow> u16 \<Rightarrow> (ip_addr \<times> u16) list result" where
  "socket_addresses hosts p =
     collect_results
       (\<lambda>host. map_err (\<lambda>error. ''Invalid shared bind address '' @ host @ '': '' @ error)
                  (map_ok (\<lambda>ip. (ip, p)) (parse_ip_addr host)))
       hosts"

fun bind_mux_on_ports ::
  "'w webrtc_api \<Rightarrow> string list \<Rightarrow> string list \<Rightarrow> u16 list \<Rightarrow> string option \<Rightarrow>
   ('w, mux_ref option result) api_call" where
  "bind_mux_on_ports api udp_hosts tcp_hosts [] last_error w =
     (Inl (''No shared transport port is available: ''
           @ (case last_error of Some e \<Rightarrow> e | None \<Rightarrow> ''unknown bind error'')), w)"
| "bind_mux_on_ports api udp_hosts tcp_hosts (p # ports) last_error w =
     (case socket_addresses udp_hosts p of
        Inl e \<Rightarrow> (Inl e, w)
      | Inr udp \<Rightarrow> (case socket_addresses tcp_hosts p of
          Inl e \<Rightarrow> (Inl e, w)
        | Inr tcp \<Rightarrow> (case mux_bind api udp tcp w of
            (Inr mux, w) \<Rightarrow> (Inr (Some mux), w)
          | (Inl error, w) \<Rightarrow> bind_mux_on_ports api udp_hosts tcp_hosts ports (Some error) w)))"

definition create_socket_mux ::
  "'w webrtc_api \<Rightarrow> string list \<Rightarrow> string list \<Rightarrow> u16 \<Rightarrow> u16 \<Rightarrow> ('w, mux_ref option result) api_call" where
  "create_socket_mux api udp_hosts tcp_hosts lo hi w =
     (if udp_hosts = [] \<and> tcp_hosts = [] then (Inr None, w)
      else bind_mux_on_ports api udp_hosts tcp_hosts (port_range lo hi) None w)"

subsection \<open>The table of runtimes\<close>

record runtime_configuration =
  worker_threads :: usize
  reactor_threads :: usize
  certificate_pem :: "string option"
  shared_udp_addresses :: "string list"
  shared_tcp_addresses :: "string list"
  shared_min_port :: u16
  shared_max_port :: u16

text \<open>A \<open>NativeBufferEntry\<close>: the bytes lent to the JVM and the delivery permit they hold.\<close>

record native_buffer_entry =
  buf_data :: bytes
  buf_delivery_permit :: "nat option"

record native_buffer_view =
  view_handle :: u64
  view_address :: nat
  view_length :: nat

text \<open>
  \<open>RuntimeController\<close>. The event queue and the certificate are shared with the runtime state, so they
  are fields of \<open>ct_state\<close>. \<open>ct_receiving\<close> says whether the controller thread still holds the
  receiver of the command queue.
\<close>

record 'w controller =
  ct_commands :: "command list"
  ct_receiving :: bool
  ct_state :: "'w runtime_state"
  ct_thread :: bool
  ct_thread_poisoned :: bool
  ct_buffers :: "(u64, native_buffer_entry) hash_map"
  ct_buffers_poisoned :: bool

record 'w process =
  pr_runtimes :: "(u64, 'w controller) hash_map"
  pr_runtimes_poisoned :: bool
  pr_next_runtime_handle :: u64
  pr_next_buffer_handle :: u64

definition lock_runtimes :: "'w process \<Rightarrow> (u64, 'w controller) hash_map result" where
  "lock_runtimes s =
     (if pr_runtimes_poisoned s then Inl ''The WebRTC runtime registry is poisoned''
      else Inr (pr_runtimes s))"

definition get_runtime :: "u64 \<Rightarrow> 'w process \<Rightarrow> 'w controller result" where
  "get_runtime runtime_handle s =
     and_then (lock_runtimes s) (\<lambda>runtimes.
       ok_or (''Unknown WebRTC runtime handle: '' @ show_unsigned runtime_handle)
         (map_of runtimes runtime_handle))"

definition put_runtime :: "u64 \<Rightarrow> 'w controller \<Rightarrow> 'w process \<Rightarrow> 'w process" where
  "put_runtime runtime_handle controller s =
     s\<lparr>pr_runtimes := AList.update runtime_handle controller (pr_runtimes s)\<rparr>"

text \<open>The builder of the tokio runtime panics (\<open>None\<close>) when it refuses its arguments.\<close>

definition build_runtime ::
  "'w webrtc_api \<Rightarrow> u64 \<Rightarrow> usize \<Rightarrow> ('w, unit result option) api_call" where
  "build_runtime api runtime_handle workers w =
     (case tokio_build api workers (''kestara-webrtc-'' @ show_unsigned runtime_handle) w of
        (r, w) \<Rightarrow>
          (map_option (map_err (\<lambda>error. ''Failed to start the WebRTC runtime: '' @ error)) r, w))"

text \<open>
  The start of \<open>run_runtime\<close> on the controller thread, up to the message on the \<open>ready\<close> channel; no
  message (\<open>None\<close>) when the thread panics first.
\<close>

definition start_runtime ::
  "'w webrtc_api \<Rightarrow> u64 \<Rightarrow> runtime_configuration \<Rightarrow> certificate \<Rightarrow> ('w, 'w runtime_state result option) api_call" where
  "start_runtime api runtime_handle configuration certificate w =
     (case build_runtime api runtime_handle (worker_threads configuration) w of
        (None, w) \<Rightarrow> (None, w)
      | (Some (Inl error), w) \<Rightarrow> (Some (Inl error), w)
      | (Some (Inr _), w) \<Rightarrow>
          (case create_socket_mux api (shared_udp_addresses configuration)
                  (shared_tcp_addresses configuration) (shared_min_port configuration)
                  (shared_max_port configuration) w of
             (Inl error, w) \<Rightarrow> (Some (Inl error), w)
           | (Inr socket_mux, w) \<Rightarrow>
               (Some (Inr (new_runtime_state [] certificate False socket_mux w)), w)))"

definition new_controller :: "'w runtime_state \<Rightarrow> 'w controller" where
  "new_controller state =
     \<lparr>ct_commands = [], ct_receiving = True, ct_state = state, ct_thread = True,
      ct_thread_poisoned = False, ct_buffers = [], ct_buffers_poisoned = False\<rparr>"

definition create ::
  "'w webrtc_api \<Rightarrow> runtime_configuration \<Rightarrow> 'w process \<Rightarrow> 'w \<Rightarrow> u64 result \<times> 'w process \<times> 'w" where
  "create api configuration s w =
     (if worker_threads configuration = 0
      then (Inl ''The WebRTC runtime must have at least one worker thread'', s, w)
      else case new_certificate api (certificate_pem configuration) w of
        (Inl error, w) \<Rightarrow> (Inl error, s, w)
      | (Inr certificate, w) \<Rightarrow>
          let runtime_handle = pr_next_runtime_handle s;
              s = s\<lparr>pr_next_runtime_handle := runtime_handle + 1\<rparr> in
          (case thread_spawn api (''kestara-webrtc-control-'' @ show_unsigned runtime_handle) w of
             (Inl error, w) \<Rightarrow>
               (Inl (''Failed to start the WebRTC runtime controller: '' @ error), s, w)
           | (Inr _, w) \<Rightarrow>
               (case start_runtime api runtime_handle configuration certificate w of
                  (None, w) \<Rightarrow>
                    (Inl (''The WebRTC runtime controller stopped during startup: ''
                          @ ''receiving on an empty and disconnected channel''), s, w)
                | (Some (Inl error), w) \<Rightarrow> (Inl error, s, w)
                | (Some (Inr state), w) \<Rightarrow>
                    (case lock_runtimes s of
                       Inl error \<Rightarrow> (Inl error, s, w)
                     | Inr _ \<Rightarrow>
                         (Inr runtime_handle, put_runtime runtime_handle (new_controller state) s, w)))))"

definition certificate_fingerprint :: "'w webrtc_api \<Rightarrow> u64 \<Rightarrow> 'w process \<Rightarrow> string result" where
  "certificate_fingerprint api runtime_handle s =
     and_then (get_runtime runtime_handle s) (\<lambda>controller.
     and_then (lock_certificate (ct_state controller)) (\<lambda>certificate.
     certificate_fingerprint_value api certificate))"

definition runtime_certificate_pem :: "'w webrtc_api \<Rightarrow> u64 \<Rightarrow> 'w process \<Rightarrow> string result" where
  "runtime_certificate_pem api runtime_handle s =
     and_then (get_runtime runtime_handle s) (\<lambda>controller.
     and_then (lock_certificate (ct_state controller)) (\<lambda>certificate.
     Inr (certificate_serialize_pem api certificate)))"

text \<open>\<open>address\<close> is the pointer to the data of the vector.\<close>

definition register_buffer ::
  "u64 \<Rightarrow> bytes \<Rightarrow> nat option \<Rightarrow> nat \<Rightarrow> 'w process \<Rightarrow> native_buffer_view result \<times> 'w process" where
  "register_buffer runtime_handle data delivery_permit address s =
     (case get_runtime runtime_handle s of
        Inl error \<Rightarrow> (Inl error, s)
      | Inr controller \<Rightarrow>
          let handle = pr_next_buffer_handle s;
              s = s\<lparr>pr_next_buffer_handle := handle + 1\<rparr> in
          if ct_buffers_poisoned controller then (Inl ''The native buffer registry is poisoned'', s)
          else (Inr \<lparr>view_handle = handle, view_address = address, view_length = length data\<rparr>,
                put_runtime runtime_handle
                  (controller\<lparr>ct_buffers := AList.update handle
                     \<lparr>buf_data = data, buf_delivery_permit = delivery_permit\<rparr>
                     (ct_buffers controller)\<rparr>) s))"

definition register_delivery_buffer ::
  "u64 \<Rightarrow> bytes option \<Rightarrow> nat \<Rightarrow> nat \<Rightarrow> 'w process \<Rightarrow> native_buffer_view result \<times> 'w process" where
  "register_delivery_buffer runtime_handle data permit address =
     register_buffer runtime_handle (case data of None \<Rightarrow> [] | Some d \<Rightarrow> d) (Some permit) address"

definition release_buffer :: "u64 \<Rightarrow> u64 \<Rightarrow> 'w process \<Rightarrow> unit result \<times> 'w process" where
  "release_buffer runtime_handle buffer_handle s =
     (case get_runtime runtime_handle s of
        Inl error \<Rightarrow> (Inl error, s)
      | Inr controller \<Rightarrow>
          if ct_buffers_poisoned controller then (Inl ''The native buffer registry is poisoned'', s)
          else (Inr (), put_runtime runtime_handle
                  (controller\<lparr>ct_buffers := AList.delete buffer_handle (ct_buffers controller)\<rparr>) s))"

definition submit :: "u64 \<Rightarrow> command \<Rightarrow> 'w process \<Rightarrow> unit result \<times> 'w process" where
  "submit runtime_handle command s =
     (case get_runtime runtime_handle s of
        Inl error \<Rightarrow> (Inl error, s)
      | Inr controller \<Rightarrow>
          if ct_receiving controller
          then (Inr (), put_runtime runtime_handle
                  (controller\<lparr>ct_commands := ct_commands controller @ [command]\<rparr>) s)
          else (Inl ''The WebRTC runtime is shutting down'', s))"

definition with_events ::
  "(native_event list \<Rightarrow> native_event list) \<Rightarrow> 'w controller \<Rightarrow> 'w controller" where
  "with_events f controller =
     controller\<lparr>ct_state := (ct_state controller)\<lparr>st_events := f (st_events (ct_state controller))\<rparr>\<rparr>"

text \<open>
  The table entry owns the receiver of the event queue, so sending to the queue of a registered
  runtime does not fail.
\<close>

definition complete_error :: "u64 \<Rightarrow> u64 \<Rightarrow> string \<Rightarrow> 'w process \<Rightarrow> unit result \<times> 'w process" where
  "complete_error runtime_handle op error s =
     (case get_runtime runtime_handle s of
        Inl e \<Rightarrow> (Inl e, s)
      | Inr controller \<Rightarrow>
          (Inr (), put_runtime runtime_handle
             (with_events (\<lambda>q. q @ [event_operation op (Inl error)]) controller) s))"

definition runtime_poll :: "u64 \<Rightarrow> 'w process \<Rightarrow> native_event option result \<times> 'w process" where
  "runtime_poll runtime_handle s =
     (case get_runtime runtime_handle s of
        Inl e \<Rightarrow> (Inl e, s)
      | Inr controller \<Rightarrow>
          (case poll True (st_events (ct_state controller)) of
             (event, q) \<Rightarrow>
               (Inr event, put_runtime runtime_handle (with_events (\<lambda>_. q) controller) s)))"

definition runtime_wake :: "u64 \<Rightarrow> 'w process \<Rightarrow> unit result \<times> 'w process" where
  "runtime_wake runtime_handle s =
     (case get_runtime runtime_handle s of
        Inl e \<Rightarrow> (Inl e, s)
      | Inr controller \<Rightarrow>
          (Inr (), put_runtime runtime_handle (with_events wake controller) s))"

text \<open>
  \<open>release\<close> waits for the controller thread; \<open>panicked\<close> says whether that thread ended by a panic.
  The second component is the controller as it is dropped, with its last command.
\<close>

definition release ::
  "bool \<Rightarrow> u64 \<Rightarrow> 'w process \<Rightarrow> unit result \<times> 'w controller option \<times> 'w process" where
  "release panicked runtime_handle s =
     (case lock_runtimes s of
        Inl error \<Rightarrow> (Inl error, None, s)
      | Inr runtimes \<Rightarrow>
          let s = s\<lparr>pr_runtimes := AList.delete runtime_handle runtimes\<rparr> in
          (case map_of runtimes runtime_handle of
             None \<Rightarrow> (Inr (), None, s)
           | Some controller \<Rightarrow>
               let controller =
                     (if ct_receiving controller
                      then controller\<lparr>ct_commands := ct_commands controller @ [Shutdown 0 (from_secs 2)]\<rparr>
                      else controller) in
               if ct_thread_poisoned controller
               then (Inl ''The WebRTC runtime thread lock is poisoned'', Some controller, s)
               else if ct_thread controller \<and> panicked
               then (Inl ''The WebRTC runtime controller panicked during shutdown'',
                     Some (controller\<lparr>ct_thread := False\<rparr>), s)
               else (Inr (), Some (controller\<lparr>ct_thread := False\<rparr>), s)))"

end
