(* ===== verification/Peer_Events.thy ===== *)
theory Peer_Events
  imports Registry Event_Wire
begin

text \<open>
  The callbacks of \<open>EventHandler\<close> in \<open>native/src/registry.rs\<close>, the numbers they send for states, and
  how \<open>PeerConnection.handleNativeEvent\<close> (\<open>PeerConnection.kt\<close>) reads those events back: state
  enums by ordinal, ICE candidates, and the description of a remote DataChannel packed into the
  number and the data of its event.
\<close>

subsection \<open>State numbers\<close>

datatype peer_state = PeerUnspecified | PeerNew | PeerConnecting | PeerConnected
  | PeerDisconnected | PeerFailed | PeerClosed

datatype ice_connection_state = IceUnspecified | IceNew | IceChecking | IceConnected | IceCompleted
  | IceDisconnected | IceFailed | IceClosed

datatype ice_gathering_state = GatheringUnspecified | GatheringNew | Gathering | GatheringComplete

definition peer_state_number :: "peer_state \<Rightarrow> i32" where
  "peer_state_number state =
     (case state of PeerUnspecified \<Rightarrow> 0 | PeerNew \<Rightarrow> 0 | PeerConnecting \<Rightarrow> 1 | PeerConnected \<Rightarrow> 2
      | PeerDisconnected \<Rightarrow> 3 | PeerFailed \<Rightarrow> 4 | PeerClosed \<Rightarrow> 5)"

definition ice_connection_state_number :: "ice_connection_state \<Rightarrow> i32" where
  "ice_connection_state_number state =
     (case state of IceUnspecified \<Rightarrow> 0 | IceNew \<Rightarrow> 0 | IceChecking \<Rightarrow> 1 | IceConnected \<Rightarrow> 2
      | IceCompleted \<Rightarrow> 3 | IceDisconnected \<Rightarrow> 4 | IceFailed \<Rightarrow> 5 | IceClosed \<Rightarrow> 6)"

definition ice_gathering_state_number :: "ice_gathering_state \<Rightarrow> i32" where
  "ice_gathering_state_number state =
     (case state of GatheringUnspecified \<Rightarrow> 0 | GatheringNew \<Rightarrow> 0 | Gathering \<Rightarrow> 1
      | GatheringComplete \<Rightarrow> 2)"

subsection \<open>The callbacks\<close>

text \<open>
  \<open>alive\<close> says whether the weak reference to the runtime can be upgraded. \<open>to_json\<close> of a candidate
  and the discriminant of a signaling state belong to the crates and are arguments.
\<close>

definition on_ice_candidate :: "bool \<Rightarrow> u64 \<Rightarrow> ice_candidate_init webrtc_result \<Rightarrow> ('w, unit) rt" where
  "on_ice_candidate alive handle json =
     (if \<not> alive then Done ()
      else case json of
        Inl _ \<Rightarrow> Done ()
      | Inr init \<Rightarrow> send_event
          \<lparr>ev_kind = LOCAL_CANDIDATE, ev_peer_handle = handle, ev_channel_handle = 0,
           ev_operation_handle = 0, ev_text = Some (ic_candidate init),
           ev_secondary_text = ic_sdp_mid init,
           ev_number = (case ic_sdp_mline_index init of None \<Rightarrow> - 1 | Some n \<Rightarrow> ucast n),
           ev_data = None, ev_delivery_permit = None\<rparr>)"

definition on_connection_state_change :: "bool \<Rightarrow> u64 \<Rightarrow> peer_state \<Rightarrow> ('w, unit) rt" where
  "on_connection_state_change alive handle state =
     (if alive then send_event (event_peer PEER_STATE handle (peer_state_number state)) else Done ())"

definition on_ice_connection_state_change :: "bool \<Rightarrow> u64 \<Rightarrow> ice_connection_state \<Rightarrow> ('w, unit) rt" where
  "on_ice_connection_state_change alive handle state =
     (if alive then send_event (event_peer ICE_CONNECTION_STATE handle (ice_connection_state_number state))
      else Done ())"

definition on_ice_gathering_state_change :: "bool \<Rightarrow> u64 \<Rightarrow> ice_gathering_state \<Rightarrow> ('w, unit) rt" where
  "on_ice_gathering_state_change alive handle state =
     (if alive then send_event (event_peer ICE_GATHERING_STATE handle (ice_gathering_state_number state))
      else Done ())"

text \<open>The task that \<open>on_data_channel\<close> spawns.\<close>

definition on_data_channel :: "'w webrtc_api \<Rightarrow> bool \<Rightarrow> u64 \<Rightarrow> channel_ref \<Rightarrow> ('w, unit) rt" where
  "on_data_channel api alive handle channel =
     (if \<not> alive then Done ()
      else bind_prog (register_channel api handle channel True) (\<lambda>_. Done ()))"

definition on_negotiation_needed :: "bool \<Rightarrow> u64 \<Rightarrow> ('w, unit) rt" where
  "on_negotiation_needed alive handle =
     (if alive then send_event (event_peer NEGOTIATION_NEEDED handle 0) else Done ())"

definition on_signaling_state_change :: "bool \<Rightarrow> u64 \<Rightarrow> i32 \<Rightarrow> ('w, unit) rt" where
  "on_signaling_state_change alive handle discriminant =
     (if alive then send_event (event_peer SIGNALING_STATE handle discriminant) else Done ())"

subsection \<open>The Kotlin reader\<close>

definition PeerConnectionState :: "string list" where
  "PeerConnectionState = [''NEW'', ''CONNECTING'', ''CONNECTED'', ''DISCONNECTED'', ''FAILED'', ''CLOSED'']"

definition IceConnectionState :: "string list" where
  "IceConnectionState =
     [''NEW'', ''CHECKING'', ''CONNECTED'', ''COMPLETED'', ''DISCONNECTED'', ''FAILED'', ''CLOSED'']"

definition IceGatheringState :: "string list" where
  "IceGatheringState = [''NEW'', ''GATHERING'', ''COMPLETE'']"

text \<open>\<open>enumValues<T>().getOrNull(ordinal) ?: throw\<close>\<close>

definition enumValue :: "'a list \<Rightarrow> i32 \<Rightarrow> string \<Rightarrow> 'a result" where
  "enumValue values ordinal name =
     (if 0 \<le> sint ordinal \<and> nat (sint ordinal) < length values then Inr (values ! nat (sint ordinal))
      else Inl (''Unknown '' @ name @ '': '' @ show_signed ordinal))"

definition orEmpty :: "string option \<Rightarrow> string" where
  "orEmpty v = (case v of None \<Rightarrow> [] | Some t \<Rightarrow> t)"

definition takeNonNegative :: "i32 \<Rightarrow> i32 option" where
  "takeNonNegative n = (if 0 \<le> sint n then Some n else None)"

text \<open>\<open>IceCandidate(candidate, sdpMid, sdpMLineIndex)\<close> of a \<open>LOCAL_CANDIDATE\<close> event.\<close>

definition localCandidate :: "native_event \<Rightarrow> string \<times> string option \<times> i32 option" where
  "localCandidate event =
     (orEmpty (ev_text event), ev_secondary_text event, takeNonNegative (ev_number event))"

record channel_metadata_view =
  cm_negotiated :: bool
  cm_maxPacketLifeTime :: "i32 option"
  cm_maxRetransmits :: "i32 option"

definition intAt :: "bytes \<Rightarrow> nat \<Rightarrow> i32" where
  "intAt data offset =
     (ucast (data ! offset) AND 0xff)
     OR push_bit 8 (ucast (data ! (offset + 1)) AND 0xff)
     OR push_bit 16 (ucast (data ! (offset + 2)) AND 0xff)
     OR push_bit 24 (ucast (data ! (offset + 3)) AND 0xff)"

definition decodeChannelMetadata :: "bytes option \<Rightarrow> channel_metadata_view result" where
  "decodeChannelMetadata data =
     (case data of
        Some bytes \<Rightarrow>
          if length bytes = 9
          then Inr \<lparr>cm_negotiated = (bytes ! 0 \<noteq> 0),
                    cm_maxPacketLifeTime = takeNonNegative (intAt bytes 1),
                    cm_maxRetransmits = takeNonNegative (intAt bytes 5)\<rparr>
          else Inl ''Invalid native DataChannel metadata''
      | None \<Rightarrow> Inl ''Invalid native DataChannel metadata'')"

record remote_channel =
  rc_handle :: u64
  rc_id :: i32
  rc_label :: string
  rc_protocol :: string
  rc_ordered :: bool
  rc_initiallyOpen :: bool
  rc_metadata :: channel_metadata_view

definition registerRemoteDataChannel :: "native_event \<Rightarrow> remote_channel result" where
  "registerRemoteDataChannel event =
     and_then (decodeChannelMetadata (ev_data event)) (\<lambda>metadata.
       Inr \<lparr>rc_handle = ev_channel_handle event,
            rc_id = drop_bit 2 (ev_number event),
            rc_label = orEmpty (ev_text event),
            rc_protocol = orEmpty (ev_secondary_text event),
            rc_ordered = (ev_number event AND 1 \<noteq> 0),
            rc_initiallyOpen = (ev_number event AND 2 \<noteq> 0),
            rc_metadata = metadata\<rparr>)"

subsection \<open>What the Kotlin side learns\<close>

text \<open>The Kotlin constant that stands for a state of the crate: its own name, and \<open>NEW\<close> for unspecified.\<close>

definition peer_state_name :: "peer_state \<Rightarrow> string" where
  "peer_state_name state =
     (case state of PeerUnspecified \<Rightarrow> ''NEW'' | PeerNew \<Rightarrow> ''NEW'' | PeerConnecting \<Rightarrow> ''CONNECTING''
      | PeerConnected \<Rightarrow> ''CONNECTED'' | PeerDisconnected \<Rightarrow> ''DISCONNECTED''
      | PeerFailed \<Rightarrow> ''FAILED'' | PeerClosed \<Rightarrow> ''CLOSED'')"

definition ice_connection_state_name :: "ice_connection_state \<Rightarrow> string" where
  "ice_connection_state_name state =
     (case state of IceUnspecified \<Rightarrow> ''NEW'' | IceNew \<Rightarrow> ''NEW'' | IceChecking \<Rightarrow> ''CHECKING''
      | IceConnected \<Rightarrow> ''CONNECTED'' | IceCompleted \<Rightarrow> ''COMPLETED''
      | IceDisconnected \<Rightarrow> ''DISCONNECTED'' | IceFailed \<Rightarrow> ''FAILED'' | IceClosed \<Rightarrow> ''CLOSED'')"

definition ice_gathering_state_name :: "ice_gathering_state \<Rightarrow> string" where
  "ice_gathering_state_name state =
     (case state of GatheringUnspecified \<Rightarrow> ''NEW'' | GatheringNew \<Rightarrow> ''NEW''
      | Gathering \<Rightarrow> ''GATHERING'' | GatheringComplete \<Rightarrow> ''COMPLETE'')"

text \<open>
  C13: every connection, ICE connection and ICE gathering state that the crate reports is read by the
  Kotlin side as the constant of the same name (\<open>NEW\<close> for an unspecified state): no state number
  is out of the range of its enum or shifted against it.
\<close>

theorem state_numbers_agree:
  "enumValue PeerConnectionState (peer_state_number p) n1 = Inr (peer_state_name p)
   \<and> enumValue IceConnectionState (ice_connection_state_number i) n2 = Inr (ice_connection_state_name i)
   \<and> enumValue IceGatheringState (ice_gathering_state_number g) n3 = Inr (ice_gathering_state_name g)"
  by (cases p; cases i; cases g)
    (simp_all add: enumValue_def PeerConnectionState_def IceConnectionState_def IceGatheringState_def
      peer_state_number_def ice_connection_state_number_def ice_gathering_state_number_def
      peer_state_name_def ice_connection_state_name_def ice_gathering_state_name_def)

lemma to_le_bytes_4: "\<exists>b0 b1 b2 b3. to_le_bytes 4 w = [b0, b1, b2, b3]"
  by (simp add: numeral_eq_Suc)

lemma intAt_to_le_bytes: "intAt (xs @ to_le_bytes 4 w @ ys) (length xs) = w"
proof -
  obtain b0 b1 b2 b3 where b: "to_le_bytes 4 w = [b0, b1, b2, b3]" using to_le_bytes_4 by blast
  have "intAt (xs @ [b0, b1, b2, b3] @ ys) (length xs) = from_le_bytes [b0, b1, b2, b3]"
    by (simp add: intAt_def nth_append push_bit_or or.assoc numeral_eq_Suc)
  also have "\<dots> = w" using from_to_le_bytes_full [of 4 w] by (simp add: b)
  finally show ?thesis by (simp add: b)
qed

lemma take_optional_number: "takeNonNegative (optional_number v) = map_option ucast v"
proof (cases v)
  case (Some n)
  have "uint n < 2 ^ LENGTH(16)" by (rule unsigned_less)
  moreover have "- (2 ^ 31) \<le> uint n" by (rule order_trans [of _ 0]) simp_all
  ultimately have "sint (ucast n :: i32) = uint n"
    using signed_take_bit_int_eq_self [of 31 "uint n"] by (simp add: signed_ucast_eq)
  with Some show ?thesis by (simp add: takeNonNegative_def optional_number_def)
qed (simp add: takeNonNegative_def optional_number_def)

lemma decode_channel_metadata:
  "decodeChannelMetadata (Some (channel_metadata n l r)) =
     Inr \<lparr>cm_negotiated = n, cm_maxPacketLifeTime = map_option ucast l,
          cm_maxRetransmits = map_option ucast r\<rparr>"
proof -
  let ?l = "to_le_bytes 4 (optional_number l)" and ?r = "to_le_bytes 4 (optional_number r)"
  let ?b = "if n then 1 else 0 :: u8"
  have "intAt ([?b] @ ?l @ ?r) 1 = optional_number l"
    using intAt_to_le_bytes [of "[?b]" "optional_number l" ?r] by simp
  moreover have "intAt ([?b] @ ?l @ ?r) 5 = optional_number r"
    using intAt_to_le_bytes [of "[?b] @ ?l" "optional_number r" "[]"] by simp
  ultimately show ?thesis
    by (simp add: decodeChannelMetadata_def channel_metadata_def take_optional_number)
qed

lemma channel_number_bits:
  "channel_number o1 o2 i AND 1 \<noteq> 0 \<longleftrightarrow> o1" "channel_number o1 o2 i AND 2 \<noteq> 0 \<longleftrightarrow> o2"
  "drop_bit 2 (channel_number o1 o2 i) = ucast i"
proof -
  have b: "bit (channel_number o1 o2 i) k \<longleftrightarrow>
      (k = 0 \<and> o1) \<or> (k = 1 \<and> o2) \<or> (2 \<le> k \<and> k < 32 \<and> bit i (k - 2))" for k
    unfolding channel_number_def
    by (auto simp: bit_or_iff bit_push_bit_iff bit_ucast_iff bit_1_iff bit_2_iff)
  show "channel_number o1 o2 i AND 1 \<noteq> 0 \<longleftrightarrow> o1"
    using bit_iff_and_push_bit_not_eq_0 [of "channel_number o1 o2 i" 0] b [of 0] by simp
  show "channel_number o1 o2 i AND 2 \<noteq> 0 \<longleftrightarrow> o2"
    using bit_iff_and_push_bit_not_eq_0 [of "channel_number o1 o2 i" 1] b [of 1] by simp
  show "drop_bit 2 (channel_number o1 o2 i) = ucast i"
    by (rule bit_word_eqI)
      (auto simp: bit_drop_bit_eq b bit_ucast_iff dest: bit_imp_le_length)
qed

text \<open>
  C14: the event of a remote DataChannel carries its whole description: from the packed number and the
  nine bytes of metadata the Kotlin side recovers the ordered flag, whether it is already open, the
  16 bit stream id, whether it was negotiated, and the two optional reliability limits, for all values.
\<close>

theorem remote_channel_roundtrip:
  "registerRemoteDataChannel
     (data_channel_event peer handle label protocol
        (channel_number ordered opened ident) (channel_metadata negotiated life_time retransmits))
   = Inr \<lparr>rc_handle = handle, rc_id = ucast ident, rc_label = label, rc_protocol = protocol,
          rc_ordered = ordered, rc_initiallyOpen = opened,
          rc_metadata = \<lparr>cm_negotiated = negotiated, cm_maxPacketLifeTime = map_option ucast life_time,
                         cm_maxRetransmits = map_option ucast retransmits\<rparr>\<rparr>"
  by (simp add: registerRemoteDataChannel_def data_channel_event_def decode_channel_metadata
      channel_number_bits orEmpty_def)

lemma run_on_ice_candidate:
  "run (on_ice_candidate True h (Inr i)) L s = Returned () L
     (push_event \<lparr>ev_kind = LOCAL_CANDIDATE, ev_peer_handle = h, ev_channel_handle = 0,
        ev_operation_handle = 0, ev_text = Some (ic_candidate i), ev_secondary_text = ic_sdp_mid i,
        ev_number = optional_number (ic_sdp_mline_index i), ev_data = None,
        ev_delivery_permit = None\<rparr> s)"
  by (simp add: on_ice_candidate_def send_event_def optional_number_def)

text \<open>
  C15: a local ICE candidate reaches the application unchanged: the callback queues exactly one event
  for its peer, and what the Kotlin side reads from it is the candidate line, the media id and the
  m-line index (absent when the crate gave none). A candidate that cannot be rendered sends nothing.
\<close>

theorem local_candidate_roundtrip:
  "(\<exists>event. run (on_ice_candidate True h (Inr i)) L s = Returned () L (push_event event s)
       \<and> ev_kind event = LOCAL_CANDIDATE \<and> ev_peer_handle event = h
       \<and> localCandidate event
          = (ic_candidate i, ic_sdp_mid i, map_option ucast (ic_sdp_mline_index i)))
   \<and> run (on_ice_candidate True h (Inl e)) L s = Returned () L s"
  unfolding run_on_ice_candidate
  by (intro conjI exI, rule refl)
    (simp_all add: localCandidate_def orEmpty_def take_optional_number on_ice_candidate_def)

end
