(* ===== verification/Scheduler.thy ===== *)
theory Scheduler
  imports Runtime Peer_Events "HOL-Library.Multiset"
begin

text \<open>
  One runtime at work: the controller loop of \<open>run_runtime\<close> and \<open>dispatch\<close> (\<open>native/src/runtime.rs\<close>),
  the operations it has spawned, the callbacks of the peer connections, the pollers of the channels
  and the consumer of the event queue, as a step relation. The tasks are interleaved at their await
  points in any order; a dispatched operation can run out of its time at any of them, which drops its
  future and with it the mutex it holds.
\<close>

subsection \<open>States\<close>

text \<open>
  A spawned task. \<open>rn_operation\<close> is the operation it completes; the tasks spawned by
  \<open>on_data_channel\<close> complete none. \<open>rn_command\<close> is the command that a dispatched task executes.
\<close>

record 'w running =
  rn_operation :: "u64 option"
  rn_command :: "command option"
  rn_body :: "('w, operation_value result) rt"
  rn_held :: "nat set"

datatype phase = Serving | Draining u64 | Closing u64 | Stopped

text \<open>
  Where a \<open>poll_data_channel\<close> task is: waiting for the channel, waiting for a delivery permit with the
  message it has received, or past its loop.
\<close>

datatype poll_phase = Polling | Waiting channel_event | Leaving

text \<open>
  \<open>sys_pollers\<close> and \<open>sys_taken\<close> are indexed by the semaphore of a channel: the phase of its poller, and
  the number of its permits that are taken. \<open>sys_lent\<close> are the buffers lent to the JVM that hold a
  permit. \<open>sys_polled\<close> are the events the consumer has taken, \<open>sys_submitted\<close> the operation handles
  that were submitted, \<open>sys_accepted\<close> the commands that were taken into the queue, \<open>sys_lost\<close> the
  operations whose task panicked or was aborted, and \<open>sys_received\<close> the messages that the channels
  have yielded; these five record the history and no step depends on them.
\<close>

record 'w system =
  sys_state :: "'w runtime_state"
  sys_commands :: "command list"
  sys_tasks :: "'w running list"
  sys_phase :: phase
  sys_polled :: "native_event list"
  sys_submitted :: "u64 list"
  sys_accepted :: "command list"
  sys_lost :: "u64 list"
  sys_pollers :: "nat \<Rightarrow> poll_phase"
  sys_taken :: "nat \<Rightarrow> nat"
  sys_lent :: "native_buffer_entry list"
  sys_received :: "(poller \<times> channel_event) list"

definition initial_system :: "'w runtime_state \<Rightarrow> 'w system" where
  "initial_system s = \<lparr>sys_state = s, sys_commands = [], sys_tasks = [], sys_phase = Serving,
     sys_polled = [], sys_submitted = [], sys_accepted = [], sys_lost = [],
     sys_pollers = (\<lambda>_. Polling), sys_taken = (\<lambda>_. 0), sys_lent = [], sys_received = []\<rparr>"

subsection \<open>Dispatch\<close>

definition dispatch :: "'w webrtc_api \<Rightarrow> command \<Rightarrow> 'w running" where
  "dispatch api command =
     \<lparr>rn_operation = Some (operation_handle command), rn_command = Some command,
      rn_body = execute api command, rn_held = {}\<rparr>"

text \<open>The event a dispatched task sends when its body ends, or when its time runs out.\<close>

definition finish_task :: "'w running \<Rightarrow> operation_value result \<Rightarrow> 'w runtime_state \<Rightarrow> 'w runtime_state" where
  "finish_task t result s =
     (case rn_operation t of None \<Rightarrow> s | Some h \<Rightarrow> push_event (event_operation h result) s)"

definition timeout_message :: string where
  "timeout_message = ''WebRTC operation timed out''"

text \<open>The task of \<open>on_data_channel\<close>; its result is discarded.\<close>

definition remote_channel_task :: "'w webrtc_api \<Rightarrow> u64 \<Rightarrow> channel_ref \<Rightarrow> 'w running" where
  "remote_channel_task api peer_handle channel =
     \<lparr>rn_operation = None, rn_command = None,
      rn_body = bind_prog (on_data_channel api True peer_handle channel) (\<lambda>_. Done (Inr default_value)),
      rn_held = {}\<rparr>"

definition shutdown_task :: "'w webrtc_api \<Rightarrow> u64 \<Rightarrow> 'w running" where
  "shutdown_task api h =
     \<lparr>rn_operation = Some h, rn_command = None,
      rn_body = try_prog (shutdown_all api) (\<lambda>_. Done (Inr default_value)), rn_held = {}\<rparr>"

text \<open>The operations that still have to be completed: \<open>operations\<close> of \<open>run_runtime\<close>.\<close>

definition pending :: "'w running list \<Rightarrow> u64 list" where
  "pending ts = List.map_filter rn_operation ts"

definition others_hold :: "'w running list \<Rightarrow> nat \<Rightarrow> nat set" where
  "others_hold ts i = (\<Union>j \<in> {j. j < length ts \<and> j \<noteq> i}. rn_held (ts ! j))"

definition remove_nth :: "nat \<Rightarrow> 'a list \<Rightarrow> 'a list" where
  "remove_nth i xs = take i xs @ drop (Suc i) xs"

text \<open>What the callbacks of \<open>EventHandler\<close> put into the queue.\<close>

definition callback_event :: "native_event \<Rightarrow> bool" where
  "callback_event e \<longleftrightarrow> ev_kind e \<in>
     {LOCAL_CANDIDATE, PEER_STATE, ICE_CONNECTION_STATE, ICE_GATHERING_STATE, NEGOTIATION_NEEDED,
      SIGNALING_STATE} \<and> ev_delivery_permit e = None"

text \<open>A permit that is dropped goes back to its semaphore.\<close>

definition drop_permit :: "nat option \<Rightarrow> (nat \<Rightarrow> nat) \<Rightarrow> nat \<Rightarrow> nat" where
  "drop_permit permit taken = (case permit of None \<Rightarrow> taken | Some k \<Rightarrow> taken(k := taken k - 1))"

text \<open>
  The events of a channel that need no permit, and the end of its poller after \<open>OnClose\<close> or when the
  channel yields no more.
\<close>

definition after_event :: "channel_event \<Rightarrow> poll_phase" where
  "after_event e = (if e = OnClose then Leaving else Polling)"

subsection \<open>Steps\<close>

text \<open>
  While the runtime is closing, the only task with an operation is the one of \<open>shutdown_all\<close>, whose
  end is the end of the runtime: \<open>ends_alone\<close> are the other tasks.
\<close>

definition ends_alone :: "'w system \<Rightarrow> 'w running \<Rightarrow> bool" where
  "ends_alone s t \<longleftrightarrow> (case sys_phase s of Closing h \<Rightarrow> rn_operation t = None | _ \<Rightarrow> True)"

text \<open>The steps of the spawned tasks: one step of a program, its end, its panic.\<close>

inductive operation_step :: "'w system \<Rightarrow> 'w system \<Rightarrow> bool" where
  stepped: "i < length (sys_tasks s) \<Longrightarrow>
    task_step (others_hold (sys_tasks s) i)
      ((rn_body (sys_tasks s ! i), rn_held (sys_tasks s ! i)), sys_state s) ((p, H), st) \<Longrightarrow>
    operation_step s (s\<lparr>sys_state := st,
                      sys_tasks := (sys_tasks s)[i := (sys_tasks s ! i)\<lparr>rn_body := p, rn_held := H\<rparr>]\<rparr>)"
| completed: "i < length (sys_tasks s) \<Longrightarrow> rn_body (sys_tasks s ! i) = Done r \<Longrightarrow>
    ends_alone s (sys_tasks s ! i) \<Longrightarrow>
    operation_step s (s\<lparr>sys_state := finish_task (sys_tasks s ! i) r (sys_state s),
                      sys_tasks := remove_nth i (sys_tasks s)\<rparr>)"
| panicked: "i < length (sys_tasks s) \<Longrightarrow> rn_body (sys_tasks s ! i) = Panic \<Longrightarrow>
    ends_alone s (sys_tasks s ! i) \<Longrightarrow>
    operation_step s (s\<lparr>sys_tasks := remove_nth i (sys_tasks s),
                      sys_lost := sys_lost s @ pending [sys_tasks s ! i]\<rparr>)"

text \<open>
  The steps of the runtime. The consumer of the C bridge drops the permit of an event when it has
  encoded it (\<open>polled\<close>); the one of the JNI bridge registers a buffer that keeps the permit (\<open>lent\<close>)
  until the message is closed (\<open>buffer_released\<close>).
\<close>

text \<open>The end of \<open>run_runtime\<close>: every task is dropped, and so are the commands still queued.\<close>

definition stop :: "u64 \<Rightarrow> operation_value result \<Rightarrow> u64 list \<Rightarrow> 'w system \<Rightarrow> 'w system" where
  "stop h result aborted s =
     s\<lparr>sys_phase := Stopped, sys_tasks := [], sys_commands := [],
       sys_lost := sys_lost s @ aborted @ map operation_handle (sys_commands s),
       sys_state := push_event (event_operation h result) (sys_state s)\<rparr>"

inductive sys_step :: "'w webrtc_api \<Rightarrow> 'w system \<Rightarrow> 'w system \<Rightarrow> bool" for api where
  submitted: "sys_phase s \<noteq> Stopped \<Longrightarrow>
    sys_step api s (s\<lparr>sys_commands := sys_commands s @ [c],
                      sys_submitted := sys_submitted s @ [operation_handle c],
                      sys_accepted := sys_accepted s @ [c]\<rparr>)"
| refused:
    "sys_step api s (s\<lparr>sys_state := push_event (event_operation h (Inl e)) (sys_state s),
                      sys_submitted := sys_submitted s @ [h]\<rparr>)"
| dispatched: "sys_phase s = Serving \<Longrightarrow> sys_commands s = c # cs \<Longrightarrow> (\<forall>h t. c \<noteq> Shutdown h t) \<Longrightarrow>
    sys_step api s (s\<lparr>sys_commands := cs, sys_tasks := sys_tasks s @ [dispatch api c]\<rparr>)"
| operation: "operation_step s s' \<Longrightarrow> sys_step api s s'"
| timed_out: "i < length (sys_tasks s) \<Longrightarrow> rn_operation (sys_tasks s ! i) \<noteq> None \<Longrightarrow>
    ends_alone s (sys_tasks s ! i) \<Longrightarrow>
    (\<forall>r. rn_body (sys_tasks s ! i) \<noteq> Done r) \<Longrightarrow> rn_body (sys_tasks s ! i) \<noteq> Panic \<Longrightarrow>
    sys_step api s (s\<lparr>sys_state := finish_task (sys_tasks s ! i) (Inl timeout_message) (sys_state s),
                      sys_tasks := remove_nth i (sys_tasks s)\<rparr>)"
| callback: "callback_event e \<Longrightarrow> sys_step api s (s\<lparr>sys_state := push_event e (sys_state s)\<rparr>)"
| remote_channel: "sys_phase s \<noteq> Stopped \<Longrightarrow>
    sys_step api s (s\<lparr>sys_tasks := sys_tasks s @ [remote_channel_task api p c]\<rparr>)"
| yielded: "sys_phase s \<noteq> Stopped \<Longrightarrow> po \<in> set (st_spawned (sys_state s)) \<Longrightarrow>
    sys_pollers s (po_semaphore po) = Polling \<Longrightarrow> \<not> is_message e \<Longrightarrow>
    sys_step api s (s\<lparr>sys_state := push_event (poll_event po e) (sys_state s),
                      sys_pollers := (sys_pollers s)(po_semaphore po := after_event e)\<rparr>)"
| received: "sys_phase s \<noteq> Stopped \<Longrightarrow> po \<in> set (st_spawned (sys_state s)) \<Longrightarrow>
    sys_pollers s (po_semaphore po) = Polling \<Longrightarrow> is_message e \<Longrightarrow>
    sys_step api s (s\<lparr>sys_pollers := (sys_pollers s)(po_semaphore po := Waiting e),
                      sys_received := sys_received s @ [(po, e)]\<rparr>)"
| delivered: "sys_phase s \<noteq> Stopped \<Longrightarrow> po \<in> set (st_spawned (sys_state s)) \<Longrightarrow>
    sys_pollers s (po_semaphore po) = Waiting e \<Longrightarrow>
    sys_taken s (po_semaphore po) < unat (po_capacity po) \<Longrightarrow>
    sys_step api s (s\<lparr>sys_state := push_event (poll_event po e) (sys_state s),
                      sys_pollers := (sys_pollers s)(po_semaphore po := Polling),
                      sys_taken := (sys_taken s)(po_semaphore po := sys_taken s (po_semaphore po) + 1)\<rparr>)"
| exhausted: "po \<in> set (st_spawned (sys_state s)) \<Longrightarrow> sys_pollers s (po_semaphore po) = Polling \<Longrightarrow>
    sys_step api s (s\<lparr>sys_pollers := (sys_pollers s)(po_semaphore po := Leaving)\<rparr>)"
| poller_ended: "po \<in> set (st_spawned (sys_state s)) \<Longrightarrow> sys_pollers s (po_semaphore po) = Leaving \<Longrightarrow>
    sys_step api s (s\<lparr>sys_state := poller_end po (sys_state s)\<rparr>)"
| environment: "sys_step api s (s\<lparr>sys_state := (sys_state s)\<lparr>st_world := w\<rparr>\<rparr>)"
| polled: "st_events (sys_state s) = e # es \<Longrightarrow>
    sys_step api s (s\<lparr>sys_state := (sys_state s)\<lparr>st_events := es\<rparr>, sys_polled := sys_polled s @ [e],
                      sys_taken := drop_permit (ev_delivery_permit e) (sys_taken s)\<rparr>)"
| lent: "st_events (sys_state s) = e # es \<Longrightarrow> ev_delivery_permit e = Some k \<Longrightarrow>
    sys_step api s (s\<lparr>sys_state := (sys_state s)\<lparr>st_events := es\<rparr>, sys_polled := sys_polled s @ [e],
                      sys_lent := sys_lent s @ [\<lparr>buf_data = (case ev_data e of None \<Rightarrow> [] | Some d \<Rightarrow> d),
                                                 buf_delivery_permit = Some k\<rparr>]\<rparr>)"
| buffer_released: "i < length (sys_lent s) \<Longrightarrow>
    sys_step api s (s\<lparr>sys_lent := remove_nth i (sys_lent s),
                      sys_taken := drop_permit (buf_delivery_permit (sys_lent s ! i)) (sys_taken s)\<rparr>)"
| woken: "sys_step api s (s\<lparr>sys_state := push_event (event_peer WAKE 0 0) (sys_state s)\<rparr>)"
| draining: "sys_phase s = Serving \<Longrightarrow> sys_commands s = Shutdown h t # cs \<Longrightarrow>
    sys_step api s (s\<lparr>sys_commands := cs, sys_phase := Draining h\<rparr>)"
| closing: "sys_phase s = Draining h \<Longrightarrow> pending (sys_tasks s) = [] \<Longrightarrow>
    sys_step api s (s\<lparr>sys_phase := Closing h, sys_tasks := sys_tasks s @ [shutdown_task api h]\<rparr>)"
| closed: "sys_phase s = Closing h \<Longrightarrow> t \<in> set (sys_tasks s) \<Longrightarrow> rn_operation t \<noteq> None \<Longrightarrow>
    rn_body t = Done r \<Longrightarrow> sys_step api s (stop h r [] s)"
| drain_timed_out: "sys_phase s = Draining h \<Longrightarrow>
    sys_step api s (stop h (Inl ''WebRTC runtime shutdown timed out'') (pending (sys_tasks s)) s)"
| close_timed_out: "sys_phase s = Closing h \<Longrightarrow>
    sys_step api s (stop h (Inl ''WebRTC runtime shutdown timed out'') [] s)"

inductive reachable :: "'w webrtc_api \<Rightarrow> 'w runtime_state \<Rightarrow> 'w system \<Rightarrow> bool" for api s0 where
  start: "reachable api s0 (initial_system s0)"
| step: "reachable api s0 s \<Longrightarrow> sys_step api s s' \<Longrightarrow> reachable api s0 s'"

subsection \<open>Tasks emit no completion events\<close>

definition completions :: "native_event list \<Rightarrow> u64 list" where
  "completions es = map ev_operation_handle (filter (\<lambda>e. ev_kind e = OPERATION_COMPLETE) es)"

lemma completions_append [simp]: "completions (xs @ ys) = completions xs @ completions ys"
  by (simp add: completions_def)

lemma completions_Nil [simp]: "completions [] = []"
  by (simp add: completions_def)

lemma completions_one [simp]:
  "completions [event_operation h r] = [h]"
  "callback_event e \<Longrightarrow> completions [e] = []"
  "completions [poll_event po x] = []"
  "completions [event_peer WAKE 0 0] = []"
  by (auto simp: completions_def callback_event_def poll_event_def kind_defs Let_def split: channel_event.split)

text \<open>
  What a task does to the traffic of the runtime: it appends events that complete no operation and
  hold no permit, and starts at most one poller, with a new semaphore.
\<close>

definition same_traffic :: "'w runtime_state \<Rightarrow> 'w runtime_state \<Rightarrow> bool" where
  "same_traffic s s' \<longleftrightarrow> st_events s' = st_events s \<and> st_spawned s' = st_spawned s
     \<and> st_next_semaphore s' = st_next_semaphore s"

definition quiet :: "'w runtime_state \<Rightarrow> 'w runtime_state \<Rightarrow> bool" where
  "quiet s s' \<longleftrightarrow>
     (\<exists>es. st_events s' = st_events s @ es
        \<and> (\<forall>e \<in> set es. ev_kind e \<noteq> OPERATION_COMPLETE \<and> ev_delivery_permit e = None))
     \<and> (st_spawned s' = st_spawned s \<and> st_next_semaphore s' = st_next_semaphore s
        \<or> (\<exists>po. st_spawned s' = st_spawned s @ [po] \<and> po_semaphore po = st_next_semaphore s
             \<and> st_next_semaphore s' = Suc (st_next_semaphore s)))"

lemma same_traffic_quiet: "same_traffic s s' \<Longrightarrow> quiet s s'"
  by (simp add: same_traffic_def quiet_def)

lemma quiet_completions: "quiet s s' \<Longrightarrow> completions (st_events s') = completions (st_events s)"
  by (auto simp: quiet_def completions_def filter_empty_conv)

lemma quiet_spawn: "quiet s (spawn_poller p h c n s)"
  by (simp add: quiet_def spawn_poller_def)

lemma world_only_quiet: "world_only s s' \<Longrightarrow> quiet s s'"
  by (auto simp: world_only_def same_traffic_def intro!: same_traffic_quiet)

lemmas quiet_of_world = guarantees_mono [where G = world_only and G' = quiet, OF _ world_only_quiet]

lemma quiet_lock_registry: "(\<And>s. same_traffic s (snd (f s))) \<Longrightarrow> guarantees quiet (lock_registry f)"
  unfolding lock_registry_def
  by (intro guarantee_rules same_traffic_quiet) (simp add: same_traffic_def)

lemma quiet_next_handle: "guarantees quiet next_handle"
  unfolding next_handle_def by (intro guarantee_rules same_traffic_quiet) (simp add: same_traffic_def)

lemma quiet_created_event: "guarantees quiet (send_event (data_channel_event p h l q n m))"
  unfolding send_event_def
  by (intro guarantee_rules)
    (simp add: quiet_def push_event_def data_channel_event_def kind_defs)

lemmas quiet_rules = quiet_lock_registry quiet_next_handle quiet_created_event
  guarantees_call [THEN quiet_of_world] guarantees_call_or [THEN quiet_of_world]
  guarantees_getters [THEN quiet_of_world] guarantees_build_on_ports [THEN quiet_of_world]

lemma quiet_register_channel: "guarantees quiet (register_channel api p c b)"
  unfolding register_channel_def Let_def
  by (intro guarantee_rules quiet_rules) (simp_all add: same_traffic_def quiet_spawn)

lemma quiet_close_all: "guarantees quiet (close_all api ps)"
  by (induction ps) (auto intro!: guarantee_rules quiet_rules)

lemma quiet_execute: "guarantees quiet (execute api c)"
proof (cases c rule: command_cases [where api = api])
  case quiet
  from quiet(1) show ?thesis by (rule quiet_of_world)
next
  case create_peer
  then show ?thesis
    unfolding create_peer execute.simps create_peer_def
    by (intro guarantee_rules quiet_rules) (simp_all add: same_traffic_def)
next
  case create_data_channel
  then show ?thesis
    unfolding create_data_channel execute.simps create_data_channel_def Let_def
    by (intro guarantee_rules quiet_rules quiet_register_channel)
next
  case close_data_channel
  then show ?thesis
    unfolding close_data_channel execute.simps close_data_channel_def
    by (intro guarantee_rules quiet_rules) (simp_all add: same_traffic_def)
next
  case close_peer
  then show ?thesis
    unfolding close_peer execute.simps close_peer_def
    by (intro guarantee_rules quiet_rules) (simp_all add: same_traffic_def)
next
  case rotate
  then show ?thesis
    unfolding rotate execute.simps rotate_certificate_def
    by (intro guarantee_rules quiet_rules) (auto simp: same_traffic_def intro!: same_traffic_quiet)
qed

lemma quiet_spawned:
  "guarantees quiet (rn_body (dispatch api c))"
  "guarantees quiet (rn_body (remote_channel_task api p ch))"
  "guarantees quiet (rn_body (shutdown_task api h))"
  unfolding dispatch_def remote_channel_task_def shutdown_task_def on_data_channel_def shutdown_all_def
  by (auto simp: same_traffic_def
      intro!: guarantee_rules quiet_rules quiet_execute quiet_register_channel quiet_close_all)

subsection \<open>No operation is lost or completed twice\<close>

lemma pending_simps [simp]:
  "pending [] = []" "pending (xs @ ys) = pending xs @ pending ys"
  "pending [dispatch api c] = [operation_handle c]" "pending [remote_channel_task api p ch] = []"
  "pending [shutdown_task api h] = [h]"
  by (simp_all add: pending_def map_filter_def dispatch_def remote_channel_task_def shutdown_task_def)

lemma pending_one: "pending [t] = (case rn_operation t of None \<Rightarrow> [] | Some h \<Rightarrow> [h])"
  by (simp add: pending_def map_filter_def split: option.split)

lemma pending_operations: "pending ts = List.map_filter (\<lambda>x. x) (map rn_operation ts)"
  by (induction ts) (simp_all add: pending_def map_filter_def)

lemma pending_update:
  "i < length ts \<Longrightarrow> rn_operation t = rn_operation (ts ! i) \<Longrightarrow> pending (ts[i := t]) = pending ts"
  by (simp add: pending_operations map_update) (metis list_update_id map_update)

lemma set_remove_nth: "set (remove_nth i xs) \<subseteq> set xs"
  by (auto simp: remove_nth_def dest: in_set_takeD in_set_dropD)

lemma pending_remove_nth:
  "i < length ts \<Longrightarrow> mset (pending ts) = mset (pending [ts ! i]) + mset (pending (remove_nth i ts))"
  by (subst (1) id_take_nth_drop [of i ts]) (simp_all add: remove_nth_def pending_def map_filter_def)

definition phase_operation :: "phase \<Rightarrow> u64 list" where
  "phase_operation p = (case p of Draining h \<Rightarrow> [h] | _ \<Rightarrow> [])"

definition ledger :: "'w system \<Rightarrow> bool" where
  "ledger s \<longleftrightarrow>
     mset (completions (sys_polled s @ st_events (sys_state s))) + mset (pending (sys_tasks s))
       + mset (map operation_handle (sys_commands s)) + mset (phase_operation (sys_phase s))
       + mset (sys_lost s) = mset (sys_submitted s)"

definition tasks_quiet :: "'w system \<Rightarrow> bool" where
  "tasks_quiet s \<longleftrightarrow> (\<forall>t \<in> set (sys_tasks s). guarantees quiet (rn_body t))"

definition phase_ok :: "'w system \<Rightarrow> bool" where
  "phase_ok s \<longleftrightarrow>
     (case sys_phase s of
        Closing h \<Rightarrow> pending (sys_tasks s) = [h]
      | Stopped \<Rightarrow> sys_tasks s = [] \<and> sys_commands s = []
      | _ \<Rightarrow> True)"

lemma tasks_quiet_operation:
  assumes "operation_step s s'" and "tasks_quiet s"
  shows "tasks_quiet s'"
  using assms
proof (cases rule: operation_step.cases)
  case (stepped i p H st)
  have "guarantees quiet p"
    using guarantees_step [OF stepped(3), of quiet] assms(2) stepped(2) by (simp add: tasks_quiet_def)
  with assms(2) stepped(1) show ?thesis
    by (auto simp: tasks_quiet_def dest!: set_update_subset_insert [THEN subsetD])
qed (use assms(2) set_remove_nth in \<open>fastforce simp: tasks_quiet_def\<close>)+

lemma tasks_quiet_step:
  assumes "sys_step api s s'" and "tasks_quiet s"
  shows "tasks_quiet s'"
  using assms(1)
proof cases
  case operation
  then show ?thesis by (rule tasks_quiet_operation) (fact assms(2))
qed (use assms(2) set_remove_nth in \<open>fastforce simp: tasks_quiet_def stop_def intro: quiet_spawned\<close>)+

lemma completions_push: "completions (st_events (push_event e s)) = completions (st_events s) @ completions [e]"
  by (simp add: push_event_def)

lemma completions_finish:
  "completions (st_events (finish_task t r s)) = completions (st_events s) @ pending [t]"
  by (cases "rn_operation t") (simp_all add: finish_task_def completions_push pending_one)

lemma phase_ok_operation:
  assumes "operation_step s s'" and "phase_ok s"
  shows "phase_ok s'"
  using assms
proof (cases rule: operation_step.cases)
  case (stepped i p H st)
  with assms(2) show ?thesis
    by (auto simp: phase_ok_def pending_update split: phase.splits)
next
  case (completed i r)
  have "mset (pending (sys_tasks s)) = mset (pending [sys_tasks s ! i])
      + mset (pending (remove_nth i (sys_tasks s)))"
    by (rule pending_remove_nth) (fact completed)
  with assms(2) completed show ?thesis
    by (auto simp: phase_ok_def ends_alone_def pending_one split: phase.splits)
next
  case (panicked i)
  have "mset (pending (sys_tasks s)) = mset (pending [sys_tasks s ! i])
      + mset (pending (remove_nth i (sys_tasks s)))"
    by (rule pending_remove_nth) (fact panicked)
  with assms(2) panicked show ?thesis
    by (auto simp: phase_ok_def ends_alone_def pending_one split: phase.splits)
qed

lemma phase_ok_step:
  assumes "sys_step api s s'" and "phase_ok s"
  shows "phase_ok s'"
  using assms(1)
proof cases
  case operation
  then show ?thesis by (rule phase_ok_operation) (fact assms(2))
next
  case (timed_out i)
  with assms(2) show ?thesis
    by (auto simp: phase_ok_def ends_alone_def split: phase.splits)
qed (use assms(2) in \<open>auto simp: phase_ok_def stop_def split: phase.splits\<close>)

lemma ledger_operation:
  assumes "operation_step s s'" and "ledger s" and "tasks_quiet s"
  shows "ledger s'"
  using assms(1)
proof (cases rule: operation_step.cases)
  case (stepped i p H st)
  have "completions (st_events st) = completions (st_events (sys_state s))"
    using guarantees_step [OF stepped(3), of quiet] assms(3) stepped(2)
    by (auto simp: tasks_quiet_def quiet_completions)
  with assms(2) stepped show ?thesis by (simp add: ledger_def pending_update)
next
  case (completed i r)
  note pending_remove_nth [OF completed(2)]
  with assms(2) completed(1) show ?thesis by (simp add: ledger_def completions_finish ac_simps)
next
  case (panicked i)
  note pending_remove_nth [OF panicked(2)]
  with assms(2) panicked(1) show ?thesis by (simp add: ledger_def ac_simps)
qed

lemma ledger_step:
  assumes "sys_step api s s'" and "ledger s" and "tasks_quiet s" and "phase_ok s"
  shows "ledger s'"
  using assms(1)
proof cases
  case operation
  then show ?thesis by (rule ledger_operation) (fact assms(2,3))+
next
  case (timed_out i)
  note pending_remove_nth [OF timed_out(2)]
  with assms(2) timed_out(1) show ?thesis by (simp add: ledger_def completions_finish ac_simps)
next
  case (polled e es)
  with assms(2) show ?thesis by (simp add: ledger_def completions_def)
next
  case (lent e es k)
  with assms(2) show ?thesis by (simp add: ledger_def completions_def)
next
  case (poller_ended po)
  with assms(2) show ?thesis by (simp add: ledger_def poller_end_def)
qed (use assms(2,4) in \<open>auto simp: ledger_def stop_def completions_push phase_operation_def phase_ok_def ac_simps\<close>)

lemma reachable_ledger:
  assumes "reachable api s0 s" and "completions (st_events s0) = []"
  shows "ledger s \<and> tasks_quiet s \<and> phase_ok s"
  using assms
proof (induction rule: reachable.induct)
  case start
  then show ?case
    by (simp add: ledger_def initial_system_def tasks_quiet_def phase_ok_def phase_operation_def)
next
  case (step s s')
  then show ?case using ledger_step tasks_quiet_step phase_ok_step by blast
qed

text \<open>
  The receive queue capacities that a runtime has been given: those of the peers and pollers it started
  with, and those of the peer configurations among the accepted commands.
\<close>

definition given_capacities :: "'w runtime_state \<Rightarrow> 'w system \<Rightarrow> usize set" where
  "given_capacities s0 s =
     (pe_receive_queue_capacity \<circ> snd) ` set (st_peers s0) \<union> po_capacity ` set (st_spawned s0)
     \<union> \<Union> (configured_capacity ` set (sys_accepted s))"

lemma given_capacities_start: "capacities_in (given_capacities s0 s) s0"
  by (auto simp: capacities_in_def given_capacities_def)

definition tasks_keep :: "usize set \<Rightarrow> bool \<Rightarrow> 'w system \<Rightarrow> bool" where
  "tasks_keep K b s \<longleftrightarrow>
     set (sys_commands s) \<subseteq> set (sys_accepted s) \<and> capacities_in K (sys_state s)
     \<and> (\<forall>t \<in> set (sys_tasks s). keeps (capacities_in K) b (rn_body t))
     \<and> (b \<or> sys_phase s = Stopped \<or> sys_lost s = [])"

lemma capacities_in_finish [simp]: "capacities_in K (finish_task t r s) = capacities_in K s"
  by (simp add: finish_task_def split: option.split)

lemma capacities_in_poller_end: "capacities_in K s \<Longrightarrow> capacities_in K (poller_end po s)"
  by (auto simp: capacities_in_def poller_end_def dest: notin_set_remove1)

lemma keeps_spawned:
  assumes "b \<or> (\<forall>n \<in> K. n \<le> max_permits)"
  shows "keeps (capacities_in K) b (rn_body (remote_channel_task api p ch))"
    "keeps (capacities_in K) b (rn_body (shutdown_task api h))"
  unfolding remote_channel_task_def shutdown_task_def on_data_channel_def
  by (auto intro!: keep_rules keeps_register_channel keeps_shutdown_all assms)

lemma tasks_keep_operation:
  assumes "operation_step s s'" and "tasks_keep K b s"
  shows "tasks_keep K b s'"
  using assms(1)
proof (cases rule: operation_step.cases)
  case (stepped i p H st)
  have "keeps (capacities_in K) b p \<and> capacities_in K st"
    by (rule keeps_step [OF stepped(3)]) (use assms(2) stepped(2) in \<open>simp_all add: tasks_keep_def\<close>)
  with assms(2) stepped(1) show ?thesis
    by (auto simp: tasks_keep_def dest!: set_update_subset_insert [THEN subsetD])
next
  case (completed i r)
  with assms(2) set_remove_nth [of i "sys_tasks s"] show ?thesis by (auto simp: tasks_keep_def)
next
  case (panicked i)
  then have "b" using assms(2) by (force simp: tasks_keep_def dest: nth_mem)
  with assms(2) panicked(1) set_remove_nth [of i "sys_tasks s"] show ?thesis by (auto simp: tasks_keep_def)
qed

lemma tasks_keep_step:
  assumes "sys_step api s s'" and "tasks_keep K b s" and K: "b \<or> (\<forall>n \<in> K. n \<le> max_permits)"
    and c: "\<And>c. c \<in> set (sys_accepted s') \<Longrightarrow> configured_capacity c \<subseteq> K \<and> (b \<or> \<not> panics api K c)"
  shows "tasks_keep K b s'"
  using assms(1)
proof cases
  case operation
  then show ?thesis by (rule tasks_keep_operation) (fact assms(2))
next
  case (dispatched c cs)
  then have "keeps (capacities_in K) b (rn_body (dispatch api c))"
    using c [of c] assms(2) by (auto simp: dispatch_def tasks_keep_def intro!: keeps_execute)
  with dispatched(1,3) assms(2) show ?thesis by (auto simp: tasks_keep_def)
next
  case (timed_out i)
  with assms(2) set_remove_nth [of i "sys_tasks s"] show ?thesis by (auto simp: tasks_keep_def)
next
  case (poller_ended po)
  with assms(2) show ?thesis by (simp add: tasks_keep_def capacities_in_poller_end)
qed (use assms(2) keeps_spawned [OF K] in \<open>auto simp: tasks_keep_def stop_def\<close>)

lemma sys_accepted_mono: "sys_step api s s' \<Longrightarrow> set (sys_accepted s) \<subseteq> set (sys_accepted s')"
  by (induction rule: sys_step.induct) (auto simp: stop_def elim: operation_step.cases)

lemma reachable_tasks_keep:
  assumes "reachable api s0 s" and "b \<or> (\<forall>n \<in> K. n \<le> max_permits)" and "capacities_in K s0"
    and "\<And>c. c \<in> set (sys_accepted s) \<Longrightarrow> configured_capacity c \<subseteq> K \<and> (b \<or> \<not> panics api K c)"
  shows "tasks_keep K b s"
  using assms(1,4)
proof (induction rule: reachable.induct)
  case start
  with assms(3) show ?case by (simp add: tasks_keep_def initial_system_def)
next
  case (step s s')
  have "tasks_keep K b s"
    by (rule step.IH) (use step.prems sys_accepted_mono [OF step(2)] in blast)
  then show ?case by (rule tasks_keep_step [OF step(2) _ assms(2) step.prems])
qed

lemma given_capacities_accepted:
  "c \<in> set (sys_accepted s) \<Longrightarrow> configured_capacity c \<subseteq> given_capacities s0 s"
  by (auto simp: given_capacities_def)

lemma reachable_nothing_lost:
  assumes "reachable api s0 s" and "\<forall>n \<in> given_capacities s0 s. n \<le> max_permits"
    and "\<forall>c \<in> set (sys_accepted s). \<not> panics api (given_capacities s0 s) c" and "sys_phase s \<noteq> Stopped"
  shows "sys_lost s = []"
proof -
  have "tasks_keep (given_capacities s0 s) False s"
    using assms(2,3) given_capacities_accepted given_capacities_start
    by (intro reachable_tasks_keep [OF assms(1)]) blast+
  with assms(4) show ?thesis by (simp add: tasks_keep_def)
qed

text \<open>
  C17: every operation is accounted for and none is completed twice, under every interleaving of
  operations, callbacks, timeouts and shutdown. At any time the operations submitted are, counted with
  their multiplicity, exactly those whose completion event has been sent (once each), those still
  running, those still queued, the one of a shutdown that is waiting for the others, and the lost
  ones, for which no completion is sent. Hence no operation handle is completed more often than it
  was submitted. Lost are only operations whose task panics and, at the end of a shutdown, those that
  are aborted or still queued behind it: as long as the runtime has not stopped nothing is lost,
  provided that the receive queue capacities it was given fit a semaphore and no accepted command
  carries data on which the crate makes it panic.
\<close>

theorem completion_ledger:
  assumes "reachable api s0 s" and "completions (st_events s0) = []"
  shows "mset (completions (sys_polled s @ st_events (sys_state s))) + mset (pending (sys_tasks s))
      + mset (map operation_handle (sys_commands s)) + mset (phase_operation (sys_phase s))
      + mset (sys_lost s) = mset (sys_submitted s)
    \<and> count (mset (completions (sys_polled s @ st_events (sys_state s)))) h
       \<le> count (mset (sys_submitted s)) h
    \<and> ((\<forall>n \<in> given_capacities s0 s. n \<le> max_permits)
       \<and> (\<forall>c \<in> set (sys_accepted s). \<not> panics api (given_capacities s0 s) c)
       \<and> sys_phase s \<noteq> Stopped \<longrightarrow> sys_lost s = [])"
proof (intro conjI impI)
  have l: "ledger s" using reachable_ledger [OF assms] by blast
  then show "mset (completions (sys_polled s @ st_events (sys_state s))) + mset (pending (sys_tasks s))
      + mset (map operation_handle (sys_commands s)) + mset (phase_operation (sys_phase s))
      + mset (sys_lost s) = mset (sys_submitted s)" by (simp add: ledger_def)
  from l show "count (mset (completions (sys_polled s @ st_events (sys_state s)))) h
       \<le> count (mset (sys_submitted s)) h"
    unfolding ledger_def by (metis (no_types, lifting) count_union le_add1 add.assoc)
qed (use reachable_nothing_lost [OF assms(1)] in blast)

definition timed_out_system :: "nat system" where
  "timed_out_system =
     (initial_system sample_state)\<lparr>sys_submitted := [7], sys_accepted := [RestartIce 7 1000 9],
       sys_state := push_event (event_operation 7 (Inl timeout_message)) sample_state\<rparr>"

lemma timed_out_reachable: "reachable open_api sample_state timed_out_system"
proof -
  let ?c = "RestartIce 7 1000 9" and ?s0 = "initial_system sample_state"
  let ?s1 = "?s0\<lparr>sys_commands := [?c], sys_submitted := [7], sys_accepted := [?c]\<rparr>"
  let ?s2 = "?s1\<lparr>sys_commands := [], sys_tasks := [dispatch open_api ?c]\<rparr>"
  have "sys_step open_api ?s0 ?s1"
    using submitted [of ?s0 open_api ?c] by (simp add: initial_system_def)
  moreover have "sys_step open_api ?s1 ?s2"
    using dispatched [of ?s1 ?c "[]" open_api] by (simp add: initial_system_def)
  moreover have "sys_step open_api ?s2 timed_out_system"
    using timed_out [of 0 ?s2 open_api]
    by (simp add: initial_system_def dispatch_def ends_alone_def restart_ice_def get_peer_def
        lock_registry_def act_def try_prog_def timed_out_system_def finish_task_def remove_nth_def)
  ultimately show ?thesis by (meson reachable.intros)
qed

theorem completion_ledger_witness:
  "reachable open_api sample_state timed_out_system
   \<and> mset (completions (sys_polled timed_out_system @ st_events (sys_state timed_out_system))) = {#7#}
   \<and> count (mset (completions (sys_polled timed_out_system @ st_events (sys_state timed_out_system)))) 7
      \<le> count (mset (sys_submitted timed_out_system)) 7
   \<and> sys_lost timed_out_system = []"
  using timed_out_reachable completion_ledger [OF timed_out_reachable, of 7]
  by (simp add: timed_out_system_def sample_state_def new_runtime_state_def initial_system_def
      phase_operation_def given_capacities_def)

subsection \<open>Mutual exclusion and progress\<close>

text \<open>
  Every task follows the lock discipline of \<open>Async_Prog\<close>, and no mutex is held by two tasks.
\<close>

definition locks_ok :: "'w running list \<Rightarrow> bool" where
  "locks_ok ts \<longleftrightarrow>
     (\<forall>t \<in> set ts. disciplined (rn_body t, rn_held t))
     \<and> (\<forall>i < length ts. rn_held (ts ! i) \<inter> others_hold ts i = {})"

lemma others_hold_iff: "m \<in> others_hold ts i \<longleftrightarrow> (\<exists>j < length ts. j \<noteq> i \<and> m \<in> rn_held (ts ! j))"
  by (auto simp: others_hold_def)

lemma locks_ok_disjoint:
  "locks_ok ts \<longleftrightarrow>
     (\<forall>t \<in> set ts. disciplined (rn_body t, rn_held t))
     \<and> (\<forall>i < length ts. \<forall>j < length ts. i \<noteq> j \<longrightarrow> rn_held (ts ! i) \<inter> rn_held (ts ! j) = {})"
  unfolding locks_ok_def by (auto simp: others_hold_iff disjoint_iff)

lemma locks_ok_append:
  "locks_ok ts \<Longrightarrow> guarded None (rn_body t) None \<Longrightarrow> rn_held t = {} \<Longrightarrow> locks_ok (ts @ [t])"
  using disciplined_start [of "rn_body t"]
  by (auto simp: locks_ok_disjoint nth_append less_Suc_eq)

lemma length_remove_nth: "i < length xs \<Longrightarrow> length (remove_nth i xs) = length xs - 1"
  by (auto simp: remove_nth_def)

lemma nth_remove_nth:
  "i < length xs \<Longrightarrow> j < length xs - 1 \<Longrightarrow> remove_nth i xs ! j = xs ! (if j < i then j else Suc j)"
  by (auto simp: remove_nth_def nth_append min_def)

lemma locks_ok_remove:
  assumes "i < length ts" and "locks_ok ts"
  shows "locks_ok (remove_nth i ts)"
  unfolding locks_ok_disjoint
proof (intro conjI ballI allI impI)
  fix t assume "t \<in> set (remove_nth i ts)"
  then show "disciplined (rn_body t, rn_held t)"
    using set_remove_nth [of i ts] assms(2) by (auto simp: locks_ok_def)
next
  fix j k assume "j < length (remove_nth i ts)" "k < length (remove_nth i ts)" "j \<noteq> k"
  moreover from this have "(if j < i then j else Suc j) \<noteq> (if k < i then k else Suc k)" by auto
  ultimately show "rn_held (remove_nth i ts ! j) \<inter> rn_held (remove_nth i ts ! k) = {}"
    using assms by (simp add: length_remove_nth nth_remove_nth locks_ok_disjoint)
qed

lemma locks_ok_stepped:
  assumes "i < length ts" and "locks_ok ts"
    and step: "task_step (others_hold ts i) ((rn_body (ts ! i), rn_held (ts ! i)), s) ((p, H), s')"
  shows "locks_ok (ts[i := (ts ! i)\<lparr>rn_body := p, rn_held := H\<rparr>])"
  unfolding locks_ok_disjoint
proof (intro conjI ballI allI impI)
  have d: "disciplined (p, H)"
    using disciplined_step [OF step] assms(1,2) by (simp add: locks_ok_def)
  fix t assume "t \<in> set (ts[i := (ts ! i)\<lparr>rn_body := p, rn_held := H\<rparr>])"
  then have "t = (ts ! i)\<lparr>rn_body := p, rn_held := H\<rparr> \<or> t \<in> set ts"
    by (auto dest: set_update_subset_insert [THEN subsetD])
  with d assms(2) show "disciplined (rn_body t, rn_held t)" by (auto simp: locks_ok_def)
next
  have "H \<inter> others_hold ts i = {}"
    using step assms(1,2) by cases (auto simp: locks_ok_def)
  then have d: "H \<inter> rn_held (ts ! j) = {}" if "j < length ts" "j \<noteq> i" for j
    using that unfolding disjoint_iff others_hold_iff by blast
  fix j k assume jk: "j < length (ts[i := (ts ! i)\<lparr>rn_body := p, rn_held := H\<rparr>])"
    "k < length (ts[i := (ts ! i)\<lparr>rn_body := p, rn_held := H\<rparr>])" "j \<noteq> k"
  have "rn_held (ts ! j) \<inter> rn_held (ts ! k) = {}"
    using jk assms(2) by (simp add: locks_ok_disjoint)
  with d [of j] d [of k] jk show "rn_held (ts[i := (ts ! i)\<lparr>rn_body := p, rn_held := H\<rparr>] ! j)
      \<inter> rn_held (ts[i := (ts ! i)\<lparr>rn_body := p, rn_held := H\<rparr>] ! k) = {}"
    by (cases "j = i"; cases "k = i") (simp_all add: Int_commute)
qed

lemma guarded_spawned:
  "guarded None (rn_body (dispatch api c)) None" "rn_held (dispatch api c) = {}"
  "guarded None (rn_body (remote_channel_task api p ch)) None" "rn_held (remote_channel_task api p ch) = {}"
  "guarded None (rn_body (shutdown_task api h)) None" "rn_held (shutdown_task api h) = {}"
  unfolding dispatch_def remote_channel_task_def shutdown_task_def on_data_channel_def
  by (auto intro!: lock_rules guarded_execute)

lemma locks_ok_operation: "operation_step s s' \<Longrightarrow> locks_ok (sys_tasks s) \<Longrightarrow> locks_ok (sys_tasks s')"
  by (induction rule: operation_step.induct) (auto intro: locks_ok_remove locks_ok_stepped)

lemma locks_ok_Nil: "locks_ok []"
  by (simp add: locks_ok_def)

lemma locks_ok_step: "sys_step api s s' \<Longrightarrow> locks_ok (sys_tasks s) \<Longrightarrow> locks_ok (sys_tasks s')"
  by (induction rule: sys_step.induct)
    (auto simp: stop_def guarded_spawned locks_ok_Nil intro: locks_ok_operation locks_ok_append locks_ok_remove)

lemma reachable_locks_ok: "reachable api s0 s \<Longrightarrow> locks_ok (sys_tasks s)"
  by (induction rule: reachable.induct) (simp_all add: initial_system_def locks_ok_Nil locks_ok_step)

text \<open>A task that can go on: it has ended, or it has a step.\<close>

definition enabled :: "'w system \<Rightarrow> nat \<Rightarrow> bool" where
  "enabled s i \<longleftrightarrow>
     (\<exists>r. rn_body (sys_tasks s ! i) = Done r) \<or> rn_body (sys_tasks s ! i) = Panic
     \<or> (\<exists>t. task_step (others_hold (sys_tasks s) i)
            ((rn_body (sys_tasks s ! i), rn_held (sys_tasks s ! i)), sys_state s) t)"

lemma holder_enabled:
  assumes "locks_ok (sys_tasks s)" and "i < length (sys_tasks s)" and "rn_held (sys_tasks s ! i) \<noteq> {}"
  shows "enabled s i"
proof (rule ccontr)
  assume "\<not> enabled s i"
  moreover have "disciplined (rn_body (sys_tasks s ! i), rn_held (sys_tasks s ! i))"
    using assms(1,2) by (simp add: locks_ok_def)
  ultimately show False
    using assms(3) unfolding enabled_def by (metis disciplined_stuck)
qed

lemma some_enabled:
  assumes "locks_ok (sys_tasks s)" and "sys_tasks s \<noteq> []"
  shows "\<exists>i < length (sys_tasks s). enabled s i"
proof (rule ccontr)
  assume none: "\<not> ?thesis"
  let ?ts = "sys_tasks s"
  have "disciplined (rn_body (?ts ! 0), rn_held (?ts ! 0))" and "\<not> enabled s 0"
    using assms none by (auto simp: locks_ok_def)
  then obtain m where "m \<in> others_hold ?ts 0"
    unfolding enabled_def by (metis disciplined_stuck)
  then obtain j where "j < length ?ts" "rn_held (?ts ! j) \<noteq> {}" by (auto simp: others_hold_iff)
  with holder_enabled [OF assms(1)] none show False by blast
qed

text \<open>The task of a serialised command changes the state of the webrtc crate only under a mutex.\<close>

definition tasks_covered :: "'w running list \<Rightarrow> bool" where
  "tasks_covered ts \<longleftrightarrow>
     (\<forall>t \<in> set ts. \<forall>c. rn_command t = Some c \<and> serialised c \<longrightarrow>
        (\<exists>h. rn_held t = held h \<and> covered st_world h (rn_body t) None))"

lemma tasks_covered_append:
  "tasks_covered ts \<Longrightarrow> tasks_covered (ts @ [dispatch api c])"
  "tasks_covered ts \<Longrightarrow> tasks_covered (ts @ [remote_channel_task api p ch])"
  "tasks_covered ts \<Longrightarrow> tasks_covered (ts @ [shutdown_task api h])"
  using covered_execute [of c api]
  by (auto simp: tasks_covered_def dispatch_def remote_channel_task_def shutdown_task_def held_def
      intro!: exI [of _ None])

lemma tasks_covered_remove: "tasks_covered ts \<Longrightarrow> tasks_covered (remove_nth i ts)"
  using set_remove_nth [of i ts] by (auto simp: tasks_covered_def)

lemma tasks_covered_operation:
  assumes "operation_step s s'" and "tasks_covered (sys_tasks s)"
  shows "tasks_covered (sys_tasks s')"
  using assms(1)
proof (cases rule: operation_step.cases)
  case (stepped i p H st)
  let ?t = "(sys_tasks s ! i)\<lparr>rn_body := p, rn_held := H\<rparr>"
  have "\<exists>h. H = held h \<and> covered st_world h p None"
    if c: "rn_command (sys_tasks s ! i) = Some c" "serialised c" for c
  proof -
    obtain h where h: "rn_held (sys_tasks s ! i) = held h"
      "covered st_world h (rn_body (sys_tasks s ! i)) None"
      using assms(2) stepped(2) c by (auto simp: tasks_covered_def)
    from covered_step [OF stepped(3) [unfolded h(1)] h(2)] show ?thesis by blast
  qed
  then show ?thesis using assms(2)
    by (auto simp: stepped(1) tasks_covered_def dest!: set_update_subset_insert [THEN subsetD])
qed (use assms(2) in \<open>simp_all add: tasks_covered_remove\<close>)

lemma tasks_covered_step:
  "sys_step api s s' \<Longrightarrow> tasks_covered (sys_tasks s) \<Longrightarrow> tasks_covered (sys_tasks s')"
proof (induction rule: sys_step.induct)
  case (operation s s')
  then show ?case by (rule tasks_covered_operation)
qed (simp_all add: stop_def tasks_covered_append tasks_covered_remove, simp_all add: tasks_covered_def)

lemma reachable_tasks_covered: "reachable api s0 s \<Longrightarrow> tasks_covered (sys_tasks s)"
  by (induction rule: reachable.induct)
    (simp_all add: initial_system_def tasks_covered_step, simp add: tasks_covered_def)

lemma serialised_step:
  assumes "reachable api s0 s" and "i < length (sys_tasks s)"
    and "rn_command (sys_tasks s ! i) = Some c" and "serialised c"
    and step: "task_step L ((rn_body (sys_tasks s ! i), rn_held (sys_tasks s ! i)), sys_state s) ((p, H), st)"
    and world: "st_world st \<noteq> st_world (sys_state s)"
  shows "\<exists>k. rn_held (sys_tasks s ! i) = {k}"
proof -
  obtain h where h: "rn_held (sys_tasks s ! i) = held h"
    "covered st_world h (rn_body (sys_tasks s ! i)) None"
    using reachable_tasks_covered [OF assms(1)] assms(2-4) by (auto simp: tasks_covered_def)
  from covered_step [OF step [unfolded h(1)] h(2)] world have "h \<noteq> None" by auto
  with h(1) show ?thesis by (auto simp: held_def)
qed

text \<open>
  C18: the operations on one peer connection are mutually exclusive, whatever timeouts, panics and closes
  have happened before. In every reachable state no two tasks hold the same mutex, and a task that
  waits for a mutex holds none. A task that executes one of the commands serialised by the
  operations mutex (all but the non-blocking sends, the queries and settings of a channel, the
  creation of a peer and the rotation of the certificate) calls the webrtc crate only while it holds
  exactly one mutex, which no other task holds. That mutex is the one of the peer the command is
  about: while another task holds it, the command waits before it has called the crate.
\<close>

theorem operations_mutual_exclusion:
  assumes "reachable api s0 s"
    and "i < length (sys_tasks s)" and "j < length (sys_tasks s)" and "i \<noteq> j"
  shows "rn_held (sys_tasks s ! i) \<inter> rn_held (sys_tasks s ! j) = {}
    \<and> (rn_body (sys_tasks s ! i) = Acquire m p \<longrightarrow> rn_held (sys_tasks s ! i) = {})
    \<and> (rn_command (sys_tasks s ! i) = Some c \<and> serialised c
       \<and> task_step (others_hold (sys_tasks s) i)
           ((rn_body (sys_tasks s ! i), rn_held (sys_tasks s ! i)), sys_state s) ((q, H), st)
       \<and> st_world st \<noteq> st_world (sys_state s) \<longrightarrow>
       (\<exists>k. rn_held (sys_tasks s ! i) = {k} \<and> k \<notin> rn_held (sys_tasks s ! j)))
    \<and> (serialised c \<and> command_peer c u = Some x \<and> map_of (st_peers u) x = Some e
       \<and> pe_operations e \<in> L \<and> \<not> st_registry_poisoned u \<longrightarrow> run (execute api c) L u = Blocked)"
proof -
  have l: "locks_ok (sys_tasks s)" using assms(1) by (rule reachable_locks_ok)
  then have "disciplined (rn_body (sys_tasks s ! i), rn_held (sys_tasks s ! i))"
    using assms(2) by (simp add: locks_ok_def)
  then have "rn_body (sys_tasks s ! i) = Acquire m p \<longrightarrow> rn_held (sys_tasks s ! i) = {}"
    by (auto simp: disciplined_def held_def)
  moreover have d: "rn_held (sys_tasks s ! i) \<inter> rn_held (sys_tasks s ! j) = {}"
    using l assms(2-4) by (simp add: locks_ok_disjoint)
  moreover have "\<exists>k. rn_held (sys_tasks s ! i) = {k} \<and> k \<notin> rn_held (sys_tasks s ! j)"
    if "rn_command (sys_tasks s ! i) = Some c" "serialised c" "task_step (others_hold (sys_tasks s) i)
           ((rn_body (sys_tasks s ! i), rn_held (sys_tasks s ! i)), sys_state s) ((q, H), st)"
      "st_world st \<noteq> st_world (sys_state s)"
    using serialised_step [OF assms(1,2) that] d by auto
  ultimately show ?thesis using execute_waits [of c u x e L api] by blast
qed

lemma two_dispatched:
  assumes "\<forall>h t. c \<noteq> Shutdown h t" and "\<forall>h t. d \<noteq> Shutdown h t"
  shows "reachable api s0 ((initial_system s0)\<lparr>sys_submitted := [operation_handle c, operation_handle d],
     sys_accepted := [c, d], sys_tasks := [dispatch api c, dispatch api d]\<rparr>)"
proof -
  let ?s0 = "initial_system s0" and ?h = "operation_handle c"
  let ?s1 = "?s0\<lparr>sys_commands := [c], sys_submitted := [?h], sys_accepted := [c]\<rparr>"
  let ?s2 = "?s0\<lparr>sys_commands := [c, d], sys_submitted := [?h, operation_handle d], sys_accepted := [c, d]\<rparr>"
  let ?s3 = "?s2\<lparr>sys_commands := [d], sys_tasks := [dispatch api c]\<rparr>"
  let ?s4 = "?s0\<lparr>sys_submitted := [?h, operation_handle d], sys_accepted := [c, d],
     sys_tasks := [dispatch api c, dispatch api d]\<rparr>"
  have "sys_step api ?s0 ?s1"
    using submitted [of ?s0 api c] by (simp add: initial_system_def)
  moreover have "sys_step api ?s1 ?s2"
    using submitted [of ?s1 api d] by (simp add: initial_system_def)
  moreover have "sys_step api ?s2 ?s3"
    using dispatched [of ?s2 c "[d]" api] assms by (simp add: initial_system_def)
  moreover have "sys_step api ?s3 ?s4"
    using dispatched [of ?s3 d "[]" api] assms by (simp add: initial_system_def)
  ultimately show ?thesis by (meson reachable.intros)
qed

text \<open>
  A restart of ICE that holds the mutex of the sample peer, and the close of the same peer.
\<close>

definition restarting :: "(nat, operation_value result) rt" where
  "restarting =
     bind_prog (bind_prog (call_or open_api ''Failed to restart ICE: '' (peer_restart_ice open_api 3))
       (\<lambda>r. Release 0 (Done r)))
     (\<lambda>r. case r of Inl e \<Rightarrow> Done (Inl e) | Inr _ \<Rightarrow> Done (Inr default_value))"

definition restarting_system :: "nat system" where
  "restarting_system =
     (initial_system sample_with_peer)\<lparr>sys_submitted := [7, 8],
       sys_accepted := [RestartIce 7 1000 1, ClosePeer 8 1000 1],
       sys_tasks := [(dispatch open_api (RestartIce 7 1000 1))\<lparr>rn_body := restarting, rn_held := {0}\<rparr>,
                     dispatch open_api (ClosePeer 8 1000 1)]\<rparr>"

definition sample_entry :: peer_entry where
  "sample_entry = \<lparr>pe_peer = 3, pe_operations = 0, pe_receive_queue_capacity = 64\<rparr>"

lemma sample_peer:
  "map_of (st_peers sample_with_peer) 1 = Some sample_entry" "\<not> st_registry_poisoned sample_with_peer"
  by (simp_all add: sample_defs sample_entry_def)

lemma restart_begins:
  "\<exists>f c. execute open_api (RestartIce 7 1000 1) = Act f c
     \<and> f sample_with_peer = sample_with_peer \<and> c sample_with_peer = Acquire 0 restarting"
  by (simp add: restart_ice_def get_peer_def lock_registry_def act_def try_prog_def with_guard_def
      restarting_def sample_peer ok_or_def) (simp add: sample_entry_def)

lemma restarting_reachable: "reachable open_api sample_with_peer restarting_system"
proof -
  let ?t = "dispatch open_api (RestartIce 7 1000 1)" and ?d = "dispatch open_api (ClosePeer 8 1000 1)"
  let ?s = "(initial_system sample_with_peer)\<lparr>sys_submitted := [7, 8],
       sys_accepted := [RestartIce 7 1000 1, ClosePeer 8 1000 1], sys_tasks := [?t, ?d]\<rparr>"
  let ?s1 = "?s\<lparr>sys_tasks := [?t\<lparr>rn_body := Acquire 0 restarting\<rparr>, ?d]\<rparr>"
  have "reachable open_api sample_with_peer ?s"
    using two_dispatched [of "RestartIce 7 1000 1" "ClosePeer 8 1000 1"] by simp
  moreover have "task_step L ((rn_body ?t, {}), sample_with_peer) ((Acquire 0 restarting, {}), sample_with_peer)"
    for L
  proof -
    obtain f c where "execute open_api (RestartIce 7 1000 1) = Act f c"
      "f sample_with_peer = sample_with_peer" "c sample_with_peer = Acquire 0 restarting"
      using restart_begins by blast
    then show ?thesis
      using act_step [of L f c "{}" sample_with_peer] by (simp add: dispatch_def del: execute.simps)
  qed
  then have "sys_step open_api ?s ?s1"
    using operation [OF stepped [of 0 ?s "Acquire 0 restarting" "{}" sample_with_peer]]
    by (simp add: initial_system_def dispatch_def del: execute.simps)
  moreover have "task_step (others_hold (sys_tasks ?s1) 0) ((Acquire 0 restarting, {}), sample_with_peer)
      ((restarting, {0}), sample_with_peer)"
  proof -
    have "0 \<notin> others_hold (sys_tasks ?s1) 0"
      by (auto simp: others_hold_iff dispatch_def less_Suc_eq)
    then show ?thesis using acquire_step [of 0 "others_hold (sys_tasks ?s1) 0" "{}"] by simp
  qed
  then have "sys_step open_api ?s1 restarting_system"
    using operation [OF stepped [of 0 ?s1 restarting "{0}" sample_with_peer]]
    by (simp add: restarting_system_def initial_system_def dispatch_def others_hold_def del: execute.simps)
  ultimately show ?thesis by (meson reachable.step)
qed

theorem operations_mutual_exclusion_witness:
  "rn_held (sys_tasks restarting_system ! 0) = {0}
   \<and> rn_held (sys_tasks restarting_system ! 0) \<inter> rn_held (sys_tasks restarting_system ! 1) = {}
   \<and> run (execute open_api (ClosePeer 8 1000 1)) {0} sample_with_peer = Blocked"
  using operations_mutual_exclusion [OF restarting_reachable, of 0 1 0 Panic "ClosePeer 8 1000 1" _ _ _
      sample_with_peer 1 sample_entry "{0}"] sample_peer
  by (simp add: restarting_system_def sample_entry_def)

definition two_tasks_system :: "nat system" where
  "two_tasks_system =
     (initial_system sample_state)\<lparr>sys_submitted := [7, 8],
       sys_accepted := [RestartIce 7 1000 9, ClosePeer 8 1000 9],
       sys_tasks := [dispatch open_api (RestartIce 7 1000 9), dispatch open_api (ClosePeer 8 1000 9)]\<rparr>"

lemma two_tasks_reachable: "reachable open_api sample_state two_tasks_system"
  using two_dispatched [of "RestartIce 7 1000 9" "ClosePeer 8 1000 9"] by (simp add: two_tasks_system_def)

text \<open>
  C19: the operations cannot deadlock. In every reachable state with running tasks at least one of them
  has ended or can make a step without waiting for another and without timing out.
\<close>

theorem operations_progress:
  assumes "reachable api s0 s" and "sys_tasks s \<noteq> []"
  shows "\<exists>i < length (sys_tasks s). enabled s i"
  using some_enabled [OF reachable_locks_ok [OF assms(1)] assms(2)] .

theorem operations_progress_witness:
  "\<exists>i < length (sys_tasks two_tasks_system). enabled two_tasks_system i"
  by (rule operations_progress [OF two_tasks_reachable]) (simp add: two_tasks_system_def)

end
