(* ===== verification/Delivery.thy ===== *)
theory Delivery
  imports Scheduler
begin

text \<open>
  The delivery of DataChannel messages (\<open>poll_data_channel\<close> of \<open>native/src/registry.rs\<close>, the event queue
  and the two consumers): permits of a channel's semaphore are neither lost nor made up, so the
  configured queue capacity bounds what is in memory, a poller that waits can always be released by
  the consumer, and messages arrive complete and in order. All of this holds in every reachable state
  of the step relation of \<open>Scheduler\<close>.
\<close>

subsection \<open>Counting permits\<close>

definition queued_permits :: "native_event list \<Rightarrow> nat \<Rightarrow> nat" where
  "queued_permits es k = length (filter (\<lambda>e. ev_delivery_permit e = Some k) es)"

definition lent_permits :: "native_buffer_entry list \<Rightarrow> nat \<Rightarrow> nat" where
  "lent_permits bs k = length (filter (\<lambda>b. buf_delivery_permit b = Some k) bs)"

lemma queued_permits_simps [simp]:
  "queued_permits [] k = 0" "queued_permits (xs @ ys) k = queued_permits xs k + queued_permits ys k"
  "queued_permits (e # es) k = (if ev_delivery_permit e = Some k then 1 else 0) + queued_permits es k"
  by (simp_all add: queued_permits_def)

lemma lent_permits_simps [simp]:
  "lent_permits [] k = 0" "lent_permits (xs @ ys) k = lent_permits xs k + lent_permits ys k"
  "lent_permits (b # bs) k = (if buf_delivery_permit b = Some k then 1 else 0) + lent_permits bs k"
  by (simp_all add: lent_permits_def)

lemma queued_permits_none: "\<forall>e \<in> set es. ev_delivery_permit e = None \<Longrightarrow> queued_permits es k = 0"
  by (simp add: queued_permits_def)

lemma lent_permits_remove:
  "i < length bs \<Longrightarrow>
     lent_permits bs k = (if buf_delivery_permit (bs ! i) = Some k then 1 else 0) + lent_permits (remove_nth i bs) k"
  by (subst (1) id_take_nth_drop [of i bs]) (simp_all add: remove_nth_def)

lemma poll_event_permit:
  "ev_delivery_permit (poll_event po e) = (if is_message e then Some (po_semaphore po) else None)"
  by (cases e) (simp_all add: poll_event_def Let_def)

lemma no_permits [simp]:
  "callback_event e \<Longrightarrow> ev_delivery_permit e = None"
  by (simp add: callback_event_def)

text \<open>
  Every permit that is taken is held by an event in the queue or by a buffer of the JVM, each poller
  has a semaphore of its own, and no more permits are taken than it was created with.
\<close>

definition permits_ok :: "'w system \<Rightarrow> bool" where
  "permits_ok s \<longleftrightarrow>
     (\<forall>k. sys_taken s k = queued_permits (st_events (sys_state s)) k + lent_permits (sys_lent s) k)"

definition pollers_ok :: "'w system \<Rightarrow> bool" where
  "pollers_ok s \<longleftrightarrow>
     distinct (map po_semaphore (st_spawned (sys_state s)))
     \<and> (\<forall>po \<in> set (st_spawned (sys_state s)). po_semaphore po < st_next_semaphore (sys_state s)
          \<and> sys_taken s (po_semaphore po) \<le> unat (po_capacity po))
     \<and> (\<forall>k e. sys_pollers s k = Waiting e \<longrightarrow> is_message e)
     \<and> (\<forall>k \<ge> st_next_semaphore (sys_state s). sys_taken s k = 0 \<and> sys_pollers s k = Polling)"

lemma finish_task_traffic [simp]:
  "st_spawned (finish_task t r s) = st_spawned s"
  "st_next_semaphore (finish_task t r s) = st_next_semaphore s"
  "queued_permits (st_events (finish_task t r s)) k = queued_permits (st_events s) k"
  by (auto simp: finish_task_def push_event_def split: option.split)

lemma push_event_traffic [simp]:
  "st_spawned (push_event e s) = st_spawned s"
  "st_next_semaphore (push_event e s) = st_next_semaphore s"
  "st_events (push_event e s) = st_events s @ [e]"
  by (simp_all add: push_event_def)

lemma stepped_quiet:
  assumes "task_step L ((rn_body (sys_tasks s ! i), H), sys_state s) ((p, H'), st)"
    and "tasks_quiet s" and "i < length (sys_tasks s)"
  shows "quiet (sys_state s) st"
proof -
  have "quiet (sys_state s) (sys_state s)" by (rule same_traffic_quiet) (simp add: same_traffic_def)
  with guarantees_step [OF assms(1), of quiet] assms(2,3) show ?thesis by (auto simp: tasks_quiet_def)
qed

lemma permits_ok_operation:
  assumes "operation_step s s'" and "permits_ok s" and "tasks_quiet s"
  shows "permits_ok s'"
  using assms(1)
proof (cases rule: operation_step.cases)
  case (stepped i p H st)
  have "quiet (sys_state s) st"
    by (rule stepped_quiet [OF stepped(3) assms(3) stepped(2)])
  then obtain es where "st_events st = st_events (sys_state s) @ es" "\<forall>e \<in> set es. ev_delivery_permit e = None"
    by (auto simp: quiet_def)
  with assms(2) stepped(1) show ?thesis by (simp add: permits_ok_def queued_permits_none)
qed (use assms(2) in \<open>simp_all add: permits_ok_def\<close>)

lemma permits_ok_step:
  assumes "sys_step api s s'" and "permits_ok s" and "tasks_quiet s" and "pollers_ok s"
  shows "permits_ok s'"
  using assms(1)
proof cases
  case operation
  then show ?thesis by (rule permits_ok_operation) (fact assms(2,3))+
next
  case (delivered po e)
  then have "is_message e" using assms(4) by (auto simp: pollers_ok_def)
  with delivered assms(2) show ?thesis by (simp add: permits_ok_def poll_event_permit)
next
  case (polled e es)
  with assms(2) show ?thesis
    by (auto simp: permits_ok_def drop_permit_def split: option.split)
next
  case (lent e es k)
  with assms(2) show ?thesis by (auto simp: permits_ok_def)
next
  case (buffer_released i)
  with assms(2) lent_permits_remove [OF buffer_released(2)] show ?thesis
    by (auto simp: permits_ok_def drop_permit_def split: option.split)
next
  case poller_ended
  with assms(2) show ?thesis by (simp add: permits_ok_def poller_end_def)
qed (use assms(2) in \<open>auto simp: permits_ok_def poll_event_permit stop_def\<close>)


lemma pollers_ok_quiet:
  assumes "quiet (sys_state s) st" and "pollers_ok s"
  shows "pollers_ok (s\<lparr>sys_state := st, sys_tasks := ts\<rparr>)"
proof -
  let ?k = "st_next_semaphore (sys_state s)"
  consider "st_spawned st = st_spawned (sys_state s)" "st_next_semaphore st = ?k"
    | po where "st_spawned st = st_spawned (sys_state s) @ [po]" "po_semaphore po = ?k"
        "st_next_semaphore st = Suc ?k"
    using assms(1) by (auto simp: quiet_def)
  then show ?thesis
  proof cases
    case 1
    with assms(2) show ?thesis by (simp add: pollers_ok_def)
  next
    case 2
    have "?k \<notin> po_semaphore ` set (st_spawned (sys_state s))"
      using assms(2) by (auto simp: pollers_ok_def)
    with 2 assms(2) show ?thesis by (auto simp: pollers_ok_def less_Suc_eq)
  qed
qed

lemma pollers_ok_operation:
  assumes "operation_step s s'" and "pollers_ok s" and "tasks_quiet s"
  shows "pollers_ok s'"
  using assms(1)
proof (cases rule: operation_step.cases)
  case (stepped i p H st)
  have "quiet (sys_state s) st" by (rule stepped_quiet [OF stepped(3) assms(3) stepped(2)])
  from pollers_ok_quiet [OF this assms(2)] show ?thesis by (simp add: stepped(1))
qed (use assms(2) in \<open>simp_all add: pollers_ok_def\<close>)

lemma drop_permit_le: "drop_permit p t k \<le> t k"
  by (simp add: drop_permit_def split: option.split)

lemma same_semaphore:
  assumes "pollers_ok s" and "po \<in> set (st_spawned (sys_state s))" and "po' \<in> set (st_spawned (sys_state s))"
    and "po_semaphore po = po_semaphore po'"
  shows "po = po'"
  using assms by (auto simp: pollers_ok_def distinct_map dest: inj_onD)

lemma pollers_ok_taken:
  assumes "pollers_ok s" and "\<And>k. sys_taken s' k \<le> sys_taken s k"
    and "st_spawned (sys_state s') = st_spawned (sys_state s)" and "sys_pollers s' = sys_pollers s"
    and "st_next_semaphore (sys_state s') = st_next_semaphore (sys_state s)"
  shows "pollers_ok s'"
proof -
  have "sys_taken s k \<le> n \<Longrightarrow> sys_taken s' k \<le> n" for k n using assms(2) [of k] by simp
  moreover have "sys_taken s k = 0 \<Longrightarrow> sys_taken s' k = 0" for k using assms(2) [of k] by simp
  ultimately show ?thesis using assms(1) unfolding pollers_ok_def assms(3-5) by blast
qed

lemma pollers_ok_step:
  assumes "sys_step api s s'" and "pollers_ok s" and "tasks_quiet s"
  shows "pollers_ok s'"
  using assms(1)
proof cases
  case operation
  then show ?thesis by (rule pollers_ok_operation) (fact assms(2,3))+
next
  case (yielded po e)
  with assms(2) show ?thesis by (auto simp: pollers_ok_def after_event_def)
next
  case (received po e)
  with assms(2) show ?thesis by (auto simp: pollers_ok_def)
next
  case (delivered po e)
  have "po' \<in> set (st_spawned (sys_state s)) \<Longrightarrow> po_semaphore po' = po_semaphore po \<Longrightarrow>
      Suc (sys_taken s (po_semaphore po)) \<le> unat (po_capacity po')" for po'
    using same_semaphore [OF assms(2) _ delivered(3)] delivered(5) by (metis Suc_leI)
  with delivered assms(2) show ?thesis by (auto simp: pollers_ok_def)
next
  case (polled e es)
  show ?thesis by (rule pollers_ok_taken [OF assms(2)]) (simp_all add: polled drop_permit_le)
next
  case (buffer_released i)
  show ?thesis by (rule pollers_ok_taken [OF assms(2)]) (simp_all add: buffer_released drop_permit_le)
next
  case (poller_ended po)
  with assms(2) show ?thesis
    by (auto simp: pollers_ok_def poller_end_def distinct_map inj_on_def dest: notin_set_remove1)
qed (use assms(2) in \<open>auto simp: pollers_ok_def stop_def\<close>)


text \<open>The state in which a runtime starts: no pollers and no permits in the queue.\<close>

definition no_traffic :: "'w runtime_state \<Rightarrow> bool" where
  "no_traffic s \<longleftrightarrow> st_spawned s = [] \<and> (\<forall>e \<in> set (st_events s). ev_delivery_permit e = None)"

lemma no_traffic_new: "no_traffic (new_runtime_state [] c p m w)"
  by (simp add: no_traffic_def new_runtime_state_def)

lemma reachable_tasks_quiet: "reachable api s0 s \<Longrightarrow> tasks_quiet s"
proof (induction rule: reachable.induct)
  case start
  then show ?case by (simp add: tasks_quiet_def initial_system_def)
next
  case (step s s')
  then show ?case by (blast intro: tasks_quiet_step)
qed

lemma reachable_permits:
  assumes "reachable api s0 s" and "no_traffic s0"
  shows "permits_ok s \<and> pollers_ok s"
  using assms
proof (induction rule: reachable.induct)
  case start
  then show ?case
    by (simp add: permits_ok_def pollers_ok_def initial_system_def no_traffic_def queued_permits_none)
next
  case (step s s')
  then have "tasks_quiet s" by (blast intro: reachable_tasks_quiet)
  with step show ?case by (blast intro: permits_ok_step pollers_ok_step)
qed

lemma register_channel_spawns:
  assumes "run (register_channel api p c emit) L u = Returned (Inr h) L' u'"
  shows "\<exists>e. map_of (st_peers u) p = Some e \<and> st_spawned u' = st_spawned u
     @ [\<lparr>po_peer_handle = p, po_channel_handle = h, po_channel = c,
         po_capacity = pe_receive_queue_capacity e, po_semaphore = st_next_semaphore u\<rparr>]"
  using assms
  by (auto simp: run_register_channel channel_inserted_def case_prod_unfold Let_def spawn_poller_def
      split: if_split_asm option.split_asm)

lemma in_configured_capacity:
  "n \<in> configured_capacity c \<longleftrightarrow> (\<exists>h t cfg. c = CreatePeer h t cfg \<and> n = receive_queue_capacity (cfg_sctp cfg))"
  by (cases c) auto

lemma poller_capacity_given:
  assumes "reachable api s0 s" and "po \<in> set (st_spawned (sys_state s))"
  shows "po_capacity po \<in> given_capacities s0 s"
proof -
  have "tasks_keep (given_capacities s0 s) True s"
    using given_capacities_accepted given_capacities_start
    by (intro reachable_tasks_keep [OF assms(1)]) blast+
  with assms(2) show ?thesis by (auto simp: tasks_keep_def capacities_in_def)
qed

text \<open>
  C25: the receive queue of a channel is bounded by its configuration. In every reachable state the
  permits of a channel that are taken are exactly those of its messages in the event queue plus those
  of its messages in buffers that the JVM has not closed yet, and together they never exceed the
  capacity of the channel, whatever the remote peer sends and however slow the consumer is. That
  capacity is one that the runtime was given with a peer configuration: registering a channel gives
  it the one of its peer. What a consumer of the C interface keeps of the bytes it was handed is its
  own and not counted.
\<close>

theorem receive_queue_bounded:
  assumes "reachable api s0 s" and "no_traffic s0" and "po \<in> set (st_spawned (sys_state s))"
  shows "queued_permits (st_events (sys_state s)) (po_semaphore po)
      + lent_permits (sys_lent s) (po_semaphore po) = sys_taken s (po_semaphore po)
    \<and> sys_taken s (po_semaphore po) \<le> unat (po_capacity po)
    \<and> po_capacity po \<in> (pe_receive_queue_capacity \<circ> snd) ` set (st_peers s0)
        \<union> {receive_queue_capacity (cfg_sctp cfg) | cfg. \<exists>h t. CreatePeer h t cfg \<in> set (sys_accepted s)}
    \<and> (run (register_channel api p c emit) L u = Returned (Inr h) L' u' \<longrightarrow>
       (\<exists>e. map_of (st_peers u) p = Some e \<and> st_spawned u' = st_spawned u
          @ [\<lparr>po_peer_handle = p, po_channel_handle = h, po_channel = c,
              po_capacity = pe_receive_queue_capacity e, po_semaphore = st_next_semaphore u\<rparr>]))"
proof (intro conjI impI)
  show "po_capacity po \<in> (pe_receive_queue_capacity \<circ> snd) ` set (st_peers s0)
      \<union> {receive_queue_capacity (cfg_sctp cfg) | cfg. \<exists>h t. CreatePeer h t cfg \<in> set (sys_accepted s)}"
    using poller_capacity_given [OF assms(1,3)] assms(2)
    by (auto simp: given_capacities_def no_traffic_def in_configured_capacity)
qed (use reachable_permits [OF assms(1,2)] assms(3) register_channel_spawns in
      \<open>auto simp: permits_ok_def pollers_ok_def\<close>)

text \<open>
  The consumer at work on its own: it takes the next event, keeping its permit with a buffer or not,
  and closes a buffer. These are the steps \<open>polled\<close>, \<open>lent\<close> and \<open>buffer_released\<close> of the runtime.
\<close>

inductive consumer_step :: "'w system \<Rightarrow> 'w system \<Rightarrow> bool" where
  takes: "st_events (sys_state s) = e # es \<Longrightarrow>
    consumer_step s (s\<lparr>sys_state := (sys_state s)\<lparr>st_events := es\<rparr>, sys_polled := sys_polled s @ [e],
                      sys_taken := drop_permit (ev_delivery_permit e) (sys_taken s)\<rparr>)"
| borrows: "st_events (sys_state s) = e # es \<Longrightarrow> ev_delivery_permit e = Some k \<Longrightarrow>
    consumer_step s (s\<lparr>sys_state := (sys_state s)\<lparr>st_events := es\<rparr>, sys_polled := sys_polled s @ [e],
                      sys_lent := sys_lent s @ [\<lparr>buf_data = (case ev_data e of None \<Rightarrow> [] | Some d \<Rightarrow> d),
                                                 buf_delivery_permit = Some k\<rparr>]\<rparr>)"
| gives_back: "i < length (sys_lent s) \<Longrightarrow>
    consumer_step s (s\<lparr>sys_lent := remove_nth i (sys_lent s),
                      sys_taken := drop_permit (buf_delivery_permit (sys_lent s ! i)) (sys_taken s)\<rparr>)"

lemma consumer_step_sys_step: "consumer_step s s' \<Longrightarrow> sys_step api s s'"
  by (induction rule: consumer_step.induct) (simp_all add: polled lent buffer_released)

lemma consumer_frame:
  "consumer_step\<^sup>*\<^sup>* s s' \<Longrightarrow>
     sys_polled s' @ st_events (sys_state s') = sys_polled s @ st_events (sys_state s)
     \<and> sys_pollers s' = sys_pollers s \<and> sys_phase s' = sys_phase s
     \<and> st_spawned (sys_state s') = st_spawned (sys_state s)"
  by (induction rule: rtranclp_induct) (auto elim!: consumer_step.cases)

lemma reachable_consumer: "consumer_step\<^sup>*\<^sup>* s s' \<Longrightarrow> reachable api s0 s \<Longrightarrow> reachable api s0 s'"
  by (induction rule: rtranclp_induct) (auto intro: reachable.step consumer_step_sys_step)

lemma take_events:
  "\<exists>s'. consumer_step\<^sup>*\<^sup>* s s' \<and> st_events (sys_state s') = []"
proof (induction "st_events (sys_state s)" arbitrary: s)
  case (Cons e es)
  let ?s = "s\<lparr>sys_state := (sys_state s)\<lparr>st_events := es\<rparr>, sys_polled := sys_polled s @ [e],
    sys_taken := drop_permit (ev_delivery_permit e) (sys_taken s)\<rparr>"
  have "consumer_step s ?s" by (rule takes) (simp add: Cons(2) [symmetric])
  with Cons(1) [of ?s] show ?case by (auto intro: converse_rtranclp_into_rtranclp)
qed auto

lemma close_messages:
  "\<exists>s'. consumer_step\<^sup>*\<^sup>* s s' \<and> sys_lent s' = [] \<and> sys_state s' = sys_state s"
proof (induction "sys_lent s" arbitrary: s)
  case (Cons b bs)
  let ?s = "s\<lparr>sys_lent := remove_nth 0 (sys_lent s),
    sys_taken := drop_permit (buf_delivery_permit (sys_lent s ! 0)) (sys_taken s)\<rparr>"
  have "consumer_step s ?s" by (rule gives_back) (simp add: Cons(2) [symmetric])
  moreover have "bs = sys_lent ?s" by (simp add: Cons(2) [symmetric] remove_nth_def)
  ultimately show ?case using Cons(1) [of ?s] by (auto intro: converse_rtranclp_into_rtranclp)
qed auto

text \<open>
  C26: a poller never waits in vain. While the runtime is not stopped, when the poller of a channel with
  a positive capacity waits for a permit, the consumer can release it by its own steps alone, without
  a step of any task, any poller or the webrtc crate: it can take the events that are in the queue
  and close the messages it holds, and whichever way it has done so, having taken exactly the events
  that were queued, the next step can be the delivery of the waiting message, after which the
  poller receives again.
\<close>

theorem waiting_poller_released:
  assumes "reachable api s0 s" and "no_traffic s0" and "sys_phase s \<noteq> Stopped"
    and "po \<in> set (st_spawned (sys_state s))" and "sys_pollers s (po_semaphore po) = Waiting m"
    and "0 < po_capacity po"
  shows "(\<exists>s'. consumer_step\<^sup>*\<^sup>* s s' \<and> st_events (sys_state s') = [] \<and> sys_lent s' = [])
    \<and> (\<forall>s'. consumer_step\<^sup>*\<^sup>* s s' \<and> st_events (sys_state s') = [] \<and> sys_lent s' = [] \<longrightarrow>
         sys_polled s' = sys_polled s @ st_events (sys_state s)
         \<and> (\<exists>s''. sys_step api s' s'' \<and> st_events (sys_state s'') = [poll_event po m]
              \<and> sys_pollers s'' = (sys_pollers s)(po_semaphore po := Polling)))"
proof (intro conjI allI impI)
  show "\<exists>s'. consumer_step\<^sup>*\<^sup>* s s' \<and> st_events (sys_state s') = [] \<and> sys_lent s' = []"
    using take_events close_messages by (metis rtranclp_trans)
next
  fix s' assume s': "consumer_step\<^sup>*\<^sup>* s s' \<and> st_events (sys_state s') = [] \<and> sys_lent s' = []"
  then have f: "sys_polled s' = sys_polled s @ st_events (sys_state s)" "sys_pollers s' = sys_pollers s"
    "sys_phase s' = sys_phase s" "st_spawned (sys_state s') = st_spawned (sys_state s)"
    using consumer_frame [of s s'] by auto
  then show "sys_polled s' = sys_polled s @ st_events (sys_state s)" by simp
  from reachable_permits [OF reachable_consumer [of s s'] assms(2)] s' assms(1)
  have "sys_taken s' (po_semaphore po) = 0" by (simp add: permits_ok_def)
  moreover have "0 < unat (po_capacity po)" using assms(6) by (simp add: word_less_nat_alt)
  ultimately have "sys_step api s' (s'\<lparr>sys_state := push_event (poll_event po m) (sys_state s'),
      sys_pollers := (sys_pollers s')(po_semaphore po := Polling),
      sys_taken := (sys_taken s')(po_semaphore po := sys_taken s' (po_semaphore po) + 1)\<rparr>)"
    using assms(3-5) f by (intro delivered) simp_all
  then show "\<exists>s''. sys_step api s' s'' \<and> st_events (sys_state s'') = [poll_event po m]
      \<and> sys_pollers s'' = (sys_pollers s)(po_semaphore po := Polling)"
    by (intro exI conjI) (assumption | simp add: s' f)+
qed

subsection \<open>Order\<close>

text \<open>The messages a channel has yielded with its poller, and the events sent for them so far.\<close>

definition received_messages :: "'w system \<Rightarrow> nat \<Rightarrow> (poller \<times> channel_event) list" where
  "received_messages s k = filter (\<lambda>(po, _). po_semaphore po = k) (sys_received s)"

definition sent_messages :: "'w system \<Rightarrow> nat \<Rightarrow> native_event list" where
  "sent_messages s k =
     filter (\<lambda>e. ev_delivery_permit e = Some k) (sys_polled s @ st_events (sys_state s))"

definition in_order_at :: "'w system \<Rightarrow> nat \<Rightarrow> bool" where
  "in_order_at s k \<longleftrightarrow>
     (case sys_pollers s k of
        Waiting e \<Rightarrow>
          (\<exists>po \<in> set (st_spawned (sys_state s)). \<exists>xs. received_messages s k = xs @ [(po, e)]
             \<and> sent_messages s k = map (\<lambda>(po, e). poll_event po e) xs)
      | _ \<Rightarrow> sent_messages s k = map (\<lambda>(po, e). poll_event po e) (received_messages s k))
     \<and> (\<forall>(po, e) \<in> set (received_messages s k). is_message e)"

lemma in_order_frame:
  assumes "in_order_at s k" and "set (st_spawned (sys_state s)) \<subseteq> set (st_spawned (sys_state s'))"
    and "received_messages s' k = received_messages s k" and "sys_pollers s' k = sys_pollers s k"
    and "sent_messages s' k = sent_messages s k"
  shows "in_order_at s' k"
  using assms(1,2) unfolding in_order_at_def assms(3-5) by (cases "sys_pollers s k") auto

lemma sent_messages_append:
  "sys_polled s' = sys_polled s \<Longrightarrow> st_events (sys_state s') = st_events (sys_state s) @ es \<Longrightarrow>
     sent_messages s' k = sent_messages s k @ filter (\<lambda>e. ev_delivery_permit e = Some k) es"
  by (simp add: sent_messages_def)

lemma in_order_operation:
  assumes "operation_step s s'" and "in_order_at s k" and "tasks_quiet s"
  shows "in_order_at s' k"
  using assms(1)
proof (cases rule: operation_step.cases)
  case (stepped i p H st)
  have q: "quiet (sys_state s) st" by (rule stepped_quiet [OF stepped(3) assms(3) stepped(2)])
  then obtain es where "st_events st = st_events (sys_state s) @ es" "\<forall>e \<in> set es. ev_delivery_permit e = None"
    by (auto simp: quiet_def)
  then have "sent_messages s' k = sent_messages s k"
    using sent_messages_append [of s' s es k] by (simp add: stepped(1) filter_empty_conv)
  moreover have "set (st_spawned (sys_state s)) \<subseteq> set (st_spawned st)" using q by (auto simp: quiet_def)
  ultimately show ?thesis
    by (intro in_order_frame [OF assms(2)]) (simp_all add: stepped(1) received_messages_def)
next
  case (completed i r)
  show ?thesis
    by (rule in_order_frame [OF assms(2)])
      (simp_all add: completed(1) sent_messages_def received_messages_def finish_task_def split: option.split)
next
  case (panicked i)
  show ?thesis
    by (rule in_order_frame [OF assms(2)])
      (simp_all add: panicked(1) sent_messages_def received_messages_def)
qed

lemma in_order_step:
  assumes "sys_step api s s'" and "in_order_at s k" and "tasks_quiet s" and "pollers_ok s"
  shows "in_order_at s' k"
  using assms(1)
proof cases
  case operation
  then show ?thesis by (rule in_order_operation) (fact assms(2,3))+
next
  case (timed_out i)
  show ?thesis
    by (rule in_order_frame [OF assms(2)])
      (simp_all add: timed_out(1) sent_messages_def received_messages_def finish_task_def split: option.split)
next
  case (yielded po e)
  then have m: "sent_messages s' k = sent_messages s k" "received_messages s' k = received_messages s k"
    by (simp_all add: sent_messages_def received_messages_def poll_event_permit)
  show ?thesis
  proof (cases "k = po_semaphore po")
    case True
    then have "sys_pollers s' k = after_event e" using yielded(1) by simp
    with True yielded(4) assms(2) show ?thesis unfolding in_order_at_def m by (simp add: after_event_def)
  next
    case False
    with yielded(1) m show ?thesis by (intro in_order_frame [OF assms(2)]) simp_all
  qed
next
  case (received po e)
  then have m: "sent_messages s' k = sent_messages s k" "received_messages s' k = received_messages s k
      @ (if k = po_semaphore po then [(po, e)] else [])"
    by (simp_all add: received_messages_def sent_messages_def)
  show ?thesis
  proof (cases "k = po_semaphore po")
    case True
    with received assms(2) m show ?thesis by (auto simp: in_order_at_def)
  next
    case False
    with received(1) m show ?thesis by (intro in_order_frame [OF assms(2)]) simp_all
  qed
next
  case (delivered po e)
  then have "is_message e" using assms(4) by (auto simp: pollers_ok_def)
  then have m: "sent_messages s' k = sent_messages s k
      @ (if k = po_semaphore po then [poll_event po e] else [])"
    "received_messages s' k = received_messages s k"
    using delivered by (simp_all add: received_messages_def sent_messages_def poll_event_permit)
  show ?thesis
  proof (cases "k = po_semaphore po")
    case True
    with assms(2) delivered(4) obtain po' xs where r: "po' \<in> set (st_spawned (sys_state s))"
      "received_messages s k = xs @ [(po', e)]" "sent_messages s k = map (\<lambda>(po, e). poll_event po e) xs"
      by (auto simp: in_order_at_def)
    have "(po', e) \<in> set (received_messages s k)" using r(2) by simp
    then have "po_semaphore po' = po_semaphore po" by (simp add: received_messages_def True)
    with same_semaphore [OF assms(4) r(1) delivered(3)] have "po' = po" .
    with r True m delivered(1) assms(2) show ?thesis by (simp add: in_order_at_def)
  next
    case False
    with delivered(1) m show ?thesis by (intro in_order_frame [OF assms(2)]) simp_all
  qed
next
  case (exhausted po)
  then have m: "sent_messages s' k = sent_messages s k" "received_messages s' k = received_messages s k"
    by (simp_all add: sent_messages_def received_messages_def)
  show ?thesis
  proof (cases "k = po_semaphore po")
    case True
    with exhausted assms(2) m show ?thesis by (simp add: in_order_at_def)
  next
    case False
    with exhausted(1) m show ?thesis by (intro in_order_frame [OF assms(2)]) simp_all
  qed
next
  case (poller_ended po)
  have m: "sent_messages s' k = sent_messages s k" "received_messages s' k = received_messages s k"
    "sys_pollers s' = sys_pollers s" and st: "st_spawned (sys_state s') = remove1 po (st_spawned (sys_state s))"
    using poller_ended by (simp_all add: sent_messages_def received_messages_def poller_end_def)
  have "po' \<in> set (remove1 po (st_spawned (sys_state s)))" if "po' \<in> set (st_spawned (sys_state s))"
    "received_messages s k = xs @ [(po', e)]" "sys_pollers s k = Waiting e" for po' xs e
  proof -
    have "(po', e) \<in> set (received_messages s k)" using that(2) by simp
    then have "po_semaphore po' = k" by (simp add: received_messages_def)
    with that(3) poller_ended(3) have "po' \<noteq> po" by auto
    with that(1) show ?thesis by (simp add: in_set_remove1)
  qed
  with assms(2) show ?thesis unfolding in_order_at_def m st by (cases "sys_pollers s k") auto
qed (rule in_order_frame [OF assms(2)]; simp add: sent_messages_def received_messages_def stop_def)+

lemma reachable_in_order:
  assumes "reachable api s0 s" and "no_traffic s0"
  shows "in_order_at s k"
  using assms
proof (induction rule: reachable.induct)
  case start
  then show ?case
    by (simp add: in_order_at_def initial_system_def no_traffic_def received_messages_def sent_messages_def
        filter_empty_conv)
next
  case (step s s')
  with reachable_tasks_quiet [OF step(1)] reachable_permits [OF step(1)] show ?case
    by (blast intro: in_order_step)
qed

text \<open>
  What an event delivers of a message: the handles of its channel, the text or the data, and nothing
  else. A text that is not valid UTF-8 is repaired by the lossy decoder; a valid one is unchanged.
\<close>

definition carries :: "poller \<times> channel_event \<Rightarrow> native_event \<Rightarrow> bool" where
  "carries m ev \<longleftrightarrow>
     ev_peer_handle ev = po_peer_handle (fst m) \<and> ev_channel_handle ev = po_channel_handle (fst m)
     \<and> (case snd m of
          OnMessage True d \<Rightarrow> ev_kind ev = DATA_CHANNEL_TEXT \<and> ev_data ev = None
            \<and> ev_text ev = Some (from_utf8_lossy d)
            \<and> (utf8_valid d \<longrightarrow> map_option into_bytes (ev_text ev) = Some d)
        | OnMessage False d \<Rightarrow> ev_kind ev = DATA_CHANNEL_BINARY \<and> ev_text ev = None
            \<and> ev_data ev = Some d
        | _ \<Rightarrow> False)"

lemma poll_event_carries: "is_message e \<Longrightarrow> carries (po, e) (poll_event po e)"
  by (cases e) (auto simp: carries_def poll_event_def event_channel_def from_utf8_lossy_def
      utf8_lossy_valid Let_def split: bool.split)

lemma poll_events_carry:
  "\<forall>(po, e) \<in> set xs. is_message e \<Longrightarrow> list_all2 carries xs (map (\<lambda>(po, e). poll_event po e) xs)"
  by (induction xs) (auto simp: poll_event_carries)

text \<open>
  C27: messages are delivered exactly once, with their content and in order. For every channel, whether
  its poller still runs or has ended, the events with a permit of its semaphore that the consumer has
  taken, followed by those in the event queue, correspond one to one and in order to the messages its
  connection has yielded, except the last one while its poller waits for a permit with it. Each
  of these events has the handles of its channel and carries exactly its message: the data of a
  binary message, the text of a text message, unchanged when it is valid UTF-8 and with the
  replacements of the lossy decoder otherwise. None is dropped, repeated, reordered or mixed up with
  those of another channel, under every interleaving with the other channels, the operations and
  the consumer.
\<close>

theorem messages_in_order:
  fixes s :: "'w system" and k :: nat
  defines "received \<equiv> filter (\<lambda>(po, _). po_semaphore po = k) (sys_received s)"
    and "sent \<equiv> filter (\<lambda>e. ev_delivery_permit e = Some k) (sys_polled s @ st_events (sys_state s))"
  assumes "reachable api s0 s" and "no_traffic s0"
  shows "case sys_pollers s k of
      Waiting e \<Rightarrow> received \<noteq> [] \<and> snd (last received) = e \<and> list_all2 carries (butlast received) sent
    | _ \<Rightarrow> list_all2 carries received sent"
proof -
  have "in_order_at s k" using assms(3,4) by (rule reachable_in_order)
  then show ?thesis
    unfolding received_def sent_def
    unfolding in_order_at_def received_messages_def [symmetric] sent_messages_def [symmetric]
    by (cases "sys_pollers s k") (auto simp: poll_events_carry)
qed

subsection \<open>Example\<close>

text \<open>A task that is alone makes the steps of its sequential run.\<close>

lemma steps_alone:
  assumes "(task_step {})\<^sup>*\<^sup>* ((rn_body t, rn_held t), sys_state s) ((p, H), st)" and "sys_tasks s = [t]"
  shows "operation_step\<^sup>*\<^sup>* s (s\<lparr>sys_state := st, sys_tasks := [t\<lparr>rn_body := p, rn_held := H\<rparr>]\<rparr>)"
  using assms
proof (induction "((rn_body t, rn_held t), sys_state s)" arbitrary: s t rule: converse_rtranclp_induct)
  case base
  then have "s\<lparr>sys_state := st, sys_tasks := [t\<lparr>rn_body := p, rn_held := H\<rparr>]\<rparr> = s" by (cases s) simp
  then show ?case by simp
next
  case (step y)
  obtain q G s1 where y: "y = ((q, G), s1)" by (metis prod.exhaust)
  let ?t = "t\<lparr>rn_body := q, rn_held := G\<rparr>"
  have "operation_step s (s\<lparr>sys_state := s1, sys_tasks := [?t]\<rparr>)"
    using stepped [of 0 s q G s1] step(1,4) by (simp add: y others_hold_def)
  moreover have "operation_step\<^sup>*\<^sup>* (s\<lparr>sys_state := s1, sys_tasks := [?t]\<rparr>)
      (s\<lparr>sys_state := st, sys_tasks := [t\<lparr>rn_body := p, rn_held := H\<rparr>]\<rparr>)"
    using step(3) [of ?t "s\<lparr>sys_state := s1, sys_tasks := [?t]\<rparr>"] by (simp add: y)
  ultimately show ?case by (rule converse_rtranclp_into_rtranclp)
qed

lemma run_alone:
  assumes "sys_tasks s = [t]" and "rn_held t = {}" and "sys_phase s = Serving"
    and "run (rn_body t) {} (sys_state s) = Returned r H st"
  shows "operation_step\<^sup>*\<^sup>* s (s\<lparr>sys_state := finish_task t r st, sys_tasks := []\<rparr>)"
proof -
  let ?t = "t\<lparr>rn_body := Done r, rn_held := H\<rparr>"
  have "operation_step\<^sup>*\<^sup>* s (s\<lparr>sys_state := st, sys_tasks := [?t]\<rparr>)"
    using run_small_steps [OF assms(4)] assms(1,2) by (intro steps_alone) simp_all
  moreover have "operation_step (s\<lparr>sys_state := st, sys_tasks := [?t]\<rparr>)
      (s\<lparr>sys_state := finish_task t r st, sys_tasks := []\<rparr>)"
    using completed [of 0 "s\<lparr>sys_state := st, sys_tasks := [?t]\<rparr>" r] assms(3)
    by (simp add: ends_alone_def remove_nth_def finish_task_def cong: option.case_cong)
  ultimately show ?thesis by simp
qed

lemma reachable_operations: "operation_step\<^sup>*\<^sup>* s s' \<Longrightarrow> reachable api s0 s \<Longrightarrow> reachable api s0 s'"
  by (induction rule: rtranclp_induct) (auto intro: reachable.step operation)


text \<open>
  A remote channel of the sample peer is announced, and its connection yields the text message
  \<open>hi\<close>, which is delivered, and then a binary one, for which its poller waits.
\<close>

definition sample_poller :: poller where
  "sample_poller = \<lparr>po_peer_handle = 1, po_channel_handle = 2, po_channel = 9, po_capacity = 64,
     po_semaphore = 0\<rparr>"

definition waiting_system :: "nat system" where
  "waiting_system =
     (let s = initial_system sample_with_peer;
          st = push_event (poll_event sample_poller (OnMessage True [104, 105]))
                 (spawn_poller 1 2 9 64 (channel_inserted open_api 1 9 True sample_with_peer))
      in s\<lparr>sys_state := st, sys_pollers := (sys_pollers s)(0 := Waiting (OnMessage False [7])),
           sys_taken := (sys_taken s)(0 := 1),
           sys_received := [(sample_poller, OnMessage True [104, 105]), (sample_poller, OnMessage False [7])]\<rparr>)"

lemma sample_poller_spawned: "sample_poller \<in> set (st_spawned (sys_state waiting_system))"
  by (simp add: waiting_system_def sample_poller_def spawn_poller_def channel_inserted_def Let_def
      sample_defs case_prod_unfold)

lemma waiting_reachable: "reachable open_api sample_with_peer waiting_system"
proof -
  let ?s0 = "initial_system sample_with_peer" and ?t = "remote_channel_task open_api 1 9"
  let ?st = "spawn_poller 1 2 9 64 (channel_inserted open_api 1 9 True sample_with_peer)"
  let ?m = "OnMessage True [104, 105]" and ?n = "OnMessage False [7]"
  have "reachable open_api sample_with_peer (?s0\<lparr>sys_tasks := [?t]\<rparr>)"
    using remote_channel [of ?s0 open_api 1 9] reachable.start
    by (auto simp: initial_system_def intro: reachable.step)
  moreover have "run (rn_body ?t) {} sample_with_peer = Returned (Inr default_value) {} ?st"
    by (simp add: remote_channel_task_def on_data_channel_def run_bind run_register_channel sample_defs
        drop_bit_eq_div word_less_nat_alt)
  then have "operation_step\<^sup>*\<^sup>* (?s0\<lparr>sys_tasks := [?t]\<rparr>) (?s0\<lparr>sys_state := ?st\<rparr>)"
    using run_alone [of "?s0\<lparr>sys_tasks := [?t]\<rparr>" ?t]
    by (simp add: remote_channel_task_def initial_system_def finish_task_def)
  ultimately have 1: "reachable open_api sample_with_peer (?s0\<lparr>sys_state := ?st\<rparr>)"
    by (rule reachable_operations [rotated])
  let ?s1 = "?s0\<lparr>sys_state := ?st\<rparr>"
  have po: "sample_poller \<in> set (st_spawned ?st)"
    by (simp add: sample_poller_def spawn_poller_def channel_inserted_def Let_def
        sample_defs case_prod_unfold)
  have k: "po_semaphore sample_poller = 0" "po_capacity sample_poller = 64" by (simp_all add: sample_poller_def)
  let ?s2 = "?s1\<lparr>sys_pollers := (sys_pollers ?s1)(0 := Waiting ?m), sys_received := [(sample_poller, ?m)]\<rparr>"
  have "sys_step open_api ?s1 ?s2"
    using received [of ?s1 sample_poller ?m open_api] po k by (simp add: initial_system_def)
  moreover let ?s3 = "?s2\<lparr>sys_state := push_event (poll_event sample_poller ?m) ?st,
      sys_pollers := sys_pollers ?s1, sys_taken := (sys_taken ?s1)(0 := 1)\<rparr>"
  have "sys_step open_api ?s2 ?s3"
    using delivered [of ?s2 sample_poller ?m open_api] po k by (simp add: initial_system_def fun_upd_idem)
  moreover have "sys_step open_api ?s3 waiting_system"
    using received [of ?s3 sample_poller ?n open_api] po k
    by (simp add: initial_system_def waiting_system_def)
  ultimately show ?thesis using 1 by (meson reachable.step)
qed

lemma sample_no_traffic: "no_traffic sample_with_peer"
  by (simp add: no_traffic_def sample_defs)

theorem receive_queue_bounded_witness:
  "sample_poller \<in> set (st_spawned (sys_state waiting_system)) \<and> sys_taken waiting_system 0 = 1
   \<and> sys_taken waiting_system 0 \<le> unat (po_capacity sample_poller)
   \<and> po_capacity sample_poller \<in> (pe_receive_queue_capacity \<circ> snd) ` set (st_peers sample_with_peer)"
  using receive_queue_bounded [OF waiting_reachable sample_no_traffic sample_poller_spawned]
    sample_poller_spawned
  by (simp add: sample_poller_def waiting_system_def initial_system_def Let_def)

theorem waiting_poller_released_witness:
  "\<exists>s' s''. consumer_step\<^sup>*\<^sup>* waiting_system s' \<and> sys_step open_api s' s''
    \<and> st_events (sys_state s'') = [poll_event sample_poller (OnMessage False [7])]"
proof -
  have "sys_phase waiting_system \<noteq> Stopped" "0 < po_capacity sample_poller"
    "sys_pollers waiting_system (po_semaphore sample_poller) = Waiting (OnMessage False [7])"
    by (simp_all add: waiting_system_def initial_system_def sample_poller_def Let_def)
  with waiting_poller_released [OF waiting_reachable sample_no_traffic _ sample_poller_spawned]
  show ?thesis by blast
qed

theorem messages_in_order_witness:
  "list_all2 carries [(sample_poller, OnMessage True [104, 105])]
     (filter (\<lambda>e. ev_delivery_permit e = Some 0) (st_events (sys_state waiting_system)))"
proof -
  have w: "sys_received waiting_system =
      [(sample_poller, OnMessage True [104, 105]), (sample_poller, OnMessage False [7])]"
    "sys_polled waiting_system = []" "sys_pollers waiting_system 0 = Waiting (OnMessage False [7])"
    by (simp_all add: waiting_system_def initial_system_def Let_def)
  have "po_semaphore sample_poller = 0" by (simp add: sample_poller_def)
  with messages_in_order [OF waiting_reachable sample_no_traffic, of 0, unfolded w] show ?thesis by simp
qed

end
