(* ===== verification/Runtime_Table.thy ===== *)
theory Runtime_Table
  imports Runtime
begin

text \<open>
  The table of runtimes as its users see it: every operation of \<open>native/src/runtime.rs\<close> that takes a
  runtime handle works on that runtime only, handles are never given out twice, and a buffer lent to
  the JVM stays valid until it is given back. The contract of a table operation is a locale, which
  every operation implements.
\<close>

subsection \<open>Looking at the table\<close>

definition runtime_at :: "'w process \<Rightarrow> u64 \<Rightarrow> 'w controller option" where
  "runtime_at s = map_of (pr_runtimes s)"

definition buffer_at :: "'w process \<Rightarrow> u64 \<Rightarrow> u64 \<Rightarrow> native_buffer_entry option" where
  "buffer_at s h b = Option.bind (runtime_at s h) (\<lambda>c. map_of (ct_buffers c) b)"

lemma get_runtime_at:
  "get_runtime h s =
     (if pr_runtimes_poisoned s then Inl ''The WebRTC runtime registry is poisoned''
      else ok_or (''Unknown WebRTC runtime handle: '' @ show_unsigned h) (runtime_at s h))"
  by (simp add: get_runtime_def lock_runtimes_def runtime_at_def)

lemma get_runtime_Inr: "get_runtime h s = Inr c \<longleftrightarrow> \<not> pr_runtimes_poisoned s \<and> runtime_at s h = Some c"
  by (simp add: get_runtime_at ok_or_def split: option.split)

lemma put_runtime_simps [simp]:
  "runtime_at (put_runtime h c s) = (runtime_at s)(h \<mapsto> c)"
  "pr_runtimes_poisoned (put_runtime h c s) = pr_runtimes_poisoned s"
  "pr_next_runtime_handle (put_runtime h c s) = pr_next_runtime_handle s"
  "pr_next_buffer_handle (put_runtime h c s) = pr_next_buffer_handle s"
  by (simp_all add: put_runtime_def runtime_at_def update_conv')

lemma runtime_at_counters [simp]:
  "runtime_at (s\<lparr>pr_next_runtime_handle := n\<rparr>) = runtime_at s"
  "runtime_at (s\<lparr>pr_next_buffer_handle := n\<rparr>) = runtime_at s"
  by (simp_all add: runtime_at_def fun_eq_iff)

lemma buffer_at_put [simp]:
  "buffer_at (put_runtime h c s) h' b = (if h' = h then map_of (ct_buffers c) b else buffer_at s h' b)"
  by (simp add: buffer_at_def)

lemma buffer_at_counters [simp]:
  "buffer_at (s\<lparr>pr_next_runtime_handle := n\<rparr>) = buffer_at s"
  "buffer_at (s\<lparr>pr_next_buffer_handle := n\<rparr>) = buffer_at s"
  by (simp_all add: buffer_at_def fun_eq_iff)

subsection \<open>The contract of a table operation\<close>

text \<open>
  An operation with a runtime handle: refused without effect when the handle is not known, and
  otherwise confined to that runtime, which stays in the table.
\<close>

locale table_operation =
  fixes f :: "u64 \<Rightarrow> 'w process \<Rightarrow> 'r result \<times> 'w process"
  assumes unknown: "get_runtime h s = Inl e \<Longrightarrow> f h s = (Inl e, s)"
    and confined: "h' \<noteq> h \<Longrightarrow> runtime_at (snd (f h s)) h' = runtime_at s h'"
    and kept: "runtime_at (snd (f h s)) h = None \<longleftrightarrow> runtime_at s h = None"
    and unpoisoned: "pr_runtimes_poisoned (snd (f h s)) = pr_runtimes_poisoned s"
    and no_new_runtime: "pr_next_runtime_handle (snd (f h s)) = pr_next_runtime_handle s"
begin

lemma others: "h' \<noteq> h \<Longrightarrow> get_runtime h' (snd (f h s)) = get_runtime h' s"
  by (simp add: get_runtime_at confined unpoisoned)

lemma still_unknown: "runtime_at (snd (f h s)) h' = None \<longleftrightarrow> runtime_at s h' = None"
  using confined kept by (cases "h' = h") simp_all

lemma other_buffers: "h' \<noteq> h \<Longrightarrow> buffer_at (snd (f h s)) h' b = buffer_at s h' b"
  by (simp add: buffer_at_def confined)

end

text \<open>An operation that, in addition, leaves the lent buffers alone.\<close>

locale buffer_keeping = table_operation f for f :: "u64 \<Rightarrow> 'w process \<Rightarrow> 'r result \<times> 'w process" +
  assumes own_buffers: "buffer_at (snd (f h s)) h b = buffer_at s h b"
    and no_new_buffer: "pr_next_buffer_handle (snd (f h s)) = pr_next_buffer_handle s"
begin

lemma buffers_kept: "buffer_at (snd (f h s)) = buffer_at s"
proof (intro ext)
  fix h' b
  show "buffer_at (snd (f h s)) h' b = buffer_at s h' b"
    by (cases "h' = h") (simp_all add: own_buffers other_buffers)
qed

end

lemma with_events_buffers [simp]: "ct_buffers (with_events g c) = ct_buffers c"
  by (simp add: with_events_def)

lemma buffer_at_own: "runtime_at s h = Some c \<Longrightarrow> buffer_at s h b = map_of (ct_buffers c) b"
  by (simp add: buffer_at_def)

text \<open>Most operations replace the controller they find: such a replacement satisfies the contract.\<close>

lemma replacing:
  assumes "\<And>h s e. get_runtime h s = Inl e \<Longrightarrow> f h s = (Inl e, s)"
    and "\<And>h s c. get_runtime h s = Inr c \<Longrightarrow>
      \<exists>c'. snd (f h s) = put_runtime h c' s \<and> ct_buffers c' = ct_buffers c \<or> snd (f h s) = s"
  shows "buffer_keeping f"
proof
  fix h h' b :: u64 and s and e
  show "get_runtime h s = Inl e \<Longrightarrow> f h s = (Inl e, s)" by (rule assms(1))
  have "(\<exists>c c'. runtime_at s h = Some c \<and> snd (f h s) = put_runtime h c' s \<and> ct_buffers c' = ct_buffers c)
      \<or> snd (f h s) = s"
  proof (cases "get_runtime h s")
    case (Inr c)
    with assms(2) [OF Inr] show ?thesis by (auto simp: get_runtime_Inr)
  qed (simp add: assms(1))
  then show "h' \<noteq> h \<Longrightarrow> runtime_at (snd (f h s)) h' = runtime_at s h'"
    and "runtime_at (snd (f h s)) h = None \<longleftrightarrow> runtime_at s h = None"
    and "pr_runtimes_poisoned (snd (f h s)) = pr_runtimes_poisoned s"
    and "pr_next_runtime_handle (snd (f h s)) = pr_next_runtime_handle s"
    and "buffer_at (snd (f h s)) h b = buffer_at s h b"
    and "pr_next_buffer_handle (snd (f h s)) = pr_next_buffer_handle s"
    by (auto simp: buffer_at_own)
qed

interpretation submitting: buffer_keeping "\<lambda>h. submit h c" for c
  by (rule replacing) (auto simp: submit_def intro!: exI)

interpretation completing: buffer_keeping "\<lambda>h. complete_error h op e" for op e
  by (rule replacing) (auto simp: complete_error_def intro!: exI)

interpretation polling: buffer_keeping runtime_poll
  by (rule replacing) (auto simp: runtime_poll_def split: prod.split intro!: exI)

interpretation waking: buffer_keeping runtime_wake
  by (rule replacing) (auto simp: runtime_wake_def intro!: exI)

interpretation registering: table_operation "\<lambda>h. register_buffer h data permit address" for data permit address
  by unfold_locales
    (auto simp: register_buffer_def Let_def get_runtime_Inr split: sum.split)

interpretation releasing: table_operation "\<lambda>h. release_buffer h b" for b
  by unfold_locales (auto simp: release_buffer_def get_runtime_Inr split: sum.split)


subsection \<open>Histories of the table\<close>

text \<open>
  What happens to the table: the calls of the bridges, and a controller thread at work on its own
  runtime (\<open>EngineStep\<close>), which takes commands, changes the state of the runtime, sends events and ends.
\<close>

datatype 'w table_event =
    CreateStep runtime_configuration 'w
  | SubmitStep u64 command
  | CompleteErrorStep u64 u64 string
  | PollStep u64
  | WakeStep u64
  | RegisterBufferStep u64 bytes "nat option" nat
  | ReleaseBufferStep u64 u64
  | ReleaseStep bool u64
  | EngineStep u64 "command list" bool "'w runtime_state"

definition engine_step :: "command list \<Rightarrow> bool \<Rightarrow> 'w runtime_state \<Rightarrow> u64 \<Rightarrow> 'w process \<Rightarrow> unit result \<times> 'w process" where
  "engine_step commands receiving state h s =
     (case get_runtime h s of
        Inl e \<Rightarrow> (Inl e, s)
      | Inr c \<Rightarrow> (Inr (), put_runtime h (c\<lparr>ct_commands := commands, ct_receiving := receiving,
                    ct_state := state\<rparr>) s))"

interpretation engine: buffer_keeping "engine_step commands receiving state" for commands receiving state
  by (rule replacing) (auto simp: engine_step_def intro!: exI)

fun table_step :: "'w webrtc_api \<Rightarrow> 'w table_event \<Rightarrow> 'w process \<Rightarrow> 'w process" where
  "table_step api (CreateStep configuration w) s = fst (snd (create api configuration s w))"
| "table_step api (SubmitStep h c) s = snd (submit h c s)"
| "table_step api (CompleteErrorStep h op e) s = snd (complete_error h op e s)"
| "table_step api (PollStep h) s = snd (runtime_poll h s)"
| "table_step api (WakeStep h) s = snd (runtime_wake h s)"
| "table_step api (RegisterBufferStep h data permit address) s = snd (register_buffer h data permit address s)"
| "table_step api (ReleaseBufferStep h b) s = snd (release_buffer h b s)"
| "table_step api (ReleaseStep panicked h) s = snd (snd (release panicked h s))"
| "table_step api (EngineStep h commands receiving state) s = snd (engine_step commands receiving state h s)"

abbreviation table_steps :: "'w webrtc_api \<Rightarrow> 'w table_event list \<Rightarrow> 'w process \<Rightarrow> 'w process" where
  "table_steps api \<equiv> fold (table_step api)"

text \<open>The runtime a step is about.\<close>

fun step_runtime :: "'w table_event \<Rightarrow> u64 option" where
  "step_runtime (CreateStep _ _) = None"
| "step_runtime (SubmitStep h _) = Some h"
| "step_runtime (CompleteErrorStep h _ _) = Some h"
| "step_runtime (PollStep h) = Some h"
| "step_runtime (WakeStep h) = Some h"
| "step_runtime (RegisterBufferStep h _ _ _) = Some h"
| "step_runtime (ReleaseBufferStep h _) = Some h"
| "step_runtime (ReleaseStep _ h) = Some h"
| "step_runtime (EngineStep h _ _ _) = Some h"

text \<open>The invariant of the table: every handle in it is below its counter.\<close>

definition process_ok :: "'w process \<Rightarrow> bool" where
  "process_ok s \<longleftrightarrow>
     (\<forall>h. runtime_at s h \<noteq> None \<longrightarrow> h < pr_next_runtime_handle s)
     \<and> (\<forall>h b. buffer_at s h b \<noteq> None \<longrightarrow> b < pr_next_buffer_handle s)"

text \<open>Handles for \<open>n\<close> more steps are left.\<close>

definition handles_left :: "nat \<Rightarrow> 'w process \<Rightarrow> bool" where
  "handles_left n s \<longleftrightarrow>
     unat (pr_next_runtime_handle s) + n < 2 ^ 64 \<and> unat (pr_next_buffer_handle s) + n < 2 ^ 64"

text \<open>
  \<open>create\<close> changes the table in one way only: it adds a new runtime under the next handle.
\<close>

lemma start_runtime_state:
  assumes "start_runtime api h c cert w = (Some (Inr state), w')"
  shows "w' = st_world state \<and> (\<exists>mux. state = new_runtime_state [] cert False mux (st_world state))"
  using assms unfolding start_runtime_def
  by (auto simp: new_runtime_state_def split: prod.split_asm sum.split_asm option.split_asm)

lemma create_cases:
  obtains (added) state where
    "create api c s w = (Inr (pr_next_runtime_handle s),
       put_runtime (pr_next_runtime_handle s) (new_controller state)
         (s\<lparr>pr_next_runtime_handle := pr_next_runtime_handle s + 1\<rparr>), st_world state)"
    "\<not> pr_runtimes_poisoned s" "worker_threads c \<noteq> 0"
    "\<exists>cert mux. fst (new_certificate api (certificate_pem c) w) = Inr cert
       \<and> state = new_runtime_state [] cert False mux (st_world state)"
  | (refused) e w' where "create api c s w = (Inl e, s, w')"
  | (failed) e w' where
    "create api c s w = (Inl e, s\<lparr>pr_next_runtime_handle := pr_next_runtime_handle s + 1\<rparr>, w')"
proof (cases "worker_threads c = 0")
  case True
  then show thesis by (intro refused) (simp add: create_def)
next
  case workers: False
  obtain r w1 where cert: "new_certificate api (certificate_pem c) w = (r, w1)" by fastforce
  show thesis
  proof (cases r)
    case (Inl e)
    with workers cert show thesis by (intro refused) (simp add: create_def)
  next
    case (Inr certificate)
    obtain q w2 where spawn: "thread_spawn api
        (''kestara-webrtc-control-'' @ show_unsigned (pr_next_runtime_handle s)) w1 = (q, w2)" by fastforce
    obtain t w3 where start:
      "start_runtime api (pr_next_runtime_handle s) c certificate w2 = (t, w3)" by fastforce
    note unfold = create_def Let_def workers cert Inr spawn [simplified] start
    show thesis
    proof (cases q)
      case (Inl e)
      then show thesis by (intro failed) (simp add: unfold)
    next
      case q: (Inr u)
      consider (panic) "t = None" | (error) e where "t = Some (Inl e)" | (ok) state where "t = Some (Inr state)"
        by (metis option.exhaust sum.exhaust)
      then show thesis
      proof cases
        case (ok state)
        with start start_runtime_state [of api "pr_next_runtime_handle s" c certificate w2 state w3]
        have state: "w3 = st_world state"
          "\<exists>mux. state = new_runtime_state [] certificate False mux (st_world state)" by blast+
        show thesis
        proof (cases "pr_runtimes_poisoned s")
          case True
          with ok q have "create api c s w = (Inl ''The WebRTC runtime registry is poisoned'',
              s\<lparr>pr_next_runtime_handle := pr_next_runtime_handle s + 1\<rparr>, w3)"
            by (simp add: unfold lock_runtimes_def)
          then show thesis by (rule failed)
        next
          case False
          show thesis
          proof (rule added [OF _ False workers])
            show "\<exists>cert mux. fst (new_certificate api (certificate_pem c) w) = Inr cert
                \<and> state = new_runtime_state [] cert False mux (st_world state)"
              using state(2) by (simp add: cert Inr)
          qed (use ok q False in \<open>simp add: unfold lock_runtimes_def state(1)\<close>)
        qed
      qed (use q in \<open>auto intro!: failed simp: unfold\<close>)
    qed
  qed
qed


lemma create_lookups:
  assumes "pr_next_runtime_handle s \<noteq> h"
  shows "runtime_at (table_step api (CreateStep c w) s) h = runtime_at s h"
    and "buffer_at (table_step api (CreateStep c w) s) h b = buffer_at s h b"
proof -
  have "runtime_at (table_step api (CreateStep c w) s) h = runtime_at s h"
    by (cases rule: create_cases [of api c s w]) (use assms in auto)
  then show "runtime_at (table_step api (CreateStep c w) s) h = runtime_at s h"
    and "buffer_at (table_step api (CreateStep c w) s) h b = buffer_at s h b"
    by (simp_all add: buffer_at_def del: table_step.simps)
qed

lemma release_lookups:
  "runtime_at (table_step api (ReleaseStep p h) s) =
     (if pr_runtimes_poisoned s then runtime_at s else (runtime_at s)(h := None))"
  "pr_runtimes_poisoned (table_step api (ReleaseStep p h) s) = pr_runtimes_poisoned s"
  "pr_next_runtime_handle (table_step api (ReleaseStep p h) s) = pr_next_runtime_handle s"
  "pr_next_buffer_handle (table_step api (ReleaseStep p h) s) = pr_next_buffer_handle s"
  by (auto simp: release_def lock_runtimes_def Let_def runtime_at_def delete_conv fun_eq_iff
      split: option.split)

subsection \<open>Every step keeps the invariant\<close>

lemmas confined_steps = submitting.confined completing.confined polling.confined waking.confined
  registering.confined releasing.confined engine.confined

lemmas kept_steps = submitting.still_unknown completing.still_unknown polling.still_unknown
  waking.still_unknown registering.still_unknown releasing.still_unknown engine.still_unknown

lemmas counter_steps = submitting.no_new_runtime completing.no_new_runtime polling.no_new_runtime
  waking.no_new_runtime registering.no_new_runtime releasing.no_new_runtime engine.no_new_runtime
  submitting.unpoisoned completing.unpoisoned polling.unpoisoned waking.unpoisoned
  registering.unpoisoned releasing.unpoisoned engine.unpoisoned
  submitting.no_new_buffer completing.no_new_buffer polling.no_new_buffer waking.no_new_buffer
  engine.no_new_buffer

lemmas buffer_steps = submitting.buffers_kept completing.buffers_kept polling.buffers_kept
  waking.buffers_kept engine.buffers_kept

lemma register_buffer_cases:
  obtains (ok) c where "runtime_at s h = Some c"
    "register_buffer h data permit address s =
       (Inr \<lparr>view_handle = pr_next_buffer_handle s, view_address = address, view_length = length data\<rparr>,
        put_runtime h (c\<lparr>ct_buffers := AList.update (pr_next_buffer_handle s)
             \<lparr>buf_data = data, buf_delivery_permit = permit\<rparr> (ct_buffers c)\<rparr>)
          (s\<lparr>pr_next_buffer_handle := pr_next_buffer_handle s + 1\<rparr>))"
  | (unknown) e where "register_buffer h data permit address s = (Inl e, s)"
  | (poisoned) e where "register_buffer h data permit address s =
       (Inl e, s\<lparr>pr_next_buffer_handle := pr_next_buffer_handle s + 1\<rparr>)"
proof (cases "get_runtime h s")
  case (Inl e)
  then show thesis by (intro unknown) (simp add: register_buffer_def)
next
  case (Inr c)
  note unfold = register_buffer_def Inr Let_def
  show thesis
  proof (cases "ct_buffers_poisoned c")
    case True
    show thesis by (rule poisoned) (simp add: unfold True)
  next
    case False
    from Inr have "runtime_at s h = Some c" by (simp add: get_runtime_Inr)
    then show thesis by (rule ok) (simp add: unfold False)
  qed
qed

lemma release_buffer_cases:
  obtains (ok) c where "runtime_at s h = Some c"
    "release_buffer h b s =
       (Inr (), put_runtime h (c\<lparr>ct_buffers := AList.delete b (ct_buffers c)\<rparr>) s)"
  | (error) e where "release_buffer h b s = (Inl e, s)"
proof (cases "get_runtime h s")
  case (Inl e)
  then show thesis by (intro error) (simp add: release_buffer_def)
next
  case (Inr c)
  show thesis
  proof (cases "ct_buffers_poisoned c")
    case True
    show thesis by (rule error) (simp add: release_buffer_def Inr True)
  next
    case False
    from Inr have "runtime_at s h = Some c" by (simp add: get_runtime_Inr)
    then show thesis by (rule ok) (simp add: release_buffer_def Inr False)
  qed
qed


text \<open>
  The steps other than the creation and the release of a runtime or a buffer leave handles and
  buffers alone.
\<close>

definition plain_step :: "'w webrtc_api \<Rightarrow> 'w table_event \<Rightarrow> u64 \<Rightarrow> bool" where
  "plain_step api e h \<longleftrightarrow>
     step_runtime e = Some h
     \<and> (\<forall>s. buffer_at (table_step api e s) = buffer_at s
         \<and> (\<forall>h'. h' \<noteq> h \<longrightarrow> runtime_at (table_step api e s) h' = runtime_at s h')
         \<and> (\<forall>h'. runtime_at (table_step api e s) h' = None \<longleftrightarrow> runtime_at s h' = None)
         \<and> pr_next_runtime_handle (table_step api e s) = pr_next_runtime_handle s
         \<and> pr_next_buffer_handle (table_step api e s) = pr_next_buffer_handle s
         \<and> pr_runtimes_poisoned (table_step api e s) = pr_runtimes_poisoned s)"

lemma plain_steps:
  "plain_step api (SubmitStep h c) h" "plain_step api (CompleteErrorStep h op e) h"
  "plain_step api (PollStep h) h" "plain_step api (WakeStep h) h"
  "plain_step api (EngineStep h commands receiving state) h"
  unfolding plain_step_def table_step.simps
  by (simp_all add: buffer_steps confined_steps kept_steps counter_steps)

lemma table_step_cases:
  obtains (create) c w where "e = CreateStep c w"
  | (release) p h where "e = ReleaseStep p h"
  | (register) h data permit address where "e = RegisterBufferStep h data permit address"
  | (release_buffer) h b where "e = ReleaseBufferStep h b"
  | (plain) h where "plain_step api e h"
proof (cases e)
  case CreateStep then show thesis by (rule create)
next
  case RegisterBufferStep then show thesis by (rule register)
next
  case ReleaseBufferStep then show thesis by (rule release_buffer)
next
  case ReleaseStep then show thesis by (rule release)
qed (rule plain, hypsubst, rule plain_steps)+

text \<open>Handles that are left, counted without wrapping around.\<close>

lemma next_left:
  fixes n :: u64
  assumes "unat n + Suc k < 2 ^ 64"
  shows "unat (n + 1) = Suc (unat n)" and "n < n + 1" and "h < n \<Longrightarrow> h < n + 1" and "unat (n + 1) + k < 2 ^ 64"
proof -
  from assms show "unat (n + 1) = Suc (unat n)" by (subst unat_add_lem [THEN iffD1]) auto
  with assms show "n < n + 1" "h < n \<Longrightarrow> h < n + 1" "unat (n + 1) + k < 2 ^ 64"
    by (simp_all add: word_less_nat_alt)
qed


lemma new_controller_buffers [simp]: "ct_buffers (new_controller state) = []"
  by (simp add: new_controller_def)

lemma process_ok_release:
  assumes "process_ok s"
  shows "process_ok (table_step api (ReleaseStep p h) s)"
proof -
  let ?s = "table_step api (ReleaseStep p h) s"
  have "buffer_at ?s h' b = None \<or> buffer_at ?s h' b = buffer_at s h' b"
    and "runtime_at ?s h' = None \<or> runtime_at ?s h' = runtime_at s h'" for h' b
    unfolding buffer_at_def by (auto simp: release_lookups simp del: table_step.simps)
  with assms show ?thesis unfolding process_ok_def by (metis release_lookups(3,4))
qed

lemma register_buffer_lookup:
  "buffer_at (snd (register_buffer h data permit address s)) h' b =
     (if h' = h \<and> b = pr_next_buffer_handle s \<and> (\<exists>v. fst (register_buffer h data permit address s) = Inr v)
      then Some \<lparr>buf_data = data, buf_delivery_permit = permit\<rparr> else buffer_at s h' b)"
  by (cases rule: register_buffer_cases [of s h data permit address])
    (auto simp: update_conv' buffer_at_own)

lemma release_buffer_lookup:
  "buffer_at (snd (release_buffer h b s)) h' b' =
     (if h' = h \<and> b' = b \<and> fst (release_buffer h b s) = Inr () then None else buffer_at s h' b')"
  by (cases rule: release_buffer_cases [of s h b]) (auto simp: delete_conv buffer_at_own)

lemma release_buffer_counter [simp]:
  "pr_next_buffer_handle (snd (release_buffer h b s)) = pr_next_buffer_handle s"
  by (cases rule: release_buffer_cases [of s h b]) simp_all

lemma process_ok_register:
  assumes "process_ok s" and "unat (pr_next_buffer_handle s) + Suc n < 2 ^ 64"
  shows "process_ok (snd (register_buffer h data permit address s))"
    and "unat (pr_next_buffer_handle (snd (register_buffer h data permit address s))) + n < 2 ^ 64"
proof -
  let ?s = "snd (register_buffer h data permit address s)"
  note n = next_left [OF assms(2)]
  have c: "pr_next_buffer_handle ?s = pr_next_buffer_handle s + 1 \<or> ?s = s"
    by (cases rule: register_buffer_cases [of s h data permit address]) simp_all
  with assms(2) n(4) show "unat (pr_next_buffer_handle ?s) + n < 2 ^ 64" by auto
  show "process_ok ?s"
  proof (cases "?s = s")
    case False
    with c have c: "pr_next_buffer_handle ?s = pr_next_buffer_handle s + 1" by blast
    have "b < pr_next_buffer_handle ?s" if "buffer_at ?s h' b \<noteq> None" for h' b
      using that assms(1) n(2,3) unfolding c register_buffer_lookup process_ok_def
      by (metis (full_types))
    then show ?thesis using assms(1)
      by (simp add: process_ok_def registering.still_unknown registering.no_new_runtime)
  qed (use assms(1) in simp)
qed

text \<open>One step uses up at most one handle of each kind, and keeps the invariant.\<close>

lemma table_step_ok:
  assumes ok: "process_ok s" and left: "handles_left (Suc n) s"
  shows "process_ok (table_step api e s) \<and> handles_left n (table_step api e s)"
proof (cases e rule: table_step_cases [where api = api])
  case (create c w)
  show ?thesis unfolding create table_step.simps
    by (cases rule: create_cases [of api c s w])
      (use ok left next_left [of "pr_next_runtime_handle s" n] in
        \<open>auto simp: process_ok_def handles_left_def\<close>)
next
  case (release p h)
  then show ?thesis using process_ok_release [OF ok] left
    by (simp add: handles_left_def release_lookups del: table_step.simps)
next
  case (register h data permit address)
  then show ?thesis using process_ok_register [OF ok, of n] left
    by (simp add: handles_left_def registering.no_new_runtime)
next
  case (release_buffer h b)
  with ok left show ?thesis
    by (auto simp: process_ok_def handles_left_def release_buffer_lookup
        releasing.still_unknown releasing.no_new_runtime)
next
  case (plain h)
  with ok left show ?thesis by (simp add: plain_step_def process_ok_def handles_left_def)
qed

lemma table_steps_induct [consumes 2, case_names Nil Cons]:
  assumes "process_ok s" and "handles_left (length es) s"
    and "\<And>s. process_ok s \<Longrightarrow> P [] s"
    and "\<And>e es s. process_ok s \<Longrightarrow> handles_left (length (e # es)) s \<Longrightarrow>
      P es (table_step api e s) \<Longrightarrow> P (e # es) s"
  shows "P es s"
  using assms(1,2)
proof (induction es arbitrary: s)
  case Nil
  then show ?case by (simp add: assms(3))
next
  case (Cons e es)
  from table_step_ok [of s "length es" api e] Cons.prems
  have "process_ok (table_step api e s)" "handles_left (length es) (table_step api e s)" by simp_all
  with Cons.IH Cons.prems show ?case by (simp add: assms(4))
qed

text \<open>A handle that was given out before stays as it is through steps about other runtimes.\<close>

lemma table_step_confined:
  assumes "h < pr_next_runtime_handle s" and "step_runtime e \<noteq> Some h"
  shows "runtime_at (table_step api e s) h = runtime_at s h"
proof (cases e rule: table_step_cases [where api = api])
  case create
  with assms show ?thesis by (simp only: create_lookups)
next
  case release
  with assms show ?thesis by (simp only: release release_lookups step_runtime.simps) simp
next
  case register
  with assms show ?thesis by (simp add: registering.confined)
next
  case release_buffer
  with assms show ?thesis by (simp add: releasing.confined)
next
  case plain
  with assms show ?thesis by (auto simp: plain_step_def)
qed

lemma table_step_unpoisoned: "pr_runtimes_poisoned (table_step api e s) = pr_runtimes_poisoned s"
proof (cases e rule: table_step_cases [where api = api])
  case (create c w)
  then show ?thesis by (cases rule: create_cases [of api c s w]) simp_all
next
  case release
  then show ?thesis by (simp only: release_lookups)
qed (simp_all add: registering.unpoisoned releasing.unpoisoned plain_step_def)

lemma table_step_unknown:
  assumes "runtime_at s h = None" and "h < pr_next_runtime_handle s"
  shows "runtime_at (table_step api e s) h = None"
proof (cases e rule: table_step_cases [where api = api])
  case create
  with assms show ?thesis by (simp only: create_lookups)
next
  case release
  with assms show ?thesis by (simp only: release release_lookups) simp
qed (use assms in \<open>simp_all add: registering.still_unknown releasing.still_unknown plain_step_def\<close>)

lemma table_step_counter:
  assumes "handles_left (Suc n) s"
  shows "pr_next_runtime_handle s \<le> pr_next_runtime_handle (table_step api e s)"
proof (cases e rule: table_step_cases [where api = api])
  case (create c w)
  with next_left [of "pr_next_runtime_handle s" n] assms show ?thesis
    by (cases rule: create_cases [of api c s w]) (auto simp: handles_left_def)
next
  case release
  then show ?thesis by (simp only: release_lookups order.refl)
qed (simp_all add: registering.no_new_runtime releasing.no_new_runtime plain_step_def)


subsection \<open>Properties\<close>

text \<open>
  C20: runtimes are isolated from each other. Whatever happens to the other runtimes of the process,
  created, used, torn down, in any order and in any state, the calls and the controller thread of a
  runtime find it exactly as they left it.
\<close>

theorem runtime_isolation:
  assumes "process_ok s" and "handles_left (length es) s" and "get_runtime h s = Inr c"
    and "\<forall>e \<in> set es. step_runtime e \<noteq> Some h"
  shows "get_runtime h (table_steps api es s) = Inr c"
  using assms
proof (induction es s rule: table_steps_induct [where api = api])
  case (Cons e es s)
  then have h: "h < pr_next_runtime_handle s" by (auto simp: process_ok_def get_runtime_Inr)
  from Cons have "get_runtime h (table_step api e s) = Inr c"
    by (simp add: get_runtime_Inr table_step_unpoisoned table_step_confined [OF h])
  with Cons show ?case by simp
qed simp

text \<open>
  C21: a released runtime stays gone. Once \<open>release\<close> has removed a runtime, its handle is refused as
  unknown by every call, after any further history of the process: handles are not given out again.
\<close>

theorem released_runtime_unknown:
  assumes "process_ok s" and "handles_left (length es) s" and "get_runtime h s = Inr c"
  shows "get_runtime h (table_steps api es (snd (snd (release p h s))))
    = Inl (''Unknown WebRTC runtime handle: '' @ show_unsigned h)"
proof -
  let ?s = "table_step api (ReleaseStep p h) s"
  have stays: "runtime_at s h = None \<Longrightarrow> h < pr_next_runtime_handle s \<Longrightarrow> \<not> pr_runtimes_poisoned s \<Longrightarrow>
      handles_left (length es) s \<Longrightarrow>
      runtime_at (table_steps api es s) h = None \<and> \<not> pr_runtimes_poisoned (table_steps api es s)"
    if "process_ok s" for s
    using that
  proof (induction es arbitrary: s)
    case (Cons e es)
    then have "h < pr_next_runtime_handle (table_step api e s)"
      using table_step_counter [of "length es" s api e] by simp
    with Cons table_step_ok [of s "length es" api e] show ?case
      by (simp add: table_step_unknown table_step_unpoisoned)
  qed simp
  have "handles_left (length es) ?s" using assms(2) by (simp only: handles_left_def release_lookups)
  moreover have "process_ok ?s" by (rule process_ok_release [OF assms(1)])
  ultimately have "runtime_at (table_steps api es ?s) h = None \<and> \<not> pr_runtimes_poisoned (table_steps api es ?s)"
    using stays [of ?s] assms(1,3)
    by (simp add: release_lookups get_runtime_Inr process_ok_def del: table_step.simps)
  then show ?thesis by (simp add: get_runtime_at)
qed


lemma table_step_buffer:
  assumes "buffer_at s h b = Some e" and "process_ok s"
    and "x \<noteq> ReleaseBufferStep h b" and "\<And>p. x \<noteq> ReleaseStep p h"
  shows "buffer_at (table_step api x s) h b = Some e"
proof (cases x rule: table_step_cases [where api = api])
  case (create c w)
  have "runtime_at s h \<noteq> None"
    using assms(1) by (cases "runtime_at s h") (simp_all add: buffer_at_def)
  then have "pr_next_runtime_handle s \<noteq> h" using assms(2) by (auto simp: process_ok_def)
  from create_lookups(2) [OF this] assms(1) show ?thesis by (simp add: create del: table_step.simps)
next
  case (release p h')
  with assms show ?thesis by (auto simp: buffer_at_def release_lookups simp del: table_step.simps)
next
  case (register h' data permit address)
  have "b \<noteq> pr_next_buffer_handle s"
    using assms(1,2) unfolding process_ok_def by (metis less_irrefl option.distinct(1))
  with register assms(1) show ?thesis by (simp add: register_buffer_lookup)
next
  case (release_buffer h' b')
  with assms show ?thesis by (auto simp: release_buffer_lookup)
next
  case plain
  with assms(1) show ?thesis by (simp add: plain_step_def)
qed

text \<open>
  C22: a buffer lent to the JVM stays valid. \<open>register_buffer\<close> puts it under a handle that no buffer of
  any runtime has, and reports its address and length; from then on it is kept with its bytes and its
  delivery permit through any history of the process, until that very handle is released on that
  runtime or the runtime itself is released. Releasing it frees this buffer only.
\<close>

theorem buffer_lifetime:
  assumes "process_ok s" and "handles_left (Suc (length es)) s"
    and "register_buffer h data permit address s = (Inr view, s1)"
    and "\<forall>e \<in> set es. e \<noteq> ReleaseBufferStep h (view_handle view) \<and> (\<forall>p. e \<noteq> ReleaseStep p h)"
  shows "view_length view = length data \<and> view_address view = address
    \<and> (\<forall>h'. buffer_at s h' (view_handle view) = None)
    \<and> buffer_at (table_steps api es s1) h (view_handle view)
        = Some \<lparr>buf_data = data, buf_delivery_permit = permit\<rparr>
    \<and> (case release_buffer h (view_handle view) (table_steps api es s1) of
         (Inr _, s2) \<Rightarrow> buffer_at s2 = (buffer_at (table_steps api es s1))(h := (buffer_at (table_steps api es s1) h)(view_handle view := None))
       | (Inl _, s2) \<Rightarrow> s2 = table_steps api es s1)"
proof -
  let ?b = "view_handle view" and ?e = "\<lparr>buf_data = data, buf_delivery_permit = permit\<rparr>"
  have view: "view = \<lparr>view_handle = pr_next_buffer_handle s, view_address = address, view_length = length data\<rparr>"
    using assms(3) by (cases rule: register_buffer_cases [of s h data permit address]) simp_all
  have fresh: "buffer_at s h' ?b = None" for h'
    using assms(1) unfolding process_ok_def view by (metis less_irrefl native_buffer_view.select_convs(1))
  have s1: "s1 = table_step api (RegisterBufferStep h data permit address) s" by (simp add: assms(3))
  have "buffer_at s1 h ?b = Some ?e"
    using register_buffer_lookup [of h data permit address s h ?b] by (simp add: assms(3) view)
  moreover have "process_ok s1" "handles_left (length es) s1"
    using table_step_ok [OF assms(1,2)] unfolding s1 by blast+
  ultimately have kept: "buffer_at (table_steps api es s1) h ?b = Some ?e"
    using assms(4)
  proof (induction es arbitrary: s1)
    case (Cons x es)
    then show ?case using table_step_ok [of s1 "length es" api x] table_step_buffer [of s1 h ?b ?e x api]
      by simp
  qed simp
  have "case release_buffer h ?b t of
      (Inr _, s2) \<Rightarrow> buffer_at s2 = (buffer_at t)(h := (buffer_at t h)(?b := None))
    | (Inl _, s2) \<Rightarrow> s2 = t" for t :: "'a process"
    by (cases rule: release_buffer_cases [of t h ?b])
      (auto simp: fun_eq_iff delete_conv buffer_at_own)
  with view fresh kept show ?thesis by simp
qed

text \<open>
  C23: starting a runtime. \<open>create\<close> succeeds only with at least one worker thread and a certificate,
  and then adds one runtime to the table, under the next handle, with empty queues, no buffers and an
  empty registry that uses that certificate; whatever fails on the way leaves the table as it was.
\<close>

theorem create_outcome:
  "case create api c s w of
     (Inr h, s', w') \<Rightarrow>
       worker_threads c \<noteq> 0 \<and> \<not> pr_runtimes_poisoned s \<and> h = pr_next_runtime_handle s
       \<and> (\<exists>cert mux. fst (new_certificate api (certificate_pem c) w) = Inr cert
           \<and> runtime_at s' = (runtime_at s)(h \<mapsto> new_controller (new_runtime_state [] cert False mux w')))
   | (Inl _, s', w') \<Rightarrow> runtime_at s' = runtime_at s"
proof (cases rule: create_cases [of api c s w])
  case (added state)
  then show ?thesis by (simp; metis)
qed simp_all





subsection \<open>Examples\<close>

definition sample_process :: "nat process" where
  "sample_process = \<lparr>pr_runtimes = [(1, new_controller sample_state)], pr_runtimes_poisoned = False,
     pr_next_runtime_handle = 2, pr_next_buffer_handle = 1\<rparr>"

lemma sample_process_ok: "process_ok sample_process" "n < 100 \<Longrightarrow> handles_left n sample_process"
  by (simp_all add: process_ok_def handles_left_def buffer_at_def runtime_at_def sample_process_def)

lemma sample_process_runtime: "get_runtime 1 sample_process = Inr (new_controller sample_state)"
  by (simp add: get_runtime_Inr runtime_at_def sample_process_def)

definition sample_runtime :: runtime_configuration where
  "sample_runtime = \<lparr>worker_threads = 2, reactor_threads = 1, certificate_pem = None,
     shared_udp_addresses = [], shared_tcp_addresses = [], shared_min_port = 0, shared_max_port = 0\<rparr>"

theorem runtime_isolation_witness:
  "get_runtime 1 (table_steps open_api [CreateStep sample_runtime 5, SubmitStep 2 (GetStats 7 1000 1),
     ReleaseStep False 2, WakeStep 3] sample_process) = Inr (new_controller sample_state)"
  by (rule runtime_isolation) (simp_all add: sample_process_ok sample_process_runtime)

theorem released_runtime_unknown_witness:
  "get_runtime 1 (table_steps open_api [CreateStep sample_runtime 5]
     (snd (snd (release False 1 sample_process)))) = Inl (''Unknown WebRTC runtime handle: 1'')"
proof -
  have "show_unsigned (1 :: u64) = ''1''" by code_simp
  with released_runtime_unknown [OF sample_process_ok(1) _ sample_process_runtime,
      of "[CreateStep sample_runtime 5]" open_api False]
  show ?thesis by (simp add: sample_process_ok)
qed

theorem buffer_lifetime_witness:
  "\<exists>view s1. register_buffer 1 [7, 8] (Some 3) 4096 sample_process = (Inr view, s1)
     \<and> view_handle view = 1
     \<and> buffer_at (table_steps open_api [PollStep 1, ReleaseBufferStep 1 9, ReleaseStep False 2] s1) 1 1
         = Some \<lparr>buf_data = [7, 8], buf_delivery_permit = Some 3\<rparr>"
proof -
  obtain view s1 where r: "register_buffer 1 [7, 8] (Some 3) 4096 sample_process = (Inr view, s1)"
    and v: "view_handle view = 1"
    by (simp add: register_buffer_def sample_process_runtime new_controller_def Let_def)
      (simp add: sample_process_def)
  with buffer_lifetime [OF sample_process_ok(1) sample_process_ok(2) r,
      of "[PollStep 1, ReleaseBufferStep 1 9, ReleaseStep False 2]" open_api]
  show ?thesis by simp
qed




end
