(* ===== verification/Submission.thy ===== *)
theory Submission
  imports Runtime_Table
begin

text \<open>
  What the two boundaries of the engine (\<open>native/src/c_bridge.rs\<close> and \<open>native/src/bridge.rs\<close>) have in
  common: the checks written out in both, the two ways in which they hand an operation to a runtime,
  and the contract of a submission, a locale which every entry point of both bridges implements.
\<close>

definition NATIVE_ABI_VERSION :: i32 where
  "NATIVE_ABI_VERSION = 7"

subsection \<open>Shared checks\<close>

definition check_port_range :: "string \<Rightarrow> u16 \<Rightarrow> u16 \<Rightarrow> unit result" where
  "check_port_range message lo hi =
     (if (lo = 0) \<noteq> (hi = 0) \<or> hi < lo then Inl message else Inr ())"

definition mdns_mode_of :: "i32 \<Rightarrow> multicast_dns_mode result" where
  "mdns_mode_of mode =
     (if mode = 0 then Inr Disabled else if mode = 1 then Inr QueryOnly
      else if mode = 2 then Inr QueryAndGather else Inl ''Invalid ICE mDNS mode'')"

definition answering_role_of :: "i32 \<Rightarrow> dtls_role option result" where
  "answering_role_of role =
     (if role = 0 then Inr None else if role = 1 then Inr (Some DtlsClient)
      else if role = 2 then Inr (Some DtlsServer) else Inl ''Invalid DTLS answering role'')"

definition description_answer :: "'a::len word \<Rightarrow> bool result" where
  "description_answer n =
     (if n = 0 then Inr False else if n = 1 then Inr True
      else Inl ''Only offer and answer descriptions can be created'')"

lemma check_port_range_iff:
  "check_port_range m lo hi = Inr u \<longleftrightarrow> (lo = 0 \<longleftrightarrow> hi = 0) \<and> lo \<le> hi"
  by (auto simp: check_port_range_def)

subsection \<open>Handing over an operation\<close>

text \<open>A command to be queued, or an error that completes the operation at once.\<close>

datatype request = SubmitCommand command | CompleteError string

fun perform :: "u64 \<Rightarrow> u64 \<Rightarrow> request \<Rightarrow> 'w process \<Rightarrow> unit result \<times> 'w process" where
  "perform runtime_handle op (SubmitCommand c) s = submit runtime_handle c s"
| "perform runtime_handle op (CompleteError e) s = complete_error runtime_handle op e s"

text \<open>
  The answers that the operation \<open>op\<close> has ahead of it in a runtime: its commands in the command queue,
  and its completions in the event queue.
\<close>

definition answers :: "'w process \<Rightarrow> u64 \<Rightarrow> u64 \<Rightarrow> nat" where
  "answers s h op =
     (case runtime_at s h of
        None \<Rightarrow> 0
      | Some c \<Rightarrow> length (filter (\<lambda>c. operation_handle c = op) (ct_commands c))
          + length (filter (\<lambda>e. ev_kind e = OPERATION_COMPLETE \<and> ev_operation_handle e = op)
                      (st_events (ct_state c))))"

text \<open>
  The contract of an entry point that submits the operation \<open>op\<close> to the runtime \<open>h\<close>; the boolean says
  whether the caller is told that the operation was taken over.
\<close>

locale submission =
  fixes call :: "'w process \<Rightarrow> bool \<times> 'w process" and h op :: u64
  assumes refused: "call s = (False, s') \<Longrightarrow> s' = s"
    and accepted: "call s = (True, s') \<Longrightarrow>
      \<exists>c c'. get_runtime h s = Inr c \<and> s' = put_runtime h c' s
        \<and> ((\<exists>x. operation_handle x = op \<and> c' = c\<lparr>ct_commands := ct_commands c @ [x]\<rparr>)
          \<or> (\<exists>e. c' = with_events (\<lambda>q. q @ [event_operation op (Inl e)]) c))"
begin

lemma answered_once:
  "answers (snd (call s)) h' op' =
     answers s h' op' + (if fst (call s) \<and> h' = h \<and> op' = op then 1 else 0)"
proof (cases "fst (call s)")
  case True
  then obtain c c' where "runtime_at s h = Some c" "snd (call s) = put_runtime h c' s"
    "(\<exists>x. operation_handle x = op \<and> c' = c\<lparr>ct_commands := ct_commands c @ [x]\<rparr>)
       \<or> (\<exists>e. c' = with_events (\<lambda>q. q @ [event_operation op (Inl e)]) c)"
    using accepted [of s "snd (call s)"] by (auto simp: prod_eq_iff get_runtime_Inr)
  with True show ?thesis by (auto simp: answers_def with_events_def)
next
  case False
  with refused [of s "snd (call s)"] show ?thesis by (simp add: prod_eq_iff)
qed

lemma isolated: "h' \<noteq> h \<Longrightarrow> runtime_at (snd (call s)) h' = runtime_at s h'"
  using accepted [of s "snd (call s)"] refused [of s "snd (call s)"]
  by (cases "fst (call s)") (auto simp: prod_eq_iff)

lemma needs_runtime: "get_runtime h s = Inl e \<Longrightarrow> call s = (False, s)"
  using accepted [of s "snd (call s)"] refused [of s "snd (call s)"]
  by (cases "fst (call s)") (auto simp: prod_eq_iff)

lemma unchanged_if_refused: "\<not> fst (call s) \<Longrightarrow> snd (call s) = s"
  using refused [of s "snd (call s)"] by (simp add: prod_eq_iff)

end

text \<open>A property of the value of a result, if it has one, by the structure of its computation.\<close>

definition all_ok :: "('a \<Rightarrow> bool) \<Rightarrow> 'e + 'a \<Rightarrow> bool" where
  "all_ok P r \<longleftrightarrow> (\<forall>x. r = Inr x \<longrightarrow> P x)"

lemma all_ok_rules:
  "all_ok P (Inl e)" "P x \<Longrightarrow> all_ok P (Inr x)"
  "(\<And>y. all_ok P (f y)) \<Longrightarrow> all_ok P (and_then r f)"
  "all_ok P u \<Longrightarrow> all_ok P v \<Longrightarrow> all_ok P (if b then u else v)"
  "(\<And>e. all_ok P (g e)) \<Longrightarrow> (\<And>y. all_ok P (f y)) \<Longrightarrow>
     all_ok P (case q of Inl e \<Rightarrow> g e | Inr y \<Rightarrow> f y)"
  by (auto simp: all_ok_def result_simps split: sum.split)

text \<open>Performing a request for \<open>op\<close> is such a submission, and so is a call that performs one or refuses.\<close>

fun request_of :: "u64 \<Rightarrow> request \<Rightarrow> bool" where
  "request_of op (SubmitCommand c) \<longleftrightarrow> operation_handle c = op"
| "request_of op (CompleteError e) \<longleftrightarrow> True"

definition accepts :: "'e + 'a \<Rightarrow> bool" where
  "accepts r \<longleftrightarrow> (case r of Inl _ \<Rightarrow> False | Inr _ \<Rightarrow> True)"

lemma accepts_simps [simp]: "accepts (Inr x)" "\<not> accepts (Inl e)"
  by (simp_all add: accepts_def)

lemma perform_submission:
  assumes "\<And>r. b = Inr r \<Longrightarrow> request_of op r"
  shows "submission (\<lambda>s. case b of Inl e \<Rightarrow> (False, s)
                     | Inr r \<Rightarrow> map_prod accepts id (perform h op r s)) h op"
proof
  fix s s'
  show "(case b of Inl e \<Rightarrow> (False, s) | Inr r \<Rightarrow> map_prod accepts id (perform h op r s)) = (False, s') \<Longrightarrow> s' = s"
    by (cases b; cases "projr b")
      (auto simp: submit_def complete_error_def split: sum.split_asm if_split_asm)
  assume a: "(case b of Inl e \<Rightarrow> (False, s) | Inr r \<Rightarrow> map_prod accepts id (perform h op r s)) = (True, s')"
  then obtain r where b: "b = Inr r" by (cases b) auto
  from assms [OF b] a show "\<exists>c c'. get_runtime h s = Inr c \<and> s' = put_runtime h c' s
      \<and> ((\<exists>x. operation_handle x = op \<and> c' = c\<lparr>ct_commands := ct_commands c @ [x]\<rparr>)
        \<or> (\<exists>e. c' = with_events (\<lambda>q. q @ [event_operation op (Inl e)]) c))"
    by (cases r) (auto simp: b submit_def complete_error_def split: sum.split_asm if_split_asm)
qed


text \<open>Parsers of session descriptions for the examples.\<close>

definition sample_parsers :: sdp_parsers where
  "sample_parsers = \<lparr>sdp_offer = (\<lambda>t. Inr \<lparr>sd_type = Offer, sd_sdp = t\<rparr>),
     sdp_answer = (\<lambda>t. Inr \<lparr>sd_type = Answer, sd_sdp = t\<rparr>),
     sdp_pranswer = (\<lambda>t. Inr \<lparr>sd_type = Pranswer, sd_sdp = t\<rparr>),
     sdp_rollback = (\<lambda>_. Inl ''unsupported'')\<rparr>"

end
