(* ===== verification/C_Bridge.thy ===== *)
theory C_Bridge
  imports Submission Event_Wire
begin

text \<open>
  \<open>native/src/c_bridge.rs\<close>: the C interface of the engine. A pointer argument is \<open>None\<close> when it is null
  and otherwise the bytes that can be read from it; an output pointer is a flag that it is not null,
  and what is written through it is part of the result. \<open>KestaraBytes\<close> are boxed slices on a heap, a
  partial function from addresses to bytes, with the allocator as a parameter. The JSON decoder and
  the text of a UTF-8 error belong to serde and the standard library and are parameters, as is the
  compile-time version string.
\<close>

subsection \<open>Owned bytes\<close>

record kestara_bytes =
  kb_data :: nat
  kb_length :: nat

definition EMPTY :: kestara_bytes where
  "EMPTY = \<lparr>kb_data = 0, kb_length = 0\<rparr>"

type_synonym heap = "nat \<Rightarrow> bytes option"

definition owned :: "(heap \<Rightarrow> nat) \<Rightarrow> bytes \<Rightarrow> heap \<Rightarrow> kestara_bytes \<times> heap" where
  "owned alloc data heap =
     (if data = [] then (EMPTY, heap)
      else (\<lparr>kb_data = alloc heap, kb_length = length data\<rparr>, heap(alloc heap \<mapsto> data)))"

text \<open>
  \<open>Box::from_raw\<close> may only be called on a slice that was leaked by \<open>owned\<close>, with its length; anything
  else is undefined behaviour (\<open>None\<close>).
\<close>

definition kestara_bytes_free :: "kestara_bytes \<Rightarrow> heap \<Rightarrow> heap option" where
  "kestara_bytes_free b heap =
     (if kb_data b = 0 then Some heap
      else case heap (kb_data b) of
        Some data \<Rightarrow> if length data = kb_length b then Some (heap(kb_data b := None)) else None
      | None \<Rightarrow> None)"

text \<open>What the caller reads through the value.\<close>

definition contents :: "kestara_bytes \<Rightarrow> heap \<Rightarrow> bytes option" where
  "contents b heap = (if kb_data b = 0 then Some [] else map_option (take (kb_length b)) (heap (kb_data b)))"

subsection \<open>Inputs\<close>

definition input :: "bytes option \<Rightarrow> usize \<Rightarrow> bytes result" where
  "input v len =
     (if len = 0 then Inr []
      else case v of None \<Rightarrow> Inl ''A native input pointer is null'' | Some m \<Rightarrow> Inr (take (unat len) m))"

definition required :: "string option \<Rightarrow> string \<Rightarrow> string result" where
  "required v name = ok_or (''The '' @ name @ '' is missing'') v"

definition optional_string :: "(bytes \<Rightarrow> string) \<Rightarrow> bytes option \<Rightarrow> usize \<Rightarrow> string option result" where
  "optional_string utf8_error v len =
     (case v of
        None \<Rightarrow> Inr None
      | Some _ \<Rightarrow> map_ok Some (and_then (input v len) (from_utf8 utf8_error)))"

definition decode_json :: "(bytes \<Rightarrow> 'a result) \<Rightarrow> bytes option \<Rightarrow> usize \<Rightarrow> 'a result" where
  "decode_json from_slice v len = and_then (input v len) from_slice"

subsection \<open>The boundary\<close>

definition write_error :: "(heap \<Rightarrow> nat) \<Rightarrow> bool \<Rightarrow> string \<Rightarrow> heap \<Rightarrow> kestara_bytes option \<times> heap" where
  "write_error alloc error_out error heap =
     (if error_out then map_prod Some id (owned alloc (into_bytes error) heap) else (None, heap))"

text \<open>
  \<open>caught\<close> is the result of the operation under \<open>catch_unwind\<close>, \<open>None\<close> when it panicked. The value is
  the status, what is written to \<open>error_out\<close>, and the heap.
\<close>

definition boundary ::
  "(heap \<Rightarrow> nat) \<Rightarrow> bool \<Rightarrow> unit result option \<Rightarrow> heap \<Rightarrow> i32 \<times> kestara_bytes option \<times> heap" where
  "boundary alloc error_out caught heap =
     (case caught of
        Some (Inr _) \<Rightarrow> (0, None, heap)
      | Some (Inl error) \<Rightarrow> (1, write_error alloc error_out error heap)
      | None \<Rightarrow> (2, write_error alloc error_out ''The native WebRTC boundary panicked'' heap))"

definition output_string ::
  "(heap \<Rightarrow> nat) \<Rightarrow> bool \<Rightarrow> bool \<Rightarrow> string result \<Rightarrow> heap \<Rightarrow>
   kestara_bytes option \<times> i32 \<times> kestara_bytes option \<times> heap" where
  "output_string alloc error_out value_out operation heap =
     (if \<not> value_out
      then (None, boundary alloc error_out (Some (Inl ''The value output pointer is null'')) heap)
      else case operation of
        Inl e \<Rightarrow> (None, boundary alloc error_out (Some (Inl e)) heap)
      | Inr v \<Rightarrow>
          (case owned alloc (into_bytes v) heap of
             (b, heap) \<Rightarrow> (Some b, boundary alloc error_out (Some (Inr ())) heap)))"

subsection \<open>Decoded arguments\<close>

record runtime_dto =
  rd_worker_threads :: usize
  rd_reactor_threads :: usize
  rd_certificate_pem :: "string option"
  rd_shared_udp_addresses :: "string list"
  rd_shared_tcp_addresses :: "string list"
  rd_shared_min_port :: i32
  rd_shared_max_port :: i32

record ice_server_dto =
  isd_urls :: "string list"
  isd_username :: string
  isd_credential :: string

record nat_mapping_dto =
  nm_addresses :: "string list"
  nm_mapping_type :: i32

record credentials_dto =
  cd_username_fragment :: string
  cd_password :: string

record peer_dto =
  pd_ice_servers :: "ice_server_dto list"
  pd_min_port :: i32
  pd_max_port :: i32
  pd_relay_only :: bool
  pd_disconnected_timeout_millis :: i64
  pd_failed_timeout_millis :: i64
  pd_keep_alive_interval_millis :: i64
  pd_check_interval_millis :: i64
  pd_max_binding_requests :: i32
  pd_host_acceptance_min_wait_millis :: i64
  pd_server_reflexive_acceptance_min_wait_millis :: i64
  pd_peer_reflexive_acceptance_min_wait_millis :: i64
  pd_relay_acceptance_min_wait_millis :: i64
  pd_network_type_mask :: i32
  pd_mdns_mode :: i32
  pd_mdns_query_timeout_millis :: i64
  pd_ice_lite :: bool
  pd_nat_mapping :: "nat_mapping_dto option"
  pd_discard_local_candidates_on_restart :: bool
  pd_candidate_pool_size :: u8
  pd_include_loopback_candidate :: bool
  pd_mdns_local_name :: "string option"
  pd_mdns_local_address :: "string option"
  pd_credentials :: "credentials_dto option"
  pd_sctp_send_buffer_limit :: usize
  pd_sctp_receive_buffer_size :: i32
  pd_sctp_maximum_message_size :: i32
  pd_receive_queue_capacity :: usize
  pd_dtls_answering_role :: i32
  pd_media_level_fingerprints :: bool
  pd_dtls_replay_protection_window :: usize
  pd_dtls_cipher_suite_mask :: i32
  pd_udp_bind_addresses :: "string list"
  pd_tcp_bind_addresses :: "string list"
  pd_receive_mtu :: usize

record data_channel_dto =
  dc_ordered :: bool
  dc_max_packet_life_time :: i32
  dc_max_retransmits :: i32
  dc_protocol :: string
  dc_negotiated_id :: i32

text \<open>\<open>serde_json::from_slice\<close> for the three types.\<close>

record json_decoders =
  json_runtime :: "bytes \<Rightarrow> runtime_dto result"
  json_peer :: "bytes \<Rightarrow> peer_dto result"
  json_data_channel :: "bytes \<Rightarrow> data_channel_dto result"

definition ice_servers :: "ice_server_dto list \<Rightarrow> ice_server list" where
  "ice_servers servers =
     map (\<lambda>server. \<lparr>srv_urls = isd_urls server, srv_username = isd_username server,
                     srv_credential = isd_credential server\<rparr>) servers"

definition nat_mapping_of :: "nat_mapping_dto option \<Rightarrow> (string list \<times> candidate_type) option result" where
  "nat_mapping_of v =
     (case v of
        None \<Rightarrow> Inr None
      | Some m \<Rightarrow>
          if nm_mapping_type m = 0 \<and> nm_addresses m \<noteq> [] then Inr (Some (nm_addresses m, Host))
          else if nm_mapping_type m = 1 \<and> nm_addresses m \<noteq> [] then Inr (Some (nm_addresses m, Srflx))
          else Inl ''Invalid ICE NAT mapping'')"

definition mdns_local_address_of :: "string option \<Rightarrow> ip_addr option result" where
  "mdns_local_address_of v =
     (case v of
        None \<Rightarrow> Inr None
      | Some address \<Rightarrow>
          map_ok Some (map_err (\<lambda>error. ''Invalid mDNS local address: '' @ error) (parse_ip_addr address)))"

definition peer_configuration :: "peer_dto \<Rightarrow> peer_configuration result" where
  "peer_configuration v =
     and_then (port (pd_min_port v) ''minimum'') (\<lambda>lo.
     and_then (port (pd_max_port v) ''maximum'') (\<lambda>hi.
     and_then (check_port_range ''Invalid UDP port range'' lo hi) (\<lambda>_.
     and_then (mdns_mode_of (pd_mdns_mode v)) (\<lambda>mode.
     and_then (nat_mapping_of (pd_nat_mapping v)) (\<lambda>nat.
     and_then (mdns_local_address_of (pd_mdns_local_address v)) (\<lambda>mdns_address.
     and_then (optional_duration (pd_disconnected_timeout_millis v) ''ICE disconnected timeout'') (\<lambda>disconnected.
     and_then (optional_duration (pd_failed_timeout_millis v) ''ICE failed timeout'') (\<lambda>failed.
     and_then (optional_duration (pd_keep_alive_interval_millis v) ''ICE keep-alive interval'') (\<lambda>keep_alive.
     and_then (optional_duration (pd_check_interval_millis v) ''ICE check interval'') (\<lambda>check.
     and_then (optional_u16 (pd_max_binding_requests v) ''maximum ICE binding requests'') (\<lambda>requests.
     and_then (optional_duration (pd_host_acceptance_min_wait_millis v)
        ''host candidate acceptance wait'') (\<lambda>host_wait.
     and_then (optional_duration (pd_server_reflexive_acceptance_min_wait_millis v)
        ''server-reflexive candidate acceptance wait'') (\<lambda>srflx_wait.
     and_then (optional_duration (pd_peer_reflexive_acceptance_min_wait_millis v)
        ''peer-reflexive candidate acceptance wait'') (\<lambda>prflx_wait.
     and_then (optional_duration (pd_relay_acceptance_min_wait_millis v)
        ''relay candidate acceptance wait'') (\<lambda>relay_wait.
     and_then (network_types (pd_network_type_mask v)) (\<lambda>types.
     and_then (optional_duration (pd_mdns_query_timeout_millis v) ''mDNS query timeout'') (\<lambda>mdns_timeout.
     and_then (positive_u32 (pd_sctp_receive_buffer_size v) ''SCTP receive buffer size'') (\<lambda>buffer_size.
     and_then (positive_u32 (pd_sctp_maximum_message_size v) ''SCTP maximum message size'') (\<lambda>message_size.
     and_then (answering_role_of (pd_dtls_answering_role v)) (\<lambda>role.
     and_then (cipher_suites (pd_dtls_cipher_suite_mask v)) (\<lambda>suites.
     Inr \<lparr>cfg_ice_servers = ice_servers (pd_ice_servers v), min_port = lo, max_port = hi,
          relay_only = pd_relay_only v,
          cfg_ice = \<lparr>disconnected_timeout = disconnected, failed_timeout = failed,
            keep_alive_interval = keep_alive, check_interval = check, max_binding_requests = requests,
            host_acceptance_min_wait = host_wait, server_reflexive_acceptance_min_wait = srflx_wait,
            peer_reflexive_acceptance_min_wait = prflx_wait, relay_acceptance_min_wait = relay_wait,
            ice_network_types = types, mdns_mode = mode, mdns_query_timeout = mdns_timeout,
            lite = pd_ice_lite v, nat_mapping = nat,
            discard_local_candidates_on_restart = pd_discard_local_candidates_on_restart v,
            candidate_pool_size = pd_candidate_pool_size v,
            include_loopback_candidate = pd_include_loopback_candidate v,
            mdns_local_name = pd_mdns_local_name v, mdns_local_address = mdns_address,
            ice_credentials = map_option (\<lambda>c. (cd_username_fragment c, cd_password c)) (pd_credentials v)\<rparr>,
          cfg_sctp = \<lparr>send_buffer_limit = pd_sctp_send_buffer_limit v, receive_buffer_size = buffer_size,
            maximum_message_size = message_size, receive_queue_capacity = pd_receive_queue_capacity v\<rparr>,
          cfg_dtls = \<lparr>answering_role = role, media_level_fingerprints = pd_media_level_fingerprints v,
            replay_protection_window = pd_dtls_replay_protection_window v, dtls_cipher_suites = suites\<rparr>,
          cfg_transport = \<lparr>udp_bind_addresses = pd_udp_bind_addresses v,
            tcp_bind_addresses = pd_tcp_bind_addresses v, receive_mtu = pd_receive_mtu v\<rparr>\<rparr>)))))))))))))))))))))"


subsection \<open>Entry points\<close>

definition kestara_abi_version :: i32 where
  "kestara_abi_version = NATIVE_ABI_VERSION"

definition kestara_library_version :: "(heap \<Rightarrow> nat) \<Rightarrow> string \<Rightarrow> heap \<Rightarrow> kestara_bytes \<times> heap" where
  "kestara_library_version alloc version = owned alloc (into_bytes version)"

text \<open>\<open>runtime_out\<close> is a flag that the pointer is not null; the first component is what is written to it.\<close>

definition runtime_configuration_of :: "runtime_dto \<Rightarrow> runtime_configuration result" where
  "runtime_configuration_of d =
     and_then (port (rd_shared_min_port d) ''shared minimum'') (\<lambda>lo.
     and_then (port (rd_shared_max_port d) ''shared maximum'') (\<lambda>hi.
     and_then (check_port_range ''Invalid shared socket port range'' lo hi) (\<lambda>_.
     Inr \<lparr>worker_threads = rd_worker_threads d, reactor_threads = rd_reactor_threads d,
          certificate_pem = rd_certificate_pem d, shared_udp_addresses = rd_shared_udp_addresses d,
          shared_tcp_addresses = rd_shared_tcp_addresses d, shared_min_port = lo, shared_max_port = hi\<rparr>)))"

definition kestara_runtime_create ::
  "'w webrtc_api \<Rightarrow> json_decoders \<Rightarrow> (heap \<Rightarrow> nat) \<Rightarrow> bytes option \<Rightarrow> usize \<Rightarrow> bool \<Rightarrow> bool \<Rightarrow> heap \<Rightarrow>
   'w process \<Rightarrow> 'w \<Rightarrow> (u64 option \<times> i32 \<times> kestara_bytes option \<times> heap) \<times> 'w process \<times> 'w" where
  "kestara_runtime_create api json alloc configuration configuration_length runtime_out error_out heap s w =
     (if \<not> runtime_out
      then ((None, boundary alloc error_out (Some (Inl ''The runtime output pointer is null'')) heap), s, w)
      else case and_then (decode_json (json_runtime json) configuration configuration_length)
                  runtime_configuration_of of
        Inl e \<Rightarrow> ((None, boundary alloc error_out (Some (Inl e)) heap), s, w)
      | Inr c \<Rightarrow>
          (case create api c s w of
             (Inl e, s, w) \<Rightarrow> ((None, boundary alloc error_out (Some (Inl e)) heap), s, w)
           | (Inr h, s, w) \<Rightarrow> ((Some h, boundary alloc error_out (Some (Inr ())) heap), s, w)))"

definition kestara_runtime_certificate_fingerprint ::
  "'w webrtc_api \<Rightarrow> (heap \<Rightarrow> nat) \<Rightarrow> u64 \<Rightarrow> bool \<Rightarrow> bool \<Rightarrow> heap \<Rightarrow> 'w process \<Rightarrow>
   kestara_bytes option \<times> i32 \<times> kestara_bytes option \<times> heap" where
  "kestara_runtime_certificate_fingerprint api alloc runtime_handle value_out error_out heap s =
     output_string alloc error_out value_out (certificate_fingerprint api runtime_handle s) heap"

definition kestara_runtime_certificate_pem ::
  "'w webrtc_api \<Rightarrow> (heap \<Rightarrow> nat) \<Rightarrow> u64 \<Rightarrow> bool \<Rightarrow> bool \<Rightarrow> heap \<Rightarrow> 'w process \<Rightarrow>
   kestara_bytes option \<times> i32 \<times> kestara_bytes option \<times> heap" where
  "kestara_runtime_certificate_pem api alloc runtime_handle value_out error_out heap s =
     output_string alloc error_out value_out (runtime_certificate_pem api runtime_handle s) heap"

definition CREATE_PEER :: i32 where "CREATE_PEER = 1"
definition RESTART_ICE :: i32 where "RESTART_ICE = 2"
definition SET_CONFIGURATION :: i32 where "SET_CONFIGURATION = 3"
definition CREATE_DESCRIPTION :: i32 where "CREATE_DESCRIPTION = 4"
definition SET_LOCAL_DESCRIPTION :: i32 where "SET_LOCAL_DESCRIPTION = 5"
definition SET_REMOTE_DESCRIPTION :: i32 where "SET_REMOTE_DESCRIPTION = 6"
definition ADD_ICE_CANDIDATE :: i32 where "ADD_ICE_CANDIDATE = 7"
definition CREATE_DATA_CHANNEL :: i32 where "CREATE_DATA_CHANNEL = 8"
definition SEND_TEXT :: i32 where "SEND_TEXT = 9"
definition SEND_BINARY :: i32 where "SEND_BINARY = 10"
definition TRY_SEND_TEXT :: i32 where "TRY_SEND_TEXT = 11"
definition TRY_SEND_BINARY :: i32 where "TRY_SEND_BINARY = 12"
definition DATA_CHANNEL_WRITABLE :: i32 where "DATA_CHANNEL_WRITABLE = 13"
definition DATA_CHANNEL_OUTSTANDING_BYTES :: i32 where "DATA_CHANNEL_OUTSTANDING_BYTES = 14"
definition SET_DATA_CHANNEL_THRESHOLDS :: i32 where "SET_DATA_CHANNEL_THRESHOLDS = 15"
definition GET_STATS :: i32 where "GET_STATS = 16"
definition ROTATE_CERTIFICATE :: i32 where "ROTATE_CERTIFICATE = 17"
definition CLOSE_DATA_CHANNEL :: i32 where "CLOSE_DATA_CHANNEL = 18"
definition CLOSE_PEER :: i32 where "CLOSE_PEER = 19"
definition CLOSE_RUNTIME :: i32 where "CLOSE_RUNTIME = 20"

lemmas command_kinds = CREATE_PEER_def RESTART_ICE_def SET_CONFIGURATION_def CREATE_DESCRIPTION_def
  SET_LOCAL_DESCRIPTION_def SET_REMOTE_DESCRIPTION_def ADD_ICE_CANDIDATE_def CREATE_DATA_CHANNEL_def
  SEND_TEXT_def SEND_BINARY_def TRY_SEND_TEXT_def TRY_SEND_BINARY_def DATA_CHANNEL_WRITABLE_def
  DATA_CHANNEL_OUTSTANDING_BYTES_def SET_DATA_CHANNEL_THRESHOLDS_def GET_STATS_def
  ROTATE_CERTIFICATE_def CLOSE_DATA_CHANNEL_def CLOSE_PEER_def CLOSE_RUNTIME_def

text \<open>The arguments of \<open>kestara_runtime_submit\<close> after the handles of the runtime and the operation.\<close>

record submit_arguments =
  sa_command_kind :: i32
  sa_target_handle :: u64
  sa_timeout_millis :: i64
  sa_text :: "bytes option"
  sa_text_length :: usize
  sa_secondary_text :: "bytes option"
  sa_secondary_text_length :: usize
  sa_number :: i64
  sa_secondary_number :: i64
  sa_data :: "bytes option"
  sa_data_length :: usize
  sa_configuration :: "bytes option"
  sa_configuration_length :: usize

definition data_channel_configuration_of ::
  "string option \<Rightarrow> data_channel_dto \<Rightarrow> data_channel_configuration result" where
  "data_channel_configuration_of txt d =
     and_then (required txt ''DataChannel label'') (\<lambda>label.
     and_then (optional_u16 (dc_max_packet_life_time d) ''maximum packet lifetime'') (\<lambda>life_time.
     and_then (optional_u16 (dc_max_retransmits d) ''maximum retransmissions'') (\<lambda>retransmits.
     and_then (optional_u16 (dc_negotiated_id d) ''negotiated DataChannel ID'') (\<lambda>negotiated.
     Inr \<lparr>chan_label = label, chan_ordered = dc_ordered d, chan_max_packet_life_time = life_time,
          chan_max_retransmits = retransmits, chan_protocol = dc_protocol d,
          chan_negotiated_id = negotiated\<rparr>))))"

text \<open>The \<open>match\<close> on the command kind, with the arguments already read.\<close>

definition command_of ::
  "sdp_parsers \<Rightarrow> json_decoders \<Rightarrow> u64 \<Rightarrow> submit_arguments \<Rightarrow> duration \<Rightarrow> string option \<Rightarrow> string option \<Rightarrow>
   bytes \<Rightarrow> request result" where
  "command_of parsers json op a t txt secondary data =
     (let kind = sa_command_kind a; target = sa_target_handle a; ok = (\<lambda>c. Inr (SubmitCommand c));
          peer = decode_json (json_peer json) (sa_configuration a) (sa_configuration_length a) in
      if kind = CREATE_PEER
      then and_then peer (\<lambda>d. and_then (peer_configuration d) (\<lambda>c. ok (CreatePeer op t c)))
      else if kind = RESTART_ICE then ok (RestartIce op t target)
      else if kind = SET_CONFIGURATION
      then and_then peer (\<lambda>d. ok (SetConfiguration op t target (ice_servers (pd_ice_servers d)) (pd_relay_only d)))
      else if kind = CREATE_DESCRIPTION
      then and_then (description_answer (sa_number a)) (\<lambda>answer. ok (CreateDescription op t target answer))
      else if kind = SET_LOCAL_DESCRIPTION \<or> kind = SET_REMOTE_DESCRIPTION
      then and_then (required txt ''session description'') (\<lambda>sdp.
           and_then (ok_or ''Invalid session description type'' (try_narrow_signed (sa_number a))) (\<lambda>n.
           case parse_description parsers sdp n of
             Inl error \<Rightarrow> Inr (CompleteError error)
           | Inr description \<Rightarrow>
               if kind = SET_LOCAL_DESCRIPTION then ok (SetLocalDescription op t target description)
               else ok (SetRemoteDescription op t target description)))
      else if kind = ADD_ICE_CANDIDATE
      then and_then (required txt ''ICE candidate'') (\<lambda>line.
           and_then (ok_or ''Invalid SDP m-line index'' (try_narrow_signed (sa_number a))) (\<lambda>n.
           and_then (optional_u16 n ''SDP m-line index'') (\<lambda>index.
           ok (AddIceCandidate op t target
                 \<lparr>ic_candidate = line, ic_sdp_mid = secondary, ic_sdp_mline_index = index,
                  ic_username_fragment = None, ic_url = None\<rparr>))))
      else if kind = CREATE_DATA_CHANNEL
      then and_then (decode_json (json_data_channel json) (sa_configuration a) (sa_configuration_length a)) (\<lambda>d.
           and_then (data_channel_configuration_of txt d) (\<lambda>c. ok (CreateDataChannel op t target c)))
      else if kind = SEND_TEXT
      then and_then (required txt ''DataChannel text'') (\<lambda>x. ok (SendText op t target x))
      else if kind = SEND_BINARY then ok (SendBinary op t target data)
      else if kind = TRY_SEND_TEXT
      then and_then (required txt ''DataChannel text'') (\<lambda>x. ok (TrySendText op t target x))
      else if kind = TRY_SEND_BINARY then ok (TrySendBinary op t target data)
      else if kind = DATA_CHANNEL_WRITABLE then ok (DataChannelWritable op t target)
      else if kind = DATA_CHANNEL_OUTSTANDING_BYTES then ok (DataChannelOutstandingBytes op t target)
      else if kind = SET_DATA_CHANNEL_THRESHOLDS
      then and_then (ok_or ''Invalid low buffered amount threshold'' (try_unsigned (sa_number a))) (\<lambda>low.
           and_then (ok_or ''Invalid high buffered amount threshold'' (try_unsigned (sa_secondary_number a))) (\<lambda>high.
           ok (SetDataChannelThresholds op t target low high)))
      else if kind = GET_STATS then ok (GetStats op t target)
      else if kind = ROTATE_CERTIFICATE then ok (RotateCertificate op t txt)
      else if kind = CLOSE_DATA_CHANNEL then ok (CloseDataChannel op t target)
      else if kind = CLOSE_PEER then ok (ClosePeer op t target)
      else if kind = CLOSE_RUNTIME then ok (Shutdown op t)
      else Inl (''Unknown native command: '' @ show_signed kind))"

definition submit_request ::
  "sdp_parsers \<Rightarrow> json_decoders \<Rightarrow> (bytes \<Rightarrow> string) \<Rightarrow> u64 \<Rightarrow> submit_arguments \<Rightarrow> request result" where
  "submit_request parsers json utf8_error op a =
     and_then (timeout (sa_timeout_millis a)) (\<lambda>t.
     and_then (optional_string utf8_error (sa_text a) (sa_text_length a)) (\<lambda>txt.
     and_then (optional_string utf8_error (sa_secondary_text a) (sa_secondary_text_length a)) (\<lambda>secondary.
     and_then (input (sa_data a) (sa_data_length a)) (\<lambda>data.
     command_of parsers json op a t txt secondary data))))"

definition kestara_runtime_submit ::
  "sdp_parsers \<Rightarrow> json_decoders \<Rightarrow> (bytes \<Rightarrow> string) \<Rightarrow> (heap \<Rightarrow> nat) \<Rightarrow> u64 \<Rightarrow> u64 \<Rightarrow> submit_arguments \<Rightarrow>
   bool \<Rightarrow> heap \<Rightarrow> 'w process \<Rightarrow> (i32 \<times> kestara_bytes option \<times> heap) \<times> 'w process" where
  "kestara_runtime_submit parsers json utf8_error alloc runtime_handle op a error_out heap s =
     (case submit_request parsers json utf8_error op a of
        Inl e \<Rightarrow> (boundary alloc error_out (Some (Inl e)) heap, s)
      | Inr r \<Rightarrow> (case perform runtime_handle op r s of
          (result, s) \<Rightarrow> (boundary alloc error_out (Some result) heap, s)))"

definition kestara_runtime_poll ::
  "(heap \<Rightarrow> nat) \<Rightarrow> u64 \<Rightarrow> i64 \<Rightarrow> bool \<Rightarrow> bool \<Rightarrow> heap \<Rightarrow> 'w process \<Rightarrow>
   (kestara_bytes option \<times> i32 \<times> kestara_bytes option \<times> heap) \<times> 'w process" where
  "kestara_runtime_poll alloc runtime_handle timeout_millis event_out error_out heap s =
     (if \<not> event_out
      then ((None, boundary alloc error_out (Some (Inl ''The event output pointer is null'')) heap), s)
      else case timeout timeout_millis of
        Inl e \<Rightarrow> ((None, boundary alloc error_out (Some (Inl e)) heap), s)
      | Inr _ \<Rightarrow>
          (case runtime_poll runtime_handle s of
             (Inl e, s) \<Rightarrow> ((None, boundary alloc error_out (Some (Inl e)) heap), s)
           | (Inr event, s) \<Rightarrow>
               (case (case event of None \<Rightarrow> (EMPTY, heap) | Some e \<Rightarrow> owned alloc (encode_event e) heap) of
                  (b, heap) \<Rightarrow> ((Some b, boundary alloc error_out (Some (Inr ())) heap), s))))"

definition kestara_runtime_wake ::
  "(heap \<Rightarrow> nat) \<Rightarrow> u64 \<Rightarrow> bool \<Rightarrow> heap \<Rightarrow> 'w process \<Rightarrow> (i32 \<times> kestara_bytes option \<times> heap) \<times> 'w process" where
  "kestara_runtime_wake alloc runtime_handle error_out heap s =
     (case runtime_wake runtime_handle s of (r, s) \<Rightarrow> (boundary alloc error_out (Some r) heap, s))"

definition kestara_runtime_release ::
  "(heap \<Rightarrow> nat) \<Rightarrow> bool \<Rightarrow> u64 \<Rightarrow> bool \<Rightarrow> heap \<Rightarrow> 'w process \<Rightarrow>
   (i32 \<times> kestara_bytes option \<times> heap) \<times> 'w process" where
  "kestara_runtime_release alloc panicked runtime_handle error_out heap s =
     (case release panicked runtime_handle s of (r, _, s) \<Rightarrow> (boundary alloc error_out (Some r) heap, s))"


subsection \<open>Memory\<close>

text \<open>
  What the allocator promises: a fresh address that is not null.
\<close>

definition allocates :: "(heap \<Rightarrow> nat) \<Rightarrow> heap \<Rightarrow> bool" where
  "allocates alloc heap \<longleftrightarrow> alloc heap \<noteq> 0 \<and> heap (alloc heap) = None"

lemma owned_contents:
  assumes "allocates alloc heap" and "owned alloc data heap = (b, heap')"
  shows "contents b heap' = Some data" and "kestara_bytes_free b heap' = Some heap"
    and "heap a \<noteq> None \<Longrightarrow> heap' a = heap a"
  using assms
  by (auto simp: owned_def allocates_def contents_def kestara_bytes_free_def EMPTY_def fun_upd_idem
      split: if_split_asm)

text \<open>
  C28: bytes returned through the C interface are handed over completely. What the caller reads is what
  was written, nothing that was allocated before is touched, and freeing the value once gives back
  exactly its memory; a second free of a value with content is not valid.
\<close>

theorem owned_bytes_handover:
  assumes "allocates alloc heap" and "owned alloc data heap = (b, heap')"
  shows "contents b heap' = Some data
    \<and> (\<forall>a. heap a \<noteq> None \<longrightarrow> heap' a = heap a)
    \<and> kestara_bytes_free b heap' = Some heap
    \<and> (data \<noteq> [] \<longrightarrow> kestara_bytes_free b heap = None)"
proof -
  have "data \<noteq> [] \<Longrightarrow> kestara_bytes_free b heap = None"
    using assms by (auto simp: owned_def allocates_def kestara_bytes_free_def)
  with owned_contents [OF assms] show ?thesis by blast
qed

subsection \<open>Statuses\<close>

lemma boundary_Some:
  "boundary alloc error_out (Some (Inr u)) heap = (0, None, heap)"
  "boundary alloc error_out (Some (Inl e)) heap = (1, write_error alloc error_out e heap)"
  by (simp_all add: boundary_def)

lemma boundary_status: "fst (boundary alloc error_out (Some r) heap) = 0 \<longleftrightarrow> accepts r"
  by (cases r) (simp_all add: boundary_Some)

lemma write_error_contents:
  assumes "allocates alloc heap"
  shows "case write_error alloc True e heap of (b, heap') \<Rightarrow> \<exists>v. b = Some v
    \<and> contents v heap' = Some (into_bytes e) \<and> kestara_bytes_free v heap' = Some heap"
  using owned_contents [OF assms, of "into_bytes e"]
  by (cases "owned alloc (into_bytes e) heap") (simp add: write_error_def)

subsection \<open>Submissions\<close>

lemma command_of_request:
  "all_ok (\<lambda>r. request_of op r \<and> (\<forall>c. r = SubmitCommand c \<longrightarrow> command_timeout c = t))
     (command_of parsers json op a t txt secondary data)"
  unfolding command_of_def Let_def by (intro all_ok_rules) simp_all

lemma submit_request_request:
  assumes "submit_request parsers json utf8_error op a = Inr r"
  shows "request_of op r"
    and "r = SubmitCommand c \<Longrightarrow> timeout (sa_timeout_millis a) = Inr (command_timeout c)"
proof -
  from assms obtain t x y d where t: "timeout (sa_timeout_millis a) = Inr t"
    and r: "command_of parsers json op a t x y d = Inr r"
    unfolding submit_request_def and_then_Inr_iff by blast
  from command_of_request [of op t parsers json a x y d] r t
  show "request_of op r" "r = SubmitCommand c \<Longrightarrow> timeout (sa_timeout_millis a) = Inr (command_timeout c)"
    by (simp_all add: all_ok_def)
qed

definition c_submit_taken ::
  "sdp_parsers \<Rightarrow> json_decoders \<Rightarrow> (bytes \<Rightarrow> string) \<Rightarrow> (heap \<Rightarrow> nat) \<Rightarrow> u64 \<Rightarrow> u64 \<Rightarrow> submit_arguments \<Rightarrow>
   bool \<Rightarrow> heap \<Rightarrow> 'w process \<Rightarrow> bool \<times> 'w process" where
  "c_submit_taken parsers json utf8_error alloc h op a error_out heap s =
     map_prod (\<lambda>(status, _). status = 0) id
       (kestara_runtime_submit parsers json utf8_error alloc h op a error_out heap s)"

lemma c_submit_taken_eq:
  "c_submit_taken parsers json utf8_error alloc h op a error_out heap =
     (\<lambda>s. case submit_request parsers json utf8_error op a of
         Inl e \<Rightarrow> (False, s) | Inr r \<Rightarrow> map_prod accepts id (perform h op r s))"
  by (auto simp: fun_eq_iff c_submit_taken_def kestara_runtime_submit_def boundary_Some
      case_prod_unfold boundary_status map_prod_def split: sum.split)

interpretation c_submission:
  submission "c_submit_taken parsers json utf8_error alloc h op a error_out heap" h op
  for parsers json utf8_error alloc h op a error_out heap
  unfolding c_submit_taken_eq
  by (rule perform_submission) (rule submit_request_request)

text \<open>
  C29: the C interface takes an operation over exactly once or not at all. With status 0 the runtime has
  one more command or completion event for the operation, and no other operation and no other
  runtime is affected; otherwise the status is 1, the process is unchanged, and the caller is given,
  in memory of its own, the text of the error that ended the call: the one of reading the arguments,
  or the one of handing the command or the completion to the runtime.
\<close>

theorem c_submit_answered_once:
  assumes "allocates alloc heap"
  shows "case kestara_runtime_submit parsers json utf8_error alloc h op a True heap s of
    ((status, error, heap'), s') \<Rightarrow>
      (\<forall>h' op'. answers s' h' op' = answers s h' op' + (if status = 0 \<and> h' = h \<and> op' = op then 1 else 0))
      \<and> (\<forall>h'. h' \<noteq> h \<longrightarrow> runtime_at s' h' = runtime_at s h')
      \<and> (status = 0 \<and> error = None \<and> heap' = heap
        \<or> status = 1 \<and> s' = s
          \<and> (\<exists>m v. (case submit_request parsers json utf8_error op a of
                 Inl e \<Rightarrow> m = e | Inr r \<Rightarrow> fst (perform h op r s) = Inl m)
            \<and> error = Some v \<and> contents v heap' = Some (into_bytes m)
            \<and> kestara_bytes_free v heap' = Some heap))"
proof (cases "kestara_runtime_submit parsers json utf8_error alloc h op a True heap s")
  case fields: (Pair b s')
  obtain status error heap' where b: "b = (status, error, heap')" by (metis prod.exhaust)
  have taken: "c_submit_taken parsers json utf8_error alloc h op a True heap s = (status = 0, s')"
    by (simp add: c_submit_taken_def fields b)
  obtain r where r: "boundary alloc True (Some r) heap = (status, error, heap')"
    "case submit_request parsers json utf8_error op a of
       Inl e \<Rightarrow> r = Inl e | Inr q \<Rightarrow> fst (perform h op q s) = r"
    using fields unfolding b kestara_runtime_submit_def by (auto split: sum.split_asm prod.split_asm)
  note c_submission.answered_once [of parsers json utf8_error alloc h op a True heap s]
    c_submission.isolated [of _ h parsers json utf8_error alloc op a True heap s]
    c_submission.unchanged_if_refused [of parsers json utf8_error alloc h op a True heap s]
  note this [unfolded taken fst_conv snd_conv]
  moreover have "status = 0 \<and> error = None \<and> heap' = heap
      \<or> status = 1 \<and> (\<exists>m v. (case submit_request parsers json utf8_error op a of
                 Inl e \<Rightarrow> m = e | Inr q \<Rightarrow> fst (perform h op q s) = Inl m)
            \<and> error = Some v \<and> contents v heap' = Some (into_bytes m)
            \<and> kestara_bytes_free v heap' = Some heap)"
  proof (cases r)
    case (Inl m)
    with r write_error_contents [OF assms, of m] show ?thesis
      by (intro disjI2) (auto simp: boundary_Some split: sum.splits)
  qed (use r(1) in \<open>simp add: boundary_Some\<close>)
  ultimately show ?thesis by (auto simp: fields b)
qed


text \<open>What the caller gets for the event at the head of the queue.\<close>

lemma c_poll_event:
  assumes "allocates alloc heap" and "get_runtime h s = Inr c" and "timeout millis = Inr t"
    and "st_events (ct_state c) = e # q" and "ev_kind e \<noteq> WAKE"
    and "text_ok (ev_text e)" and "text_ok (ev_secondary_text e)" and "length (encode_event e) < 2 ^ 31"
  shows "\<exists>b heap'. kestara_runtime_poll alloc h millis True error_out heap s =
      ((Some b, 0, None, heap'), put_runtime h (with_events (drop 1) c) s)
    \<and> kestara_bytes_free b heap' = Some heap
    \<and> (\<exists>bytes. contents b heap' = Some bytes \<and> decode_event bytes = Inr (e\<lparr>ev_delivery_permit := None\<rparr>))"
proof -
  obtain b heap' where b: "owned alloc (encode_event e) heap = (b, heap')" by fastforce
  have "decode_event (encode_event e) = Inr (e\<lparr>ev_delivery_permit := None\<rparr>)"
    using read_encode_event [of e "[]"] text_and_payload_ok [of e] assms(6-8)
    by (auto simp: decode_event_def text_ok_def)
  with owned_contents [OF assms(1) b] assms(2-5) show ?thesis
    by (simp add: kestara_runtime_poll_def runtime_poll_def boundary_Some b with_events_def)
qed

text \<open>
  C30: polling through the C interface. On a known runtime the call has status 0 and takes the oldest
  entry of the event queue; the bytes that are written decode, on the Kotlin side, to that event
  with all its fields except the permit, and no bytes are written for a wake-up or an empty queue.
  The caller owns exactly these bytes.
\<close>

theorem c_poll_roundtrip:
  assumes "allocates alloc heap" and "get_runtime h s = Inr c" and "timeout millis = Inr t"
    and "\<forall>e \<in> set (st_events (ct_state c)). text_ok (ev_text e) \<and> text_ok (ev_secondary_text e)
      \<and> length (encode_event e) < 2 ^ 31"
  shows "\<exists>b heap'. kestara_runtime_poll alloc h millis True error_out heap s =
      ((Some b, 0, None, heap'), put_runtime h (with_events (drop 1) c) s)
    \<and> kestara_bytes_free b heap' = Some heap
    \<and> (case st_events (ct_state c) of
         e # _ \<Rightarrow> if ev_kind e = WAKE then contents b heap' = Some []
                 else \<exists>bytes. contents b heap' = Some bytes
                   \<and> decode_event bytes = Inr (e\<lparr>ev_delivery_permit := None\<rparr>)
       | [] \<Rightarrow> contents b heap' = Some [])"
proof (cases "st_events (ct_state c)")
  case Nil
  then show ?thesis
    using assms(2,3) by (simp add: kestara_runtime_poll_def runtime_poll_def boundary_Some
        contents_def kestara_bytes_free_def EMPTY_def with_events_def)
next
  case (Cons e es)
  show ?thesis
  proof (cases "ev_kind e = WAKE")
    case True
    then show ?thesis
      using assms(2,3) Cons by (simp add: kestara_runtime_poll_def runtime_poll_def boundary_Some
          contents_def kestara_bytes_free_def EMPTY_def with_events_def)
  next
    case False
    with c_poll_event [OF assms(1-3) Cons] assms(4) Cons show ?thesis by simp
  qed
qed

subsection \<open>Examples\<close>

definition sample_alloc :: "heap \<Rightarrow> nat" where
  "sample_alloc heap = (if heap 4096 = None then 4096 else 8192)"

definition sample_json :: json_decoders where
  "sample_json = \<lparr>json_runtime = (\<lambda>_. Inl ''EOF''), json_peer = (\<lambda>_. Inl ''EOF''),
     json_data_channel = (\<lambda>_. Inl ''EOF'')\<rparr>"

definition restart_arguments :: submit_arguments where
  "restart_arguments = \<lparr>sa_command_kind = 2, sa_target_handle = 1, sa_timeout_millis = 1000,
     sa_text = None, sa_text_length = 0, sa_secondary_text = None, sa_secondary_text_length = 0,
     sa_number = 0, sa_secondary_number = 0, sa_data = None, sa_data_length = 0,
     sa_configuration = None, sa_configuration_length = 0\<rparr>"

lemma sample_allocates: "allocates sample_alloc Map.empty"
  by (simp add: allocates_def sample_alloc_def)

theorem owned_bytes_handover_witness:
  "contents \<lparr>kb_data = 4096, kb_length = 2\<rparr> (Map.empty(4096 \<mapsto> [7, 8])) = Some [7, 8]
   \<and> kestara_bytes_free \<lparr>kb_data = 4096, kb_length = 2\<rparr> (Map.empty(4096 \<mapsto> [7, 8])) = Some Map.empty"
proof -
  have "owned sample_alloc [7, 8] Map.empty
      = (\<lparr>kb_data = 4096, kb_length = 2\<rparr>, Map.empty(4096 \<mapsto> [7, 8]))"
    by (simp add: owned_def sample_alloc_def)
  from owned_bytes_handover [OF sample_allocates this] show ?thesis by blast
qed

theorem c_submit_answered_once_witness:
  "\<exists>error heap' s'. kestara_runtime_submit sample_parsers sample_json (\<lambda>_. ''utf8'') sample_alloc 1 7
       restart_arguments True Map.empty sample_process = ((0, error, heap'), s')
     \<and> answers s' 1 7 = answers sample_process 1 7 + 1"
proof -
  obtain error heap' s' where r: "kestara_runtime_submit sample_parsers sample_json (\<lambda>_. ''utf8'')
      sample_alloc 1 7 restart_arguments True Map.empty sample_process = ((0, error, heap'), s')"
    by (simp add: kestara_runtime_submit_def submit_request_def command_of_def restart_arguments_def
        command_kinds timeout_def try_unsigned_def optional_string_def input_def submit_def
        sample_process_runtime new_controller_def boundary_Some)
  from c_submit_answered_once [OF sample_allocates, where parsers = sample_parsers and json = sample_json
      and utf8_error = "\<lambda>_. ''utf8''" and h = 1 and op = 7 and a = restart_arguments and s = sample_process]
  have "answers s' 1 7 = answers sample_process 1 7 + 1" unfolding r by simp
  with r show ?thesis by blast
qed

theorem c_poll_roundtrip_witness:
  "\<exists>b heap' s'. kestara_runtime_poll sample_alloc 1 0 True True Map.empty
       (snd (complete_error 1 7 ''busy'' sample_process)) = ((Some b, 0, None, heap'), s')
     \<and> (\<exists>bytes. contents b heap' = Some bytes
          \<and> decode_event bytes = Inr (event_operation 7 (Inl ''busy'')))"
proof -
  let ?c = "with_events (\<lambda>q. q @ [event_operation 7 (Inl ''busy'')]) (new_controller sample_state)"
  have c: "get_runtime 1 (snd (complete_error 1 7 ''busy'' sample_process)) = Inr ?c"
    by (simp add: complete_error_def sample_process_runtime get_runtime_Inr)
      (simp add: sample_process_def)
  have e: "st_events (ct_state ?c) = [event_operation 7 (Inl ''busy'')]"
    by (simp add: with_events_def new_controller_def sample_state_def new_runtime_state_def)
  have "rust_string ''busy''"
    unfolding rust_string_def by (rule utf8_valid_ascii) (simp add: into_bytes_def byte_of_char_def)
  then have "\<forall>e \<in> set (st_events (ct_state ?c)). text_ok (ev_text e) \<and> text_ok (ev_secondary_text e)
      \<and> length (encode_event e) < 2 ^ 31"
    unfolding e by (simp add: event_operation_def text_ok_def payload_ok_def encode_event_eq
        encode_optional_Some) (simp add: encode_optional_def)
  moreover have "timeout 0 = Inr 0" by (simp add: timeout_def try_unsigned_def from_millis_def)
  ultimately show ?thesis
    using c_poll_roundtrip [OF sample_allocates c, of 0 0 True]
    unfolding e by (force simp: event_operation_def kind_defs)
qed

end
