(* ===== verification/Jni_Bridge.thy ===== *)
theory Jni_Bridge
  imports Submission
begin

text \<open>
  \<open>native/src/bridge.rs\<close>: the JNI interface of the engine. The jni crate and the virtual machine are not
  part of the repository: what the code calls of them is the record \<open>jni_env\<close>, an argument of every
  entry point. A Java reference is \<open>None\<close> when it is null. The methods of the Java class are called
  \<open>nativeX\<close> here, without the mangled prefix of their symbols.
\<close>

subsection \<open>The Java environment\<close>

type_synonym jobject = "nat option"
type_synonym jstring = jobject
type_synonym jarray = nat
type_synonym jni_error = string

text \<open>The arguments of the constructor of \<open>JvmNativeEvent\<close>.\<close>

record jvm_native_event =
  je_kind :: i32
  je_peer_handle :: i64
  je_channel_handle :: i64
  je_operation_handle :: i64
  je_text :: jobject
  je_secondary_text :: jobject
  je_number :: i32
  je_data :: jobject
  je_message_handle :: i64
  je_direct_data :: jobject

record jni_env =
  try_to_string :: "jstring \<Rightarrow> jni_error + string"
  array_len :: "jarray \<Rightarrow> jni_error + nat"
  get_element :: "jarray \<Rightarrow> nat \<Rightarrow> jni_error + jstring"
  convert_byte_array :: "jarray \<Rightarrow> jni_error + bytes"
  throw_new :: "string \<Rightarrow> string \<Rightarrow> jni_error + unit"
  new_string :: "string \<Rightarrow> jni_error + jobject"
  new_direct_byte_buffer :: "nat \<Rightarrow> nat \<Rightarrow> jni_error + jobject"
  byte_array_from_slice :: "bytes \<Rightarrow> jni_error + jobject"
  new_event :: "jvm_native_event \<Rightarrow> jni_error + jobject"

definition read_string :: "jni_env \<Rightarrow> jstring \<Rightarrow> jni_error + string" where
  "read_string env v = try_to_string env v"

definition read_optional_string :: "jni_env \<Rightarrow> jstring \<Rightarrow> jni_error + string option" where
  "read_optional_string env v = (if v = None then Inr None else map_ok Some (read_string env v))"

definition read_string_array :: "jni_env \<Rightarrow> jarray \<Rightarrow> jni_error + string list" where
  "read_string_array env a =
     and_then (array_len env a) (\<lambda>n.
       collect_results (\<lambda>i. and_then (get_element env a i) (read_string env)) [0..<n])"

definition optional_java_string :: "jni_env \<Rightarrow> string option \<Rightarrow> jni_error + jobject" where
  "optional_java_string env v = (case v of Some t \<Rightarrow> new_string env t | None \<Rightarrow> Inr None)"

text \<open>
  What the Java caller sees: a value or an exception. A body returns with \<open>Err\<close> when a call on the
  environment failed, which \<open>resolve\<close> turns into a \<open>RuntimeException\<close>; its second component is an
  exception it has thrown itself.
\<close>

datatype 'a java = Returns 'a | Throws string string

definition resolve :: "(jni_error + 'a) \<times> (string \<times> string) option \<Rightarrow> 'a java" where
  "resolve r =
     (case r of
        (_, Some (class_name, message)) \<Rightarrow> Throws class_name message
      | (Inl e, None) \<Rightarrow> Throws ''java/lang/RuntimeException'' e
      | (Inr v, None) \<Rightarrow> Returns v)"

definition webrtc_exception :: string where
  "webrtc_exception = ''com/enderdash/kestara/webrtc/WebRtcException''"

definition operation_result ::
  "jni_env \<Rightarrow> 'a \<Rightarrow> 'a result \<Rightarrow> (jni_error + 'a) \<times> (string \<times> string) option" where
  "operation_result env default_v result =
     (case result of
        Inr v \<Rightarrow> (Inr v, None)
      | Inl message \<Rightarrow>
          (case throw_new env webrtc_exception message of
             Inr _ \<Rightarrow> (Inr default_v, Some (webrtc_exception, message))
           | Inl e \<Rightarrow> (Inl e, None)))"

subsection \<open>Submissions\<close>

text \<open>
  Every submitting entry point reads its Java arguments first, then checks and converts them, and then
  hands the request to the runtime.
\<close>

type_synonym prepared = "jni_error + (u64 \<times> u64 \<times> request) result"

definition native_submit :: "jni_env \<Rightarrow> prepared \<Rightarrow> 'w process \<Rightarrow> unit java \<times> 'w process" where
  "native_submit env arguments s =
     (case arguments of
        Inl e \<Rightarrow> (resolve (Inl e, None), s)
      | Inr (Inl e) \<Rightarrow> (resolve (operation_result env () (Inl e)), s)
      | Inr (Inr (runtime_handle, op, request)) \<Rightarrow>
          (case perform runtime_handle op request s of
             (r, s) \<Rightarrow> (resolve (operation_result env () r), s)))"

text \<open>\<open>runtime::submit(handle?, Command { operation_handle?, timeout?, target?, .. })\<close>\<close>

definition simple_request ::
  "i64 \<Rightarrow> i64 \<Rightarrow> i64 \<Rightarrow> i64 \<Rightarrow> (u64 \<Rightarrow> duration \<Rightarrow> u64 \<Rightarrow> command result) \<Rightarrow> (u64 \<times> u64 \<times> request) result" where
  "simple_request runtime_handle op millis target command =
     and_then (handle_from_jlong runtime_handle) (\<lambda>h.
     and_then (handle_from_jlong op) (\<lambda>op.
     and_then (timeout millis) (\<lambda>t.
     and_then (handle_from_jlong target) (\<lambda>target.
     and_then (command op t target) (\<lambda>c. Inr (h, op, SubmitCommand c))))))"

definition submit_simple_channel_command ::
  "jni_env \<Rightarrow> i64 \<Rightarrow> i64 \<Rightarrow> i64 \<Rightarrow> i64 \<Rightarrow> (u64 \<Rightarrow> duration \<Rightarrow> u64 \<Rightarrow> command) \<Rightarrow> 'w process \<Rightarrow> unit java \<times> 'w process" where
  "submit_simple_channel_command env runtime_handle op channel_handle millis command =
     native_submit env (Inr (simple_request runtime_handle op millis channel_handle
       (\<lambda>op t h. Inr (command op t h))))"

definition submit_description ::
  "jni_env \<Rightarrow> sdp_parsers \<Rightarrow> i64 \<Rightarrow> i64 \<Rightarrow> i64 \<Rightarrow> jstring \<Rightarrow> i32 \<Rightarrow> i64 \<Rightarrow> bool \<Rightarrow> 'w process \<Rightarrow> unit java \<times> 'w process" where
  "submit_description env parsers runtime_handle op peer_handle sdp description_type millis local =
     native_submit env
       (map_ok (\<lambda>sdp.
          and_then (handle_from_jlong runtime_handle) (\<lambda>h.
          and_then (handle_from_jlong op) (\<lambda>op.
          and_then (handle_from_jlong peer_handle) (\<lambda>peer.
          and_then (timeout millis) (\<lambda>t.
          Inr (h, op,
            case parse_description parsers sdp description_type of
              Inr d \<Rightarrow> SubmitCommand
                (if local then SetLocalDescription op t peer d else SetRemoteDescription op t peer d)
            | Inl e \<Rightarrow> CompleteError e))))))
          (read_string env sdp))"

definition nativeSubmitRestartIce ::
  "jni_env \<Rightarrow> i64 \<Rightarrow> i64 \<Rightarrow> i64 \<Rightarrow> i64 \<Rightarrow> 'w process \<Rightarrow> unit java \<times> 'w process" where
  "nativeSubmitRestartIce env runtime_handle op peer_handle millis =
     native_submit env (Inr (simple_request runtime_handle op millis peer_handle
       (\<lambda>op t h. Inr (RestartIce op t h))))"

text \<open>The ICE servers of three parallel arrays.\<close>

definition jni_ice_servers :: "string list \<Rightarrow> string list \<Rightarrow> string list \<Rightarrow> ice_server list" where
  "jni_ice_servers urls usernames credentials =
     map (\<lambda>((url, username), credential).
            \<lparr>srv_urls = [url], srv_username = username, srv_credential = credential\<rparr>)
       (zip (zip urls usernames) credentials)"

definition check_ice_servers :: "string list \<Rightarrow> string list \<Rightarrow> string list \<Rightarrow> unit result" where
  "check_ice_servers urls usernames credentials =
     (if length urls \<noteq> length usernames \<or> length urls \<noteq> length credentials
      then Inl ''ICE server arrays must have the same length'' else Inr ())"

definition check_policy :: "i32 \<Rightarrow> unit result" where
  "check_policy policy =
     (if 0 \<le> sint policy \<and> sint policy \<le> 1 then Inr () else Inl ''Invalid ICE transport policy'')"

definition nativeSubmitSetConfiguration ::
  "jni_env \<Rightarrow> i64 \<Rightarrow> i64 \<Rightarrow> i64 \<Rightarrow> jarray \<Rightarrow> jarray \<Rightarrow> jarray \<Rightarrow> i32 \<Rightarrow> i64 \<Rightarrow> 'w process \<Rightarrow> unit java \<times> 'w process" where
  "nativeSubmitSetConfiguration env runtime_handle op peer_handle urls usernames credentials policy millis =
     native_submit env
       (and_then (read_string_array env urls) (\<lambda>urls.
        and_then (read_string_array env usernames) (\<lambda>usernames.
        and_then (read_string_array env credentials) (\<lambda>credentials.
        Inr (and_then (check_ice_servers urls usernames credentials) (\<lambda>_.
             and_then (check_policy policy) (\<lambda>_.
             simple_request runtime_handle op millis peer_handle
               (\<lambda>op t h. Inr (SetConfiguration op t h (jni_ice_servers urls usernames credentials)
                               (policy = 1))))))))))"

definition nativeSubmitCreateDescription ::
  "jni_env \<Rightarrow> i64 \<Rightarrow> i64 \<Rightarrow> i64 \<Rightarrow> i32 \<Rightarrow> i64 \<Rightarrow> 'w process \<Rightarrow> unit java \<times> 'w process" where
  "nativeSubmitCreateDescription env runtime_handle op peer_handle description_type millis =
     native_submit env (Inr
       (and_then (handle_from_jlong runtime_handle) (\<lambda>h.
        and_then (handle_from_jlong op) (\<lambda>op.
        and_then (handle_from_jlong peer_handle) (\<lambda>peer.
        and_then (description_answer description_type) (\<lambda>answer.
        and_then (timeout millis) (\<lambda>t.
        Inr (h, op, SubmitCommand (CreateDescription op t peer answer)))))))))"

definition nativeSubmitSetLocalDescription ::
  "jni_env \<Rightarrow> sdp_parsers \<Rightarrow> i64 \<Rightarrow> i64 \<Rightarrow> i64 \<Rightarrow> jstring \<Rightarrow> i32 \<Rightarrow> i64 \<Rightarrow> 'w process \<Rightarrow> unit java \<times> 'w process" where
  "nativeSubmitSetLocalDescription env parsers runtime_handle op peer_handle sdp description_type millis =
     submit_description env parsers runtime_handle op peer_handle sdp description_type millis True"

definition nativeSubmitSetRemoteDescription ::
  "jni_env \<Rightarrow> sdp_parsers \<Rightarrow> i64 \<Rightarrow> i64 \<Rightarrow> i64 \<Rightarrow> jstring \<Rightarrow> i32 \<Rightarrow> i64 \<Rightarrow> 'w process \<Rightarrow> unit java \<times> 'w process" where
  "nativeSubmitSetRemoteDescription env parsers runtime_handle op peer_handle sdp description_type millis =
     submit_description env parsers runtime_handle op peer_handle sdp description_type millis False"

definition nativeSubmitAddIceCandidate ::
  "jni_env \<Rightarrow> i64 \<Rightarrow> i64 \<Rightarrow> i64 \<Rightarrow> jstring \<Rightarrow> jstring \<Rightarrow> i32 \<Rightarrow> i64 \<Rightarrow> 'w process \<Rightarrow> unit java \<times> 'w process" where
  "nativeSubmitAddIceCandidate env runtime_handle op peer_handle line sdp_mid sdp_mline_index millis =
     native_submit env
       (and_then (read_string env line) (\<lambda>line.
        and_then (read_optional_string env sdp_mid) (\<lambda>sdp_mid.
        Inr (simple_request runtime_handle op millis peer_handle
          (\<lambda>op t h. and_then (optional_u16 sdp_mline_index ''SDP m-line index'') (\<lambda>index.
             Inr (AddIceCandidate op t h
                    \<lparr>ic_candidate = line, ic_sdp_mid = sdp_mid, ic_sdp_mline_index = index,
                     ic_username_fragment = None, ic_url = None\<rparr>)))))))"

definition nativeSubmitCreateDataChannel ::
  "jni_env \<Rightarrow> i64 \<Rightarrow> i64 \<Rightarrow> i64 \<Rightarrow> jstring \<Rightarrow> bool \<Rightarrow> i32 \<Rightarrow> i32 \<Rightarrow> jstring \<Rightarrow> i32 \<Rightarrow> i64 \<Rightarrow> 'w process \<Rightarrow>
   unit java \<times> 'w process" where
  "nativeSubmitCreateDataChannel env runtime_handle op peer_handle label ordered max_packet_life_time
     max_retransmits protocol negotiated_id millis =
     native_submit env
       (and_then (read_string env label) (\<lambda>label.
        and_then (read_string env protocol) (\<lambda>protocol.
        Inr (simple_request runtime_handle op millis peer_handle
          (\<lambda>op t h.
             and_then (optional_u16 max_packet_life_time ''maximum packet lifetime'') (\<lambda>life_time.
             and_then (optional_u16 max_retransmits ''maximum retransmissions'') (\<lambda>retransmits.
             and_then (optional_u16 negotiated_id ''negotiated DataChannel ID'') (\<lambda>negotiated.
             Inr (CreateDataChannel op t h
                    \<lparr>chan_label = label, chan_ordered = ordered, chan_max_packet_life_time = life_time,
                     chan_max_retransmits = retransmits, chan_protocol = protocol,
                     chan_negotiated_id = negotiated\<rparr>)))))))))"


definition nativeSubmitSendDataChannelText ::
  "jni_env \<Rightarrow> i64 \<Rightarrow> i64 \<Rightarrow> i64 \<Rightarrow> jstring \<Rightarrow> i64 \<Rightarrow> 'w process \<Rightarrow> unit java \<times> 'w process" where
  "nativeSubmitSendDataChannelText env runtime_handle op channel_handle message millis =
     native_submit env (map_ok (\<lambda>x. simple_request runtime_handle op millis channel_handle
       (\<lambda>op t h. Inr (SendText op t h x))) (read_string env message))"

definition nativeSubmitSendDataChannelBinary ::
  "jni_env \<Rightarrow> i64 \<Rightarrow> i64 \<Rightarrow> i64 \<Rightarrow> jarray \<Rightarrow> i64 \<Rightarrow> 'w process \<Rightarrow> unit java \<times> 'w process" where
  "nativeSubmitSendDataChannelBinary env runtime_handle op channel_handle data millis =
     native_submit env (map_ok (\<lambda>d. simple_request runtime_handle op millis channel_handle
       (\<lambda>op t h. Inr (SendBinary op t h d))) (convert_byte_array env data))"

definition nativeSubmitTrySendDataChannelText ::
  "jni_env \<Rightarrow> i64 \<Rightarrow> i64 \<Rightarrow> i64 \<Rightarrow> jstring \<Rightarrow> i64 \<Rightarrow> 'w process \<Rightarrow> unit java \<times> 'w process" where
  "nativeSubmitTrySendDataChannelText env runtime_handle op channel_handle message millis =
     native_submit env (map_ok (\<lambda>x. simple_request runtime_handle op millis channel_handle
       (\<lambda>op t h. Inr (TrySendText op t h x))) (read_string env message))"

definition nativeSubmitTrySendDataChannelBinary ::
  "jni_env \<Rightarrow> i64 \<Rightarrow> i64 \<Rightarrow> i64 \<Rightarrow> jarray \<Rightarrow> i64 \<Rightarrow> 'w process \<Rightarrow> unit java \<times> 'w process" where
  "nativeSubmitTrySendDataChannelBinary env runtime_handle op channel_handle data millis =
     native_submit env (map_ok (\<lambda>d. simple_request runtime_handle op millis channel_handle
       (\<lambda>op t h. Inr (TrySendBinary op t h d))) (convert_byte_array env data))"

definition nativeSubmitDataChannelWritable ::
  "jni_env \<Rightarrow> i64 \<Rightarrow> i64 \<Rightarrow> i64 \<Rightarrow> i64 \<Rightarrow> 'w process \<Rightarrow> unit java \<times> 'w process" where
  "nativeSubmitDataChannelWritable env runtime_handle op channel_handle millis =
     submit_simple_channel_command env runtime_handle op channel_handle millis DataChannelWritable"

definition nativeSubmitDataChannelOutstandingBytes ::
  "jni_env \<Rightarrow> i64 \<Rightarrow> i64 \<Rightarrow> i64 \<Rightarrow> i64 \<Rightarrow> 'w process \<Rightarrow> unit java \<times> 'w process" where
  "nativeSubmitDataChannelOutstandingBytes env runtime_handle op channel_handle millis =
     submit_simple_channel_command env runtime_handle op channel_handle millis DataChannelOutstandingBytes"

definition nativeSubmitSetDataChannelThresholds ::
  "jni_env \<Rightarrow> i64 \<Rightarrow> i64 \<Rightarrow> i64 \<Rightarrow> i64 \<Rightarrow> i64 \<Rightarrow> i64 \<Rightarrow> 'w process \<Rightarrow> unit java \<times> 'w process" where
  "nativeSubmitSetDataChannelThresholds env runtime_handle op channel_handle low high millis =
     native_submit env (Inr
       (and_then (ok_or ''Low buffered amount threshold must not be negative'' (try_unsigned low :: u32 option)) (\<lambda>low.
        and_then (ok_or ''High buffered amount threshold must not be negative'' (try_unsigned high :: u32 option)) (\<lambda>high.
        and_then (if high < low then Inl ''Low buffered amount threshold must not exceed high'' else Inr ()) (\<lambda>_.
        simple_request runtime_handle op millis channel_handle
          (\<lambda>op t h. Inr (SetDataChannelThresholds op t h low high)))))))"

definition nativeSubmitGetStats ::
  "jni_env \<Rightarrow> i64 \<Rightarrow> i64 \<Rightarrow> i64 \<Rightarrow> i64 \<Rightarrow> 'w process \<Rightarrow> unit java \<times> 'w process" where
  "nativeSubmitGetStats env runtime_handle op peer_handle millis =
     native_submit env (Inr (simple_request runtime_handle op millis peer_handle
       (\<lambda>op t h. Inr (GetStats op t h))))"

definition nativeSubmitRotateCertificate ::
  "jni_env \<Rightarrow> i64 \<Rightarrow> i64 \<Rightarrow> jstring \<Rightarrow> i64 \<Rightarrow> 'w process \<Rightarrow> unit java \<times> 'w process" where
  "nativeSubmitRotateCertificate env runtime_handle op pem millis =
     native_submit env (map_ok (\<lambda>pem.
       and_then (handle_from_jlong runtime_handle) (\<lambda>h.
       and_then (handle_from_jlong op) (\<lambda>op.
       and_then (timeout millis) (\<lambda>t.
       Inr (h, op, SubmitCommand (RotateCertificate op t (if pem \<noteq> [] then Some pem else None)))))))
       (read_string env pem))"

definition nativeSubmitCloseDataChannel ::
  "jni_env \<Rightarrow> i64 \<Rightarrow> i64 \<Rightarrow> i64 \<Rightarrow> i64 \<Rightarrow> 'w process \<Rightarrow> unit java \<times> 'w process" where
  "nativeSubmitCloseDataChannel env runtime_handle op channel_handle millis =
     native_submit env (Inr (simple_request runtime_handle op millis channel_handle
       (\<lambda>op t h. Inr (CloseDataChannel op t h))))"

definition nativeSubmitClosePeer ::
  "jni_env \<Rightarrow> i64 \<Rightarrow> i64 \<Rightarrow> i64 \<Rightarrow> i64 \<Rightarrow> 'w process \<Rightarrow> unit java \<times> 'w process" where
  "nativeSubmitClosePeer env runtime_handle op peer_handle millis =
     native_submit env (Inr (simple_request runtime_handle op millis peer_handle
       (\<lambda>op t h. Inr (ClosePeer op t h))))"

definition nativeSubmitCloseRuntime ::
  "jni_env \<Rightarrow> i64 \<Rightarrow> i64 \<Rightarrow> i64 \<Rightarrow> 'w process \<Rightarrow> unit java \<times> 'w process" where
  "nativeSubmitCloseRuntime env runtime_handle op millis =
     native_submit env (Inr
       (and_then (handle_from_jlong runtime_handle) (\<lambda>h.
        and_then (handle_from_jlong op) (\<lambda>op.
        and_then (timeout millis) (\<lambda>t.
        Inr (h, op, SubmitCommand (Shutdown op t)))))))"

subsection \<open>Creating a peer\<close>

record peer_arguments =
  pa_urls :: jarray
  pa_usernames :: jarray
  pa_credentials :: jarray
  pa_min_port :: i32
  pa_max_port :: i32
  pa_ice_transport_policy :: i32
  pa_disconnected_timeout_millis :: i64
  pa_failed_timeout_millis :: i64
  pa_keep_alive_interval_millis :: i64
  pa_check_interval_millis :: i64
  pa_max_binding_requests :: i32
  pa_host_acceptance_min_wait_millis :: i64
  pa_server_reflexive_acceptance_min_wait_millis :: i64
  pa_peer_reflexive_acceptance_min_wait_millis :: i64
  pa_relay_acceptance_min_wait_millis :: i64
  pa_network_type_mask :: i32
  pa_mdns_mode :: i32
  pa_mdns_query_timeout_millis :: i64
  pa_ice_lite :: bool
  pa_nat_addresses :: jarray
  pa_nat_mapping_type :: i32
  pa_discard_local_candidates_on_restart :: bool
  pa_candidate_pool_size :: i32
  pa_include_loopback_candidate :: bool
  pa_mdns_local_name :: jstring
  pa_mdns_local_address :: jstring
  pa_ice_username_fragment :: jstring
  pa_ice_password :: jstring
  pa_sctp_send_buffer_limit :: i32
  pa_sctp_receive_buffer_size :: i32
  pa_sctp_maximum_message_size :: i32
  pa_data_channel_receive_queue_capacity :: i32
  pa_dtls_answering_role :: i32
  pa_media_level_fingerprints :: bool
  pa_dtls_replay_protection_window :: i32
  pa_dtls_cipher_suite_mask :: i32
  pa_udp_bind_addresses :: jarray
  pa_tcp_bind_addresses :: jarray
  pa_receive_mtu :: i32

text \<open>The strings read from them.\<close>

record peer_strings =
  ps_urls :: "string list"
  ps_usernames :: "string list"
  ps_credentials :: "string list"
  ps_nat_addresses :: "string list"
  ps_mdns_local_name :: string
  ps_mdns_local_address :: string
  ps_ice_username_fragment :: string
  ps_ice_password :: string
  ps_udp_bind_addresses :: "string list"
  ps_tcp_bind_addresses :: "string list"

definition read_peer_strings :: "jni_env \<Rightarrow> peer_arguments \<Rightarrow> jni_error + peer_strings" where
  "read_peer_strings env a =
     and_then (read_string_array env (pa_urls a)) (\<lambda>urls.
     and_then (read_string_array env (pa_usernames a)) (\<lambda>usernames.
     and_then (read_string_array env (pa_credentials a)) (\<lambda>credentials.
     and_then (read_string_array env (pa_nat_addresses a)) (\<lambda>nat_addresses.
     and_then (read_string env (pa_mdns_local_name a)) (\<lambda>mdns_name.
     and_then (read_string env (pa_mdns_local_address a)) (\<lambda>mdns_address.
     and_then (read_string env (pa_ice_username_fragment a)) (\<lambda>fragment.
     and_then (read_string env (pa_ice_password a)) (\<lambda>password.
     and_then (read_string_array env (pa_udp_bind_addresses a)) (\<lambda>udp.
     and_then (read_string_array env (pa_tcp_bind_addresses a)) (\<lambda>tcp.
     Inr \<lparr>ps_urls = urls, ps_usernames = usernames, ps_credentials = credentials,
          ps_nat_addresses = nat_addresses, ps_mdns_local_name = mdns_name,
          ps_mdns_local_address = mdns_address, ps_ice_username_fragment = fragment,
          ps_ice_password = password, ps_udp_bind_addresses = udp, ps_tcp_bind_addresses = tcp\<rparr>))))))))))"

definition jni_nat_mapping :: "i32 \<Rightarrow> string list \<Rightarrow> (string list \<times> candidate_type) option result" where
  "jni_nat_mapping mapping_type addresses =
     (if mapping_type = - 1 \<and> addresses = [] then Inr None
      else if mapping_type = 0 \<and> addresses \<noteq> [] then Inr (Some (addresses, Host))
      else if mapping_type = 1 \<and> addresses \<noteq> [] then Inr (Some (addresses, Srflx))
      else Inl ''Invalid ICE NAT mapping'')"

definition positive_usize :: "i32 \<Rightarrow> string \<Rightarrow> usize result" where
  "positive_usize v message =
     and_then (ok_or message (try_unsigned v)) (\<lambda>n. if n = 0 then Inl message else Inr n)"

definition check_sctp_sizes :: "u32 \<Rightarrow> u32 \<Rightarrow> unit result" where
  "check_sctp_sizes buffer_size message_size =
     (if 256 * 1024 < message_size then Inl ''SCTP maximum message size must not exceed 262144''
      else if buffer_size < 1500 \<or> buffer_size < message_size
      then Inl ''SCTP receive buffer size must cover the maximum message size''
      else Inr ())"

definition jni_mdns_address :: "string \<Rightarrow> ip_addr option result" where
  "jni_mdns_address address =
     (if address = [] then Inr None
      else map_ok Some (map_err (\<lambda>error. ''Invalid mDNS local address: '' @ error) (parse_ip_addr address)))"

definition jni_credentials :: "string \<Rightarrow> string \<Rightarrow> (string \<times> string) option result" where
  "jni_credentials fragment password =
     (if fragment = [] \<and> password = [] then Inr None
      else if fragment \<noteq> [] \<and> password \<noteq> [] then Inr (Some (fragment, password))
      else Inl ''ICE username fragment and password must be set together'')"

definition jni_pool_size :: "i32 \<Rightarrow> u8 result" where
  "jni_pool_size n =
     (if n = 0 then Inr 0 else if n = 1 then Inr 1 else Inl ''ICE candidate pool size must be 0 or 1'')"

text \<open>The closure of \<open>nativeSubmitCreatePeer\<close> that checks the arguments, in the order of its checks.\<close>

definition create_peer_request ::
  "i64 \<Rightarrow> i64 \<Rightarrow> peer_arguments \<Rightarrow> i64 \<Rightarrow> peer_strings \<Rightarrow> (u64 \<times> u64 \<times> request) result" where
  "create_peer_request runtime_handle op a millis p =
     and_then (handle_from_jlong runtime_handle) (\<lambda>h.
     and_then (handle_from_jlong op) (\<lambda>op.
     and_then (check_ice_servers (ps_urls p) (ps_usernames p) (ps_credentials p)) (\<lambda>_.
     and_then (port (pa_min_port a) ''minimum'') (\<lambda>lo.
     and_then (port (pa_max_port a) ''maximum'') (\<lambda>hi.
     and_then (check_port_range ''Invalid UDP port range'' lo hi) (\<lambda>_.
     and_then (check_policy (pa_ice_transport_policy a)) (\<lambda>_.
     and_then (network_types (pa_network_type_mask a)) (\<lambda>types.
     and_then (mdns_mode_of (pa_mdns_mode a)) (\<lambda>mode.
     and_then (jni_nat_mapping (pa_nat_mapping_type a) (ps_nat_addresses p)) (\<lambda>nat.
     and_then (positive_u32 (pa_sctp_receive_buffer_size a) ''SCTP receive buffer size'') (\<lambda>buffer_size.
     and_then (positive_u32 (pa_sctp_maximum_message_size a) ''SCTP maximum message size'') (\<lambda>message_size.
     and_then (positive_usize (pa_data_channel_receive_queue_capacity a)
        ''DataChannel receive queue capacity must be positive'') (\<lambda>capacity.
     and_then (check_sctp_sizes buffer_size message_size) (\<lambda>_.
     and_then (timeout millis) (\<lambda>t.
     and_then (answering_role_of (pa_dtls_answering_role a)) (\<lambda>role.
     and_then (positive_usize (pa_dtls_replay_protection_window a)
        ''DTLS replay protection window must be positive'') (\<lambda>window.
     and_then (ok_or ''Receive MTU must not be negative'' (try_unsigned (pa_receive_mtu a))) (\<lambda>mtu.
     and_then (jni_mdns_address (ps_mdns_local_address p)) (\<lambda>mdns_address.
     and_then (jni_credentials (ps_ice_username_fragment p) (ps_ice_password p)) (\<lambda>credentials.
     and_then (optional_duration (pa_disconnected_timeout_millis a) ''ICE disconnected timeout'') (\<lambda>disconnected.
     and_then (optional_duration (pa_failed_timeout_millis a) ''ICE failed timeout'') (\<lambda>failed.
     and_then (optional_duration (pa_keep_alive_interval_millis a) ''ICE keep-alive interval'') (\<lambda>keep_alive.
     and_then (optional_duration (pa_check_interval_millis a) ''ICE check interval'') (\<lambda>check.
     and_then (optional_u16 (pa_max_binding_requests a) ''maximum ICE binding requests'') (\<lambda>requests.
     and_then (optional_duration (pa_host_acceptance_min_wait_millis a)
        ''host candidate acceptance wait'') (\<lambda>host_wait.
     and_then (optional_duration (pa_server_reflexive_acceptance_min_wait_millis a)
        ''server-reflexive candidate acceptance wait'') (\<lambda>srflx_wait.
     and_then (optional_duration (pa_peer_reflexive_acceptance_min_wait_millis a)
        ''peer-reflexive candidate acceptance wait'') (\<lambda>prflx_wait.
     and_then (optional_duration (pa_relay_acceptance_min_wait_millis a)
        ''relay candidate acceptance wait'') (\<lambda>relay_wait.
     and_then (optional_duration (pa_mdns_query_timeout_millis a) ''mDNS query timeout'') (\<lambda>mdns_timeout.
     and_then (jni_pool_size (pa_candidate_pool_size a)) (\<lambda>pool.
     and_then (ok_or ''SCTP send buffer limit must not be negative''
        (try_unsigned (pa_sctp_send_buffer_limit a))) (\<lambda>limit.
     and_then (cipher_suites (pa_dtls_cipher_suite_mask a)) (\<lambda>suites.
     Inr (h, op, SubmitCommand (CreatePeer op t
       \<lparr>cfg_ice_servers = jni_ice_servers (ps_urls p) (ps_usernames p) (ps_credentials p),
        min_port = lo, max_port = hi, relay_only = (pa_ice_transport_policy a = 1),
        cfg_ice = \<lparr>disconnected_timeout = disconnected, failed_timeout = failed,
          keep_alive_interval = keep_alive, check_interval = check, max_binding_requests = requests,
          host_acceptance_min_wait = host_wait, server_reflexive_acceptance_min_wait = srflx_wait,
          peer_reflexive_acceptance_min_wait = prflx_wait, relay_acceptance_min_wait = relay_wait,
          ice_network_types = types, mdns_mode = mode, mdns_query_timeout = mdns_timeout,
          lite = pa_ice_lite a, nat_mapping = nat,
          discard_local_candidates_on_restart = pa_discard_local_candidates_on_restart a,
          candidate_pool_size = pool,
          include_loopback_candidate = pa_include_loopback_candidate a,
          mdns_local_name = (if ps_mdns_local_name p \<noteq> [] then Some (ps_mdns_local_name p) else None),
          mdns_local_address = mdns_address, ice_credentials = credentials\<rparr>,
        cfg_sctp = \<lparr>send_buffer_limit = limit, receive_buffer_size = buffer_size,
          maximum_message_size = message_size, receive_queue_capacity = capacity\<rparr>,
        cfg_dtls = \<lparr>answering_role = role, media_level_fingerprints = pa_media_level_fingerprints a,
          replay_protection_window = window, dtls_cipher_suites = suites\<rparr>,
        cfg_transport = \<lparr>udp_bind_addresses = ps_udp_bind_addresses p,
          tcp_bind_addresses = ps_tcp_bind_addresses p, receive_mtu = mtu\<rparr>\<rparr>)))))))))))))))))))))))))))))))))))"

definition nativeSubmitCreatePeer ::
  "jni_env \<Rightarrow> i64 \<Rightarrow> i64 \<Rightarrow> peer_arguments \<Rightarrow> i64 \<Rightarrow> 'w process \<Rightarrow> unit java \<times> 'w process" where
  "nativeSubmitCreatePeer env runtime_handle op a millis =
     native_submit env (map_ok (create_peer_request runtime_handle op a millis) (read_peer_strings env a))"


subsection \<open>The other entry points\<close>

definition nativeAbiVersion :: i32 where
  "nativeAbiVersion = NATIVE_ABI_VERSION"

definition nativeLibraryVersion :: "jni_env \<Rightarrow> string \<Rightarrow> jobject java" where
  "nativeLibraryVersion env version = resolve (new_string env version, None)"

definition java_string :: "jni_env \<Rightarrow> string result \<Rightarrow> jobject java" where
  "java_string env r = resolve (operation_result env None (and_then r (new_string env)))"

definition nativeRuntimeCertificateFingerprint ::
  "'w webrtc_api \<Rightarrow> jni_env \<Rightarrow> i64 \<Rightarrow> 'w process \<Rightarrow> jobject java" where
  "nativeRuntimeCertificateFingerprint api env runtime_handle s =
     java_string env (and_then (handle_from_jlong runtime_handle) (\<lambda>h. certificate_fingerprint api h s))"

definition nativeRuntimeCertificatePem ::
  "'w webrtc_api \<Rightarrow> jni_env \<Rightarrow> i64 \<Rightarrow> 'w process \<Rightarrow> jobject java" where
  "nativeRuntimeCertificatePem api env runtime_handle s =
     java_string env (and_then (handle_from_jlong runtime_handle) (\<lambda>h. runtime_certificate_pem api h s))"

definition jni_runtime_configuration ::
  "i32 \<Rightarrow> i32 \<Rightarrow> string \<Rightarrow> string list \<Rightarrow> string list \<Rightarrow> i32 \<Rightarrow> i32 \<Rightarrow> runtime_configuration result" where
  "jni_runtime_configuration workers reactors pem udp tcp shared_min shared_max =
     and_then (ok_or ''The worker thread count must not be negative'' (try_unsigned workers)) (\<lambda>workers.
     and_then (ok_or ''The reactor thread count must not be negative'' (try_unsigned reactors)) (\<lambda>reactors.
     and_then (port shared_min ''shared minimum'') (\<lambda>lo.
     and_then (port shared_max ''shared maximum'') (\<lambda>hi.
     and_then (check_port_range ''Invalid shared socket port range'' lo hi) (\<lambda>_.
     Inr \<lparr>worker_threads = workers, reactor_threads = reactors,
          certificate_pem = (if pem \<noteq> [] then Some pem else None), shared_udp_addresses = udp,
          shared_tcp_addresses = tcp, shared_min_port = lo, shared_max_port = hi\<rparr>)))))"

definition nativeCreateRuntime ::
  "'w webrtc_api \<Rightarrow> jni_env \<Rightarrow> i32 \<Rightarrow> i32 \<Rightarrow> jstring \<Rightarrow> jarray \<Rightarrow> jarray \<Rightarrow> i32 \<Rightarrow> i32 \<Rightarrow>
   'w process \<Rightarrow> 'w \<Rightarrow> i64 java \<times> 'w process \<times> 'w" where
  "nativeCreateRuntime api env workers reactors pem udp tcp shared_min shared_max s w =
     (case and_then (read_string env pem) (\<lambda>pem.
           and_then (read_string_array env udp) (\<lambda>udp.
           and_then (read_string_array env tcp) (\<lambda>tcp. Inr (pem, udp, tcp)))) of
        Inl e \<Rightarrow> (resolve (Inl e, None), s, w)
      | Inr (pem, udp, tcp) \<Rightarrow>
          (case jni_runtime_configuration workers reactors pem udp tcp shared_min shared_max of
             Inl e \<Rightarrow> (resolve (operation_result env 0 (Inl e)), s, w)
           | Inr c \<Rightarrow>
               (case create api c s w of
                  (r, s, w) \<Rightarrow> (resolve (operation_result env 0 (and_then r handle_to_jlong)), s, w))))"

definition nativeReleaseBuffer :: "jni_env \<Rightarrow> i64 \<Rightarrow> i64 \<Rightarrow> 'w process \<Rightarrow> unit java \<times> 'w process" where
  "nativeReleaseBuffer env runtime_handle buffer_handle s =
     (case and_then (handle_from_jlong runtime_handle) (\<lambda>h.
           and_then (handle_from_jlong buffer_handle) (\<lambda>b. Inr (h, b))) of
        Inl e \<Rightarrow> (resolve (operation_result env () (Inl e)), s)
      | Inr (h, b) \<Rightarrow>
          (case release_buffer h b s of (r, s) \<Rightarrow> (resolve (operation_result env () r), s)))"

definition nativeWakeRuntime :: "jni_env \<Rightarrow> i64 \<Rightarrow> 'w process \<Rightarrow> unit java \<times> 'w process" where
  "nativeWakeRuntime env runtime_handle s =
     (case handle_from_jlong runtime_handle of
        Inl e \<Rightarrow> (resolve (operation_result env () (Inl e)), s)
      | Inr h \<Rightarrow> (case runtime_wake h s of (r, s) \<Rightarrow> (resolve (operation_result env () r), s)))"

definition nativeReleaseRuntime :: "jni_env \<Rightarrow> bool \<Rightarrow> i64 \<Rightarrow> 'w process \<Rightarrow> unit java \<times> 'w process" where
  "nativeReleaseRuntime env panicked runtime_handle s =
     (case handle_from_jlong runtime_handle of
        Inl e \<Rightarrow> (resolve (operation_result env () (Inl e)), s)
      | Inr h \<Rightarrow> (case release panicked h s of (r, _, s) \<Rightarrow> (resolve (operation_result env () r), s)))"

subsection \<open>Polling\<close>

definition default_view :: native_buffer_view where
  "default_view = \<lparr>view_handle = 0, view_address = 0, view_length = 0\<rparr>"

text \<open>
  The event object. \<open>thrown\<close> is the exception of a failed buffer registration, after which the body
  goes on with the default view.
\<close>

definition event_object ::
  "jni_env \<Rightarrow> native_event \<Rightarrow> jobject \<Rightarrow> jobject \<Rightarrow> bytes option \<Rightarrow> i64 \<Rightarrow> (jni_error + jobject) \<Rightarrow>
   jni_error + jobject" where
  "event_object env event txt secondary data message_handle direct =
     and_then direct (\<lambda>direct_data.
     and_then (case data of Some d \<Rightarrow> byte_array_from_slice env d | None \<Rightarrow> Inr None) (\<lambda>data.
     new_event env
       \<lparr>je_kind = ev_kind event,
        je_peer_handle = unwrap_or 0 (handle_to_jlong (ev_peer_handle event)),
        je_channel_handle = unwrap_or 0 (handle_to_jlong (ev_channel_handle event)),
        je_operation_handle = unwrap_or 0 (handle_to_jlong (ev_operation_handle event)),
        je_text = txt, je_secondary_text = secondary, je_number = ev_number event, je_data = data,
        je_message_handle = message_handle, je_direct_data = direct_data\<rparr>))"

definition nativePollRuntimeEvent ::
  "jni_env \<Rightarrow> nat \<Rightarrow> i64 \<Rightarrow> i64 \<Rightarrow> 'w process \<Rightarrow> jobject java \<times> 'w process" where
  "nativePollRuntimeEvent env address runtime_handle millis s =
     (case (case and_then (handle_from_jlong runtime_handle) (\<lambda>h. map_ok (\<lambda>_. h) (timeout millis)) of
              Inl e \<Rightarrow> (Inl e, s) | Inr h \<Rightarrow> runtime_poll h s) of
        (result, s) \<Rightarrow>
          (case operation_result env None result of
             (Inl e, thrown) \<Rightarrow> (resolve (Inl e, thrown), s)
           | (Inr None, thrown) \<Rightarrow> (resolve (Inr None, thrown), s)
           | (Inr (Some event), _) \<Rightarrow>
               (case and_then (optional_java_string env (ev_text event)) (\<lambda>txt.
                     map_ok (\<lambda>secondary. (txt, secondary)) (optional_java_string env (ev_secondary_text event))) of
                  Inl e \<Rightarrow> (resolve (Inl e, None), s)
                | Inr (txt, secondary) \<Rightarrow>
                    (case ev_delivery_permit event of
                       None \<Rightarrow>
                         (resolve (event_object env event txt secondary (ev_data event) 0 (Inr None), None), s)
                     | Some permit \<Rightarrow>
                         (case (case handle_from_jlong runtime_handle of
                                  Inl e \<Rightarrow> (Inl e, s)
                                | Inr h \<Rightarrow> register_delivery_buffer h (ev_data event) permit address s) of
                            (registered, s) \<Rightarrow>
                              (case operation_result env default_view registered of
                                 (Inl e, thrown) \<Rightarrow> (resolve (Inl e, thrown), s)
                               | (Inr view, thrown) \<Rightarrow>
                                   (resolve (event_object env event txt secondary None
                                      (unwrap_or 0 (handle_to_jlong (view_handle view)))
                                      (if ev_kind event = DATA_CHANNEL_BINARY
                                       then new_direct_byte_buffer env (view_address view) (view_length view)
                                       else Inr None), thrown), s)))))))"


subsection \<open>The entry points as submissions\<close>

text \<open>The submitting methods with the arguments they do not share.\<close>

datatype jni_call =
    CallCreatePeer peer_arguments
  | CallRestartIce i64
  | CallSetConfiguration i64 jarray jarray jarray i32
  | CallCreateDescription i64 i32
  | CallSetLocalDescription i64 jstring i32
  | CallSetRemoteDescription i64 jstring i32
  | CallAddIceCandidate i64 jstring jstring i32
  | CallCreateDataChannel i64 jstring bool i32 i32 jstring i32
  | CallSendText i64 jstring
  | CallSendBinary i64 jarray
  | CallTrySendText i64 jstring
  | CallTrySendBinary i64 jarray
  | CallWritable i64
  | CallOutstandingBytes i64
  | CallSetThresholds i64 i64 i64
  | CallGetStats i64
  | CallRotateCertificate jstring
  | CallCloseDataChannel i64
  | CallClosePeer i64
  | CallCloseRuntime

fun native_call :: "jni_env \<Rightarrow> sdp_parsers \<Rightarrow> i64 \<Rightarrow> i64 \<Rightarrow> i64 \<Rightarrow> jni_call \<Rightarrow> 'w process \<Rightarrow> unit java \<times> 'w process" where
  "native_call env parsers h op t (CallCreatePeer a) = nativeSubmitCreatePeer env h op a t"
| "native_call env parsers h op t (CallRestartIce p) = nativeSubmitRestartIce env h op p t"
| "native_call env parsers h op t (CallSetConfiguration p u n c policy) =
     nativeSubmitSetConfiguration env h op p u n c policy t"
| "native_call env parsers h op t (CallCreateDescription p k) = nativeSubmitCreateDescription env h op p k t"
| "native_call env parsers h op t (CallSetLocalDescription p d k) =
     nativeSubmitSetLocalDescription env parsers h op p d k t"
| "native_call env parsers h op t (CallSetRemoteDescription p d k) =
     nativeSubmitSetRemoteDescription env parsers h op p d k t"
| "native_call env parsers h op t (CallAddIceCandidate p l m i) = nativeSubmitAddIceCandidate env h op p l m i t"
| "native_call env parsers h op t (CallCreateDataChannel p l b m r q n) =
     nativeSubmitCreateDataChannel env h op p l b m r q n t"
| "native_call env parsers h op t (CallSendText c x) = nativeSubmitSendDataChannelText env h op c x t"
| "native_call env parsers h op t (CallSendBinary c x) = nativeSubmitSendDataChannelBinary env h op c x t"
| "native_call env parsers h op t (CallTrySendText c x) = nativeSubmitTrySendDataChannelText env h op c x t"
| "native_call env parsers h op t (CallTrySendBinary c x) = nativeSubmitTrySendDataChannelBinary env h op c x t"
| "native_call env parsers h op t (CallWritable c) = nativeSubmitDataChannelWritable env h op c t"
| "native_call env parsers h op t (CallOutstandingBytes c) = nativeSubmitDataChannelOutstandingBytes env h op c t"
| "native_call env parsers h op t (CallSetThresholds c low high) =
     nativeSubmitSetDataChannelThresholds env h op c low high t"
| "native_call env parsers h op t (CallGetStats p) = nativeSubmitGetStats env h op p t"
| "native_call env parsers h op t (CallRotateCertificate pem) = nativeSubmitRotateCertificate env h op pem t"
| "native_call env parsers h op t (CallCloseDataChannel c) = nativeSubmitCloseDataChannel env h op c t"
| "native_call env parsers h op t (CallClosePeer p) = nativeSubmitClosePeer env h op p t"
| "native_call env parsers h op t CallCloseRuntime = nativeSubmitCloseRuntime env h op t"

text \<open>
  A handle that passes the check is the number the caller gave, so every request is for the runtime and
  the operation of the call.
\<close>

definition request_for :: "u64 \<Rightarrow> u64 \<Rightarrow> prepared \<Rightarrow> bool" where
  "request_for h op arguments \<longleftrightarrow>
     all_ok (all_ok (\<lambda>(h', op', r). h' = h \<and> op' = op \<and> request_of op r)) arguments"

lemma handle_from_jlong_same: "handle_from_jlong v = Inr h \<Longrightarrow> h = v"
  by (auto simp: handle_from_jlong_def try_unsigned_def split: if_split_asm)

lemma all_ok_handle: "all_ok P (f v) \<Longrightarrow> all_ok P (and_then (handle_from_jlong v) f)"
  by (auto simp: all_ok_def result_simps dest: handle_from_jlong_same)

lemma all_ok_map: "(\<And>x. all_ok P (g x)) \<Longrightarrow> all_ok (all_ok P) (map_ok g r)"
  by (auto simp: all_ok_def)

lemma all_ok_simple_request:
  assumes "\<And>t target. all_ok (\<lambda>c. operation_handle c = op) (command op t target)"
  shows "all_ok (\<lambda>(h', op', r). h' = h \<and> op' = op \<and> request_of op r) (simple_request h op millis target command)"
  using assms unfolding simple_request_def all_ok_def by (auto simp: result_simps dest!: handle_from_jlong_same)

lemma all_ok_create_peer_request:
  "all_ok (\<lambda>(h', op', r). h' = h \<and> op' = op \<and> request_of op r) (create_peer_request h op a millis p)"
  unfolding create_peer_request_def by (rule all_ok_handle all_ok_rules)+ simp

lemmas request_rules = all_ok_create_peer_request all_ok_simple_request all_ok_map all_ok_handle all_ok_rules

definition submits :: "jni_env \<Rightarrow> u64 \<Rightarrow> u64 \<Rightarrow> ('w process \<Rightarrow> unit java \<times> 'w process) \<Rightarrow> bool" where
  "submits env h op f \<longleftrightarrow> (\<exists>arguments. request_for h op arguments \<and> f = native_submit env arguments)"

lemma submits_native:
  "all_ok (all_ok (\<lambda>(h', op', r). h' = h \<and> op' = op \<and> request_of op r)) arguments \<Longrightarrow>
     submits env h op (native_submit env arguments)"
  by (auto simp: submits_def request_for_def)

lemmas native_defs = nativeSubmitCreatePeer_def nativeSubmitRestartIce_def
  nativeSubmitSetConfiguration_def nativeSubmitCreateDescription_def nativeSubmitSetLocalDescription_def
  nativeSubmitSetRemoteDescription_def submit_description_def nativeSubmitAddIceCandidate_def
  nativeSubmitCreateDataChannel_def nativeSubmitSendDataChannelText_def
  nativeSubmitSendDataChannelBinary_def nativeSubmitTrySendDataChannelText_def
  nativeSubmitTrySendDataChannelBinary_def nativeSubmitDataChannelWritable_def
  nativeSubmitDataChannelOutstandingBytes_def submit_simple_channel_command_def
  nativeSubmitSetDataChannelThresholds_def nativeSubmitGetStats_def nativeSubmitRotateCertificate_def
  nativeSubmitCloseDataChannel_def nativeSubmitClosePeer_def nativeSubmitCloseRuntime_def

lemma native_call_submits: "submits env h op (native_call env parsers h op t jc)"
  by (cases jc; simp only: native_call.simps native_defs; rule submits_native;
      (rule request_rules | simp split: sum.split)+)


lemma resolve_operation_result:
  "resolve (operation_result env d r) = Returns v \<longleftrightarrow> r = Inr v"
  by (cases r) (auto simp: operation_result_def resolve_def split: sum.split)

lemma resolve_simps [simp]:
  "resolve (Inl e, None) = Throws ''java/lang/RuntimeException'' e" "resolve (Inr v, None) = Returns v"
  "resolve (r, Some (c, m)) = Throws c m"
  by (simp_all add: resolve_def split: sum.split)

interpretation jni_submission:
  submission "\<lambda>s. map_prod (\<lambda>r. r = Returns ()) id (native_call env parsers h op t jc s)" h op
  for env parsers h op t jc
proof -
  obtain arguments where a: "request_for h op arguments"
    and f: "native_call env parsers h op t jc = (native_submit env arguments :: 'a process \<Rightarrow> _)"
    using native_call_submits [of env h op parsers t jc] by (auto simp: submits_def)
  define b where "b = (case arguments of Inl e \<Rightarrow> Inl e | Inr x \<Rightarrow> map_ok (\<lambda>(_, _, r). r) x)"
  have "map_prod (\<lambda>r. r = Returns ()) id (native_call env parsers h op t jc s) =
      (case b of Inl e \<Rightarrow> (False, s) | Inr r \<Rightarrow> map_prod accepts id (perform h op r s))" for s :: "'a process"
  proof (cases "\<exists>h' op' r. arguments = Inr (Inr (h', op', r))")
    case True
    with a obtain r where r: "arguments = Inr (Inr (h, op, r))" by (auto simp: request_for_def all_ok_def)
    obtain x s' where x: "perform h op r s = (x, s')" by fastforce
    have "resolve (operation_result env () x) = Returns () \<longleftrightarrow> accepts x"
      by (cases x) (simp_all add: resolve_operation_result)
    then show ?thesis unfolding f by (simp add: native_submit_def r x b_def)
  next
    case False
    then show ?thesis unfolding f
      by (cases arguments; cases "projr arguments")
        (auto simp: native_submit_def b_def resolve_operation_result)
  qed
  moreover have "b = Inr r \<Longrightarrow> request_of op r" for r
    using a by (auto simp: b_def request_for_def all_ok_def split: sum.split_asm)
  ultimately show "submission (\<lambda>s :: 'a process.
      map_prod (\<lambda>r. r = Returns ()) id (native_call env parsers h op t jc s)) h op"
    using perform_submission [of b op h] by simp
qed

text \<open>
  C31: the JNI interface takes an operation over exactly once or not at all. A submitting method that
  returns normally has left one more command or completion event for its operation in its runtime,
  and affected no other operation and no other runtime; one that throws has changed nothing.
\<close>

theorem jni_submit_answered_once:
  "case native_call env parsers h op t jc s of
     (Returns _, s') \<Rightarrow>
       (\<forall>h' op'. answers s' h' op' = answers s h' op' + (if h' = h \<and> op' = op then 1 else 0))
       \<and> (\<forall>h'. h' \<noteq> h \<longrightarrow> runtime_at s' h' = runtime_at s h')
   | (Throws _ _, s') \<Rightarrow> s' = s"
proof -
  obtain r s' where r: "native_call env parsers h op t jc s = (r, s')" by fastforce
  have "answers s' h' op' = answers s h' op' + (if r = Returns () \<and> h' = h \<and> op' = op then 1 else 0)"
    "h' \<noteq> h \<Longrightarrow> runtime_at s' h' = runtime_at s h'" "r \<noteq> Returns () \<Longrightarrow> s' = s" for h' op'
    using jni_submission.answered_once [of env parsers h op t jc s h' op']
      jni_submission.isolated [of h' h env parsers op t jc s]
      jni_submission.unchanged_if_refused [of env parsers h op t jc s]
    by (simp_all add: r)
  then show ?thesis by (cases r) (auto simp: r)
qed


subsection \<open>Delivery to the JVM\<close>

text \<open>An environment in which every call on it succeeds, with the objects it makes.\<close>

definition env_makes :: "jni_env \<Rightarrow> (string \<Rightarrow> nat) \<Rightarrow> (bytes \<Rightarrow> nat) \<Rightarrow> (nat \<Rightarrow> nat \<Rightarrow> nat) \<Rightarrow> (jvm_native_event \<Rightarrow> nat) \<Rightarrow> bool" where
  "env_makes env str arr buf obj \<longleftrightarrow>
     new_string env = (\<lambda>t. Inr (Some (str t))) \<and> byte_array_from_slice env = (\<lambda>d. Inr (Some (arr d)))
     \<and> new_direct_byte_buffer env = (\<lambda>a n. Inr (Some (buf a n))) \<and> new_event env = (\<lambda>e. Inr (Some (obj e)))"

lemma handle_conversions:
  "0 \<le> sint v \<Longrightarrow> handle_from_jlong v = Inr v" "0 \<le> sint v \<Longrightarrow> handle_to_jlong v = Inr v"
  "0 \<le> sint m \<Longrightarrow> \<exists>t. timeout m = Inr t"
proof -
  show "handle_from_jlong v = Inr v" if "0 \<le> sint v"
    using that sint_less [of v] by (simp add: handle_from_jlong_def try_unsigned_def)
  show "handle_to_jlong v = Inr v" if "0 \<le> sint v"
    using uint_eq_sint [OF that] sint_less [of v] by (simp add: handle_to_jlong_def try_signed_def)
  show "\<exists>t. timeout m = Inr t" if "0 \<le> sint m" using that by (simp add: timeout_Inr_iff)
qed

text \<open>
  C32: delivery through the JNI interface. Polling a runtime whose next event is not a wake-up takes
  that event and returns an event object with its kind, handles, number and texts. An event without
  a permit carries a copy of its data. An event with a permit, a message, gets a buffer that is
  registered under a handle which no other buffer has and that is given to the object: the table
  then keeps its bytes and its permit, and for a binary message the object has a direct buffer on
  exactly these bytes.
\<close>

theorem jni_poll_delivers:
  assumes "env_makes env str arr buf obj" and "process_ok s"
    and "get_runtime h s = Inr c" and "0 \<le> sint h" and "0 \<le> sint millis"
    and "st_events (ct_state c) = e # q" and "ev_kind e \<noteq> WAKE" and "\<not> ct_buffers_poisoned c"
    and "\<forall>x \<in> {ev_peer_handle e, ev_channel_handle e, ev_operation_handle e, pr_next_buffer_handle s}. 0 \<le> sint x"
  shows "\<exists>s' je. nativePollRuntimeEvent env address h millis s = (Returns (Some (obj je)), s')
    \<and> je_kind je = ev_kind e \<and> je_peer_handle je = ev_peer_handle e
    \<and> je_channel_handle je = ev_channel_handle e \<and> je_operation_handle je = ev_operation_handle e
    \<and> je_number je = ev_number e
    \<and> je_text je = map_option str (ev_text e) \<and> je_secondary_text je = map_option str (ev_secondary_text e)
    \<and> (\<exists>c'. get_runtime h s' = Inr c' \<and> st_events (ct_state c') = q)
    \<and> (case ev_delivery_permit e of
         None \<Rightarrow> je_data je = map_option arr (ev_data e) \<and> je_message_handle je = 0
           \<and> je_direct_data je = None \<and> buffer_at s' = buffer_at s
       | Some permit \<Rightarrow> je_data je = None
           \<and> (\<forall>h'. buffer_at s h' (je_message_handle je) = None)
           \<and> buffer_at s' h (je_message_handle je) =
               Some \<lparr>buf_data = (case ev_data e of None \<Rightarrow> [] | Some d \<Rightarrow> d), buf_delivery_permit = Some permit\<rparr>
           \<and> je_direct_data je = (if ev_kind e = DATA_CHANNEL_BINARY
               then Some (buf address (length (case ev_data e of None \<Rightarrow> [] | Some d \<Rightarrow> d))) else None))"
proof -
  note env = assms(1) [unfolded env_makes_def]
  let ?c = "with_events (\<lambda>_. q) c" and ?d = "case ev_data e of None \<Rightarrow> [] | Some d \<Rightarrow> d"
  let ?s = "put_runtime h ?c s" and ?b = "pr_next_buffer_handle s"
  have poll: "runtime_poll h s = (Inr (Some e), ?s)"
    using assms(3,6,7) by (simp add: runtime_poll_def)
  obtain t where t: "timeout millis = Inr t" using handle_conversions(3) [OF assms(5)] by blast
  have h: "handle_from_jlong h = Inr h" by (rule handle_conversions) (fact assms(4))
  have java: "optional_java_string env x = Inr (map_option str x)" for x
    using env by (simp add: optional_java_string_def split: option.split)
  have np: "\<not> pr_runtimes_poisoned s" "runtime_at s h = Some c" using assms(3) by (simp_all add: get_runtime_Inr)
  have fresh: "buffer_at s h' ?b = None" for h'
    using assms(2) unfolding process_ok_def by (metis less_irrefl)
  have j: "handle_to_jlong (ev_peer_handle e) = Inr (ev_peer_handle e)"
    "handle_to_jlong (ev_channel_handle e) = Inr (ev_channel_handle e)"
    "handle_to_jlong (ev_operation_handle e) = Inr (ev_operation_handle e)"
    "handle_to_jlong ?b = Inr ?b"
    using assms(9) by (simp_all add: handle_conversions)
  note unfold = nativePollRuntimeEvent_def h t poll operation_result_def java event_object_def j
  let ?je = "\<lambda>data message direct. \<lparr>je_kind = ev_kind e, je_peer_handle = ev_peer_handle e,
    je_channel_handle = ev_channel_handle e, je_operation_handle = ev_operation_handle e,
    je_text = map_option str (ev_text e), je_secondary_text = map_option str (ev_secondary_text e),
    je_number = ev_number e, je_data = data, je_message_handle = message, je_direct_data = direct\<rparr>"
  show ?thesis
  proof (cases "ev_delivery_permit e")
    case None
    let ?o = "?je (map_option arr (ev_data e)) 0 None"
    have "nativePollRuntimeEvent env address h millis s = (Returns (Some (obj ?o)), ?s)"
      using None env by (cases "ev_data e") (simp_all add: unfold)
    moreover have "buffer_at ?s = buffer_at s" by (simp add: fun_eq_iff buffer_at_own [OF np(2)])
    ultimately show ?thesis
      using None np by (intro exI [of _ ?s] exI [of _ ?o]) (simp add: get_runtime_Inr with_events_def)
  next
    case (Some permit)
    let ?c' = "?c\<lparr>ct_buffers := AList.update ?b \<lparr>buf_data = ?d, buf_delivery_permit = Some permit\<rparr> (ct_buffers ?c)\<rparr>"
    let ?s' = "put_runtime h ?c' (?s\<lparr>pr_next_buffer_handle := ?b + 1\<rparr>)"
    let ?o = "?je None ?b (if ev_kind e = DATA_CHANNEL_BINARY then Some (buf address (length ?d)) else None)"
    have "register_delivery_buffer h (ev_data e) permit address ?s =
        (Inr \<lparr>view_handle = ?b, view_address = address, view_length = length ?d\<rparr>, ?s')"
      using np assms(8) by (simp add: register_delivery_buffer_def register_buffer_def get_runtime_at
          with_events_def Let_def)
    then have "nativePollRuntimeEvent env address h millis s = (Returns (Some (obj ?o)), ?s')"
      using Some env by (simp add: unfold)
    then show ?thesis
      using Some np fresh by (intro exI [of _ ?s'] exI [of _ ?o])
        (simp add: get_runtime_Inr with_events_def update_conv')
  qed
qed


subsection \<open>Examples\<close>

definition sample_env :: jni_env where
  "sample_env = \<lparr>try_to_string = (\<lambda>_. Inr ''text''), array_len = (\<lambda>_. Inr 0),
     get_element = (\<lambda>_ _. Inr None), convert_byte_array = (\<lambda>_. Inr [1]),
     throw_new = (\<lambda>_ _. Inr ()), new_string = (\<lambda>t. Inr (Some (length t))),
     new_direct_byte_buffer = (\<lambda>a n. Inr (Some (a + n))), byte_array_from_slice = (\<lambda>d. Inr (Some (length d))),
     new_event = (\<lambda>e. Inr (Some (nat (sint (je_message_handle e)))))\<rparr>"

theorem jni_submit_answered_once_witness:
  "\<exists>s'. native_call sample_env sample_parsers 1 7 1000 (CallRestartIce 1) sample_process = (Returns (), s')
     \<and> answers s' 1 7 = answers sample_process 1 7 + 1 \<and> runtime_at s' 2 = runtime_at sample_process 2"
proof -
  obtain s' where r: "native_call sample_env sample_parsers 1 7 1000 (CallRestartIce 1) sample_process
      = (Returns (), s')"
    by (simp add: nativeSubmitRestartIce_def native_submit_def simple_request_def handle_from_jlong_def
        timeout_def try_unsigned_def submit_def sample_process_runtime new_controller_def
        operation_result_def)
  from jni_submit_answered_once [where env = sample_env and parsers = sample_parsers and h = 1 and op = 7
      and t = 1000 and jc = "CallRestartIce 1" and s = sample_process, unfolded r]
  show ?thesis using r by simp
qed

theorem jni_poll_delivers_witness:
  "\<exists>s' (je :: jvm_native_event). nativePollRuntimeEvent sample_env 4096 1 0 (snd (complete_error 1 7 ''busy'' sample_process))
       = (Returns (Some (nat (sint (je_message_handle je)))), s')
     \<and> je_operation_handle je = 7 \<and> je_text je = None \<and> je_secondary_text je = Some 4"
proof -
  let ?s = "snd (complete_error 1 7 ''busy'' sample_process)"
  let ?c = "with_events (\<lambda>q. q @ [event_operation 7 (Inl ''busy'')]) (new_controller sample_state)"
  have env: "env_makes sample_env length length (+) (\<lambda>e. nat (sint (je_message_handle e)))"
    by (simp add: env_makes_def sample_env_def fun_eq_iff)
  have "?s = table_step open_api (CompleteErrorStep 1 7 ''busy'') sample_process" by simp
  moreover have "handles_left (Suc 0) sample_process" by (rule sample_process_ok(2)) simp
  ultimately have ok: "process_ok ?s"
    using table_step_ok [OF sample_process_ok(1), of 0 open_api] by metis
  have c: "get_runtime 1 ?s = Inr ?c"
    by (simp add: complete_error_def sample_process_runtime get_runtime_Inr)
      (simp add: sample_process_def)
  have e: "st_events (ct_state ?c) = [event_operation 7 (Inl ''busy'')]" "\<not> ct_buffers_poisoned ?c"
    by (simp_all add: with_events_def new_controller_def sample_state_def new_runtime_state_def)
  have n: "pr_next_buffer_handle ?s = 1"
    by (simp add: completing.no_new_buffer) (simp add: sample_process_def)
  let ?e = "event_operation 7 (Inl ''busy'')"
  have e': "ev_kind ?e \<noteq> WAKE" "\<forall>x \<in> {ev_peer_handle ?e, ev_channel_handle ?e, ev_operation_handle ?e,
      pr_next_buffer_handle ?s}. 0 \<le> sint x" unfolding n by (simp_all add: event_operation_def kind_defs)
  have h: "0 \<le> sint (1 :: 64 word)" "0 \<le> sint (0 :: 64 word)" by simp_all
  from jni_poll_delivers [OF env ok c h e(1) e'(1) e(2) e'(2), of 4096]
  obtain s' and je :: jvm_native_event where "nativePollRuntimeEvent sample_env 4096 1 0 ?s
      = (Returns (Some (nat (sint (je_message_handle je)))), s')"
    and "je_operation_handle je = ev_operation_handle ?e" "je_text je = map_option length (ev_text ?e)"
      "je_secondary_text je = map_option length (ev_secondary_text ?e)" by blast
  then show ?thesis
    by (intro exI [of _ s'] exI [of _ je] conjI) (simp_all add: event_operation_def)
qed

end
