(* ===== verification/Bridges.thy ===== *)
theory Bridges
  imports C_Bridge Jni_Bridge
begin

text \<open>
  The two boundaries compared: a peer configuration that the JNI interface accepts is accepted by the C
  interface too, with the same result, and what the JNI interface accepts is within the limits the
  engine relies on.
\<close>

subsection \<open>The same configuration on both boundaries\<close>

text \<open>
  What it means that the two boundaries are given the same: the document of the C interface with the
  content of the arguments of the JNI interface, with one ICE server for each URL as the JNI
  interface has them.
\<close>

definition dto_of :: "peer_arguments \<Rightarrow> peer_strings \<Rightarrow> peer_dto" where
  "dto_of a p =
     \<lparr>pd_ice_servers = map (\<lambda>((url, username), credential).
        \<lparr>isd_urls = [url], isd_username = username, isd_credential = credential\<rparr>)
        (zip (zip (ps_urls p) (ps_usernames p)) (ps_credentials p)),
      pd_min_port = pa_min_port a, pd_max_port = pa_max_port a,
      pd_relay_only = (pa_ice_transport_policy a = 1),
      pd_disconnected_timeout_millis = pa_disconnected_timeout_millis a,
      pd_failed_timeout_millis = pa_failed_timeout_millis a,
      pd_keep_alive_interval_millis = pa_keep_alive_interval_millis a,
      pd_check_interval_millis = pa_check_interval_millis a,
      pd_max_binding_requests = pa_max_binding_requests a,
      pd_host_acceptance_min_wait_millis = pa_host_acceptance_min_wait_millis a,
      pd_server_reflexive_acceptance_min_wait_millis = pa_server_reflexive_acceptance_min_wait_millis a,
      pd_peer_reflexive_acceptance_min_wait_millis = pa_peer_reflexive_acceptance_min_wait_millis a,
      pd_relay_acceptance_min_wait_millis = pa_relay_acceptance_min_wait_millis a,
      pd_network_type_mask = pa_network_type_mask a, pd_mdns_mode = pa_mdns_mode a,
      pd_mdns_query_timeout_millis = pa_mdns_query_timeout_millis a, pd_ice_lite = pa_ice_lite a,
      pd_nat_mapping = (if pa_nat_mapping_type a = - 1 then None
        else Some \<lparr>nm_addresses = ps_nat_addresses p, nm_mapping_type = pa_nat_mapping_type a\<rparr>),
      pd_discard_local_candidates_on_restart = pa_discard_local_candidates_on_restart a,
      pd_candidate_pool_size = word_of_int (sint (pa_candidate_pool_size a)),
      pd_include_loopback_candidate = pa_include_loopback_candidate a,
      pd_mdns_local_name = (if ps_mdns_local_name p \<noteq> [] then Some (ps_mdns_local_name p) else None),
      pd_mdns_local_address = (if ps_mdns_local_address p = [] then None else Some (ps_mdns_local_address p)),
      pd_credentials = (if ps_ice_username_fragment p = [] then None
        else Some \<lparr>cd_username_fragment = ps_ice_username_fragment p, cd_password = ps_ice_password p\<rparr>),
      pd_sctp_send_buffer_limit = word_of_int (sint (pa_sctp_send_buffer_limit a)),
      pd_sctp_receive_buffer_size = pa_sctp_receive_buffer_size a,
      pd_sctp_maximum_message_size = pa_sctp_maximum_message_size a,
      pd_receive_queue_capacity = word_of_int (sint (pa_data_channel_receive_queue_capacity a)),
      pd_dtls_answering_role = pa_dtls_answering_role a,
      pd_media_level_fingerprints = pa_media_level_fingerprints a,
      pd_dtls_replay_protection_window = word_of_int (sint (pa_dtls_replay_protection_window a)),
      pd_dtls_cipher_suite_mask = pa_dtls_cipher_suite_mask a,
      pd_udp_bind_addresses = ps_udp_bind_addresses p, pd_tcp_bind_addresses = ps_tcp_bind_addresses p,
      pd_receive_mtu = word_of_int (sint (pa_receive_mtu a))\<rparr>"

lemma try_unsigned_value: "(try_unsigned v :: 'b::len word option) = Some n \<Longrightarrow> word_of_int (sint v) = n"
  for v :: "'a::len word"
  by (auto simp: try_unsigned_def split: if_split_asm)

lemma positive_usize_Inr: "positive_usize v m = Inr n \<Longrightarrow> word_of_int (sint v) = n \<and> n \<noteq> 0"
  by (auto simp: positive_usize_def result_simps dest: try_unsigned_value split: if_split_asm)

lemma jni_nat_mapping_Inr:
  "jni_nat_mapping k xs = Inr m \<Longrightarrow>
     nat_mapping_of (if k = - 1 then None else Some \<lparr>nm_addresses = xs, nm_mapping_type = k\<rparr>) = Inr m"
  by (auto simp: jni_nat_mapping_def nat_mapping_of_def split: if_split_asm)

lemma jni_mdns_address_Inr:
  "jni_mdns_address x = Inr r \<Longrightarrow> mdns_local_address_of (if x = [] then None else Some x) = Inr r"
  by (auto simp: jni_mdns_address_def mdns_local_address_of_def split: if_split_asm)

lemma jni_credentials_Inr:
  "jni_credentials f w = Inr r \<Longrightarrow>
     map_option (\<lambda>c. (cd_username_fragment c, cd_password c))
       (if f = [] then None else Some \<lparr>cd_username_fragment = f, cd_password = w\<rparr>) = r"
  by (auto simp: jni_credentials_def split: if_split_asm)

lemma jni_pool_size_Inr: "jni_pool_size n = Inr k \<Longrightarrow> word_of_int (sint n) = k \<and> k \<le> 1"
  by (auto simp: jni_pool_size_def split: if_split_asm)

lemma ice_servers_same:
  "ice_servers (map (\<lambda>((url, username), credential).
     \<lparr>isd_urls = [url], isd_username = username, isd_credential = credential\<rparr>) (zip (zip u n) c))
   = jni_ice_servers u n c"
  by (simp add: ice_servers_def jni_ice_servers_def case_prod_unfold)

lemma check_unit: "check_port_range m lo hi = Inr u \<Longrightarrow> check_port_range m' lo hi = Inr ()"
  by (simp add: check_port_range_iff)


lemma try_unsigned_small:
  "(try_unsigned v :: usize option) = Some n \<Longrightarrow> n < 2 ^ 31" for v :: i32
  using sint_less [of v] by (auto simp: try_unsigned_Some_iff word_less_def)

text \<open>The limits that the engine relies on for the configuration of a peer.\<close>

definition within_limits :: "peer_configuration \<Rightarrow> bool" where
  "within_limits c \<longleftrightarrow>
     0 < receive_queue_capacity (cfg_sctp c) \<and> receive_queue_capacity (cfg_sctp c) \<le> max_permits
     \<and> 0 < maximum_message_size (cfg_sctp c) \<and> maximum_message_size (cfg_sctp c) \<le> 262144
     \<and> maximum_message_size (cfg_sctp c) \<le> receive_buffer_size (cfg_sctp c)
     \<and> 1500 \<le> receive_buffer_size (cfg_sctp c)
     \<and> 0 < replay_protection_window (cfg_dtls c)
     \<and> candidate_pool_size (cfg_ice c) \<le> 1
     \<and> (min_port c = 0 \<longleftrightarrow> max_port c = 0) \<and> min_port c \<le> max_port c"

lemma positive_usize_limits: "positive_usize v m = Inr n \<Longrightarrow> 0 < n \<and> n \<le> max_permits"
proof -
  assume "positive_usize v m = Inr n"
  then have "n \<noteq> 0" "try_unsigned v = Some n" by (auto simp: positive_usize_def result_simps split: if_split_asm)
  with try_unsigned_small [of v n] show ?thesis
    by (simp add: max_permits_def drop_bit_eq_div word_less_nat_alt word_le_nat_alt word_neq_0_conv unat_div)
qed

lemma check_sctp_sizes_iff:
  "check_sctp_sizes b m = Inr u \<longleftrightarrow> m \<le> 262144 \<and> 1500 \<le> b \<and> m \<le> b"
  by (auto simp: check_sctp_sizes_def)

lemma positive_u32_limit: "positive_u32 v m = Inr n \<Longrightarrow> 0 < n"
  by (auto simp: positive_u32_Inr_iff word_neq_0_conv [symmetric])

text \<open>What the closure of \<open>nativeSubmitCreatePeer\<close> has computed when it gets to the command.\<close>

lemma create_peer_request_Inr:
  assumes "create_peer_request h op a millis p = Inr (h', op', r)"
  shows "h' = h \<and> op' = op \<and> (\<exists>t c. timeout millis = Inr t \<and> r = SubmitCommand (CreatePeer op t c)
    \<and> C_Bridge.peer_configuration (dto_of a p) = Inr c \<and> within_limits c)"
  using assms unfolding create_peer_request_def and_then_Inr_iff
proof (elim exE conjE, goal_cases)
  case (1 h1 op1 u1 lo hi u2 u3 types mode nat buffer message capacity u4 t role window mtu mdns cred
      d1 d2 d3 d4 req w1 w2 w3 w4 d5 pool limit suites)
  note limits = positive_usize_limits [OF 1(13)] positive_usize_limits [OF 1(17)]
    jni_pool_size_Inr [OF 1(31)] 1(6) [unfolded check_port_range_iff] 1(14) [unfolded check_sctp_sizes_iff]
    positive_u32_limit [OF 1(12)]
  note contents = positive_usize_Inr [OF 1(13), THEN conjunct1] positive_usize_Inr [OF 1(17), THEN conjunct1]
    jni_pool_size_Inr [OF 1(31), THEN conjunct1] try_unsigned_value [OF ok_or_Inr_iff [THEN iffD1, OF 1(18)]]
    try_unsigned_value [OF ok_or_Inr_iff [THEN iffD1, OF 1(32)]]
    jni_nat_mapping_Inr [OF 1(10)] jni_mdns_address_Inr [OF 1(19)] jni_credentials_Inr [OF 1(20)]
  note handles = handle_from_jlong_same [OF 1(1)] handle_from_jlong_same [OF 1(2)]
  from 1(34) have "h' = h" "op' = op" "r = SubmitCommand (CreatePeer op t (case r of
      SubmitCommand (CreatePeer _ _ c) \<Rightarrow> c))" by (auto simp: handles)
  moreover from 1(34) have "C_Bridge.peer_configuration (dto_of a p) = Inr (case r of
      SubmitCommand (CreatePeer _ _ c) \<Rightarrow> c)"
    unfolding sum.inject prod.inject
    by (elim conjE, hypsubst) (simp only: C_Bridge.peer_configuration_def dto_of_def peer_dto.simps
        ice_servers_same contents 1 result_eqs check_unit [OF 1(6)] request.case command.case)
  moreover from 1(34) limits have "within_limits (case r of SubmitCommand (CreatePeer _ _ c) \<Rightarrow> c)"
    by (auto simp: within_limits_def)
  ultimately show ?case using 1(15) by blast
qed

subsection \<open>Properties\<close>

text \<open>The call of \<open>kestara_runtime_submit\<close> that creates a peer from a document.\<close>

definition create_peer_arguments :: "i64 \<Rightarrow> bytes \<Rightarrow> submit_arguments" where
  "create_peer_arguments millis document =
     \<lparr>sa_command_kind = CREATE_PEER, sa_target_handle = 0, sa_timeout_millis = millis,
      sa_text = None, sa_text_length = 0, sa_secondary_text = None, sa_secondary_text_length = 0,
      sa_number = 0, sa_secondary_number = 0, sa_data = None, sa_data_length = 0,
      sa_configuration = Some document, sa_configuration_length = word_of_nat (length document)\<rparr>"

lemma input_document:
  "length document < 2 ^ 64 \<Longrightarrow> input (Some document) (word_of_nat (length document)) = Inr document"
  by (auto simp: input_def unat_of_nat take_bit_nat_eq_self unsigned_of_nat word_of_nat_eq_0_iff
      dest: nat_dvd_not_less)

lemma empty_input: "input None 0 = Inr []"
  by (simp add: input_def)

lemma nativeSubmitCreatePeer_Returns:
  assumes "nativeSubmitCreatePeer env h op a millis s = (Returns (), s')" and "read_peer_strings env a = Inr p"
  obtains t c where "timeout millis = Inr t" "C_Bridge.peer_configuration (dto_of a p) = Inr c"
    "within_limits c" "submit h (CreatePeer op t c) s = (Inr (), s')"
proof -
  from assms obtain h' op' r where q: "create_peer_request h op a millis p = Inr (h', op', r)"
    by (auto simp: nativeSubmitCreatePeer_def native_submit_def resolve_operation_result split: sum.split_asm)
  from create_peer_request_Inr [OF q] obtain t c where "timeout millis = Inr t" "h' = h" "op' = op"
    "r = SubmitCommand (CreatePeer op t c)" "C_Bridge.peer_configuration (dto_of a p) = Inr c" "within_limits c"
    by blast
  moreover from this assms q have "submit h (CreatePeer op t c) s = (Inr (), s')"
    by (auto simp: nativeSubmitCreatePeer_def native_submit_def resolve_operation_result split: prod.split_asm)
  ultimately show thesis using that by blast
qed

text \<open>
  C33: the two interfaces agree on the creation of a peer. When the JNI method returns normally, then the
  C function, called with a document of the same content, has status 0, writes no error, and leaves the
  process in the same state, with the same command queued.
\<close>

theorem bridges_agree:
  assumes "nativeSubmitCreatePeer env h op a millis s = (Returns (), s')"
    and "read_peer_strings env a = Inr p"
    and "json_peer json document = Inr (dto_of a p)" and "length document < 2 ^ 64"
  shows "kestara_runtime_submit parsers json utf8_error alloc h op (create_peer_arguments millis document)
      error_out heap s = ((0, None, heap), s')"
proof -
  obtain t c where "timeout millis = Inr t" "C_Bridge.peer_configuration (dto_of a p) = Inr c"
    "submit h (CreatePeer op t c) s = (Inr (), s')"
    using nativeSubmitCreatePeer_Returns [OF assms(1,2)] by metis
  with assms(3) input_document [OF assms(4)] show ?thesis
    by (simp add: kestara_runtime_submit_def submit_request_def create_peer_arguments_def
        optional_string_def command_of_def decode_json_def boundary_Some empty_input)
qed

text \<open>
  C34: what the JNI interface lets through. A \<open>nativeSubmitCreatePeer\<close> that returns normally has queued one
  command, at the end of the queue, whose configuration is within the limits the engine relies on: the
  receive queue has a capacity that a semaphore can have, no message is larger than 262144 bytes or than
  the receive buffer, the replay window is not empty, the candidate pool has at most one candidate, and
  the port range is empty or a range.
\<close>

theorem jni_configuration_bounds:
  assumes "nativeSubmitCreatePeer env h op a millis s = (Returns (), s')"
    and "read_peer_strings env a = Inr p"
  shows "\<exists>c cfg t. get_runtime h s = Inr c
    \<and> s' = put_runtime h (c\<lparr>ct_commands := ct_commands c @ [CreatePeer op t cfg]\<rparr>) s
    \<and> 0 < receive_queue_capacity (cfg_sctp cfg) \<and> receive_queue_capacity (cfg_sctp cfg) \<le> max_permits
    \<and> 0 < maximum_message_size (cfg_sctp cfg) \<and> maximum_message_size (cfg_sctp cfg) \<le> 262144
    \<and> maximum_message_size (cfg_sctp cfg) \<le> receive_buffer_size (cfg_sctp cfg)
    \<and> 0 < replay_protection_window (cfg_dtls cfg) \<and> candidate_pool_size (cfg_ice cfg) \<le> 1
    \<and> (min_port cfg = 0 \<longleftrightarrow> max_port cfg = 0) \<and> min_port cfg \<le> max_port cfg"
proof -
  obtain t cfg where cfg: "within_limits cfg" and s: "submit h (CreatePeer op t cfg) s = (Inr (), s')"
    using nativeSubmitCreatePeer_Returns [OF assms] by metis
  from s obtain c where "get_runtime h s = Inr c"
    "s' = put_runtime h (c\<lparr>ct_commands := ct_commands c @ [CreatePeer op t cfg]\<rparr>) s"
    by (auto simp: submit_def split: sum.split_asm if_split_asm)
  with cfg show ?thesis unfolding within_limits_def by blast
qed

subsection \<open>Examples\<close>

definition sample_arguments :: peer_arguments where
  "sample_arguments =
     \<lparr>pa_urls = 0, pa_usernames = 0, pa_credentials = 0, pa_min_port = 0, pa_max_port = 0,
      pa_ice_transport_policy = 0, pa_disconnected_timeout_millis = - 1, pa_failed_timeout_millis = - 1,
      pa_keep_alive_interval_millis = - 1, pa_check_interval_millis = - 1, pa_max_binding_requests = - 1,
      pa_host_acceptance_min_wait_millis = - 1, pa_server_reflexive_acceptance_min_wait_millis = - 1,
      pa_peer_reflexive_acceptance_min_wait_millis = - 1, pa_relay_acceptance_min_wait_millis = - 1,
      pa_network_type_mask = 1, pa_mdns_mode = 0, pa_mdns_query_timeout_millis = - 1, pa_ice_lite = False,
      pa_nat_addresses = 0, pa_nat_mapping_type = - 1, pa_discard_local_candidates_on_restart = False,
      pa_candidate_pool_size = 1, pa_include_loopback_candidate = True, pa_mdns_local_name = None,
      pa_mdns_local_address = None, pa_ice_username_fragment = None, pa_ice_password = None,
      pa_sctp_send_buffer_limit = 0, pa_sctp_receive_buffer_size = 1048576,
      pa_sctp_maximum_message_size = 65536, pa_data_channel_receive_queue_capacity = 64,
      pa_dtls_answering_role = 0, pa_media_level_fingerprints = False,
      pa_dtls_replay_protection_window = 64, pa_dtls_cipher_suite_mask = 1,
      pa_udp_bind_addresses = 0, pa_tcp_bind_addresses = 0, pa_receive_mtu = 0\<rparr>"

text \<open>A virtual machine whose arrays and strings are empty.\<close>

definition empty_env :: jni_env where
  "empty_env = sample_env\<lparr>try_to_string := (\<lambda>_. Inr [])\<rparr>"

definition empty_strings :: peer_strings where
  "empty_strings =
     \<lparr>ps_urls = [], ps_usernames = [], ps_credentials = [], ps_nat_addresses = [],
      ps_mdns_local_name = [], ps_mdns_local_address = [], ps_ice_username_fragment = [],
      ps_ice_password = [], ps_udp_bind_addresses = [], ps_tcp_bind_addresses = []\<rparr>"

lemma sample_strings: "read_peer_strings empty_env sample_arguments = Inr empty_strings"
  by (simp add: read_peer_strings_def read_string_array_def read_string_def empty_env_def sample_env_def
      empty_strings_def)

lemma sample_checks:
  "handle_from_jlong 1 = Inr 1" "handle_from_jlong 7 = Inr 7" "port 0 n = Inr 0" "timeout 1000 = Inr 1000000000"
  "optional_duration (- 1) n = Inr None" "optional_u16 (- 1) n = Inr None"
  "positive_u32 1048576 n = Inr 1048576" "positive_u32 65536 n = Inr 65536"
  "positive_usize 64 n = Inr 64" "network_types 1 = Inr [Udp4]"
  "(try_unsigned (0 :: i32) :: usize option) = Some 0"
  by (simp_all add: handle_from_jlong_def port_def timeout_def from_millis_def optional_duration_def optional_u16_def
      positive_u32_Inr_iff positive_usize_def try_unsigned_def network_types_def)

lemma sample_suites: "\<exists>x. cipher_suites 1 = Inr x"
  by (simp add: cipher_suites_def)

lemma sample_returns:
  "\<exists>s'. nativeSubmitCreatePeer empty_env 1 7 sample_arguments 1000 sample_process = (Returns (), s')"
proof -
  obtain x where x: "cipher_suites 1 = Inr x" using sample_suites by blast
  have "\<exists>c. create_peer_request 1 7 sample_arguments 1000 empty_strings
      = Inr (1, 7, SubmitCommand (CreatePeer 7 1000000000 c))"
    unfolding create_peer_request_def sample_arguments_def empty_strings_def
    by (simp add: sample_checks x check_ice_servers_def check_port_range_def check_policy_def
        mdns_mode_of_def jni_nat_mapping_def check_sctp_sizes_def answering_role_of_def
        jni_mdns_address_def jni_credentials_def jni_pool_size_def)
  then show ?thesis
    unfolding nativeSubmitCreatePeer_def sample_strings
    by (auto simp: native_submit_def submit_def sample_process_runtime new_controller_def
        operation_result_def)
qed

definition sample_document_json :: json_decoders where
  "sample_document_json = sample_json\<lparr>json_peer := (\<lambda>_. Inr (dto_of sample_arguments empty_strings))\<rparr>"

theorem bridges_agree_witness:
  "\<exists>s'. nativeSubmitCreatePeer empty_env 1 7 sample_arguments 1000 sample_process = (Returns (), s')
     \<and> kestara_runtime_submit sample_parsers sample_document_json (\<lambda>_. ''utf8'') sample_alloc 1 7
         (create_peer_arguments 1000 [123, 125]) True Map.empty sample_process = ((0, None, Map.empty), s')"
proof -
  obtain s' where r: "nativeSubmitCreatePeer empty_env 1 7 sample_arguments 1000 sample_process
      = (Returns (), s')" using sample_returns by blast
  have "json_peer sample_document_json [123, 125] = Inr (dto_of sample_arguments empty_strings)"
    by (simp add: sample_document_json_def)
  from bridges_agree [OF r sample_strings this] r show ?thesis by simp
qed

theorem jni_configuration_bounds_witness:
  "\<exists>s' c cfg t. nativeSubmitCreatePeer empty_env 1 7 sample_arguments 1000 sample_process = (Returns (), s')
     \<and> s' = put_runtime 1 (c\<lparr>ct_commands := ct_commands c @ [CreatePeer 7 t cfg]\<rparr>) sample_process
     \<and> receive_queue_capacity (cfg_sctp cfg) \<le> max_permits"
proof -
  obtain s' where r: "nativeSubmitCreatePeer empty_env 1 7 sample_arguments 1000 sample_process
      = (Returns (), s')" using sample_returns by blast
  from jni_configuration_bounds [OF r sample_strings] r show ?thesis by blast
qed

end
