(* ===== verification/Registry_Outcomes.thy ===== *)
theory Registry_Outcomes
  imports Runtime
begin

text \<open>
  Outcomes of whole operations of the registry on every branch: the registration of a channel whose peer
  is gone (\<open>register_channel\<close>, \<open>close_data_channel\<close>), the shutdown of a runtime (\<open>shutdown_all\<close>) and the
  rotation of its certificate (\<open>execute\<close>).
\<close>

subsection \<open>A channel without its peer\<close>

text \<open>The channel that \<open>register_channel\<close> leaves behind when its peer is gone.\<close>

lemma channel_inserted_simps [simp]:
  "st_channels (channel_inserted api p c emit s) =
     AList.update (st_next_handle s) \<lparr>ce_channel = c, ce_peer_handle = p\<rparr> (st_channels s)"
  "st_peers (channel_inserted api p c emit s) = st_peers s"
  "st_registry_poisoned (channel_inserted api p c emit s) = st_registry_poisoned s"
  "st_spawned (channel_inserted api p c emit s) = st_spawned s"
  "st_events (channel_inserted api p c emit s) = st_events s
     @ (if emit then [created_event p (st_next_handle s) (fst (describe_channel api c (st_world s)))] else [])"
  by (simp_all add: channel_inserted_def Let_def case_prod_unfold)

text \<open>
  C35: a remote channel that arrives after its peer was closed is announced and then leaked. The
  registration fails with the unknown peer, but by then the channel is in the registry and the event that
  announces it is queued, and no poller runs for it; closing it by the announced handle fails as well and
  only drops the entry, the webrtc crate is not called.
\<close>

theorem orphan_channel:
  assumes "\<not> st_registry_poisoned s" and "map_of (st_peers s) p = None"
  shows "\<exists>s' d. run (register_channel api p c True) L s
        = Returned (Inl (''Unknown peer connection handle: '' @ show_unsigned p)) L s'
    \<and> map_of (st_channels s') (st_next_handle s) = Some \<lparr>ce_channel = c, ce_peer_handle = p\<rparr>
    \<and> st_events s' = st_events s @ [created_event p (st_next_handle s) d]
    \<and> st_spawned s' = st_spawned s
    \<and> run (close_data_channel api (st_next_handle s)) L s'
        = Returned (Inl (''Unknown peer connection handle: '' @ show_unsigned p)) L
            (s'\<lparr>st_channels := AList.delete (st_next_handle s) (st_channels s')\<rparr>)"
  by (rule exI [of _ "channel_inserted api p c True s"], rule exI [of _ "fst (describe_channel api c (st_world s))"])
    (use assms in \<open>simp add: run_register_channel run_close_data_channel update_conv'\<close>)

theorem orphan_channel_witness:
  "\<exists>s'. run (register_channel open_api 5 9 True) {} sample_state
       = Returned (Inl ''Unknown peer connection handle: 5'') {} s'
     \<and> map_of (st_channels s') 1 = Some \<lparr>ce_channel = 9, ce_peer_handle = 5\<rparr>"
proof -
  have "\<not> st_registry_poisoned sample_state" "map_of (st_peers sample_state) 5 = None"
    "st_next_handle sample_state = 1"
    by (simp_all add: sample_defs)
  moreover have "show_unsigned (5 :: u64) = ''5''"
    by (simp add: show_unsigned_def show_nat.simps char_of_def bit_0)
  ultimately show ?thesis using orphan_channel [of sample_state 5 open_api 9 "{}"] by auto
qed

subsection \<open>Shutdown\<close>

lemma run_close_all_eq:
  assumes "\<forall>e \<in> set ps. pe_operations e \<notin> L"
  shows "run (close_all api ps) L s
    = Returned () L (s\<lparr>st_world := fold (\<lambda>e w. snd (peer_close api (pe_peer e) w)) ps (st_world s)\<rparr>)"
  using assms by (induction ps arbitrary: s) (simp_all add: run_bind run_with_guard registry_runs insert_Diff_if)

text \<open>
  C36: the shutdown of a runtime closes everything. When no operation holds a peer, \<open>shutdown_all\<close> ends
  without an error, whatever the connections answer: it has emptied the registry and closed the connection
  of every registered peer once, also those after one whose close fails. On a poisoned registry it fails
  and closes nothing.
\<close>

theorem shutdown_closes_all:
  assumes "\<forall>e \<in> snd ` set (st_peers s). pe_operations e \<notin> L"
  shows "run (shutdown_all api) L s =
     (if st_registry_poisoned s
      then Returned (Inl ''Kestara WebRTC handle registry is poisoned'') L s
      else Returned (Inr ()) L (s\<lparr>st_channels := [], st_peers := [],
             st_world := fold (\<lambda>e w. snd (peer_close api (pe_peer e) w)) (map snd (st_peers s)) (st_world s)\<rparr>))"
  using run_close_all_eq [of "map snd (st_peers s)" L api "s\<lparr>st_channels := [], st_peers := []\<rparr>"] assms
  by (simp add: shutdown_all_def run_try run_bind registry_runs)

theorem shutdown_closes_all_witness:
  "\<exists>s'. run (shutdown_all open_api) {} sample_with_peer = Returned (Inr ()) {} s' \<and> st_peers s' = []
     \<and> st_peers sample_with_peer \<noteq> []"
proof -
  have "\<not> st_registry_poisoned sample_with_peer" "st_peers sample_with_peer \<noteq> []"
    by (simp_all add: sample_defs)
  then show ?thesis using shutdown_closes_all [of sample_with_peer "{}" open_api] by simp
qed

subsection \<open>Certificates\<close>

text \<open>
  C37: the certificate of a runtime is replaced completely or not at all. The command always returns. It
  succeeds exactly when the certificate could be imported or generated, has a fingerprint, and the lock is
  not poisoned; then that certificate is installed and the operation returns its fingerprint, which is what
  \<open>certificate_fingerprint_value\<close> gives for the installed certificate from now on. Otherwise the
  certificate in use stays. Peers, channels and events are not touched in either case.
\<close>

theorem rotation_atomic:
  "\<exists>r s'. run (execute api (RotateCertificate op t pem)) L s = Returned r L s'
    \<and> s' = s\<lparr>st_world := st_world s', st_certificate := st_certificate s'\<rparr>
    \<and> (case r of
         Inl _ \<Rightarrow> st_certificate s' = st_certificate s
       | Inr v \<Rightarrow> \<exists>fingerprint. v = text_value fingerprint
           \<and> fst (new_certificate api pem (st_world s)) = Inr (st_certificate s')
           \<and> certificate_fingerprint_value api (st_certificate s') = Inr fingerprint)
    \<and> ((\<exists>v. r = Inr v) \<longleftrightarrow> \<not> st_certificate_poisoned s
         \<and> (\<exists>cert fp. fst (new_certificate api pem (st_world s)) = Inr cert
              \<and> certificate_fingerprint_value api cert = Inr fp))"
proof -
  obtain q w where q: "new_certificate api pem (st_world s) = (q, w)" by fastforce
  show ?thesis
  proof (cases "\<exists>cert fp. q = Inr cert \<and> certificate_fingerprint_value api cert = Inr fp")
    case True
    then show ?thesis by (auto simp: run_try run_rotate_certificate q)
  next
    case False
    then show ?thesis by (cases q) (auto simp: run_try run_rotate_certificate q split: sum.split)
  qed
qed

end
