(* ===== verification/Spec2Isabelle.thy ===== *)
theory Spec2Isabelle
  imports Event_Wire Stats_Roundtrip Validation Delivery Bridges Registry_Outcomes
begin

text \<open>
  Verification of the native engine of Kestara WebRTC, the Rust crate under \<open>native/src\<close>, together with
  the parts of the Kotlin library that read what the engine writes.

  \<^bold>\<open>The program.\<close> An application holds handles: of runtimes, of peer connections, of data channels, of
  operations. It calls the engine through one of two boundaries, the JNI interface of the JVM
  (\<open>bridge.rs\<close>) or the C interface of Kotlin/Native (\<open>c_bridge.rs\<close>). A boundary checks the arguments and
  puts a command into the command queue of a runtime (\<open>runtime.rs\<close>). The controller thread of the runtime
  takes the commands one by one and spawns a task for each (\<open>dispatch\<close>, \<open>execute\<close>), which works on the
  registry of peers and channels (\<open>registry.rs\<close>) and on the webrtc crate, under a time limit. Everything
  the application learns comes back through the event queue of the runtime (\<open>events.rs\<close>): completions of
  operations, callbacks of the peers, and the messages that the pollers of the channels receive. The
  application polls it through the same boundary. A shutdown waits for the running operations, closes the
  peers and ends the controller thread.

  \<^bold>\<open>Theories and sources.\<close>
  \<^item> \<open>Kestara_Prelude\<close>, \<open>Rust_Strings\<close>, \<open>Rust_Net\<close>: results (\<open>Inl\<close> is \<open>Err\<close>), the operator \<open>?\<close>
    (\<open>and_then\<close>), conversions between machine integers, byte order, hash maps as association lists, UTF-8,
    printing of integers, IP and socket addresses: what the sources use of the language and its library.
  \<^item> \<open>Events\<close>: \<open>events.rs\<close>, and \<open>handleOperationCompletion\<close> of \<open>WebRtcRuntime.kt\<close>.
  \<^item> \<open>Codec\<close>, \<open>Event_Wire\<close>: \<open>encode_event\<close> of \<open>c_bridge.rs\<close> and \<open>NativeEventDecoder.kt\<close>; \<open>codec\<close> is the
    locale of an encoder and a decoder, interpreted for every field and for the whole event.
  \<^item> \<open>Stats_Wire\<close>, \<open>Stats_Roundtrip\<close>: \<open>encode_stats\<close> and its writers in \<open>registry.rs\<close> and \<open>StatsDecoder.kt\<close>.
  \<^item> \<open>Configuration\<close>: the configuration structs of \<open>registry.rs\<close>, \<open>bind_addresses\<close>, \<open>setting_engine\<close>.
  \<^item> \<open>Validation\<close>: the conversions and checks shared by both boundaries (end of \<open>bridge.rs\<close>), and the enums
    of \<open>Models.kt\<close> whose ordinals the masks are made of.
  \<^item> \<open>Async_Prog\<close>: asynchronous functions as trees of atomic steps, with \<open>tokio\<close> mutexes; \<open>run\<close> is such a
    program on its own, \<open>task_step\<close> one of its steps among other tasks. What a program promises of all its
    steps is \<open>guarded\<close> (lock discipline), \<open>covered\<close> (changes under a mutex only), \<open>guarantees\<close> (a relation)
    and \<open>keeps\<close> (an invariant).
  \<^item> \<open>Webrtc_Api\<close>, \<open>Loopback_Api\<close>: the calls on the webrtc crate as a record of functions on an arbitrary
    world \<open>'w\<close>, and a small instance of it for the examples.
  \<^item> \<open>Registry\<close>, \<open>Registry_Facts\<close>, \<open>Registry_Contracts\<close>, \<open>Registry_Outcomes\<close>: \<open>RuntimeState\<close>
    (\<open>runtime_state\<close>) and all its methods, the registry invariant, its abstract specification
    (\<open>abstract_registry\<close>, \<open>registry_effect\<close>), the promises of the methods for every step, and outcomes of
    whole operations.
  \<^item> \<open>Peer_Events\<close>: \<open>EventHandler\<close> of \<open>registry.rs\<close> and the part of \<open>PeerConnection.kt\<close> that reads its events.
  \<^item> \<open>Runtime\<close>, \<open>Runtime_Table\<close>: \<open>Command\<close>, \<open>execute\<close>, certificates, socket mux, and the table of runtimes
    (\<open>process\<close>) with \<open>create\<close>, \<open>submit\<close>, \<open>poll\<close>, \<open>wake\<close>, \<open>release\<close> and the buffers lent to the JVM.
    The locales \<open>table_operation\<close> and \<open>buffer_keeping\<close> are the contract of a call on one runtime; every
    call is an interpretation.
  \<^item> \<open>Scheduler\<close>, \<open>Delivery\<close>: \<open>run_runtime\<close>, \<open>dispatch\<close> and \<open>poll_data_channel\<close> as a step relation
    \<open>sys_step\<close> on the state of one runtime (\<open>system\<close>), under every interleaving; reachable states.
  \<^item> \<open>Submission\<close>, \<open>C_Bridge\<close>, \<open>Jni_Bridge\<close>, \<open>Bridges\<close>: both boundaries in full. The locale \<open>submission\<close> is
    the contract of an entry point that hands over an operation; it is interpreted on the submitting
    function of the C interface and on every submitting method of the JNI interface.

  \<^bold>\<open>What is shown.\<close> C1 and C2: the event queue, and that every pending operation is completed by its first
  answer. C3 to C6: what the engine encodes is what Kotlin decodes, truncated input is refused, and all
  results of the encoder of statistics. C7 to C10: bind addresses, the checks of the boundary with their
  errors, handles and masks. C11, C12: creating a peer, and the port it gets. C13 to C15: the events of a
  peer and their reading in Kotlin. C16: every command, run undisturbed, refines its contract on the
  registry, also when it panics. C17 to C19, under every interleaving: each operation is completed once or
  accounted for, and nothing is lost before the end of a shutdown as long as no task panics; serialised
  commands call the webrtc crate only under the mutex of their peer; and the operations do not block each
  other for good. C20 to C24: runtimes do not disturb each other, handles are not reused, a lent buffer
  stays valid until it is released, what creating a runtime does, and the port of the shared socket mux.
  C25 to C27: the receive queue of a channel is bounded by its configured capacity, a waiting poller is
  released by the consumer alone, and messages arrive once, with their content and in order. C28 to C32:
  the memory of the C interface, and that both boundaries take an operation over once or not at all and
  deliver what the queue holds. C33, C34: the two boundaries compared, and the limits the JNI interface
  enforces. C35: a channel whose peer is gone. C36, C37: shutdown and certificate rotation. C38, below: an
  operation from the caller and back.

  \<^bold>\<open>Choices.\<close> Machine integers keep their width; \<open>usize\<close> has 64 bits. Handle counters wrap around, and the
  theorems that need fresh handles say how many are left. Every atomic section of an asynchronous
  function is one step; the two kinds of locks are told apart, a \<open>std::sync::Mutex\<close> is a step with a
  poison flag and a \<open>tokio::sync::Mutex\<close> is acquired and released. A time limit may expire at any step,
  durations are not measured. All functions are total and need no fuel: programs are finite trees,
  since the loops of the sources run over finite lists, and the loops that do not end, of the controller
  and of the pollers, are the step relation. The order of a hash map is the order of its association
  list. The closes that \<open>shutdown_all\<close> spawns run one after the other. A call on the webrtc crate, also one
  that waits, is one step; that it returns is not claimed, a task may stay at such a step until its time
  limit expires.

  \<^bold>\<open>Parameters.\<close> Code that is not in the repository is an argument: the webrtc crate (\<open>webrtc_api\<close>), the jni
  crate and the virtual machine (\<open>jni_env\<close>), the JSON decoder (\<open>json_decoders\<close>), the constructors of
  session descriptions (\<open>sdp_parsers\<close>), the allocator of boxed slices, the text of a UTF-8 error. What a
  theorem needs of them is a hypothesis of it, with an instance in its witness.

  \<^bold>\<open>Not modelled.\<close> The exit of \<open>run_runtime\<close> when all senders are gone, which only happens when the table of
  runtimes is dropped with the process; the blocking of a poll until its time limit (a poll of an empty
  queue returns at once); raw pointers other than as readable bytes; the coroutine front end of the
  Kotlin library apart from the functions named above; the wire encoding of the documents of the C
  interface, which is done by serde on one side and Kotlin on the other; build scripts and tests.
\<close>

subsection \<open>An operation from the caller and back\<close>

text \<open>
  The table of runtimes and the scheduling of one runtime are modelled apart. They meet in the state of the
  controller: the registry with its event queue, and the command queue.
\<close>

definition serves :: "'w system \<Rightarrow> 'w controller \<Rightarrow> bool" where
  "serves s ct \<longleftrightarrow> ct_state ct = sys_state s \<and> ct_commands ct = sys_commands s"

definition served :: "'w system \<Rightarrow> 'w controller \<Rightarrow> 'w controller" where
  "served s ct = ct\<lparr>ct_state := sys_state s, ct_commands := sys_commands s\<rparr>"

lemma serves_served: "serves s (served s ct)"
  by (simp add: serves_def served_def)

text \<open>
  The runtime at work on its own: it dispatches the next command, and its tasks make their steps.
\<close>

inductive runtime_step :: "'w webrtc_api \<Rightarrow> 'w system \<Rightarrow> 'w system \<Rightarrow> bool" for api where
  takes_command: "sys_phase s = Serving \<Longrightarrow> sys_commands s = c # cs \<Longrightarrow> (\<forall>h t. c \<noteq> Shutdown h t) \<Longrightarrow>
    runtime_step api s (s\<lparr>sys_commands := cs, sys_tasks := sys_tasks s @ [dispatch api c]\<rparr>)"
| makes_step: "operation_step s s' \<Longrightarrow> runtime_step api s s'"

lemma runtime_step_sys_step: "runtime_step api s s' \<Longrightarrow> sys_step api s s'"
  by (induction rule: runtime_step.induct) (auto intro: sys_step.intros)

lemma runtime_steps_sys_steps: "(runtime_step api)\<^sup>*\<^sup>* s s' \<Longrightarrow> (sys_step api)\<^sup>*\<^sup>* s s'"
  by (rule rtranclp_mono [THEN predicate2D, rotated]) (auto intro: runtime_step_sys_step)

text \<open>With one command or one task at most there is no choice between these steps.\<close>

definition single :: "'w system \<Rightarrow> bool" where
  "single s \<longleftrightarrow> length (sys_commands s) + length (sys_tasks s) \<le> 1"

lemma task_step_deterministic: "task_step L x y \<Longrightarrow> task_step L x z \<Longrightarrow> y = z"
  by (induction rule: task_step.induct)
    (auto elim: task_step_ActE task_step_AcquireE task_step_ReleaseE)

lemma operation_step_single:
  assumes "operation_step s s'" and "single s"
  obtains t where "sys_tasks s = [t]" "sys_commands s = []" "single s'"
proof -
  from assms(1) have "sys_tasks s \<noteq> []" and l: "sys_commands s' = sys_commands s"
    "length (sys_tasks s') \<le> length (sys_tasks s)"
    by (auto elim!: operation_step.cases simp: remove_nth_def)
  with assms(2) obtain t where "sys_tasks s = [t]" "sys_commands s = []"
    by (cases "sys_tasks s"; cases "sys_commands s") (auto simp: single_def)
  with l that show thesis by (simp add: single_def)
qed

lemma operation_step_deterministic:
  assumes "operation_step s s1" and "operation_step s s2" and "sys_tasks s = [t]"
  shows "s1 = s2"
  using assms(1)
proof (cases rule: operation_step.cases)
  case (stepped i p H st)
  from assms(2) show ?thesis
  proof (cases rule: operation_step.cases)
    case (stepped i' p' H' st')
    with \<open>task_step _ _ ((p, H), st)\<close> \<open>i < _\<close> assms(3) \<open>s1 = _\<close> show ?thesis
      by (auto dest: task_step_deterministic)
  qed (use stepped assms(3) in \<open>auto elim: task_step_DoneE task_step_PanicE\<close>)
next
  case (completed i r)
  from assms(2) show ?thesis
    by (cases rule: operation_step.cases) (use completed assms(3) in \<open>auto elim: task_step_DoneE\<close>)
next
  case (panicked i)
  from assms(2) show ?thesis
    by (cases rule: operation_step.cases) (use panicked assms(3) in \<open>auto elim: task_step_PanicE\<close>)
qed

lemma runtime_step_deterministic:
  assumes "runtime_step api s s1" and "runtime_step api s s2" and "single s"
  shows "s1 = s2"
  using assms(1)
proof cases
  case (takes_command c cs)
  from assms(2) show ?thesis
  proof cases
    case makes_step
    from operation_step_single [OF this assms(3)] takes_command show ?thesis by force
  qed (use takes_command in simp)
next
  case makes_step
  from operation_step_single [OF this assms(3)] obtain t where t: "sys_tasks s = [t]" "sys_commands s = []" .
  from assms(2) show ?thesis
  proof cases
    case (makes_step)
    with \<open>operation_step s s1\<close> t(1) show ?thesis by (blast intro: operation_step_deterministic)
  qed (use t in simp)
qed

lemma single_runtime_step: "runtime_step api s s' \<Longrightarrow> single s \<Longrightarrow> single s'"
  by (cases rule: runtime_step.cases, assumption)
    (auto simp: single_def elim: operation_step_single [unfolded single_def])

lemma every_schedule:
  assumes "(runtime_step api)\<^sup>*\<^sup>* s t" and "\<And>u. \<not> runtime_step api t u" and "single s"
    and "(runtime_step api)\<^sup>*\<^sup>* s u"
  shows "(runtime_step api)\<^sup>*\<^sup>* u t"
  using assms(1,3,4)
proof (induction rule: converse_rtranclp_induct)
  case base
  from base(2) assms(2) show ?case by (metis converse_rtranclpE rtranclp.rtrancl_refl)
next
  case (step s s1)
  have s1: "single s1" using step(1,4) by (rule single_runtime_step)
  from step(5) consider "u = s" | s2 where "runtime_step api s s2" "(runtime_step api)\<^sup>*\<^sup>* s2 u"
    by (auto elim: converse_rtranclpE)
  then show ?case
  proof cases
    case 1
    with step(1,2) show ?thesis by (simp add: converse_rtranclp_into_rtranclp)
  next
    case 2
    have "s2 = s1" by (rule runtime_step_deterministic [OF 2(1) step(1,4)])
    with step(3) [OF s1] 2(2) show ?thesis by simp
  qed
qed

text \<open>A command that is alone in its runtime runs to its end and leaves its completion in the queue.\<close>

lemma command_runs:
  assumes "sys_phase s = Serving" and "sys_tasks s = []" and "\<forall>h t. c \<noteq> Shutdown h t"
    and "run (execute api c) {} (sys_state s) = Returned r L st"
  shows "(runtime_step api)\<^sup>*\<^sup>* (s\<lparr>sys_commands := [c]\<rparr>)
    (s\<lparr>sys_commands := [], sys_state := push_event (event_operation (operation_handle c) r) st,
       sys_tasks := []\<rparr>)"
proof -
  let ?s = "s\<lparr>sys_commands := [], sys_tasks := [dispatch api c]\<rparr>"
  have "runtime_step api (s\<lparr>sys_commands := [c]\<rparr>) ?s"
    using takes_command [of "s\<lparr>sys_commands := [c]\<rparr>" c "[]" api] assms(1-3) by simp
  moreover have "operation_step\<^sup>*\<^sup>* ?s (?s\<lparr>sys_state := finish_task (dispatch api c) r st, sys_tasks := []\<rparr>)"
    using assms(1,4) by (intro run_alone) (simp_all add: dispatch_def)
  then have "(runtime_step api)\<^sup>*\<^sup>* ?s (?s\<lparr>sys_state := finish_task (dispatch api c) r st, sys_tasks := []\<rparr>)"
    by (rule rtranclp_mono [THEN predicate2D, rotated]) (auto intro: makes_step)
  ultimately show ?thesis
    by (simp add: finish_task_def dispatch_def converse_rtranclp_into_rtranclp)
qed

lemma runtime_at_rest: "sys_commands s = [] \<Longrightarrow> sys_tasks s = [] \<Longrightarrow> \<not> runtime_step api s u"
  by (auto elim!: runtime_step.cases operation_step.cases)

text \<open>
  C38: an operation from the caller and back, on a runtime that has nothing else to do. A runtime is serving,
  with nothing queued, nothing running and no events, and the caller, who has registered the operation as
  pending, submits it through the C interface; its arguments are a valid command other than the shutdown,
  and the command neither panics nor sends other events. Then the call has status 0. As long as nothing
  comes in between, no timeout, no other command, no event of the crate and no poll, the runtime comes to
  rest in one state, by every schedule: whatever steps it has made, its remaining steps lead to that state.
  One poll through the C interface then gives bytes which the Kotlin side decodes to an event for this
  operation; its handler completes exactly the pending operation, with the values of the result or the
  error it ended with, and nobody else.
\<close>

theorem operation_end_to_end:
  assumes "get_runtime h p = Inr ct" and "ct_receiving ct" and "serves s ct"
    and "sys_phase s = Serving" and "sys_tasks s = []" and "sys_commands s = []"
    and "submit_request parsers json utf8_error op a = Inr (SubmitCommand c)" and "\<forall>h t. c \<noteq> Shutdown h t"
    and "run (execute api c) {} (sys_state s) = Returned r L st" and "st_events st = []"
    and "allocates alloc heap" and "timeout millis = Inr t"
    and "text_ok (ev_text (event_operation op r))" and "text_ok (ev_secondary_text (event_operation op r))"
    and "length (encode_event (event_operation op r)) < 2 ^ 31" and "operations op = Some d"
  shows "\<exists>p1 s' p2 b heap' bytes e.
      kestara_runtime_submit parsers json utf8_error alloc h op a error_out heap p = ((0, None, heap), p1)
      \<and> get_runtime h p1 = Inr (served (s\<lparr>sys_commands := [c]\<rparr>) ct)
      \<and> (sys_step api)\<^sup>*\<^sup>* (s\<lparr>sys_commands := [c]\<rparr>) s' \<and> sys_tasks s' = [] \<and> sys_commands s' = []
      \<and> (\<forall>u. (runtime_step api)\<^sup>*\<^sup>* (s\<lparr>sys_commands := [c]\<rparr>) u \<longrightarrow> (runtime_step api)\<^sup>*\<^sup>* u s')
      \<and> kestara_runtime_poll alloc h millis True error_out heap (put_runtime h (served s' ct) p1)
          = ((Some b, 0, None, heap'), p2)
      \<and> contents b heap' = Some bytes \<and> decode_event bytes = Inr e \<and> ev_operation_handle e = op
      \<and> handleOperationCompletion e operations = (Some (d, operation_outcome op r), operations(op := None))"
proof -
  let ?p1 = "put_runtime h (ct\<lparr>ct_commands := [c]\<rparr>) p" and ?e = "event_operation op r"
  let ?s' = "s\<lparr>sys_commands := [], sys_state := push_event ?e st, sys_tasks := []\<rparr>"
  have ct: "ct_state ct = sys_state s" "ct_commands ct = []" using assms(3,6) by (simp_all add: serves_def)
  have submit: "kestara_runtime_submit parsers json utf8_error alloc h op a error_out heap p = ((0, None, heap), ?p1)"
    using assms(1,2,7) ct by (simp add: kestara_runtime_submit_def submit_def boundary_Some)
  have op: "operation_handle c = op" using submit_request_request(1) [OF assms(7)] by simp
  have steps: "(runtime_step api)\<^sup>*\<^sup>* (s\<lparr>sys_commands := [c]\<rparr>) ?s'"
    using command_runs [OF assms(4,5,8,9)] by (simp add: op)
  have every: "\<forall>u. (runtime_step api)\<^sup>*\<^sup>* (s\<lparr>sys_commands := [c]\<rparr>) u \<longrightarrow> (runtime_step api)\<^sup>*\<^sup>* u ?s'"
    using assms(5) every_schedule [OF steps runtime_at_rest] by (simp add: single_def)
  let ?ct = "served ?s' ct" and ?p = "put_runtime h (served ?s' ct) ?p1"
  have "get_runtime h ?p = Inr ?ct" using assms(1) by (simp add: get_runtime_Inr)
  moreover have "st_events (ct_state ?ct) = ?e # []"
    using assms(10) by (simp add: served_def push_event_def)
  moreover have "ev_kind ?e \<noteq> WAKE" by (simp add: event_operation_def kind_defs split: sum.split)
  ultimately obtain b heap' bytes where poll: "kestara_runtime_poll alloc h millis True error_out heap ?p
      = ((Some b, 0, None, heap'), put_runtime h (with_events (drop 1) ?ct) ?p)"
    "contents b heap' = Some bytes" "decode_event bytes = Inr (?e\<lparr>ev_delivery_permit := None\<rparr>)"
    using c_poll_event [OF assms(11) _ assms(12) _ _ assms(13-15)] by metis
  have "?e\<lparr>ev_delivery_permit := None\<rparr> = ?e" by (simp add: event_operation_def split: sum.split)
  with poll(3) have "decode_event bytes = Inr ?e" by (simp only:)
  moreover have "ev_operation_handle ?e = op" by (simp add: event_operation_def split: sum.split)
  moreover have "handleOperationCompletion ?e operations = (Some (d, operation_outcome op r), operations(op := None))"
    using assms(16) by (simp add: handle_event_operation)
  moreover have "get_runtime h ?p1 = Inr (served (s\<lparr>sys_commands := [c]\<rparr>) ct)"
    using assms(1) ct by (simp add: get_runtime_Inr served_def)
  ultimately show ?thesis using submit runtime_steps_sys_steps [OF steps] every poll(1,2)
    by (intro exI [of _ ?p1] exI [of _ ?s'] exI [of _ "put_runtime h (with_events (drop 1) ?ct) ?p"]
        exI [of _ b] exI [of _ heap'] exI [of _ bytes] exI [of _ ?e] conjI)
      simp_all
qed

theorem operation_end_to_end_witness:
  "\<exists>p1 s' p2 b heap' bytes e.
      kestara_runtime_submit sample_parsers sample_json (\<lambda>_. ''utf8'') sample_alloc 1 7 restart_arguments
        True Map.empty sample_process = ((0, None, Map.empty), p1)
      \<and> kestara_runtime_poll sample_alloc 1 0 True True Map.empty
          (put_runtime 1 (served s' (new_controller sample_state)) p1) = ((Some b, 0, None, heap'), p2)
      \<and> contents b heap' = Some bytes \<and> decode_event bytes = Inr e \<and> ev_operation_handle e = 7
      \<and> handleOperationCompletion e [7 \<mapsto> ''caller'']
          = (Some (''caller'', CompleteExceptionally ''Unknown peer connection handle: 1''), Map.empty)"
proof -
  let ?r = "Inl ''Unknown peer connection handle: 1'' :: operation_value result"
  let ?e = "event_operation 7 ?r" and ?s = "initial_system sample_state"
  have ct: "get_runtime 1 sample_process = Inr (new_controller sample_state)"
    by (rule sample_process_runtime)
  have s: "ct_receiving (new_controller sample_state)" "serves ?s (new_controller sample_state)"
    "sys_phase ?s = Serving" "sys_tasks ?s = []" "sys_commands ?s = []" "st_events sample_state = []"
    by (simp_all add: new_controller_def serves_def initial_system_def sample_defs)
  have request: "submit_request sample_parsers sample_json (\<lambda>_. ''utf8'') 7 restart_arguments
      = Inr (SubmitCommand (RestartIce 7 1000000000 1))"
    by (simp add: submit_request_def command_of_def restart_arguments_def command_kinds timeout_def
        from_millis_def try_unsigned_def optional_string_def input_def)
  have run: "run (execute open_api (RestartIce 7 1000000000 1)) {} (sys_state ?s)
      = Returned ?r {} sample_state"
    by (simp add: initial_system_def run_try restart_ice_def registry_runs sample_defs show_unsigned_def
        show_nat.simps char_of_def bit_0)
  have t: "timeout 0 = Inr 0" by (simp add: timeout_def try_unsigned_def from_millis_def)
  have "rust_string ''Unknown peer connection handle: 1''"
    unfolding rust_string_def by (rule utf8_valid_ascii) (simp add: into_bytes_def byte_of_char_def)
  then have e: "text_ok (ev_text ?e)" "text_ok (ev_secondary_text ?e)" "length (encode_event ?e) < 2 ^ 31"
    by (simp_all add: event_operation_def text_ok_def payload_ok_def encode_event_eq encode_optional_Some)
      (simp_all add: encode_optional_def)
  have c: "\<forall>h t. RestartIce 7 1000000000 1 \<noteq> Shutdown h t" by simp
  have o: "[7 :: u64 \<mapsto> ''caller''] 7 = Some ''caller''" by simp
  have m: "[7 :: u64 \<mapsto> ''caller''](7 := None) = Map.empty" by auto
  from operation_end_to_end [OF ct s(1-5) request c run s(6) sample_allocates t e, where error_out = True and operations = \<open>[7 \<mapsto> ''caller'']\<close>, OF o]
  show ?thesis unfolding operation_outcome_def sum.case m by blast
qed

end
